(* ===== verification/Lang_Prelude.thy ===== *)
theory Lang_Prelude
  imports Complex_Main "HOL-Library.AList" "HOL-Library.Sublist"
begin

text \<open>
  The shared prelude.  It models what the sources use of the Python language: text and the
  \<^verbatim>\<open>str\<close> methods, decoded JSON / YAML values, exceptions with their class hierarchy, and the
  two shapes of a fallible computation (a pure one, and one that also threads a state).

  A \<^verbatim>\<open>str\<close> is a list of code points of the range U+0000 to U+00FF, one \<^typ>\<open>char\<close> each.  On
  that range the definitions below are exactly Python's (white space, lower case, case folding).
\<close>

named_theorems act_simps \<open>symbolic execution of fallible, state-passing code\<close>
named_theorems text_simps \<open>rewriting of string operations\<close>

section \<open>Text\<close>

subsection \<open>White space\<close>

text \<open>\<^verbatim>\<open>str.isspace\<close> on one character.\<close>

definition is_space :: "char \<Rightarrow> bool" where
  "is_space c \<longleftrightarrow> (let n = of_char c :: nat in
     (9 \<le> n \<and> n \<le> 13) \<or> (28 \<le> n \<and> n \<le> 32) \<or> n = 133 \<or> n = 160)"

definition lstrip :: "string \<Rightarrow> string" where
  "lstrip s = dropWhile is_space s"

definition rstrip :: "string \<Rightarrow> string" where
  "rstrip s = rev (dropWhile is_space (rev s))"

definition strip :: "string \<Rightarrow> string" where
  "strip s = lstrip (rstrip s)"

text \<open>Text that no \<^verbatim>\<open>strip\<close> changes.\<close>

definition stripped :: "string \<Rightarrow> bool" where
  "stripped s \<longleftrightarrow> s = [] \<or> (\<not> is_space (hd s) \<and> \<not> is_space (last s))"

lemma lstrip_id: "s = [] \<or> \<not> is_space (hd s) \<Longrightarrow> lstrip s = s"
  by (cases s) (auto simp: lstrip_def)

lemma rstrip_id: "s = [] \<or> \<not> is_space (last s) \<Longrightarrow> rstrip s = s"
  by (cases s rule: rev_cases) (auto simp: rstrip_def)

lemma rstrip_Nil_iff: "rstrip s = [] \<longleftrightarrow> (\<forall>c\<in>set s. is_space c)"
  by (simp add: rstrip_def)

lemma strip_id: "stripped s \<Longrightarrow> strip s = s"
  by (auto simp: stripped_def strip_def lstrip_id rstrip_id)

lemma rstrip_last: "rstrip s \<noteq> [] \<Longrightarrow> \<not> is_space (last (rstrip s))"
  unfolding rstrip_def using hd_dropWhile[of is_space "rev s"]
  by (simp add: last_rev del: dropWhile_eq_Nil_conv)

lemma dropWhile_last: "dropWhile P xs \<noteq> [] \<Longrightarrow> last (dropWhile P xs) = last xs"
  by (induction xs) auto

lemma stripped_strip [text_simps, simp]: "stripped (strip s)"
proof (cases "strip s = []")
  case False
  then have ne: "dropWhile is_space (rstrip s) \<noteq> []" by (simp add: strip_def lstrip_def)
  then have "\<not> is_space (hd (strip s))" by (simp add: strip_def lstrip_def hd_dropWhile)
  moreover have "last (strip s) = last (rstrip s)"
    using ne by (simp add: strip_def lstrip_def dropWhile_last)
  moreover have "rstrip s \<noteq> []" using ne by (metis dropWhile.simps(1))
  then have "\<not> is_space (last (rstrip s))" by (rule rstrip_last)
  ultimately show ?thesis by (simp add: stripped_def)
qed (simp add: stripped_def)

lemma strip_strip [text_simps, simp]: "strip (strip s) = strip s"
  by (simp add: strip_id)

lemma strip_Nil [text_simps, simp]: "strip [] = []"
  by (simp add: strip_def lstrip_def rstrip_def)

lemma strip_braced: "strip (CHR ''{'' # s @ ''}'') = CHR ''{'' # s @ ''}''"
  by (intro strip_id) (simp add: stripped_def is_space_def)

lemma strip_space_braced: "strip (CHR '' '' # CHR ''{'' # s @ ''}'') = CHR ''{'' # s @ ''}''"
proof -
  have "rstrip (CHR '' '' # CHR ''{'' # s @ ''}'') = CHR '' '' # CHR ''{'' # s @ ''}''"
    by (intro rstrip_id) (simp add: is_space_def)
  then show ?thesis by (simp add: strip_def lstrip_def is_space_def)
qed

lemma length_rstrip: "length (rstrip s) \<le> length s"
  unfolding rstrip_def using length_dropWhile_le[of is_space "rev s"] by simp

lemma length_strip: "length (strip s) \<le> length s"
  unfolding strip_def lstrip_def
  by (rule order_trans[OF length_dropWhile_le length_rstrip])

lemma set_strip: "set (strip s) \<subseteq> set s"
  unfolding strip_def lstrip_def rstrip_def
  by (auto dest!: set_dropWhileD)

subsection \<open>Case\<close>

text \<open>\<^verbatim>\<open>str.lower\<close> and \<^verbatim>\<open>str.casefold\<close>.  The micro sign U+00B5 is left alone: Python folds it to a
  Greek letter outside the range, which no other character of the range reaches, so no comparison
  of folded text differs.\<close>

definition lower_char :: "char \<Rightarrow> char" where
  "lower_char c = (let n = of_char c :: nat in
     if (65 \<le> n \<and> n \<le> 90) \<or> (192 \<le> n \<and> n \<le> 222 \<and> n \<noteq> 215) then char_of (n + 32) else c)"

definition lower :: "string \<Rightarrow> string" where
  "lower s = map lower_char s"

definition fold_char :: "char \<Rightarrow> string" where
  "fold_char c = (if c = CHR 0xDF then ''ss'' else [lower_char c])"

definition casefold :: "string \<Rightarrow> string" where
  "casefold s = concat (map fold_char s)"

lemma lower_char_idem [simp]: "lower_char (lower_char c) = lower_char c"
  by (auto simp: lower_char_def Let_def of_char_of)

lemma lower_lower [text_simps, simp]: "lower (lower s) = lower s"
  by (simp add: lower_def)

lemma length_lower [text_simps, simp]: "length (lower s) = length s"
  by (simp add: lower_def)

lemma lower_append [text_simps, simp]: "lower (s @ t) = lower s @ lower t"
  by (simp add: lower_def)

lemma lower_Nil_iff [simp]: "lower s = [] \<longleftrightarrow> s = []"
  by (simp add: lower_def)

lemma lower_take: "lower (take n s) = take n (lower s)"
  by (simp add: lower_def take_map)

lemma lower_drop: "lower (drop n s) = drop n (lower s)"
  by (simp add: lower_def drop_map)

subsection \<open>Searching, splitting and joining\<close>

text \<open>\<^verbatim>\<open>s.find(pat)\<close>; \<^const>\<open>None\<close> is Python's -1.\<close>

fun find_sub :: "string \<Rightarrow> string \<Rightarrow> nat option" where
  "find_sub pat s =
     (if prefix pat s then Some 0
      else case s of [] \<Rightarrow> None | _ # s' \<Rightarrow> map_option Suc (find_sub pat s'))"

declare find_sub.simps [simp del]

definition contains :: "string \<Rightarrow> string \<Rightarrow> bool" where
  "contains pat s \<longleftrightarrow> find_sub pat s \<noteq> None"

lemma find_sub_Nil [simp]: "find_sub pat [] = (if pat = [] then Some 0 else None)"
  by (simp add: find_sub.simps[of pat "[]"])

lemma find_sub_Cons:
  "find_sub pat (c # s) = (if prefix pat (c # s) then Some 0 else map_option Suc (find_sub pat s))"
  by (simp add: find_sub.simps[of pat "c # s"])

lemma find_sub_Some:
  "find_sub pat s = Some i \<Longrightarrow> i + length pat \<le> length s \<and> take (length pat) (drop i s) = pat"
proof (induction s arbitrary: i)
  case (Cons c s)
  show ?case
  proof (cases "prefix pat (c # s)")
    case True
    with Cons.prems have "i = 0" by (simp add: find_sub_Cons)
    moreover have "length pat \<le> length (c # s)" using True by (rule prefix_length_le)
    moreover have "take (length pat) (c # s) = pat" using True by (auto simp: prefix_def)
    ultimately show ?thesis by simp
  next
    case False
    with Cons.prems obtain j where "find_sub pat s = Some j" "i = Suc j"
      by (auto simp: find_sub_Cons)
    with Cons.IH show ?thesis by auto
  qed
qed (auto split: if_splits)

lemma find_sub_None_iff: "find_sub pat s = None \<longleftrightarrow> (\<forall>u v. s \<noteq> u @ pat @ v)"
proof (induction s)
  case (Cons c s)
  show ?case
  proof
    assume "find_sub pat (c # s) = None"
    then have np: "\<not> prefix pat (c # s)" and "find_sub pat s = None"
      by (auto simp: find_sub_Cons split: if_splits)
    then have IH: "\<forall>u v. s \<noteq> u @ pat @ v" using Cons by simp
    show "\<forall>u v. c # s \<noteq> u @ pat @ v"
    proof (intro allI notI)
      fix u v assume eq: "c # s = u @ pat @ v"
      show False
        using eq np IH by (cases u) (auto simp: prefix_def)
    qed
  next
    assume all: "\<forall>u v. c # s \<noteq> u @ pat @ v"
    then have "\<forall>u v. s \<noteq> u @ pat @ v" by (metis append_Cons)
    moreover have "\<not> prefix pat (c # s)" using all by (auto simp: prefix_def dest: spec[of _ "[]"])
    ultimately show "find_sub pat (c # s) = None" using Cons by (simp add: find_sub_Cons)
  qed
qed auto

lemma contains_iff: "contains pat s \<longleftrightarrow> (\<exists>u v. s = u @ pat @ v)"
  by (auto simp: contains_def find_sub_None_iff)

text \<open>\<^verbatim>\<open>s.split(sep)\<close> for a one-character separator, and \<^verbatim>\<open>sep.join(parts)\<close>.\<close>

fun split_on :: "char \<Rightarrow> string \<Rightarrow> string list" where
  "split_on c [] = [[]]"
| "split_on c (x # xs) =
     (if x = c then [] # split_on c xs
      else case split_on c xs of [] \<Rightarrow> [[x]] | w # ws \<Rightarrow> (x # w) # ws)"

fun join :: "string \<Rightarrow> string list \<Rightarrow> string" where
  "join sep [] = []"
| "join sep [x] = x"
| "join sep (x # y # zs) = x @ sep @ join sep (y # zs)"

lemma split_on_not_Nil [simp]: "split_on c s \<noteq> []"
  by (induction s) (auto split: list.splits)

lemma join_split_on: "join [c] (split_on c s) = s"
proof (induction s)
  case (Cons x xs)
  obtain w ws where sp: "split_on c xs = w # ws" by (cases "split_on c xs") auto
  with Cons show ?case by (cases ws) auto
qed simp

text \<open>\<^verbatim>\<open>s.splitlines()\<close>; a carriage return and the line feed after it are one break.\<close>

definition is_break :: "char \<Rightarrow> bool" where
  "is_break c \<longleftrightarrow> (let n = of_char c :: nat in (10 \<le> n \<and> n \<le> 13) \<or> (28 \<le> n \<and> n \<le> 30) \<or> n = 133)"

definition after_break :: "char \<Rightarrow> string \<Rightarrow> string" where
  "after_break c s = (if c = CHR 0x0D \<and> s \<noteq> [] \<and> hd s = CHR 0x0A then tl s else s)"

lemma length_after_break: "length (after_break c s) \<le> length s"
  by (simp add: after_break_def)

function splitlines_from :: "string \<Rightarrow> string \<Rightarrow> string list" where
  "splitlines_from cur [] = (if cur = [] then [] else [cur])"
| "splitlines_from cur (c # cs) =
     (if is_break c then cur # splitlines_from [] (after_break c cs)
      else splitlines_from (cur @ [c]) cs)"
  by pat_completeness auto
termination
  by (relation "measure (\<lambda>(cur, s). length s)") (auto simp: less_Suc_eq_le length_after_break)

definition splitlines :: "string \<Rightarrow> string list" where
  "splitlines s = splitlines_from [] s"

lemma splitlines_from_plain:
  "\<forall>c\<in>set s. \<not> is_break c \<Longrightarrow> cur @ s \<noteq> [] \<Longrightarrow> splitlines_from cur s = [cur @ s]"
  by (induction cur s rule: splitlines_from.induct) auto

lemma splitlines_from_last:
  assumes "\<forall>c\<in>set s. \<not> is_break c" "s \<noteq> []"
  shows "s \<in> set (splitlines_from cur (u @ CHR 0x0A # s))"
proof (induction "length u" arbitrary: cur u rule: less_induct)
  case less
  show ?case
  proof (cases u)
    case Nil
    have "after_break CHR 0x0A s = s" by (simp add: after_break_def)
    then show ?thesis using assms splitlines_from_plain[of s "[]"] by (simp add: Nil is_break_def)
  next
    case (Cons c v)
    have rest: "s \<in> set (splitlines_from [] (after_break c (v @ CHR 0x0A # s)))"
    proof (cases v)
      case Nil
      then show ?thesis
        using assms splitlines_from_plain[of s "[]"] less(1)[of "[]" "[]"] Cons
        by (auto simp: after_break_def)
    next
      case (Cons d w)
      then show ?thesis using less(1)[of v "[]"] less(1)[of w "[]"] \<open>u = c # v\<close>
        by (auto simp: after_break_def)
    qed
    then show ?thesis using less(1)[of v "cur @ [c]"] Cons by auto
  qed
qed

text \<open>\<^verbatim>\<open>s.replace(old, new)\<close> for a non-empty \<^verbatim>\<open>old\<close>: leftmost, non-overlapping.\<close>

function replace_sub :: "string \<Rightarrow> string \<Rightarrow> string \<Rightarrow> string" where
  "replace_sub old new s =
     (if old = [] then s
      else if prefix old s then new @ replace_sub old new (drop (length old) s)
      else case s of [] \<Rightarrow> [] | c # s' \<Rightarrow> c # replace_sub old new s')"
  by pat_completeness auto
termination
  by (relation "measure (\<lambda>(old, new, s). length s)") (auto simp: prefix_def)

declare replace_sub.simps [simp del]

lemma replace_sub_absent: "\<not> contains old s \<Longrightarrow> replace_sub old new s = s"
proof (induction s)
  case Nil
  then show ?case by (simp add: replace_sub.simps[of old new "[]"])
next
  case (Cons c s)
  from Cons.prems have "\<not> contains old s" and "\<not> prefix old (c # s)"
    by (auto simp: contains_iff prefix_def) (metis append_Cons, metis append_Nil)
  then show ?case
    using Cons.IH by (simp add: replace_sub.simps[of old new "c # s"])
qed

subsection \<open>Decimal integers\<close>

text \<open>\<^verbatim>\<open>str(n)\<close> of an integer and \<^verbatim>\<open>int(text)\<close>: surrounding white space, a sign, digits that single
  underscores may separate.\<close>

definition digit_char :: "nat \<Rightarrow> char" where
  "digit_char d = char_of (48 + d)"

definition is_digit :: "char \<Rightarrow> bool" where
  "is_digit c \<longleftrightarrow> (let n = of_char c :: nat in 48 \<le> n \<and> n \<le> 57)"

definition digit_val :: "char \<Rightarrow> nat" where
  "digit_val c = of_char c - 48"

fun str_nat :: "nat \<Rightarrow> string" where
  "str_nat n = (if n < 10 then [digit_char n] else str_nat (n div 10) @ [digit_char (n mod 10)])"

declare str_nat.simps [simp del]

definition str_int :: "int \<Rightarrow> string" where
  "str_int i = (if i < 0 then ''-'' @ str_nat (nat (- i)) else str_nat (nat i))"

fun digits_val :: "nat \<Rightarrow> string \<Rightarrow> nat" where
  "digits_val acc [] = acc"
| "digits_val acc (c # cs) = digits_val (10 * acc + digit_val c) cs"

text \<open>Digits, with an underscore allowed between two digits.\<close>

fun int_digits :: "string \<Rightarrow> string option" where
  "int_digits [] = None"
| "int_digits [c] = (if is_digit c then Some [c] else None)"
| "int_digits (c # d # cs) =
     (if \<not> is_digit c then None
      else if d = CHR ''_'' then map_option ((#) c) (int_digits cs)
      else map_option ((#) c) (int_digits (d # cs)))"

definition py_int :: "string \<Rightarrow> int option" where
  "py_int s =
     (case strip s of
        [] \<Rightarrow> None
      | c # cs \<Rightarrow>
          if c = CHR ''-'' then map_option (\<lambda>ds. - int (digits_val 0 ds)) (int_digits cs)
          else if c = CHR ''+'' then map_option (\<lambda>ds. int (digits_val 0 ds)) (int_digits cs)
          else map_option (\<lambda>ds. int (digits_val 0 ds)) (int_digits (c # cs)))"

lemma of_char_digit_char: "d < 10 \<Longrightarrow> of_char (digit_char d) = (48 + d :: nat)"
  by (simp add: digit_char_def of_char_of)

lemma is_digit_digit_char [simp]: "d < 10 \<Longrightarrow> is_digit (digit_char d)"
  by (simp add: is_digit_def of_char_digit_char)

lemma digit_val_digit_char [simp]: "d < 10 \<Longrightarrow> digit_val (digit_char d) = d"
  by (simp add: digit_val_def of_char_digit_char)

lemma str_nat_digits: "\<forall>c\<in>set (str_nat n). is_digit c"
proof (induction n rule: str_nat.induct)
  case (1 n)
  then show ?case by (subst str_nat.simps) auto
qed

lemma str_nat_not_Nil [simp]: "str_nat n \<noteq> []"
  by (subst str_nat.simps) simp

lemma digits_val_append: "digits_val acc (s @ t) = digits_val (digits_val acc s) t"
  by (induction s arbitrary: acc) auto

lemma digits_val_str_nat [simp]: "digits_val 0 (str_nat n) = n"
proof (induction n rule: str_nat.induct)
  case (1 n)
  then show ?case by (subst str_nat.simps) (auto simp: digits_val_append)
qed

lemma is_digit_simps:
  "is_digit c \<Longrightarrow> \<not> is_space c" "is_digit c \<Longrightarrow> c \<noteq> CHR ''_''"
  "is_digit c \<Longrightarrow> c \<noteq> CHR ''-''" "is_digit c \<Longrightarrow> c \<noteq> CHR ''+''"
  by (auto simp: is_digit_def is_space_def Let_def)

lemma int_digits_id: "s \<noteq> [] \<Longrightarrow> \<forall>c\<in>set s. is_digit c \<Longrightarrow> int_digits s = Some s"
  by (induction s rule: int_digits.induct) (auto simp: is_digit_simps)

lemma int_digits_str_nat [simp]: "int_digits (str_nat n) = Some (str_nat n)"
  by (rule int_digits_id[OF str_nat_not_Nil str_nat_digits])

lemma str_nat_stripped: "stripped (str_nat n)"
  using str_nat_digits[of n] str_nat_not_Nil[of n]
  by (auto simp: stripped_def is_digit_simps)

lemma py_int_digits:
  assumes "s \<noteq> []" "stripped s" "\<forall>c\<in>set s. is_digit c"
  shows "py_int s = Some (int (digits_val 0 s))" "py_int (CHR ''-'' # s) = Some (- int (digits_val 0 s))"
proof -
  have "strip s = s" using assms by (simp add: strip_id)
  then show "py_int s = Some (int (digits_val 0 s))"
    using assms by (auto simp: py_int_def int_digits_id is_digit_simps split: list.split)
  have "stripped (CHR ''-'' # s)" using assms by (auto simp: stripped_def is_space_def)
  then show "py_int (CHR ''-'' # s) = Some (- int (digits_val 0 s))"
    using assms by (simp add: py_int_def strip_id int_digits_id)
qed

lemma py_int_str_int [simp]: "py_int (str_int i) = Some i"
  using py_int_digits[OF str_nat_not_Nil str_nat_stripped str_nat_digits]
  by (auto simp: str_int_def)

section \<open>Values\<close>

text \<open>A float is an exact rational (rounding is not modelled) or one of the special values.\<close>

datatype pyfloat = Fin rat | PosInf | NegInf | NaN

text \<open>A decoded JSON or YAML value.  An object keeps its insertion order, as a \<^verbatim>\<open>dict\<close> does;
  \<^const>\<open>map_of\<close> reads it and \<^const>\<open>AList.update\<close> writes it.\<close>

datatype json =
    JNull
  | JBool bool
  | JInt int
  | JFloat pyfloat
  | JStr string
  | JList "json list"
  | JObj "(string \<times> json) list"

text \<open>\<^verbatim>\<open>bool(value)\<close>, and \<^verbatim>\<open>value or other\<close>.\<close>

fun truthy :: "json \<Rightarrow> bool" where
  "truthy JNull = False"
| "truthy (JBool b) = b"
| "truthy (JInt i) = (i \<noteq> 0)"
| "truthy (JFloat (Fin r)) = (r \<noteq> 0)"
| "truthy (JFloat _) = True"
| "truthy (JStr s) = (s \<noteq> [])"
| "truthy (JList xs) = (xs \<noteq> [])"
| "truthy (JObj kvs) = (kvs \<noteq> [])"

text \<open>\<^verbatim>\<open>d.get(key)\<close>, with Python's \<^verbatim>\<open>None\<close> for a missing key, and \<^verbatim>\<open>{**d, **e}\<close>.\<close>

definition jget :: "(string \<times> json) list \<Rightarrow> string \<Rightarrow> json" where
  "jget d k = (case map_of d k of None \<Rightarrow> JNull | Some v \<Rightarrow> v)"

definition dict_merge :: "('k \<times> 'v) list \<Rightarrow> ('k \<times> 'v) list \<Rightarrow> ('k \<times> 'v) list" where
  "dict_merge d e = fold (\<lambda>(k, v) acc. AList.update k v acc) e d"

definition jstr :: "string option \<Rightarrow> json" where
  "jstr v = (case v of None \<Rightarrow> JNull | Some s \<Rightarrow> JStr s)"

definition jint :: "int option \<Rightarrow> json" where
  "jint v = (case v of None \<Rightarrow> JNull | Some n \<Rightarrow> JInt n)"

definition jfloat :: "rat option \<Rightarrow> json" where
  "jfloat v = (case v of None \<Rightarrow> JNull | Some r \<Rightarrow> JFloat (Fin r))"

lemma map_of_update_same [simp]: "map_of (AList.update k v d) k = Some v"
  by (simp add: update_conv')

lemma map_of_update_other [simp]: "k' \<noteq> k \<Longrightarrow> map_of (AList.update k v d) k' = map_of d k'"
  by (simp add: update_conv')

lemma dict_merge_absent: "k \<notin> fst ` set e \<Longrightarrow> map_of (dict_merge d e) k = map_of d k"
  unfolding dict_merge_def by (induction e arbitrary: d) (auto simp: update_conv')

lemma dict_merge_present:
  "distinct (map fst e) \<Longrightarrow> map_of e k = Some v \<Longrightarrow> map_of (dict_merge d e) k = Some v"
proof (induction e arbitrary: d)
  case (Cons kv e)
  obtain k' v' where kv: "kv = (k', v')" by (cases kv)
  show ?case
  proof (cases "k = k'")
    case True
    with Cons.prems kv have "k \<notin> fst ` set e" and "v' = v" by auto
    then have "map_of (dict_merge (AList.update k' v' d) e) k = Some v"
      using True by (simp add: dict_merge_absent)
    then show ?thesis by (simp add: kv dict_merge_def)
  next
    case False
    with Cons kv have "map_of (dict_merge (AList.update k' v' d) e) k = Some v" by simp
    then show ?thesis by (simp add: kv dict_merge_def)
  qed
qed simp

section \<open>Exceptions\<close>

text \<open>The exception classes the sources define or name.  \<^term>\<open>ForeignError\<close> stands for a class of
  a library, a direct subclass of \<^verbatim>\<open>Exception\<close>, with its name.\<close>

datatype exn_class =
    ValueError | TypeError | KeyError | AttributeError | RuntimeError | TimeoutError
  | FileNotFoundError | JSONDecodeError | ValidationError
  | ModelProfileConfigurationError | UsernameAlreadyExistsError
  | APIError | LLMServiceError | QueueSaturatedError | QueueWaitTimeoutError
  | GenerationTimeoutError | StreamingTimeoutError | AuthenticationError
  | AuthConfigurationError | UnsupportedModeError | HTTPException
  | LlamaServerGatewayError | LlamaServerUnavailableError | LlamaServerTimeoutError
  | LlamaServerMalformedResponseError | LlamaServerInterruptedError
  | LLMJobCancelledError | NonRetryableLLMJobError
  | BackendClientError | BackendUnavailableError | BackendTimeoutError | BackendHTTPError
  | BackendAuthenticationError | BackendUserAuthenticationError | BackendValidationError
  | BackendConflictError | BackendFeatureDisabledError | BackendAuthConfigurationError
  | BackendInvalidResponseError | BackendStreamError
  | ForeignError string

text \<open>The superclasses a class has below \<^verbatim>\<open>Exception\<close>, as its \<^verbatim>\<open>class\<close> statement gives them.\<close>

fun bases :: "exn_class \<Rightarrow> exn_class list" where
  "bases JSONDecodeError = [ValueError]"
| "bases ValidationError = [ValueError]"
| "bases ModelProfileConfigurationError = [ValueError]"
| "bases UsernameAlreadyExistsError = [ValueError]"
| "bases LLMServiceError = [APIError]"
| "bases QueueSaturatedError = [APIError]"
| "bases QueueWaitTimeoutError = [APIError]"
| "bases GenerationTimeoutError = [APIError]"
| "bases StreamingTimeoutError = [APIError]"
| "bases AuthenticationError = [APIError]"
| "bases AuthConfigurationError = [APIError]"
| "bases UnsupportedModeError = [APIError]"
| "bases LlamaServerGatewayError = [RuntimeError]"
| "bases LlamaServerUnavailableError = [LlamaServerGatewayError, RuntimeError]"
| "bases LlamaServerTimeoutError = [TimeoutError]"
| "bases LlamaServerMalformedResponseError = [LlamaServerGatewayError, RuntimeError]"
| "bases LlamaServerInterruptedError = [LlamaServerGatewayError, RuntimeError]"
| "bases LLMJobCancelledError = [RuntimeError]"
| "bases NonRetryableLLMJobError = [RuntimeError]"
| "bases BackendClientError = [RuntimeError]"
| "bases BackendUnavailableError = [BackendClientError, RuntimeError]"
| "bases BackendTimeoutError = [BackendClientError, RuntimeError]"
| "bases BackendHTTPError = [BackendClientError, RuntimeError]"
| "bases BackendAuthenticationError = [BackendHTTPError, BackendClientError, RuntimeError]"
| "bases BackendUserAuthenticationError = [BackendHTTPError, BackendClientError, RuntimeError]"
| "bases BackendValidationError = [BackendHTTPError, BackendClientError, RuntimeError]"
| "bases BackendConflictError = [BackendHTTPError, BackendClientError, RuntimeError]"
| "bases BackendFeatureDisabledError = [BackendHTTPError, BackendClientError, RuntimeError]"
| "bases BackendAuthConfigurationError = [BackendClientError, RuntimeError]"
| "bases BackendInvalidResponseError = [BackendClientError, RuntimeError]"
| "bases BackendStreamError = [BackendClientError, RuntimeError]"
| "bases _ = []"

text \<open>What an exception object carries beside its text: the response headers of an API error, the
  status and detail of an HTTP exception, the status and error code of a backend error, the errors of a
  refused request body.\<close>

datatype exn_extra =
    NoExtra
  | Headers "(string \<times> string) list"
  | HttpDetail int json
  | BackendInfo int string
  | ValidationErrors "json list"

datatype exn = Exn (exn_cls: exn_class) (exn_text: string) (exn_extra: exn_extra)

text \<open>\<^verbatim>\<open>isinstance(error, cls)\<close>, the test of an \<^verbatim>\<open>except\<close> clause.\<close>

definition isinstance :: "exn \<Rightarrow> exn_class \<Rightarrow> bool" where
  "isinstance e c \<longleftrightarrow> exn_cls e = c \<or> c \<in> set (bases (exn_cls e))"

definition mk_exn :: "exn_class \<Rightarrow> string \<Rightarrow> exn" where
  "mk_exn c m = Exn c m NoExtra"

lemma isinstance_mk_exn [simp]: "isinstance (mk_exn c m) d \<longleftrightarrow> c = d \<or> d \<in> set (bases c)"
  by (simp add: isinstance_def mk_exn_def)

lemma exn_sel_mk_exn [simp]:
  "exn_cls (mk_exn c m) = c" "exn_text (mk_exn c m) = m" "exn_extra (mk_exn c m) = NoExtra"
  by (simp_all add: mk_exn_def)

section \<open>Fallible computations\<close>

type_synonym 'a res = "exn + 'a"

definition bind_res :: "'a res \<Rightarrow> ('a \<Rightarrow> 'b res) \<Rightarrow> 'b res" where
  "bind_res m k = (case m of Inl e \<Rightarrow> Inl e | Inr x \<Rightarrow> k x)"

lemma bind_res_simps [simp, act_simps]:
  "bind_res (Inl e) k = Inl e" "bind_res (Inr x) k = k x"
  by (simp_all add: bind_res_def)

lemma bind_res_Inr: "bind_res m k = Inr y \<longleftrightarrow> (\<exists>x. m = Inr x \<and> k x = Inr y)"
  by (cases m) auto

lemma bind_res_Inl: "bind_res m k = Inl e \<longleftrightarrow> m = Inl e \<or> (\<exists>x. m = Inr x \<and> k x = Inl e)"
  by (cases m) auto

text \<open>A comprehension whose element expression can raise: left to right, the first error wins.\<close>

fun map_res :: "('a \<Rightarrow> 'b res) \<Rightarrow> 'a list \<Rightarrow> 'b list res" where
  "map_res f [] = Inr []"
| "map_res f (x # xs) = bind_res (f x) (\<lambda>y. bind_res (map_res f xs) (\<lambda>ys. Inr (y # ys)))"

lemma map_res_Inr: "map_res f xs = Inr ys \<longleftrightarrow> list_all2 (\<lambda>x y. f x = Inr y) xs ys"
  by (induction xs arbitrary: ys) (auto simp: bind_res_Inr list_all2_Cons1)

lemma map_res_cong_Inr: "(\<And>x. x \<in> set xs \<Longrightarrow> f x = Inr (g x)) \<Longrightarrow> map_res f xs = Inr (map g xs)"
  by (induction xs) auto

lemma map_res_Inl: "map_res f xs = Inl e \<Longrightarrow> \<exists>x\<in>set xs. f x = Inl e"
  by (induction xs) (auto simp: bind_res_Inl)

text \<open>Code that reads and writes a state \<^typ>\<open>'w\<close> on its way to a result or an exception.  An
  exception keeps the state as it is at the raise.\<close>

type_synonym ('w, 'a) act = "'w \<Rightarrow> 'a res \<times> 'w"

definition retA :: "'a \<Rightarrow> ('w, 'a) act" where
  "retA x w = (Inr x, w)"

definition raiseA :: "exn \<Rightarrow> ('w, 'a) act" where
  "raiseA e w = (Inl e, w)"

definition liftA :: "'a res \<Rightarrow> ('w, 'a) act" where
  "liftA r w = (r, w)"

definition bindA :: "('w, 'a) act \<Rightarrow> ('a \<Rightarrow> ('w, 'b) act) \<Rightarrow> ('w, 'b) act" where
  "bindA m k w = (case m w of (Inl e, w') \<Rightarrow> (Inl e, w') | (Inr x, w') \<Rightarrow> k x w')"

text \<open>\<^verbatim>\<open>try: m except ...: h\<close>; \<^term>\<open>h e = None\<close> lets the exception through.\<close>

definition catchA :: "('w, 'a) act \<Rightarrow> (exn \<Rightarrow> ('w, 'a) act) \<Rightarrow> ('w, 'a) act" where
  "catchA m h w = (case m w of (Inl e, w') \<Rightarrow> h e w' | (Inr x, w') \<Rightarrow> (Inr x, w'))"

lemma act_run [simp, act_simps]:
  "retA x w = (Inr x, w)" "raiseA e w = (Inl e, w)" "liftA r w = (r, w)"
  by (simp_all add: retA_def raiseA_def liftA_def)

lemma bindA_run [act_simps]:
  "m w = (Inr x, w') \<Longrightarrow> bindA m k w = k x w'"
  "m w = (Inl e, w') \<Longrightarrow> bindA m k w = (Inl e, w')"
  by (simp_all add: bindA_def)

lemma catchA_run [act_simps]:
  "m w = (Inr x, w') \<Longrightarrow> catchA m h w = (Inr x, w')"
  "m w = (Inl e, w') \<Longrightarrow> catchA m h w = h e w'"
  by (simp_all add: catchA_def)

lemma bindA_retA [simp]: "bindA (retA x) k = k x"
  by (rule ext) (simp add: bindA_def)

lemma bindA_raiseA [simp]: "bindA (raiseA e) k = raiseA e"
  by (rule ext) (simp add: bindA_def)

lemma bindA_assoc: "bindA (bindA m k) l = bindA m (\<lambda>x. bindA (k x) l)"
  by (rule ext) (simp add: bindA_def split: prod.split sum.split)

lemma bindA_Inr:
  "bindA m k w = (Inr y, w') \<longleftrightarrow> (\<exists>x v. m w = (Inr x, v) \<and> k x v = (Inr y, w'))"
  by (auto simp: bindA_def split: prod.splits sum.splits)

lemma bindA_Inl:
  "bindA m k w = (Inl e, w') \<longleftrightarrow>
     m w = (Inl e, w') \<or> (\<exists>x v. m w = (Inr x, v) \<and> k x v = (Inl e, w'))"
  by (auto simp: bindA_def split: prod.splits sum.splits)

lemma catchA_Inr:
  "catchA m h w = (Inr y, w') \<longleftrightarrow>
     m w = (Inr y, w') \<or> (\<exists>e v. m w = (Inl e, v) \<and> h e v = (Inr y, w'))"
  by (auto simp: catchA_def split: prod.splits sum.splits)

lemma catchA_Inl:
  "catchA m h w = (Inl e, w') \<longleftrightarrow> (\<exists>e' v. m w = (Inl e', v) \<and> h e' v = (Inl e, w'))"
  by (auto simp: catchA_def split: prod.splits sum.splits)

text \<open>How a generator ends for its consumer.\<close>

datatype ending = Finished | Failed exn | Cancelled

text \<open>Reading and writing the state, and running code of a part of it.\<close>

definition getA :: "('w \<Rightarrow> 'a) \<Rightarrow> ('w, 'a) act" where
  "getA f w = (Inr (f w), w)"

definition modifyA :: "('w \<Rightarrow> 'w) \<Rightarrow> ('w, unit) act" where
  "modifyA f w = (Inr (), f w)"

definition zoomA :: "('w \<Rightarrow> 'v) \<Rightarrow> ('v \<Rightarrow> 'w \<Rightarrow> 'w) \<Rightarrow> ('v, 'a) act \<Rightarrow> ('w, 'a) act" where
  "zoomA get put m w = (case m (get w) of (r, v) \<Rightarrow> (r, put v w))"

lemma getA_run [simp, act_simps]: "getA f w = (Inr (f w), w)"
  by (simp add: getA_def)

lemma modifyA_run [simp, act_simps]: "modifyA f w = (Inr (), f w)"
  by (simp add: modifyA_def)

lemma bindA_getA [simp]: "bindA (getA f) k w = k (f w) w"
  by (simp add: bindA_def)

lemma bindA_modifyA [simp]: "bindA (modifyA f) k w = k () (f w)"
  by (simp add: bindA_def)

lemma bindA_liftA [simp]: "bindA (liftA (Inr x)) k = k x" "bindA (liftA (Inl e)) k = raiseA e"
  by (rule ext, simp add: bindA_def)+

lemma zoomA_Inr: "zoomA get put m w = (Inr x, w') \<longleftrightarrow> (\<exists>v. m (get w) = (Inr x, v) \<and> w' = put v w)"
  by (auto simp: zoomA_def split: prod.split)

lemma zoomA_Inl: "zoomA get put m w = (Inl e, w') \<longleftrightarrow> (\<exists>v. m (get w) = (Inl e, v) \<and> w' = put v w)"
  by (auto simp: zoomA_def split: prod.split)

text \<open>A property of the state that every run of the code keeps.\<close>

definition keeps :: "('w \<Rightarrow> 'b) \<Rightarrow> ('w, 'a) act \<Rightarrow> bool" where
  "keeps f m \<longleftrightarrow> (\<forall>w. f (snd (m w)) = f w)"

lemma keepsD: "keeps f m \<Longrightarrow> m w = (r, w') \<Longrightarrow> f w' = f w"
  by (metis keeps_def snd_conv)

named_theorems keeps_rules \<open>what code leaves alone\<close>

lemma keeps_basic [keeps_rules]:
  "keeps f (retA x)" "keeps f (raiseA e)" "keeps f (liftA r)" "keeps f (getA g)"
  by (simp_all add: keeps_def)

lemma keeps_bindA [keeps_rules]:
  "keeps f m \<Longrightarrow> (\<And>x. keeps f (k x)) \<Longrightarrow> keeps f (bindA m k)"
  unfolding keeps_def bindA_def by (auto split: prod.split sum.split) (metis snd_conv)+

lemma keeps_catchA [keeps_rules]:
  "keeps f m \<Longrightarrow> (\<And>e. keeps f (h e)) \<Longrightarrow> keeps f (catchA m h)"
  unfolding keeps_def catchA_def by (auto split: prod.split sum.split) (metis snd_conv)+

lemma keeps_modifyA [keeps_rules]: "(\<And>w. f (g w) = f w) \<Longrightarrow> keeps f (modifyA g)"
  by (simp add: keeps_def)

lemma keeps_zoomA [keeps_rules]: "(\<And>v w. f (put v w) = f w) \<Longrightarrow> keeps f (zoomA get put m)"
  by (simp add: keeps_def zoomA_def split: prod.split)

end
