(* ===== verification/Conversation.thy ===== *)
theory Conversation
  imports Lang_Prelude
begin

text \<open>
  The data of a conversation: the bounded memory of turns (\<^verbatim>\<open>app/application/conversation_memory.py\<close>),
  the session state, the intent and the replies with their validation
  (\<^verbatim>\<open>app/domain\<close>), the prompt templates (\<^verbatim>\<open>app/infrastructure/llm/prompts.py\<close> and its loader) and the
  mode switch of \<^verbatim>\<open>IntentRouter.apply_intent\<close>.  The coercions pydantic applies to a \<^verbatim>\<open>bool\<close> or
  \<^verbatim>\<open>int\<close> field, and the YAML loader, are parameters.
\<close>

section \<open>Memory\<close>

record ConversationTurn =
  user_input :: string
  assistant_reply :: string

record ConversationMemory =
  max_turns :: int
  turns :: "ConversationTurn list"

text \<open>\<^verbatim>\<open>xs[-m:]\<close> for an integer \<^verbatim>\<open>m\<close>: \<^verbatim>\<open>-0\<close> is 0 and keeps everything, a positive index counts from the
  front.\<close>

definition slice_last :: "int \<Rightarrow> 'a list \<Rightarrow> 'a list" where
  "slice_last m xs =
     (if m > 0 then drop (length xs - nat m) xs else drop (nat (- m)) xs)"

definition new_memory :: "int \<Rightarrow> ConversationMemory" where
  "new_memory m = \<lparr>max_turns = m, turns = []\<rparr>"

definition add_turn :: "string \<Rightarrow> string \<Rightarrow> ConversationMemory \<Rightarrow> ConversationMemory" where
  "add_turn msg reply mem =
     (let ts = turns mem @ [\<lparr>user_input = msg, assistant_reply = reply\<rparr>] in
      if int (length ts) > max_turns mem then mem\<lparr>turns := slice_last (max_turns mem) ts\<rparr>
      else mem\<lparr>turns := ts\<rparr>)"

definition newline :: string where "newline = [CHR 0x0A]"

definition indent :: string where "indent = newline @ replicate 16 CHR '' ''"

definition format_turn :: "nat \<Rightarrow> ConversationTurn \<Rightarrow> string" where
  "format_turn i t =
     strip (indent @ ''Turn '' @ str_nat i @ indent @ ''User: '' @ user_input t
            @ indent @ ''Assistant: '' @ assistant_reply t @ indent)"

definition format_for_prompt :: "ConversationMemory \<Rightarrow> string" where
  "format_for_prompt mem =
     (if turns mem = [] then ''No previous conversation.''
      else join (newline @ newline)
             (map (\<lambda>(i, t). format_turn i t) (zip [1..<length (turns mem) + 1] (turns mem))))"

section \<open>Modes and session state\<close>

datatype mode = Translation | Definition | Learning | General

definition mode_text :: "mode \<Rightarrow> string" where
  "mode_text m = (case m of
     Translation \<Rightarrow> ''translation'' | Definition \<Rightarrow> ''definition''
   | Learning \<Rightarrow> ''learning'' | General \<Rightarrow> ''general'')"

definition all_modes :: "mode list" where
  "all_modes = [Translation, Definition, Learning, General]"

definition mode_of_text :: "string \<Rightarrow> mode option" where
  "mode_of_text s = find (\<lambda>m. mode_text m = s) all_modes"

record TranslationModeState =
  participant_a_language :: string
  participant_b_language :: string
  direction :: string
  style :: string

record DefinitionModeState =
  current_term :: "string option"
  definition_language :: string
  sense :: "string option"

record LearningModeState =
  target_language :: string
  native_language :: string
  level :: string
  current_topic :: "string option"
  lesson_step :: int

record SessionState =
  active_mode :: mode
  previous_mode :: "mode option"
  translation_state :: TranslationModeState
  definition_state :: DefinitionModeState
  learning_state :: LearningModeState

definition new_session :: SessionState where
  "new_session =
     \<lparr>active_mode = General, previous_mode = None,
      translation_state = \<lparr>participant_a_language = ''unknown'', participant_b_language = ''unknown'',
                           direction = ''auto'', style = ''single_user''\<rparr>,
      definition_state = \<lparr>current_term = None, definition_language = ''unknown'', sense = None\<rparr>,
      learning_state = \<lparr>target_language = ''unknown'', native_language = ''unknown'',
                        level = ''unknown'', current_topic = None, lesson_step = 0\<rparr>\<rparr>"

record IntentResult =
  intent_mode :: mode
  confidence :: string
  should_switch_mode :: bool
  reason :: string
  clarification_question :: string

section \<open>Validation\<close>

text \<open>The coercions of pydantic's lax mode for \<^verbatim>\<open>bool\<close> and \<^verbatim>\<open>int\<close> fields.\<close>

record coercions =
  lax_bool :: "json \<Rightarrow> bool option"
  lax_int :: "json \<Rightarrow> int option"

locale pydantic =
  fixes pyd :: coercions
  assumes bool_kept: "lax_bool pyd (JBool b) = Some b"
    and int_kept: "lax_int pyd (JInt i) = Some i"

definition invalid :: exn where
  "invalid = mk_exn ValidationError []"

text \<open>A field of a model: its value in the keyword arguments, or its default; \<^const>\<open>None\<close> as default
  means the field is required.\<close>

definition field :: "(json \<Rightarrow> 'a option) \<Rightarrow> 'a option \<Rightarrow> (string \<times> json) list \<Rightarrow> string \<Rightarrow> 'a res" where
  "field check dflt m k =
     (case map_of m k of
        None \<Rightarrow> (case dflt of None \<Rightarrow> Inl invalid | Some d \<Rightarrow> Inr d)
      | Some v \<Rightarrow> (case check v of None \<Rightarrow> Inl invalid | Some x \<Rightarrow> Inr x))"

definition as_str :: "json \<Rightarrow> string option" where
  "as_str j = (case j of JStr s \<Rightarrow> Some s | _ \<Rightarrow> None)"

definition as_opt_str :: "json \<Rightarrow> string option option" where
  "as_opt_str j = (case j of JNull \<Rightarrow> Some None | JStr s \<Rightarrow> Some (Some s) | _ \<Rightarrow> None)"

definition as_literal :: "string list \<Rightarrow> json \<Rightarrow> string option" where
  "as_literal options j = (case j of JStr s \<Rightarrow> if s \<in> set options then Some s else None | _ \<Rightarrow> None)"

definition as_mode :: "json \<Rightarrow> mode option" where
  "as_mode j = (case j of JStr s \<Rightarrow> mode_of_text s | _ \<Rightarrow> None)"

definition as_str_list :: "json \<Rightarrow> string list option" where
  "as_str_list j = (case j of JList xs \<Rightarrow> those (map as_str xs) | _ \<Rightarrow> None)"

definition as_dict_list :: "json \<Rightarrow> json list option" where
  "as_dict_list j =
     (case j of
        JList xs \<Rightarrow> if list_all (\<lambda>x. case x of JObj _ \<Rightarrow> True | _ \<Rightarrow> False) xs then Some xs else None
      | _ \<Rightarrow> None)"

text \<open>\<^verbatim>\<open>Model(**response)\<close>: anything but a mapping is a \<^verbatim>\<open>TypeError\<close>.\<close>

definition kwargs :: "json \<Rightarrow> (string \<times> json) list res" where
  "kwargs j = (case j of JObj m \<Rightarrow> Inr m | _ \<Rightarrow> Inl (mk_exn TypeError []))"

definition IntentResult_of :: "coercions \<Rightarrow> json \<Rightarrow> IntentResult res" where
  "IntentResult_of pyd response =
     bind_res (kwargs response) (\<lambda>m.
     bind_res (field as_mode None m ''mode'') (\<lambda>md.
     bind_res (field (as_literal [''low'', ''medium'', ''high'']) None m ''confidence'') (\<lambda>cf.
     bind_res (field (lax_bool pyd) None m ''should_switch_mode'') (\<lambda>sw.
     bind_res (field as_str None m ''reason'') (\<lambda>rs.
     bind_res (field as_str (Some []) m ''clarification_question'') (\<lambda>cq.
     Inr \<lparr>intent_mode = md, confidence = cf, should_switch_mode = sw, reason = rs,
          clarification_question = cq\<rparr>))))))"

definition dump_intent :: "IntentResult \<Rightarrow> (string \<times> json) list" where
  "dump_intent i =
     [(''mode'', JStr (mode_text (intent_mode i))), (''confidence'', JStr (confidence i)),
      (''should_switch_mode'', JBool (should_switch_mode i)), (''reason'', JStr (reason i)),
      (''clarification_question'', JStr (clarification_question i))]"

definition TranslationModeState_of :: "json \<Rightarrow> TranslationModeState res" where
  "TranslationModeState_of response =
     bind_res (kwargs response) (\<lambda>m.
     bind_res (field as_str (Some ''unknown'') m ''participant_a_language'') (\<lambda>a.
     bind_res (field as_str (Some ''unknown'') m ''participant_b_language'') (\<lambda>b.
     bind_res (field (as_literal [''auto'', ''a_to_b'', ''b_to_a'']) (Some ''auto'') m ''direction'') (\<lambda>d.
     bind_res (field (as_literal [''single_user'', ''two_person'']) (Some ''single_user'') m ''style'') (\<lambda>s.
     Inr \<lparr>participant_a_language = a, participant_b_language = b, direction = d, style = s\<rparr>)))))"

definition DefinitionModeState_of :: "json \<Rightarrow> DefinitionModeState res" where
  "DefinitionModeState_of response =
     bind_res (kwargs response) (\<lambda>m.
     bind_res (field as_opt_str (Some None) m ''current_term'') (\<lambda>t.
     bind_res (field as_str (Some ''unknown'') m ''language'') (\<lambda>l.
     bind_res (field as_opt_str (Some None) m ''sense'') (\<lambda>s.
     Inr \<lparr>current_term = t, definition_language = l, sense = s\<rparr>))))"

definition LearningModeState_of :: "coercions \<Rightarrow> json \<Rightarrow> LearningModeState res" where
  "LearningModeState_of pyd response =
     bind_res (kwargs response) (\<lambda>m.
     bind_res (field as_str (Some ''unknown'') m ''target_language'') (\<lambda>t.
     bind_res (field as_str (Some ''unknown'') m ''native_language'') (\<lambda>n.
     bind_res (field (as_literal [''beginner'', ''intermediate'', ''advanced'', ''unknown''])
                 (Some ''unknown'') m ''level'') (\<lambda>l.
     bind_res (field as_opt_str (Some None) m ''current_topic'') (\<lambda>c.
     bind_res (field (lax_int pyd) (Some 0) m ''lesson_step'') (\<lambda>s.
     Inr \<lparr>target_language = t, native_language = n, level = l, current_topic = c, lesson_step = s\<rparr>))))))"

definition dump_translation :: "TranslationModeState \<Rightarrow> (string \<times> json) list" where
  "dump_translation s =
     [(''participant_a_language'', JStr (participant_a_language s)),
      (''participant_b_language'', JStr (participant_b_language s)),
      (''direction'', JStr (direction s)), (''style'', JStr (style s))]"

definition dump_definition :: "DefinitionModeState \<Rightarrow> (string \<times> json) list" where
  "dump_definition s =
     [(''current_term'', jstr (current_term s)), (''language'', JStr (definition_language s)),
      (''sense'', jstr (sense s))]"

definition dump_learning :: "LearningModeState \<Rightarrow> (string \<times> json) list" where
  "dump_learning s =
     [(''target_language'', JStr (target_language s)), (''native_language'', JStr (native_language s)),
      (''level'', JStr (level s)), (''current_topic'', jstr (current_topic s)),
      (''lesson_step'', JInt (lesson_step s))]"

text \<open>The reply of a mode: its mode, its text, and the dump of the whole model.\<close>

record mode_response =
  response_mode :: string
  response_text :: string
  response_data :: "(string \<times> json) list"

definition str_field :: "string option \<Rightarrow> (string \<times> json) list \<Rightarrow> string \<Rightarrow> (string \<times> json) res" where
  "str_field dflt m k = bind_res (field as_str dflt m k) (\<lambda>s. Inr (k, JStr s))"

definition list_field :: "(string \<times> json) list \<Rightarrow> string \<Rightarrow> (string \<times> json) res" where
  "list_field m k = bind_res (field as_str_list (Some []) m k) (\<lambda>xs. Inr (k, JList (map JStr xs)))"

definition dict_list_field :: "(string \<times> json) list \<Rightarrow> string \<Rightarrow> (string \<times> json) res" where
  "dict_list_field m k = bind_res (field as_dict_list (Some []) m k) (\<lambda>xs. Inr (k, JList xs))"

definition mode_reply ::
  "string \<Rightarrow> ((string \<times> json) list \<Rightarrow> (string \<times> json) res list) \<Rightarrow> json \<Rightarrow> mode_response res" where
  "mode_reply md specs response =
     bind_res (kwargs response) (\<lambda>m.
     bind_res (field as_str None m ''response'') (\<lambda>text.
     bind_res (field (as_literal [md]) (Some md) m ''mode'') (\<lambda>_.
     bind_res (map_res id (specs m)) (\<lambda>rest.
     Inr \<lparr>response_mode = md, response_text = text,
          response_data = (''response'', JStr text) # (''mode'', JStr md) # rest\<rparr>))))"

definition TranslationResponse_of :: "json \<Rightarrow> mode_response res" where
  "TranslationResponse_of = mode_reply ''translation'' (\<lambda>m.
     [str_field None m ''source_language'', str_field None m ''target_language'',
      str_field None m ''translated_text''])"

definition DefinitionResponse_of :: "json \<Rightarrow> mode_response res" where
  "DefinitionResponse_of = mode_reply ''definition'' (\<lambda>m.
     [str_field None m ''term'', str_field (Some ''unknown'') m ''language'',
      str_field (Some []) m ''part_of_speech'', str_field (Some []) m ''pronunciation'',
      str_field None m ''meaning'', list_field m ''examples'', list_field m ''synonyms'',
      list_field m ''antonyms'', str_field (Some []) m ''etymology''])"

definition LearningResponse_of :: "json \<Rightarrow> mode_response res" where
  "LearningResponse_of = mode_reply ''learning'' (\<lambda>m.
     [str_field (Some ''unknown'') m ''target_language'', str_field (Some ''unknown'') m ''native_language'',
      str_field (Some ''unknown'') m ''level'', str_field (Some []) m ''topic'',
      str_field (Some []) m ''teaching_point'', list_field m ''examples'', list_field m ''corrections'',
      dict_list_field m ''new_vocabulary'', list_field m ''exercises'',
      str_field (Some []) m ''next_suggested_step''])"

section \<open>Intents\<close>

definition apply_intent :: "SessionState \<Rightarrow> IntentResult \<Rightarrow> SessionState" where
  "apply_intent st i =
     (if should_switch_mode i \<and> intent_mode i \<noteq> active_mode st
      then st\<lparr>previous_mode := Some (active_mode st), active_mode := intent_mode i\<rparr>
      else st)"

section \<open>Templates\<close>

text \<open>\<^verbatim>\<open>template.format(**values)\<close> for replacement fields that are plain names: doubled braces are
  literal, a name is looked up (\<^verbatim>\<open>KeyError\<close>), and a stray brace is a \<^verbatim>\<open>ValueError\<close>.  The values are
  inserted as they are.\<close>

fun field_name :: "string \<Rightarrow> (string \<times> string) option" where
  "field_name [] = None"
| "field_name (c # cs) =
     (if c = CHR ''}'' then Some ([], cs)
      else if c = CHR ''{'' then None
      else map_option (\<lambda>(n, rest). (c # n, rest)) (field_name cs))"

lemma field_name_length: "field_name s = Some (n, rest) \<Longrightarrow> length rest < length s"
  by (induction s arbitrary: n rest) (fastforce split: if_splits)+

function format_template :: "(string \<times> string) list \<Rightarrow> string \<Rightarrow> string res" where
  "format_template vals [] = Inr []"
| "format_template vals (c # cs) =
     (if c = CHR ''{'' then
        (case cs of
           d # ds \<Rightarrow>
             if d = CHR ''{'' then bind_res (format_template vals ds) (\<lambda>r. Inr (c # r))
             else (case field_name cs of
                 None \<Rightarrow> Inl (mk_exn ValueError [])
               | Some (n, rest) \<Rightarrow>
                   (case map_of vals n of
                      None \<Rightarrow> Inl (mk_exn KeyError n)
                    | Some v \<Rightarrow> bind_res (format_template vals rest) (\<lambda>r. Inr (v @ r))))
         | [] \<Rightarrow> Inl (mk_exn ValueError []))
      else if c = CHR ''}'' then
        (case cs of
           d # ds \<Rightarrow>
             if d = CHR ''}'' then bind_res (format_template vals ds) (\<lambda>r. Inr (c # r))
             else Inl (mk_exn ValueError [])
         | [] \<Rightarrow> Inl (mk_exn ValueError []))
      else bind_res (format_template vals cs) (\<lambda>r. Inr (c # r)))"
  by pat_completeness auto
termination
  by (relation "measure (\<lambda>(vals, s). length s)")
    (auto dest!: field_name_length simp del: field_name.simps)

declare format_template.simps(2) [simp del]

text \<open>\<^verbatim>\<open>repr\<close> of the values a state dump holds.\<close>

definition repr_char :: "char \<Rightarrow> char \<Rightarrow> string" where
  "repr_char q c = (let n = of_char c :: nat in
     if c = q \<or> c = CHR 0x5C then [CHR 0x5C, c]
     else if n = 9 then [CHR 0x5C, CHR ''t'']
     else if n = 10 then [CHR 0x5C, CHR ''n'']
     else if n = 13 then [CHR 0x5C, CHR ''r'']
     else if n < 32 \<or> (127 \<le> n \<and> n \<le> 160) \<or> n = 173
     then [CHR 0x5C, CHR ''x''] @ map (\<lambda>d. char_of (if d < 10 then 48 + d else 87 + d)) [n div 16, n mod 16]
     else [c])"

definition repr_str :: "string \<Rightarrow> string" where
  "repr_str s =
     (let q = (if CHR 0x27 \<in> set s \<and> CHR 0x22 \<notin> set s then CHR 0x22 else CHR 0x27)
      in q # concat (map (repr_char q) s) @ [q])"

definition repr_value :: "json \<Rightarrow> string" where
  "repr_value v = (case v of
     JStr s \<Rightarrow> repr_str s | JInt i \<Rightarrow> str_int i | JNull \<Rightarrow> ''None''
   | JBool b \<Rightarrow> (if b then ''True'' else ''False'') | _ \<Rightarrow> [])"

definition repr_dict :: "(string \<times> json) list \<Rightarrow> string" where
  "repr_dict d =
     ''{'' @ join '', '' (map (\<lambda>(k, v). repr_str k @ '': '' @ repr_value v) d) @ ''}''"

text \<open>\<^verbatim>\<open>load_prompt\<close> and \<^verbatim>\<open>load_schema\<close> over a directory: the file's document, \<^const>\<open>None\<close> when there is no
  such file, or the exception of the YAML loader.\<close>

type_synonym yaml_dir = "string \<Rightarrow> json res option"

definition load_prompt :: "yaml_dir \<Rightarrow> string \<Rightarrow> string res" where
  "load_prompt dir prompt_name =
     (let path = prompt_name @ ''.yaml'' in
      case dir path of
        None \<Rightarrow> Inl (mk_exn FileNotFoundError (''Prompt file not found: '' @ path))
      | Some doc \<Rightarrow> bind_res doc (\<lambda>data.
          case data of
            JObj m \<Rightarrow>
              (case jget m ''prompt'' of
                 JStr p \<Rightarrow> Inr p
               | _ \<Rightarrow> Inl (mk_exn ValueError (''Prompt file must contain a string `prompt` value: '' @ path)))
          | _ \<Rightarrow> Inl (mk_exn ValueError (''Prompt file must contain a YAML mapping: '' @ path))))"

definition load_schema :: "yaml_dir \<Rightarrow> string \<Rightarrow> json res" where
  "load_schema dir schema_name =
     (let path = schema_name @ ''.yaml'' in
      case dir path of
        None \<Rightarrow> Inl (mk_exn FileNotFoundError (''Schema file not found: '' @ path))
      | Some doc \<Rightarrow> bind_res doc (\<lambda>data.
          case data of
            JObj m \<Rightarrow> Inr (JObj m)
          | _ \<Rightarrow> Inl (mk_exn ValueError (''Schema file must contain a YAML mapping: '' @ path))))"

text \<open>The prompts and schemas of one task: for the intent, and for each of the three handlers.\<close>

record prompt_set =
  STATE_UPDATE_SYSTEM_PROMPT :: string
  INTENT_SYSTEM_PROMPT :: string
  INTENT_TASK_PROMPT :: string
  TRANSLATION_SYSTEM_PROMPT :: string
  TRANSLATION_TASK_PROMPT :: string
  TRANSLATION_STATE_UPDATE_TASK_PROMPT :: string
  DEFINITION_SYSTEM_PROMPT :: string
  DEFINITION_TASK_PROMPT :: string
  DEFINITION_STATE_UPDATE_TASK_PROMPT :: string
  LEARNING_SYSTEM_PROMPT :: string
  LEARNING_TASK_PROMPT :: string
  LEARNING_STATE_UPDATE_TASK_PROMPT :: string

definition load_prompts :: "yaml_dir \<Rightarrow> prompt_set res" where
  "load_prompts dir =
     bind_res (load_prompt dir ''state_update_system'') (\<lambda>su.
     bind_res (load_prompt dir ''intent_system'') (\<lambda>isys.
     bind_res (load_prompt dir ''intent_task'') (\<lambda>it.
     bind_res (load_prompt dir ''translation_system'') (\<lambda>ts.
     bind_res (load_prompt dir ''translation_task'') (\<lambda>tt.
     bind_res (load_prompt dir ''translation_state_update_task'') (\<lambda>tu.
     bind_res (load_prompt dir ''definition_system'') (\<lambda>ds.
     bind_res (load_prompt dir ''definition_task'') (\<lambda>dt.
     bind_res (load_prompt dir ''definition_state_update_task'') (\<lambda>du.
     bind_res (load_prompt dir ''learning_system'') (\<lambda>ls.
     bind_res (load_prompt dir ''learning_task'') (\<lambda>lt.
     bind_res (load_prompt dir ''learning_state_update_task'') (\<lambda>lu.
     Inr \<lparr>STATE_UPDATE_SYSTEM_PROMPT = su, INTENT_SYSTEM_PROMPT = isys, INTENT_TASK_PROMPT = it,
          TRANSLATION_SYSTEM_PROMPT = ts, TRANSLATION_TASK_PROMPT = tt,
          TRANSLATION_STATE_UPDATE_TASK_PROMPT = tu, DEFINITION_SYSTEM_PROMPT = ds,
          DEFINITION_TASK_PROMPT = dt, DEFINITION_STATE_UPDATE_TASK_PROMPT = du,
          LEARNING_SYSTEM_PROMPT = ls, LEARNING_TASK_PROMPT = lt,
          LEARNING_STATE_UPDATE_TASK_PROMPT = lu\<rparr>))))))))))))"

record schema_set =
  INTENT_RESPONSE_SCHEMA :: json
  TRANSLATION_RESPONSE_SCHEMA :: json
  TRANSLATION_STATE_SCHEMA :: json
  DEFINITION_RESPONSE_SCHEMA :: json
  DEFINITION_STATE_SCHEMA :: json
  LEARNING_RESPONSE_SCHEMA :: json
  LEARNING_STATE_SCHEMA :: json
  LITE_LANGUAGE_RESPONSE_SCHEMA :: json

definition load_schemas :: "yaml_dir \<Rightarrow> schema_set res" where
  "load_schemas dir =
     bind_res (load_schema dir ''intent_response'') (\<lambda>ir.
     bind_res (load_schema dir ''translation_response'') (\<lambda>tr.
     bind_res (load_schema dir ''translation_state'') (\<lambda>ts.
     bind_res (load_schema dir ''definition_response'') (\<lambda>dr.
     bind_res (load_schema dir ''definition_state'') (\<lambda>ds.
     bind_res (load_schema dir ''learning_response'') (\<lambda>lr.
     bind_res (load_schema dir ''learning_state'') (\<lambda>ls.
     bind_res (load_schema dir ''lite_language_response'') (\<lambda>ll.
     Inr \<lparr>INTENT_RESPONSE_SCHEMA = ir, TRANSLATION_RESPONSE_SCHEMA = tr, TRANSLATION_STATE_SCHEMA = ts,
          DEFINITION_RESPONSE_SCHEMA = dr, DEFINITION_STATE_SCHEMA = ds, LEARNING_RESPONSE_SCHEMA = lr,
          LEARNING_STATE_SCHEMA = ls, LITE_LANGUAGE_RESPONSE_SCHEMA = ll\<rparr>))))))))"

section \<open>The bounded memory\<close>

text \<open>The most recent entries of a list.\<close>

definition last_n :: "nat \<Rightarrow> 'a list \<Rightarrow> 'a list" where
  "last_n n xs = drop (length xs - n) xs"

lemma length_last_n: "length (last_n n xs) = min n (length xs)"
  by (simp add: last_n_def)

lemma last_n_short: "length xs \<le> n \<Longrightarrow> last_n n xs = xs"
  by (simp add: last_n_def)

lemma last_n_snoc: "last_n n (last_n n xs @ [x]) = last_n n (xs @ [x])"
proof (cases "length xs \<le> n")
  case False
  then have "last_n n xs @ [x] = drop (length xs - n) (xs @ [x])" by (simp add: last_n_def)
  moreover have "length (last_n n xs @ [x]) = Suc n" using False by (simp add: length_last_n)
  ultimately show ?thesis using False
    by (simp only: last_n_def length_append) (simp add: Suc_diff_le)
qed (simp add: last_n_short)

definition the_turn :: "string \<times> string \<Rightarrow> ConversationTurn" where
  "the_turn x = \<lparr>user_input = fst x, assistant_reply = snd x\<rparr>"

lemma add_turn_recent:
  assumes "max_turns mem > 0" "turns mem = last_n (nat (max_turns mem)) ts"
  shows "turns (add_turn a b mem) = last_n (nat (max_turns mem)) (ts @ [the_turn (a, b)])"
    "max_turns (add_turn a b mem) = max_turns mem"
proof -
  let ?n = "nat (max_turns mem)" and ?ts = "turns mem @ [the_turn (a, b)]"
  have "turns (add_turn a b mem) = last_n ?n ?ts"
    using assms(1) by (simp add: add_turn_def Let_def the_turn_def slice_last_def last_n_def)
  then show "turns (add_turn a b mem) = last_n ?n (ts @ [the_turn (a, b)])"
    by (simp add: assms(2) last_n_snoc)
qed (simp add: add_turn_def Let_def)

lemma add_turns_recent:
  assumes "max_turns mem > 0" "turns mem = last_n (nat (max_turns mem)) ts"
  shows "turns (fold (\<lambda>(a, b). add_turn a b) xs mem)
    = last_n (nat (max_turns mem)) (ts @ map the_turn xs)
    \<and> max_turns (fold (\<lambda>(a, b). add_turn a b) xs mem) = max_turns mem"
  using assms
proof (induction xs arbitrary: mem ts)
  case (Cons x xs)
  let ?mem = "add_turn (fst x) (snd x) mem"
  have step: "turns ?mem = last_n (nat (max_turns ?mem)) (ts @ [the_turn x])"
      "max_turns ?mem = max_turns mem"
    using add_turn_recent[OF Cons.prems, of "fst x" "snd x"] by simp_all
  then have "max_turns ?mem > 0" using Cons.prems(1) by simp
  from Cons.IH[OF this step(1)] step(2) show ?case by (simp add: split_beta)
qed simp

section \<open>Modes, states and validation\<close>

lemma mode_of_text_mode_text [simp]: "mode_of_text (mode_text m) = Some m"
  by (cases m) (simp_all add: mode_of_text_def all_modes_def mode_text_def)

lemma mode_text_inject [simp]: "mode_text m = mode_text m' \<longleftrightarrow> m = m'"
  by (metis mode_of_text_mode_text option.inject)

lemma as_mode_text [simp]: "as_mode (JStr (mode_text m)) = Some m"
  by (simp add: as_mode_def)

definition intent_ok :: "IntentResult \<Rightarrow> bool" where
  "intent_ok i \<longleftrightarrow> confidence i \<in> {''low'', ''medium'', ''high''}"

lemma field_literal: "field (as_literal opts) None m k = Inr v \<Longrightarrow> v \<in> set opts"
  by (auto simp: field_def as_literal_def split: option.splits json.splits if_splits)

lemma IntentResult_of_ok:
  assumes "IntentResult_of pyd j = Inr i"
  shows "intent_ok i"
  using assms unfolding IntentResult_of_def bind_res_Inr
  by (elim exE conjE, drule_tac Inr_inject, hypsubst) (auto simp: intent_ok_def dest: field_literal)

lemma intent_dump_roundtrip:
  assumes "pydantic pyd" "intent_ok i"
  shows "IntentResult_of pyd (JObj (dump_intent i)) = Inr i"
  using assms pydantic.bool_kept[OF assms(1)]
  by (simp add: IntentResult_of_def dump_intent_def kwargs_def field_def as_str_def as_literal_def
      intent_ok_def)

text \<open>Applying an intent again changes nothing more.\<close>

lemma apply_intent_idem: "apply_intent (apply_intent st i) i = apply_intent st i"
  by (simp add: apply_intent_def)

end
