(* ===== verification/Mode_Handlers.thy ===== *)
theory Mode_Handlers
  imports Conversation
begin

text \<open>
  The port \<^verbatim>\<open>LLMGateway\<close>, the intent classification (\<^verbatim>\<open>app/application/intent_router.py\<close>) and the three
  mode handlers (\<^verbatim>\<open>app/application/modes\<close>) over it.  The contract of a handler is the locale
  \<open>handler_contract\<close>, and each of the three handlers is an interpretation of it.
\<close>

section \<open>The gateway port\<close>

text \<open>A stream yields texts or dictionaries, and then ends (\<^typ>\<open>ending\<close>).\<close>

datatype stream_item = TokenItem string | DictItem "(string \<times> json) list"

type_synonym 'w streamer = "'w \<Rightarrow> (stream_item list \<times> ending) \<times> 'w"

record 'w llm_gateway =
  gw_ask :: "string \<Rightarrow> string \<Rightarrow> json \<Rightarrow> string option \<Rightarrow> ('w, json) act"
  gw_stream :: "string \<Rightarrow> string \<Rightarrow> string option \<Rightarrow> 'w streamer"
  gw_cancel :: "(string \<Rightarrow> ('w, unit) act) option"

text \<open>What the agent relies on of a gateway: a dictionary it streams is one, each key once.\<close>

locale llm_port =
  fixes g :: "'w llm_gateway"
  assumes stream_dicts:
    "gw_stream g sys prompt m w = ((items, e), w') \<Longrightarrow> DictItem d \<in> set items \<Longrightarrow> distinct (map fst d)"

text \<open>What the handlers and the router are built from.\<close>

record 'w agent_env =
  env_gateway :: "'w llm_gateway"
  env_pydantic :: coercions
  env_prompts :: prompt_set
  env_schemas :: schema_set
  env_float_repr :: "rat \<Rightarrow> string"

section \<open>Classification\<close>

definition classify ::
  "'w agent_env \<Rightarrow> string \<Rightarrow> SessionState \<Rightarrow> string \<Rightarrow> ('w, IntentResult) act" where
  "classify env msg st history =
     bindA (liftA (format_template
              [(''active_mode'', mode_text (active_mode st)), (''conversation_history'', history),
               (''user_input'', msg)] (INTENT_TASK_PROMPT (env_prompts env)))) (\<lambda>prompt.
     bindA (gw_ask (env_gateway env) (INTENT_SYSTEM_PROMPT (env_prompts env)) prompt
              (INTENT_RESPONSE_SCHEMA (env_schemas env)) (Some ''intent'')) (\<lambda>response.
     liftA (IntentResult_of (env_pydantic env) response)))"

section \<open>The handlers\<close>

record 'w mode_handler =
  update_session_state :: "string \<Rightarrow> SessionState \<Rightarrow> string \<Rightarrow> ('w, SessionState) act"
  handle :: "string \<Rightarrow> SessionState \<Rightarrow> string \<Rightarrow> ('w, mode_response) act"
  handler_stream :: "(string \<Rightarrow> SessionState \<Rightarrow> string \<Rightarrow> 'w streamer) option"

text \<open>The three named values every task template is formatted with.\<close>

definition task_prompt :: "string \<Rightarrow> string \<Rightarrow> string \<Rightarrow> (string \<times> json) list \<Rightarrow> string res" where
  "task_prompt template msg history mode_state =
     format_template
       [(''user_input'', msg), (''conversation_history'', history), (''mode_state'', repr_dict mode_state)]
       template"

text \<open>A prompt that does not format fails the stream before its first token.\<close>

definition stream_prompt :: "'w llm_gateway \<Rightarrow> string \<Rightarrow> string res \<Rightarrow> string option \<Rightarrow> 'w streamer" where
  "stream_prompt g sys prompt mode w =
     (case prompt of Inl e \<Rightarrow> (([], Failed e), w) | Inr p \<Rightarrow> gw_stream g sys p mode w)"

definition translation_handler :: "'w agent_env \<Rightarrow> 'w mode_handler" where
  "translation_handler env =
     (let g = env_gateway env; ps = env_prompts env; ss = env_schemas env in
     \<lparr>update_session_state = (\<lambda>msg st history.
        bindA (liftA (task_prompt (TRANSLATION_STATE_UPDATE_TASK_PROMPT ps) msg history
                 (dump_translation (translation_state st)))) (\<lambda>prompt.
        bindA (gw_ask g (STATE_UPDATE_SYSTEM_PROMPT ps) prompt (TRANSLATION_STATE_SCHEMA ss)
                 (Some ''session_state'')) (\<lambda>response.
        bindA (liftA (TranslationModeState_of response)) (\<lambda>s.
        retA (st\<lparr>translation_state := s\<rparr>))))),
      handle = (\<lambda>msg st history.
        bindA (liftA (task_prompt (TRANSLATION_TASK_PROMPT ps) msg history
                 (dump_translation (translation_state st)))) (\<lambda>prompt.
        bindA (gw_ask g (TRANSLATION_SYSTEM_PROMPT ps) prompt (TRANSLATION_RESPONSE_SCHEMA ss)
                 (Some ''translation'')) (\<lambda>response.
        liftA (TranslationResponse_of response)))),
      handler_stream = Some (\<lambda>msg st history.
        stream_prompt g (TRANSLATION_SYSTEM_PROMPT ps)
          (task_prompt (TRANSLATION_TASK_PROMPT ps) msg history (dump_translation (translation_state st)))
          (Some ''translation''))\<rparr>)"

definition definition_handler :: "'w agent_env \<Rightarrow> 'w mode_handler" where
  "definition_handler env =
     (let g = env_gateway env; ps = env_prompts env; ss = env_schemas env in
     \<lparr>update_session_state = (\<lambda>msg st history.
        bindA (liftA (task_prompt (DEFINITION_STATE_UPDATE_TASK_PROMPT ps) msg history
                 (dump_definition (definition_state st)))) (\<lambda>prompt.
        bindA (gw_ask g (STATE_UPDATE_SYSTEM_PROMPT ps) prompt (DEFINITION_STATE_SCHEMA ss)
                 (Some ''session_state'')) (\<lambda>response.
        bindA (liftA (DefinitionModeState_of response)) (\<lambda>s.
        retA (st\<lparr>definition_state := s\<rparr>))))),
      handle = (\<lambda>msg st history.
        bindA (liftA (task_prompt (DEFINITION_TASK_PROMPT ps) msg history
                 (dump_definition (definition_state st)))) (\<lambda>prompt.
        bindA (gw_ask g (DEFINITION_SYSTEM_PROMPT ps) prompt (DEFINITION_RESPONSE_SCHEMA ss)
                 (Some ''definition'')) (\<lambda>response.
        liftA (DefinitionResponse_of response)))),
      handler_stream = Some (\<lambda>msg st history.
        stream_prompt g (DEFINITION_SYSTEM_PROMPT ps)
          (task_prompt (DEFINITION_TASK_PROMPT ps) msg history (dump_definition (definition_state st)))
          (Some ''definition''))\<rparr>)"

definition learning_handler :: "'w agent_env \<Rightarrow> 'w mode_handler" where
  "learning_handler env =
     (let g = env_gateway env; ps = env_prompts env; ss = env_schemas env in
     \<lparr>update_session_state = (\<lambda>msg st history.
        bindA (liftA (task_prompt (LEARNING_STATE_UPDATE_TASK_PROMPT ps) msg history
                 (dump_learning (learning_state st)))) (\<lambda>prompt.
        bindA (gw_ask g (STATE_UPDATE_SYSTEM_PROMPT ps) prompt (LEARNING_STATE_SCHEMA ss)
                 (Some ''session_state'')) (\<lambda>response.
        bindA (liftA (LearningModeState_of (env_pydantic env) response)) (\<lambda>s.
        retA (st\<lparr>learning_state := s\<rparr>))))),
      handle = (\<lambda>msg st history.
        bindA (liftA (task_prompt (LEARNING_TASK_PROMPT ps) msg history
                 (dump_learning (learning_state st)))) (\<lambda>prompt.
        bindA (gw_ask g (LEARNING_SYSTEM_PROMPT ps) prompt (LEARNING_RESPONSE_SCHEMA ss)
                 (Some ''learning'')) (\<lambda>response.
        liftA (LearningResponse_of response)))),
      handler_stream = Some (\<lambda>msg st history.
        stream_prompt g (LEARNING_SYSTEM_PROMPT ps)
          (task_prompt (LEARNING_TASK_PROMPT ps) msg history (dump_learning (learning_state st)))
          (Some ''learning''))\<rparr>)"

text \<open>The table \<^verbatim>\<open>self.handlers\<close>; the general mode has no handler.\<close>

definition handler_for :: "'w agent_env \<Rightarrow> mode \<Rightarrow> 'w mode_handler option" where
  "handler_for env m = (case m of
     Translation \<Rightarrow> Some (translation_handler env)
   | Definition \<Rightarrow> Some (definition_handler env)
   | Learning \<Rightarrow> Some (learning_handler env)
   | General \<Rightarrow> None)"

section \<open>The contract\<close>

text \<open>The state of the modes, by mode.\<close>

definition mode_data :: "mode \<Rightarrow> SessionState \<Rightarrow> (string \<times> json) list" where
  "mode_data m st = (case m of
     Translation \<Rightarrow> dump_translation (translation_state st)
   | Definition \<Rightarrow> dump_definition (definition_state st)
   | Learning \<Rightarrow> dump_learning (learning_state st)
   | General \<Rightarrow> [])"

text \<open>A handler updates the state of its own mode only, never switches the mode, and its replies carry
  its mode.\<close>

locale handler_contract =
  fixes h :: "'w mode_handler" and own :: mode
  assumes update_frame:
      "update_session_state h msg st history w = (Inr st', w') \<Longrightarrow>
         active_mode st' = active_mode st \<and> previous_mode st' = previous_mode st
         \<and> (\<forall>m. m \<noteq> own \<longrightarrow> mode_data m st' = mode_data m st)"
    and reply_mode:
      "handle h msg st history w = (Inr r, w') \<Longrightarrow> response_mode r = mode_text own"

lemma mode_reply_mode: "mode_reply md specs j = Inr r \<Longrightarrow> response_mode r = md"
  unfolding mode_reply_def bind_res_Inr by (elim exE conjE) auto

interpretation translating: handler_contract "translation_handler env" Translation
  for env :: "'w agent_env"
  by unfold_locales
    (auto simp: translation_handler_def Let_def bindA_Inr mode_data_def mode_text_def
      TranslationResponse_of_def dest!: mode_reply_mode split: mode.splits)

interpretation defining: handler_contract "definition_handler env" Definition
  for env :: "'w agent_env"
  by unfold_locales
    (auto simp: definition_handler_def Let_def bindA_Inr mode_data_def mode_text_def
      DefinitionResponse_of_def dest!: mode_reply_mode split: mode.splits)

interpretation teaching: handler_contract "learning_handler env" Learning
  for env :: "'w agent_env"
  by unfold_locales
    (auto simp: learning_handler_def Let_def bindA_Inr mode_data_def mode_text_def
      LearningResponse_of_def dest!: mode_reply_mode split: mode.splits)

lemma handler_for_contract: "handler_for env m = Some h \<Longrightarrow> handler_contract h m"
  using translating.handler_contract_axioms[of env] defining.handler_contract_axioms[of env]
    teaching.handler_contract_axioms[of env]
  by (auto simp: handler_for_def split: mode.splits)

end
