(* ===== verification/Json_Text.thy ===== *)
theory Json_Text
  imports Lang_Prelude
begin

text \<open>
  \<^verbatim>\<open>json.dumps\<close> and \<^verbatim>\<open>json.loads\<close> of the standard library, which carry every message of the
  program: Server-Sent Events, Redis stream events, HTTP bodies and the model's own answers.  The
  printer is the default one (\<^verbatim>\<open>ensure_ascii\<close>, separators \<^verbatim>\<open>", "\<close> and \<^verbatim>\<open>": "\<close>); how a float is
  written is a parameter.  The reader spends one unit of fuel per nested value or item;
  \<open>json_loads\<close> gives it two units per character and one more, and
  \<open>json_loads_fuel\<close> shows that no larger amount changes a result.  A \<^verbatim>\<open>\uXXXX\<close> escape above U+00FF names a character
  outside the modelled repertoire; the reader refuses it.
\<close>

section \<open>Printing\<close>

definition hex_char :: "nat \<Rightarrow> char" where
  "hex_char d = (if d < 10 then char_of (48 + d) else char_of (87 + d))"

definition esc_char :: "char \<Rightarrow> string" where
  "esc_char c = (let n = of_char c :: nat in
     if c = CHR 0x22 then [CHR 0x5C, CHR 0x22]
     else if c = CHR 0x5C then [CHR 0x5C, CHR 0x5C]
     else if c = CHR 0x0A then [CHR 0x5C, CHR ''n'']
     else if c = CHR 0x0D then [CHR 0x5C, CHR ''r'']
     else if c = CHR 0x09 then [CHR 0x5C, CHR ''t'']
     else if c = CHR 0x0C then [CHR 0x5C, CHR ''f'']
     else if c = CHR 0x08 then [CHR 0x5C, CHR ''b'']
     else if 32 \<le> n \<and> n \<le> 126 then [c]
     else [CHR 0x5C, CHR ''u'', CHR ''0'', CHR ''0'', hex_char (n div 16), hex_char (n mod 16)])"

definition dumps_string :: "string \<Rightarrow> string" where
  "dumps_string s = CHR 0x22 # concat (map esc_char s) @ [CHR 0x22]"

fun dumps :: "(rat \<Rightarrow> string) \<Rightarrow> json \<Rightarrow> string"
  and dumps_items :: "(rat \<Rightarrow> string) \<Rightarrow> json list \<Rightarrow> string"
  and dumps_members :: "(rat \<Rightarrow> string) \<Rightarrow> (string \<times> json) list \<Rightarrow> string" where
  "dumps fr JNull = ''null''"
| "dumps fr (JBool b) = (if b then ''true'' else ''false'')"
| "dumps fr (JInt i) = str_int i"
| "dumps fr (JFloat (Fin r)) = fr r"
| "dumps fr (JFloat PosInf) = ''Infinity''"
| "dumps fr (JFloat NegInf) = ''-Infinity''"
| "dumps fr (JFloat NaN) = ''NaN''"
| "dumps fr (JStr s) = dumps_string s"
| "dumps fr (JList xs) = ''['' @ dumps_items fr xs @ '']''"
| "dumps fr (JObj kvs) = ''{'' @ dumps_members fr kvs @ ''}''"
| "dumps_items fr [] = []"
| "dumps_items fr (x # xs) = dumps fr x @ (if xs = [] then [] else '', '' @ dumps_items fr xs)"
| "dumps_members fr [] = []"
| "dumps_members fr ((k, v) # ms) =
     dumps_string k @ '': '' @ dumps fr v @ (if ms = [] then [] else '', '' @ dumps_members fr ms)"

section \<open>Reading\<close>

definition is_ws :: "char \<Rightarrow> bool" where
  "is_ws c \<longleftrightarrow> c = CHR '' '' \<or> c = CHR 0x09 \<or> c = CHR 0x0A \<or> c = CHR 0x0D"

definition skip_ws :: "string \<Rightarrow> string" where
  "skip_ws s = dropWhile is_ws s"

definition hex_val :: "char \<Rightarrow> nat option" where
  "hex_val c = (let n = of_char c :: nat in
     if 48 \<le> n \<and> n \<le> 57 then Some (n - 48)
     else if 97 \<le> n \<and> n \<le> 102 then Some (n - 87)
     else if 65 \<le> n \<and> n \<le> 70 then Some (n - 55)
     else None)"

definition simple_escape :: "char \<Rightarrow> char option" where
  "simple_escape c =
     (if c = CHR 0x22 then Some (CHR 0x22)
      else if c = CHR 0x5C then Some (CHR 0x5C)
      else if c = CHR ''/'' then Some (CHR ''/'')
      else if c = CHR ''b'' then Some (CHR 0x08)
      else if c = CHR ''f'' then Some (CHR 0x0C)
      else if c = CHR ''n'' then Some (CHR 0x0A)
      else if c = CHR ''r'' then Some (CHR 0x0D)
      else if c = CHR ''t'' then Some (CHR 0x09)
      else None)"

text \<open>The four digits after \<^verbatim>\<open>\u\<close>.\<close>

definition hex4 :: "char \<Rightarrow> char \<Rightarrow> char \<Rightarrow> char \<Rightarrow> nat option" where
  "hex4 a b c d =
     (case (hex_val a, hex_val b, hex_val c, hex_val d) of
        (Some i, Some j, Some k, Some l) \<Rightarrow> Some (((i * 16 + j) * 16 + k) * 16 + l)
      | _ \<Rightarrow> None)"

definition push :: "char \<Rightarrow> (string \<times> string) option \<Rightarrow> (string \<times> string) option" where
  "push c r = map_option (\<lambda>(s, rest). (c # s, rest)) r"

text \<open>The text after an opening quote, up to the closing one.\<close>

fun scan_str :: "string \<Rightarrow> (string \<times> string) option" where
  "scan_str [] = None"
| "scan_str (c # cs) =
     (if c = CHR 0x22 then Some ([], cs)
      else if c = CHR 0x5C then
        (case cs of
           [] \<Rightarrow> None
         | e # cs' \<Rightarrow>
             if e = CHR ''u'' then
               (case cs' of
                  h1 # h2 # h3 # h4 # cs'' \<Rightarrow>
                    (case hex4 h1 h2 h3 h4 of
                       Some n \<Rightarrow> if n < 256 then push (char_of n) (scan_str cs'') else None
                     | None \<Rightarrow> None)
                | _ \<Rightarrow> None)
             else (case simple_escape e of Some d \<Rightarrow> push d (scan_str cs') | None \<Rightarrow> None))
      else if (of_char c :: nat) < 32 then None
      else push c (scan_str cs))"

definition int_part :: "string \<Rightarrow> (string \<times> string) option" where
  "int_part s =
     (case s of
        [] \<Rightarrow> None
      | c # cs \<Rightarrow>
          if c = CHR ''0'' then Some ([c], cs)
          else if is_digit c then Some (c # takeWhile is_digit cs, dropWhile is_digit cs)
          else None)"

definition frac_part :: "string \<Rightarrow> string option \<times> string" where
  "frac_part s =
     (case s of
        c # d # cs \<Rightarrow>
          if c = CHR ''.'' \<and> is_digit d
          then (Some (d # takeWhile is_digit cs), dropWhile is_digit cs) else (None, s)
      | _ \<Rightarrow> (None, s))"

definition exp_digits :: "int \<Rightarrow> string \<Rightarrow> string \<Rightarrow> int option \<times> string" where
  "exp_digits sg s rest =
     (case rest of
        d # cs \<Rightarrow>
          if is_digit d
          then (Some (sg * int (digits_val 0 (d # takeWhile is_digit cs))), dropWhile is_digit cs)
          else (None, s)
      | [] \<Rightarrow> (None, s))"

definition exp_part :: "string \<Rightarrow> int option \<times> string" where
  "exp_part s =
     (case s of
        e # cs \<Rightarrow>
          if e = CHR ''e'' \<or> e = CHR ''E'' then
            (case cs of
               c # ds \<Rightarrow>
                 if c = CHR ''+'' then exp_digits 1 s ds
                 else if c = CHR ''-'' then exp_digits (- 1) s ds
                 else exp_digits 1 s cs
             | [] \<Rightarrow> (None, s))
          else (None, s)
      | [] \<Rightarrow> (None, s))"

definition pow10 :: "int \<Rightarrow> rat" where
  "pow10 e = (if 0 \<le> e then 10 ^ nat e else 1 / 10 ^ nat (- e))"

definition number_of :: "bool \<Rightarrow> string \<Rightarrow> string option \<Rightarrow> int option \<Rightarrow> json" where
  "number_of neg ds fr ex =
     (case (fr, ex) of
        (None, None) \<Rightarrow> JInt ((if neg then - 1 else 1) * int (digits_val 0 ds))
      | _ \<Rightarrow>
          let fs = (case fr of None \<Rightarrow> [] | Some f \<Rightarrow> f);
              m = rat_of_nat (digits_val 0 (ds @ fs)) / 10 ^ length fs
          in JFloat (Fin ((if neg then - 1 else 1) * m * pow10 (case ex of None \<Rightarrow> 0 | Some e \<Rightarrow> e))))"

definition parse_unsigned :: "bool \<Rightarrow> string \<Rightarrow> (json \<times> string) option" where
  "parse_unsigned neg s =
     (case int_part s of
        None \<Rightarrow> None
      | Some (ds, s1) \<Rightarrow>
          (case frac_part s1 of (fr, s2) \<Rightarrow>
             (case exp_part s2 of (ex, s3) \<Rightarrow> Some (number_of neg ds fr ex, s3))))"

definition parse_number :: "string \<Rightarrow> (json \<times> string) option" where
  "parse_number s =
     (case s of
        [] \<Rightarrow> None
      | c # cs \<Rightarrow> if c = CHR ''-'' then parse_unsigned True cs else parse_unsigned False s)"

text \<open>The literal names, then a number.\<close>

definition literals :: "(string \<times> json) list" where
  "literals = [(''null'', JNull), (''true'', JBool True), (''false'', JBool False),
     (''NaN'', JFloat NaN), (''Infinity'', JFloat PosInf), (''-Infinity'', JFloat NegInf)]"

definition parse_atom :: "string \<Rightarrow> (json \<times> string) option" where
  "parse_atom s =
     (case filter (\<lambda>(t, _). prefix t s) literals of
        (t, j) # _ \<Rightarrow> Some (j, drop (length t) s)
      | [] \<Rightarrow> parse_number s)"

text \<open>A quoted key, the colon, and the white space up to the value.\<close>

definition parse_key :: "string \<Rightarrow> (string \<times> string) option" where
  "parse_key s =
     (case s of
        [] \<Rightarrow> None
      | q # qs \<Rightarrow>
          if q \<noteq> CHR 0x22 then None
          else (case scan_str qs of
             None \<Rightarrow> None
           | Some (k, r) \<Rightarrow>
               (case skip_ws r of
                  [] \<Rightarrow> None
                | c # cs \<Rightarrow> if c = CHR '':'' then Some (k, skip_ws cs) else None)))"

fun parse_value :: "nat \<Rightarrow> string \<Rightarrow> (json \<times> string) option"
  and parse_items :: "nat \<Rightarrow> string \<Rightarrow> (json list \<times> string) option"
  and parse_members :: "nat \<Rightarrow> (string \<times> json) list \<Rightarrow> string \<Rightarrow> ((string \<times> json) list \<times> string) option"
where
  "parse_value 0 s = None"
| "parse_value (Suc n) s =
     (case s of
        [] \<Rightarrow> None
      | c # cs \<Rightarrow>
          if c = CHR 0x22 then map_option (\<lambda>(t, r). (JStr t, r)) (scan_str cs)
          else if c = CHR ''{'' then
            (case skip_ws cs of
               [] \<Rightarrow> None
             | d # ds \<Rightarrow>
                 if d = CHR ''}'' then Some (JObj [], ds)
                 else map_option (\<lambda>(kvs, r). (JObj kvs, r)) (parse_members n [] (d # ds)))
          else if c = CHR ''['' then
            (case skip_ws cs of
               [] \<Rightarrow> None
             | d # ds \<Rightarrow>
                 if d = CHR '']'' then Some (JList [], ds)
                 else map_option (\<lambda>(xs, r). (JList xs, r)) (parse_items n (d # ds)))
          else parse_atom s)"
| "parse_items 0 s = None"
| "parse_items (Suc n) s =
     (case parse_value n s of
        None \<Rightarrow> None
      | Some (x, r) \<Rightarrow>
          (case skip_ws r of
             [] \<Rightarrow> None
           | c # cs \<Rightarrow>
               if c = CHR '']'' then Some ([x], cs)
               else if c = CHR '','' then
                 map_option (\<lambda>(xs, r'). (x # xs, r')) (parse_items n (skip_ws cs))
               else None))"
| "parse_members 0 acc s = None"
| "parse_members (Suc n) acc s =
     (case parse_key s of
        None \<Rightarrow> None
      | Some (k, r) \<Rightarrow>
          (case parse_value n r of
             None \<Rightarrow> None
           | Some (v, r') \<Rightarrow>
               (case skip_ws r' of
                  [] \<Rightarrow> None
                | e # es \<Rightarrow>
                    if e = CHR ''}'' then Some (AList.update k v acc, es)
                    else if e = CHR '','' then
                      parse_members n (AList.update k v acc) (skip_ws es)
                    else None)))"

declare parse_value.simps [simp del] parse_items.simps [simp del] parse_members.simps [simp del]

text \<open>\<^const>\<open>None\<close> is a \<^verbatim>\<open>JSONDecodeError\<close>.\<close>

definition json_loads :: "string \<Rightarrow> json option" where
  "json_loads s =
     (case parse_value (Suc (2 * length s)) (skip_ws s) of
        None \<Rightarrow> None
      | Some (j, r) \<Rightarrow> if skip_ws r = [] then Some j else None)"

section \<open>The reader undoes the printer\<close>

subsection \<open>Strings\<close>

lemma hex_val_hex_char [simp]: "d < 16 \<Longrightarrow> hex_val (hex_char d) = Some d"
  by (auto simp: hex_val_def hex_char_def of_char_of Let_def)

lemma scan_esc_char: "scan_str (esc_char c @ rest) = push c (scan_str rest)"
proof -
  let ?n = "of_char c :: nat"
  have *: "?n div 16 < 16" "?n mod 16 < 16" "16 * (?n div 16) + ?n mod 16 = ?n"
    using nat_of_char_less_256[of c] by (auto simp: div_less_iff_less_mult)
  then show ?thesis
    by (auto simp: esc_char_def Let_def simple_escape_def hex4_def hex_val_def[of "CHR ''0''"]
        mult.commute simp del: of_char_eq_iff split: if_splits)
qed

lemma scan_dumps: "scan_str (concat (map esc_char s) @ CHR 0x22 # rest) = Some (s, rest)"
  by (induction s) (auto simp: scan_esc_char push_def simp del: scan_str.simps(2), simp)

subsection \<open>Numbers\<close>

text \<open>What may follow a value in printed text.\<close>

definition delim :: "string \<Rightarrow> bool" where
  "delim s \<longleftrightarrow> s = [] \<or> hd s \<in> {CHR '','', CHR '']'', CHR ''}''}"

lemma delim_cases:
  assumes "delim s"
  obtains "s = []" | t where "s = CHR '','' # t" | t where "s = CHR '']'' # t" | t where "s = CHR ''}'' # t"
  using assms by (cases s) (auto simp: delim_def)

lemma delim_hd:
  assumes "delim (c # t)"
  shows "\<not> is_digit c" "c \<noteq> CHR ''.''" "c \<noteq> CHR ''e''" "c \<noteq> CHR ''E''"
  using assms by (auto simp: delim_def is_digit_def)

lemma takeWhile_delim: "delim rest \<Longrightarrow> takeWhile is_digit (s @ rest) = takeWhile is_digit s"
  by (induction s) (cases rest; simp add: delim_hd)+

lemma dropWhile_delim: "delim rest \<Longrightarrow> dropWhile is_digit (s @ rest) = dropWhile is_digit s @ rest"
  by (induction s) (cases rest; simp add: delim_hd)+

lemma int_part_delim:
  "delim rest \<Longrightarrow> int_part s = Some (ds, r) \<Longrightarrow> int_part (s @ rest) = Some (ds, r @ rest)"
  by (cases s) (auto simp: int_part_def takeWhile_delim dropWhile_delim split: if_splits)

lemma frac_part_delim:
  assumes "delim rest" "frac_part s = (f, r)"
  shows "frac_part (s @ rest) = (f, r @ rest)"
proof (cases s)
  case Nil
  with assms show ?thesis by (cases rest) (auto simp: frac_part_def delim_hd split: list.splits)
next
  case (Cons c cs)
  with assms show ?thesis
    by (cases cs; cases rest)
      (auto simp: frac_part_def delim_hd takeWhile_delim dropWhile_delim split: if_splits list.splits)
qed

lemma exp_digits_delim:
  assumes "delim rest" "exp_digits sg s t = (x, r)"
  shows "exp_digits sg (s @ rest) (t @ rest) = (x, r @ rest)"
  using assms
  by (cases t; cases rest)
    (auto simp: exp_digits_def delim_hd takeWhile_delim dropWhile_delim split: if_splits)

lemma exp_digits_sign:
  "c = CHR ''+'' \<or> c = CHR ''-'' \<or> \<not> is_digit c \<Longrightarrow> exp_digits sg s (c # t) = (None, s)"
  by (auto simp: exp_digits_def is_digit_def)

lemma exp_part_delim:
  assumes d: "delim rest" and e: "exp_part s = (x, r)"
  shows "exp_part (s @ rest) = (x, r @ rest)"
proof (cases s)
  case Nil
  with assms show ?thesis by (cases rest) (auto simp: exp_part_def delim_hd)
next
  case (Cons c cs)
  show ?thesis
  proof (cases cs)
    case Nil
    then show ?thesis using d e Cons
      by (cases rest)
        (auto simp: exp_part_def exp_digits_sign delim_hd delim_def split: list.splits if_splits)
  next
    case (Cons e es)
    note s = \<open>s = c # cs\<close> Cons
    have "exp_digits sg (s @ rest) ((e # es) @ rest) = (x, r @ rest)" if "exp_digits sg s (e # es) = (x, r)" for sg
      using exp_digits_delim[OF d that] by simp
    moreover have "exp_digits sg (s @ rest) (es @ rest) = (x, r @ rest)" if "exp_digits sg s es = (x, r)" for sg
      using exp_digits_delim[OF d that] by simp
    ultimately show ?thesis using e s by (auto simp: exp_part_def split: if_splits)
  qed
qed

lemma parse_unsigned_delim:
  assumes "delim rest" "parse_unsigned neg s = Some (j, r)"
  shows "parse_unsigned neg (s @ rest) = Some (j, r @ rest)"
proof -
  from assms(2) obtain ds s1 f s2 x where
    *: "int_part s = Some (ds, s1)" "frac_part s1 = (f, s2)" "exp_part s2 = (x, r)"
       "j = number_of neg ds f x"
    by (auto simp: parse_unsigned_def split: option.splits prod.splits)
  show ?thesis
    using int_part_delim[OF assms(1) *(1)] frac_part_delim[OF assms(1) *(2)]
      exp_part_delim[OF assms(1) *(3)] *(4)
    by (simp add: parse_unsigned_def)
qed

lemma parse_number_delim:
  "delim rest \<Longrightarrow> parse_number s = Some (j, r) \<Longrightarrow> parse_number (s @ rest) = Some (j, r @ rest)"
  by (cases s) (auto simp: parse_number_def dest: parse_unsigned_delim split: if_splits)

lemma parse_number_start:
  assumes "parse_number s = Some (j, r)"
  shows "\<exists>c cs. s = c # cs \<and> (is_digit c \<or> (c = CHR ''-'' \<and> (\<exists>d ds. cs = d # ds \<and> is_digit d)))"
  using assms
  by (auto simp: parse_number_def parse_unsigned_def int_part_def is_digit_def
      split: list.splits if_splits option.splits)

lemma str_nat_leading:
  "str_nat n = c # cs \<Longrightarrow> c = CHR ''0'' \<Longrightarrow> cs = []"
proof (induction n arbitrary: c cs rule: str_nat.induct)
  case (1 n)
  show ?case
  proof (cases "n < 10")
    case True
    with "1.prems" show ?thesis by (simp add: str_nat.simps[of n])
  next
    case False
    obtain d ds where r: "str_nat (n div 10) = d # ds" by (cases "str_nat (n div 10)") auto
    with False "1.prems" have "d = CHR ''0''" by (simp add: str_nat.simps[of n])
    with "1.IH"[OF False r] have "str_nat (n div 10) = [CHR ''0'']" using r by simp
    then have "digits_val 0 [CHR ''0''] = n div 10" using digits_val_str_nat by metis
    then show ?thesis using False by (simp add: digit_val_def)
  qed
qed

lemma int_part_str_nat: "int_part (str_nat n) = Some (str_nat n, [])"
proof -
  obtain c cs where s: "str_nat n = c # cs" by (cases "str_nat n") auto
  then have "is_digit c" "\<forall>d\<in>set cs. is_digit d" using str_nat_digits[of n] by auto
  then show ?thesis using s str_nat_leading[OF s]
    by (auto simp: int_part_def takeWhile_eq_all_conv[THEN iffD2] dropWhile_eq_Nil_conv[THEN iffD2])
qed

lemma parse_unsigned_str_nat:
  "parse_unsigned neg (str_nat n) = Some (JInt ((if neg then - 1 else 1) * int n), [])"
  by (simp add: parse_unsigned_def int_part_str_nat frac_part_def exp_part_def number_of_def)

lemma parse_number_str_int: "parse_number (str_int i) = Some (JInt i, [])"
proof -
  obtain c cs where s: "str_nat (nat i) = c # cs" by (cases "str_nat (nat i)") auto
  then have "c \<noteq> CHR ''-''" using str_nat_digits[of "nat i"] by (auto simp: is_digit_def)
  then have "parse_number (str_nat (nat i)) = parse_unsigned False (str_nat (nat i))"
    using s by (simp add: parse_number_def)
  moreover have "parse_number (CHR ''-'' # str_nat (nat (- i))) = parse_unsigned True (str_nat (nat (- i)))"
    by (simp add: parse_number_def)
  ultimately show ?thesis by (auto simp: str_int_def parse_unsigned_str_nat)
qed

subsection \<open>Atoms\<close>

lemma no_literal_number:
  assumes "is_digit c \<or> (c = CHR ''-'' \<and> (\<exists>d ds. cs = d # ds \<and> is_digit d))"
  shows "filter (\<lambda>(t, _). prefix t (c # cs)) literals = []"
proof -
  have d: "x \<noteq> CHR ''n''" "x \<noteq> CHR ''t''" "x \<noteq> CHR ''f''" "x \<noteq> CHR ''N''" "x \<noteq> CHR ''I''"
    "x \<noteq> CHR ''-''" if "is_digit x" for x
    using that by (auto simp: is_digit_def)
  from assms consider "is_digit c" | e ds where "c = CHR ''-''" "cs = e # ds" "is_digit e" by blast
  then show ?thesis
  proof cases
    case 1
    show ?thesis by (simp add: literals_def d[OF 1, symmetric])
  next
    case 2
    show ?thesis by (simp add: literals_def 2(1,2) d[OF 2(3), symmetric])
  qed
qed

lemma parse_atom_number:
  assumes "parse_number s = Some (j, r)"
  shows "parse_atom s = Some (j, r)"
proof -
  obtain c cs where s: "s = c # cs"
    and d: "is_digit c \<or> (c = CHR ''-'' \<and> (\<exists>d ds. cs = d # ds \<and> is_digit d))"
    using parse_number_start[OF assms] by auto
  show ?thesis using assms unfolding parse_atom_def s no_literal_number[OF d] by simp
qed

lemma parse_atom_literal:
  "parse_atom (''null'' @ rest) = Some (JNull, rest)"
  "parse_atom (''true'' @ rest) = Some (JBool True, rest)"
  "parse_atom (''false'' @ rest) = Some (JBool False, rest)"
  "parse_atom (''NaN'' @ rest) = Some (JFloat NaN, rest)"
  "parse_atom (''Infinity'' @ rest) = Some (JFloat PosInf, rest)"
  "parse_atom (''-Infinity'' @ rest) = Some (JFloat NegInf, rest)"
  by (simp_all add: parse_atom_def literals_def)

text \<open>The text \<^term>\<open>fr r\<close> that the printer writes for the float \<^term>\<open>r\<close> denotes it, which
  \<^verbatim>\<open>repr\<close> of a float promises.\<close>

definition float_text_ok :: "(rat \<Rightarrow> string) \<Rightarrow> rat \<Rightarrow> bool" where
  "float_text_ok fr r \<longleftrightarrow> parse_number (fr r) = Some (JFloat (Fin r), [])"

text \<open>A value that a Python program can hold: the keys of every object are distinct.  The floats
  in it are those whose text is trusted.\<close>

fun printable :: "(rat \<Rightarrow> string) \<Rightarrow> json \<Rightarrow> bool" where
  "printable fr (JFloat (Fin r)) = float_text_ok fr r"
| "printable fr (JList xs) = (\<forall>x\<in>set xs. printable fr x)"
| "printable fr (JObj kvs) = (distinct (map fst kvs) \<and> (\<forall>kv\<in>set kvs. printable fr (snd kv)))"
| "printable fr _ = True"

subsection \<open>Values\<close>

lemma update_fresh: "k \<notin> fst ` set d \<Longrightarrow> AList.update k v d = d @ [(k, v)]"
  by (induction d) auto

lemma skip_ws_id [simp]: "\<not> is_ws c \<Longrightarrow> skip_ws (c # cs) = c # cs"
  by (simp add: skip_ws_def)

lemma skip_ws_space [simp]: "skip_ws (CHR '' '' # cs) = skip_ws cs"
  by (simp add: skip_ws_def is_ws_def)

lemma is_ws_simps [simp]:
  "\<not> is_ws (CHR '','')" "\<not> is_ws (CHR '']'')" "\<not> is_ws (CHR ''}'')" "\<not> is_ws (CHR '':'')"
  "\<not> is_ws (CHR 0x22)" "\<not> is_ws (CHR ''['')" "\<not> is_ws (CHR ''{'')"
  by (simp_all add: is_ws_def)

text \<open>How a printed value may begin.\<close>

definition starts_value :: "char \<Rightarrow> bool" where
  "starts_value c \<longleftrightarrow> \<not> is_ws c \<and> c \<noteq> CHR '']'' \<and> c \<noteq> CHR ''}''"

lemma starts_digit: "is_digit c \<Longrightarrow> starts_value c"
  by (auto simp: starts_value_def is_ws_def is_digit_def)

lemma atom_start:
  assumes "parse_number s = Some (j, [])"
  shows "\<exists>c cs. s = c # cs \<and> starts_value c \<and> c \<notin> {CHR 0x22, CHR ''{'', CHR ''[''}"
proof -
  obtain c cs where s: "s = c # cs" and "is_digit c \<or> c = CHR ''-''"
    using parse_number_start[OF assms] by auto
  then have "starts_value c \<and> c \<notin> {CHR 0x22, CHR ''{'', CHR ''[''}"
    by (auto simp: starts_value_def is_ws_def is_digit_def)
  with s show ?thesis by auto
qed

lemma dumps_start:
  assumes "printable fr j"
  shows "\<exists>c cs. dumps fr j = c # cs \<and> starts_value c"
proof (cases j)
  case (JInt i)
  then show ?thesis using atom_start[OF parse_number_str_int[of i]] by auto
next
  case (JFloat x)
  then show ?thesis using assms atom_start
    by (cases x) (fastforce simp: float_text_ok_def starts_value_def is_ws_def)+
qed (auto simp: starts_value_def is_ws_def dumps_string_def)

lemma parse_number_value:
  assumes "parse_number s = Some (j, [])" "delim rest"
  shows "parse_value (Suc n) (s @ rest) = Some (j, rest)"
proof -
  obtain c cs where s: "s = c # cs" and c: "c \<notin> {CHR 0x22, CHR ''{'', CHR ''[''}"
    using atom_start[OF assms(1)] by auto
  have "parse_atom (s @ rest) = Some (j, rest)"
    using parse_atom_number[OF parse_number_delim[OF assms(2,1)]] by simp
  then show ?thesis using s c by (auto simp: parse_value.simps)
qed

lemma parse_literal_value:
  "parse_value (Suc n) (''null'' @ rest) = Some (JNull, rest)"
  "parse_value (Suc n) (''true'' @ rest) = Some (JBool True, rest)"
  "parse_value (Suc n) (''false'' @ rest) = Some (JBool False, rest)"
  "parse_value (Suc n) (''NaN'' @ rest) = Some (JFloat NaN, rest)"
  "parse_value (Suc n) (''Infinity'' @ rest) = Some (JFloat PosInf, rest)"
  "parse_value (Suc n) (''-Infinity'' @ rest) = Some (JFloat NegInf, rest)"
  using parse_atom_literal[of rest] by (simp_all add: parse_value.simps)

lemma parse_string_value: "parse_value (Suc n) (dumps_string s @ rest) = Some (JStr s, rest)"
  by (simp add: parse_value.simps dumps_string_def scan_dumps)

lemma dumps_items_start:
  "xs \<noteq> [] \<Longrightarrow> \<forall>x\<in>set xs. printable fr x \<Longrightarrow>
     \<exists>c cs. dumps_items fr xs = c # cs \<and> starts_value c"
  using dumps_start by (cases xs) fastforce+

lemma dumps_members_start:
  "ms \<noteq> [] \<Longrightarrow> \<exists>cs. dumps_members fr ms = CHR 0x22 # cs"
  by (cases ms) (auto simp: dumps_string_def)

lemma skip_ws_starts: "starts_value c \<Longrightarrow> skip_ws (c # cs) = c # cs"
  by (simp add: starts_value_def)

text \<open>One unit of fuel per printed character is enough for the whole value.\<close>

lemma parse_dumps:
  "printable fr j \<Longrightarrow> delim rest \<Longrightarrow> length (dumps fr j) \<le> n \<Longrightarrow>
     parse_value n (dumps fr j @ rest) = Some (j, rest)"
  "\<forall>x\<in>set xs. printable fr x \<Longrightarrow> xs \<noteq> [] \<Longrightarrow> Suc (length (dumps_items fr xs)) \<le> n \<Longrightarrow>
     parse_items n (dumps_items fr xs @ CHR '']'' # rest) = Some (xs, rest)"
  "\<forall>kv\<in>set ms. printable fr (snd kv) \<Longrightarrow> ms \<noteq> [] \<Longrightarrow> Suc (length (dumps_members fr ms)) \<le> n \<Longrightarrow>
     distinct (map fst (acc @ ms)) \<Longrightarrow>
     parse_members n acc (dumps_members fr ms @ CHR ''}'' # rest) = Some (acc @ ms, rest)"
proof (induction fr j and fr xs and fr ms arbitrary: n rest and n rest and n rest acc
    rule: dumps_dumps_items_dumps_members.induct)
  case (3 fr i)
  then obtain m where "n = Suc m" using dumps_start[of fr "JInt i"] by (cases n) auto
  then show ?case using 3 parse_number_value[OF parse_number_str_int] by simp
next
  case (4 fr r)
  then obtain m where "n = Suc m" using dumps_start[of fr "JFloat (Fin r)"] by (cases n) auto
  then show ?case using 4 by (simp add: float_text_ok_def parse_number_value)
next
  case (8 fr s)
  then obtain m where "n = Suc m" by (cases n) (auto simp: dumps_string_def)
  then show ?case by (simp add: parse_string_value)
next
  case (9 fr xs)
  then obtain m where n: "n = Suc m" by (cases n) auto
  show ?case
  proof (cases "xs = []")
    case True
    then show ?thesis by (simp add: n parse_value.simps)
  next
    case False
    then obtain c cs where st: "dumps_items fr xs = c # cs" "starts_value c"
      using 9 dumps_items_start[of xs fr] by auto
    have "parse_items m (dumps_items fr xs @ CHR '']'' # rest) = Some (xs, rest)"
      using 9 False n by auto
    then show ?thesis using st by (simp add: n parse_value.simps skip_ws_starts) (simp add: starts_value_def)
  qed
next
  case (10 fr kvs)
  then obtain m where n: "n = Suc m" by (cases n) auto
  show ?case
  proof (cases "kvs = []")
    case True
    then show ?thesis by (simp add: n parse_value.simps)
  next
    case False
    then obtain cs where st: "dumps_members fr kvs = CHR 0x22 # cs"
      using dumps_members_start[of kvs fr] by auto
    have "parse_members m [] (dumps_members fr kvs @ CHR ''}'' # rest) = Some ([] @ kvs, rest)"
      using 10 False n by (intro "10.IH") auto
    then show ?thesis using st by (simp add: n parse_value.simps)
  qed
next
  case (12 fr x xs)
  then obtain m where n: "n = Suc m" by (cases n) auto
  have d: "delim (CHR '']'' # rest)" "\<And>t. delim (CHR '','' # t)" by (simp_all add: delim_def)
  show ?case
  proof (cases "xs = []")
    case True
    then show ?thesis using 12 n "12.IH"(1)[OF _ d(1), of m] by (simp add: parse_items.simps)
  next
    case False
    then obtain c cs where st: "dumps_items fr xs = c # cs" "starts_value c"
      using 12 dumps_items_start[of xs fr] by auto
    have "parse_items m (dumps_items fr xs @ CHR '']'' # rest) = Some (xs, rest)"
      using 12 False n by auto
    then show ?thesis
      using 12 n False st "12.IH"(1)[OF _ d(2), of m]
      by (simp add: parse_items.simps skip_ws_starts)
  qed
next
  case (14 fr k v ms)
  then obtain m where n: "n = Suc m" by (cases n) auto
  have d: "delim (CHR ''}'' # rest)" "\<And>t. delim (CHR '','' # t)" by (simp_all add: delim_def)
  obtain c cs where vst: "dumps fr v = c # cs" "starts_value c" using 14 dumps_start[of fr v] by auto
  have upd: "AList.update k v acc = acc @ [(k, v)]" using 14 by (intro update_fresh) auto
  show ?case
  proof (cases "ms = []")
    case True
    then show ?thesis using 14 n vst upd "14.IH"(1)[OF _ d(1), of m]
      by (simp add: parse_members.simps parse_key_def dumps_string_def scan_dumps skip_ws_starts)
  next
    case False
    then obtain ds where st: "dumps_members fr ms = CHR 0x22 # ds"
      using dumps_members_start[of ms fr] by auto
    have "parse_members m (acc @ [(k, v)]) (dumps_members fr ms @ CHR ''}'' # rest)
        = Some ((acc @ [(k, v)]) @ ms, rest)"
      using 14 False n by (intro "14.IH"(2)) auto
    then show ?thesis
      using 14 n False st vst upd "14.IH"(1)[OF _ d(2), of m]
      by (simp add: parse_members.simps parse_key_def dumps_string_def scan_dumps skip_ws_starts)
  qed
next
  case (1 fr)
  then show ?case by (cases n) (simp_all add: parse_literal_value[simplified])
next
  case (2 fr b)
  then show ?case by (cases n; cases b) (simp_all add: parse_literal_value[simplified])
next
  case (5 fr)
  then show ?case by (cases n) (simp_all add: parse_literal_value[simplified])
next
  case (6 fr)
  then show ?case by (cases n) (simp_all add: parse_literal_value[simplified])
next
  case (7 fr)
  then show ?case by (cases n) (simp_all add: parse_literal_value[simplified])
qed simp_all

lemma skip_ws_length: "length (skip_ws s) \<le> length s"
  unfolding skip_ws_def by (rule length_dropWhile_le)

text \<open>The text of a document is itself the value: reading back what was printed gives the same
  value, whatever white space follows.\<close>

lemma json_loads_dumps: "printable fr j \<Longrightarrow> json_loads (dumps fr j) = Some j"
proof -
  assume pr: "printable fr j"
  obtain c cs where st: "dumps fr j = c # cs" "starts_value c" using dumps_start[OF pr] by auto
  have "parse_value (Suc (2 * length (dumps fr j))) (dumps fr j @ []) = Some (j, [])"
    using pr by (intro parse_dumps(1)) (auto simp: delim_def)
  then show ?thesis using st by (simp add: json_loads_def skip_ws_starts) (simp add: skip_ws_def)
qed

section \<open>The fuel is enough\<close>

lemma push_Some: "push c r = Some (t, rest) \<longleftrightarrow> (\<exists>t'. r = Some (t', rest) \<and> t = c # t')"
  by (cases r) (auto simp: push_def)

lemma scan_str_length: "scan_str s = Some (t, r) \<Longrightarrow> length r < length s"
proof (induction s arbitrary: t rule: scan_str.induct)
  case (2 c cs)
  then show ?case
    by (fastforce simp: push_Some split: if_splits list.splits option.splits)
qed simp

lemma dropWhile_Suc: "length (dropWhile P s) \<le> Suc (length s)"
  using length_dropWhile_le[of P s] by simp

lemma int_part_length: "int_part s = Some (ds, r) \<Longrightarrow> length r < length s"
  by (auto simp: int_part_def less_Suc_eq_le length_dropWhile_le split: list.splits if_splits)

lemma frac_part_length: "frac_part s = (f, r) \<Longrightarrow> length r \<le> length s"
  by (auto simp: frac_part_def dropWhile_Suc le_SucI length_dropWhile_le split: list.splits if_splits)

lemma exp_digits_length: "exp_digits sg s t = (x, r) \<Longrightarrow> length t \<le> length s \<Longrightarrow> length r \<le> length s"
  by (cases t) (auto simp: exp_digits_def split: if_splits intro: order_trans[OF length_dropWhile_le])

lemma exp_part_length: "exp_part s = (x, r) \<Longrightarrow> length r \<le> length s"
  unfolding exp_part_def
  by (auto split: list.splits if_splits dest!: exp_digits_length)

lemma parse_unsigned_length: "parse_unsigned neg s = Some (j, r) \<Longrightarrow> length r < length s"
  by (auto simp: parse_unsigned_def split: option.splits prod.splits
      dest!: int_part_length frac_part_length exp_part_length)

lemma parse_number_length: "parse_number s = Some (j, r) \<Longrightarrow> length r < length s"
  by (auto simp: parse_number_def split: list.splits if_splits dest!: parse_unsigned_length)

lemma parse_atom_length:
  assumes "parse_atom s = Some (j, r)"
  shows "length r < length s"
proof (cases "filter (\<lambda>(t, _). prefix t s) literals")
  case Nil
  with assms show ?thesis by (simp add: parse_atom_def parse_number_length)
next
  case (Cons l ls)
  then have "l \<in> set (filter (\<lambda>(t, _). prefix t s) literals)" by simp
  then have "l \<in> set literals" "prefix (fst l) s" by auto
  moreover have "r = drop (length (fst l)) s" using assms Cons
    by (auto simp: parse_atom_def split: prod.splits)
  moreover have "fst l \<noteq> []" using calculation(1) by (auto simp: literals_def)
  ultimately show ?thesis by (auto simp: prefix_def)
qed

lemma parse_key_length: "parse_key s = Some (k, r) \<Longrightarrow> length r < length s"
proof -
  assume a: "parse_key s = Some (k, r)"
  then obtain qs r0 cs where "s = CHR 0x22 # qs" "scan_str qs = Some (k, r0)"
      "skip_ws r0 = CHR '':'' # cs" "r = skip_ws cs"
    by (auto simp: parse_key_def split: list.splits if_splits option.splits)
  then show ?thesis
    using scan_str_length[of qs k r0] skip_ws_length[of r0] skip_ws_length[of cs] by simp
qed

lemma parse_length:
  "parse_value n s = Some (j, r) \<Longrightarrow> length r < length s"
  "parse_items n s = Some (xs, r) \<Longrightarrow> length r < length s"
  "parse_members n acc s = Some (kvs, r) \<Longrightarrow> length r < length s"
proof (induction n s and n s and n acc s arbitrary: j r and xs r and kvs r
    rule: parse_value_parse_items_parse_members.induct)
  case (2 n s)
  show ?case
  proof (cases s)
    case (Cons c cs)
    then show ?thesis using 2 skip_ws_length[of cs]
      by (fastforce simp: parse_value.simps dest: scan_str_length parse_atom_length
          split: if_splits list.splits)
  qed (use 2 in \<open>simp add: parse_value.simps\<close>)
next
  case (4 n s)
  then obtain x r1 c cs where v: "parse_value n s = Some (x, r1)" and sk: "skip_ws r1 = c # cs"
    by (auto simp: parse_items.simps split: option.splits list.splits)
  have l: "length r1 < length s" "Suc (length cs) \<le> length r1"
    using "4.IH"(1)[OF v] skip_ws_length[of r1] sk by auto
  show ?case
  proof (cases "c = CHR '']''")
    case True
    then show ?thesis using 4 v sk l by (simp add: parse_items.simps)
  next
    case False
    then have c: "c = CHR '',''" using 4 v sk by (simp add: parse_items.simps split: if_splits)
    then obtain ys where "parse_items n (skip_ws cs) = Some (ys, r)"
      using 4 v sk by (auto simp: parse_items.simps)
    then have "length r < length (skip_ws cs)" using "4.IH"(2)[OF v _ sk False c] by simp
    then show ?thesis using l skip_ws_length[of cs] by simp
  qed
next
  case (6 n acc s)
  then obtain k r0 v r1 c cs where *: "parse_key s = Some (k, r0)" "parse_value n r0 = Some (v, r1)"
      "skip_ws r1 = c # cs"
    by (auto simp: parse_members.simps split: option.splits list.splits)
  have l: "length r0 < length s" "length r1 < length r0" "Suc (length cs) \<le> length r1"
    using parse_key_length[OF *(1)] "6.IH"(1)[OF *(1) _ *(2)] skip_ws_length[of r1] *(3) by auto
  show ?case
  proof (cases "c = CHR ''}''")
    case True
    then have "cs = r" using "6.prems" * by (simp add: parse_members.simps)
    then show ?thesis using l by simp
  next
    case False
    then have c: "c = CHR '',''" using "6.prems" * by (simp add: parse_members.simps split: if_splits)
    then have "parse_members n (AList.update k v acc) (skip_ws cs) = Some (kvs, r)"
      using "6.prems" * False by (simp add: parse_members.simps)
    then have "length r < length (skip_ws cs)" using "6.IH"(2) * False c by simp
    then show ?thesis using l skip_ws_length[of cs] by simp
  qed
qed (simp_all add: parse_value.simps parse_items.simps parse_members.simps)

text \<open>Once the fuel covers the text twice over, more of it changes nothing: the recursion is a
  total reader of the whole text, and its \<^const>\<open>None\<close> is always a syntax error.\<close>

lemma parse_fuel_stable:
  "2 * length s < n \<Longrightarrow> 2 * length s < m \<Longrightarrow> parse_value n s = parse_value m s"
  "Suc (2 * length s) < n \<Longrightarrow> Suc (2 * length s) < m \<Longrightarrow> parse_items n s = parse_items m s"
  "Suc (2 * length s) < n \<Longrightarrow> Suc (2 * length s) < m \<Longrightarrow>
     parse_members n acc s = parse_members m acc s"
proof (induction n s and n s and n acc s arbitrary: m and m and m
    rule: parse_value_parse_items_parse_members.induct)
  case (2 n s)
  obtain m' where m: "m = Suc m'" using "2.prems"(2) by (cases m) auto
  have small: "Suc (2 * length (d # ds)) < n" "Suc (2 * length (d # ds)) < m'"
    if "s = c # cs" "skip_ws cs = d # ds" for c cs d ds
    using that "2.prems" m skip_ws_length[of cs] by auto
  have o: "parse_members n [] (d # ds) = parse_members m' [] (d # ds)"
    if "s = c # cs" "skip_ws cs = d # ds" "c = CHR ''{''" "d \<noteq> CHR ''}''" for c cs d ds
    using "2.IH"(1)[OF that(1) _ that(3,2,4) small[OF that(1,2)]] that(3) by simp
  have a: "parse_items n (d # ds) = parse_items m' (d # ds)"
    if "s = c # cs" "skip_ws cs = d # ds" "c = CHR ''[''" "d \<noteq> CHR '']''" for c cs d ds
    using "2.IH"(2)[OF that(1) _ _ that(3,2,4) small[OF that(1,2)]] that(3) by simp
  show ?case
  proof (cases s)
    case Nil
    then show ?thesis by (simp add: m parse_value.simps)
  next
    case (Cons c cs)
    show ?thesis
    proof (cases "skip_ws cs")
      case Nil
      then show ?thesis using Cons by (simp add: m parse_value.simps)
    next
      case (Cons d ds)
      show ?thesis using o[OF \<open>s = c # cs\<close> Cons] a[OF \<open>s = c # cs\<close> Cons]
        by (simp add: \<open>s = c # cs\<close> Cons m parse_value.simps)
    qed
  qed
next
  case (4 n s)
  obtain m' where m: "m = Suc m'" using "4.prems"(2) by (cases m) auto
  have v: "parse_value n s = parse_value m' s" 
    by (rule "4.IH"(1)) (use "4.prems" m in linarith)+
  show ?case
  proof (cases "parse_value n s")
    case (Some xr)
    obtain x r where xr: "xr = (x, r)" by (cases xr)
    have lr: "length r < length s" using parse_length(1) Some xr by simp
    have "parse_items n (skip_ws cs) = parse_items m' (skip_ws cs)"
      if sk: "skip_ws r = CHR '','' # cs" for cs
    proof -
      have "Suc (length (skip_ws cs)) < length s"
        using lr sk skip_ws_length[of r] skip_ws_length[of cs] by simp
      then have "Suc (2 * length (skip_ws cs)) < n" "Suc (2 * length (skip_ws cs)) < m'"
        using "4.prems" m by linarith+
      then show ?thesis using "4.IH"(2)[OF Some xr[symmetric] sk, of m'] by simp
    qed
    moreover have "parse_value m' s = Some (x, r)" using v Some xr by simp
    ultimately show ?thesis using Some xr m by (auto simp: parse_items.simps split: list.splits)
  qed (use v m in \<open>simp add: parse_items.simps\<close>)
next
  case (6 n acc s)
  obtain m' where m: "m = Suc m'" using "6.prems"(2) by (cases m) auto
  show ?case
  proof (cases "parse_key s")
    case (Some kr)
    obtain k r where kr: "kr = (k, r)" by (cases kr)
    have lr: "length r < length s" using parse_key_length Some kr by simp
    then have v: "parse_value n r = parse_value m' r"
      using "6.prems" m by (intro "6.IH"(1)[OF Some kr[symmetric]]) linarith+
    have "parse_members n (AList.update k w acc) (skip_ws cs)
        = parse_members m' (AList.update k w acc) (skip_ws cs)"
      if w: "parse_value n r = Some (w, r')" and sk: "skip_ws r' = CHR '','' # cs" for w r' cs
    proof -
      have "Suc (length (skip_ws cs)) < length s"
        using lr sk parse_length(1)[OF w] skip_ws_length[of r'] skip_ws_length[of cs] by simp
      then have "Suc (2 * length (skip_ws cs)) < n" "Suc (2 * length (skip_ws cs)) < m'"
        using "6.prems" m by linarith+
      then show ?thesis using "6.IH"(2)[OF Some kr[symmetric] w refl sk, of m'] by simp
    qed
    then show ?thesis using v Some kr m
      by (auto simp: parse_members.simps split: option.splits list.splits)
  qed (use m in \<open>simp add: parse_members.simps\<close>)
qed auto

lemma json_loads_fuel:
  assumes "2 * length s < n"
  shows "json_loads s =
    (case parse_value n (skip_ws s) of
       None \<Rightarrow> None
     | Some (j, r) \<Rightarrow> if skip_ws r = [] then Some j else None)"
proof -
  have "parse_value (Suc (2 * length s)) (skip_ws s) = parse_value n (skip_ws s)"
    using assms skip_ws_length[of s] by (intro parse_fuel_stable(1)) simp_all
  then show ?thesis by (simp add: json_loads_def)
qed

section \<open>An object has each key once\<close>

lemma parse_members_distinct:
  "parse_members n acc s = Some (ms, r) \<Longrightarrow> distinct (map fst acc) \<Longrightarrow> distinct (map fst ms)"
proof (induction n arbitrary: acc s)
  case 0
  then show ?case by (simp add: parse_members.simps)
next
  case (Suc n)
  then show ?case
    by (auto simp: parse_members.simps distinct_update split: option.splits prod.splits list.splits if_splits)
qed

lemma parse_number_no_object: "parse_number s = Some (j, r) \<Longrightarrow> j \<noteq> JObj kvs"
  by (auto simp: parse_number_def parse_unsigned_def number_of_def Let_def split: list.splits prod.splits if_splits option.splits)

lemma parse_atom_no_object: "parse_atom s = Some (JObj kvs, r) \<Longrightarrow> False"
proof (cases "filter (\<lambda>(t, _). prefix t s) literals")
  case Nil
  then show "parse_atom s = Some (JObj kvs, r) \<Longrightarrow> False"
    using parse_number_no_object by (auto simp: parse_atom_def)
next
  case (Cons tj rest)
  then have "tj \<in> set (filter (\<lambda>(t, _). prefix t s) literals)" by simp
  then have "tj \<in> set literals" by simp
  then show "parse_atom s = Some (JObj kvs, r) \<Longrightarrow> False"
    using Cons by (auto simp: parse_atom_def literals_def)
qed

lemma json_loads_distinct:
  assumes "json_loads s = Some (JObj kvs)"
  shows "distinct (map fst kvs)"
proof -
  obtain r where "parse_value (Suc (2 * length s)) (skip_ws s) = Some (JObj kvs, r)"
    using assms by (auto simp: json_loads_def split: option.splits prod.splits if_splits)
  then show ?thesis
    by (auto simp: parse_value.simps split: list.splits if_splits option.splits
        dest: parse_members_distinct parse_atom_no_object)
qed

end
