(* ===== verification/Agent_Service.thy ===== *)
theory Agent_Service
  imports Mode_Handlers Json_Text
begin

text \<open>
  The agent (\<^verbatim>\<open>app/application/agent_service.py\<close>): full and streamed chats over one conversation, with
  their error paths and server-sent events; and one turn of the console session
  (\<^verbatim>\<open>app/application/session_orchestrator.py\<close>).  The state of a service is its memory, its session and
  the world of its gateway.
\<close>

section \<open>Requests and results\<close>

record RequestMetadata =
  meta_session_id :: "string option"
  meta_client :: "string option"

record ChatCommand =
  message_text :: string
  requested_mode :: "string option"
  cmd_metadata :: "RequestMetadata option"

record ChatResult =
  result_mode :: string
  result_response :: string
  result_intent :: "IntentResult option"
  result_data :: "(string \<times> json) list option"
  result_session_id :: "string option"

definition GENERAL_RESPONSE :: string where
  "GENERAL_RESPONSE =
     ''I can help with translation, definitions, or language learning. Which would you like?''"

record 'w agent_state =
  memory :: ConversationMemory
  session :: SessionState
  world :: 'w

definition new_agent :: "'w \<Rightarrow> 'w agent_state" where
  "new_agent w = \<lparr>memory = new_memory 5, session = new_session, world = w\<rparr>"

definition on_world :: "('w, 'a) act \<Rightarrow> ('w agent_state, 'a) act" where
  "on_world = zoomA world (\<lambda>w s. s\<lparr>world := w\<rparr>)"

definition remember :: "string \<Rightarrow> string \<Rightarrow> ('w agent_state, unit) act" where
  "remember msg reply = modifyA (\<lambda>s. s\<lparr>memory := add_turn msg reply (memory s)\<rparr>)"

definition set_session :: "SessionState \<Rightarrow> ('w agent_state, unit) act" where
  "set_session st = modifyA (\<lambda>s. s\<lparr>session := st\<rparr>)"

definition cmd_session_id :: "ChatCommand \<Rightarrow> string option" where
  "cmd_session_id cmd = (case cmd_metadata cmd of None \<Rightarrow> None | Some m \<Rightarrow> meta_session_id m)"

section \<open>Full chats\<close>

definition resolve_intent ::
  "'w agent_env \<Rightarrow> ChatCommand \<Rightarrow> string \<Rightarrow> ('w agent_state, IntentResult) act" where
  "resolve_intent env cmd history =
     (case requested_mode cmd of
        Some m \<Rightarrow> liftA (IntentResult_of (env_pydantic env)
          (JObj [(''mode'', JStr m), (''confidence'', JStr ''high''),
                 (''should_switch_mode'', JBool True),
                 (''reason'', JStr ''Mode supplied by API request.'')]))
      | None \<Rightarrow>
          bindA (getA session) (\<lambda>st.
          bindA (on_world (classify env (message_text cmd) st history)) (\<lambda>intent.
          liftA (IntentResult_of (env_pydantic env) (JObj (dump_intent intent))))))"

definition to_chat_result :: "mode_response \<Rightarrow> IntentResult \<Rightarrow> string option \<Rightarrow> ChatResult" where
  "to_chat_result r intent sid =
     \<lparr>result_mode = response_mode r, result_response = response_text r, result_intent = Some intent,
      result_data = Some (response_data r), result_session_id = sid\<rparr>"

definition text_result :: "string \<Rightarrow> string \<Rightarrow> IntentResult \<Rightarrow> string option \<Rightarrow> ChatResult" where
  "text_result m text intent sid =
     \<lparr>result_mode = m, result_response = text, result_intent = Some intent,
      result_data = None, result_session_id = sid\<rparr>"

text \<open>The two \<^verbatim>\<open>except\<close> clauses: an \<^verbatim>\<open>APIError\<close> passes, anything else becomes an \<^verbatim>\<open>LLMServiceError\<close>.\<close>

definition or_service_error :: "string \<Rightarrow> ('s, 'a) act \<Rightarrow> ('s, 'a) act" where
  "or_service_error text m =
     catchA m (\<lambda>e. if isinstance e APIError then raiseA e else raiseA (mk_exn LLMServiceError text))"

definition needs_clarification :: "IntentResult \<Rightarrow> bool" where
  "needs_clarification i \<longleftrightarrow> confidence i = ''low'' \<and> clarification_question i \<noteq> []"

text \<open>The common start of both chats: the history, the intent, and the mode it switches to.\<close>

definition settle_mode ::
  "'w agent_env \<Rightarrow> ChatCommand \<Rightarrow> ('w agent_state, string \<times> IntentResult \<times> SessionState) act" where
  "settle_mode env cmd =
     bindA (getA (\<lambda>s. format_for_prompt (memory s))) (\<lambda>history.
     bindA (resolve_intent env cmd history) (\<lambda>intent.
     bindA (getA (\<lambda>s. apply_intent (session s) intent)) (\<lambda>st.
     bindA (set_session st) (\<lambda>_.
     retA (history, intent, st)))))"

definition answer_full ::
  "ChatCommand \<Rightarrow> 'w mode_handler \<Rightarrow> string \<Rightarrow> IntentResult \<Rightarrow> SessionState
     \<Rightarrow> ('w agent_state, ChatResult) act" where
  "answer_full cmd h history intent st =
     bindA (on_world (update_session_state h (message_text cmd) st history)) (\<lambda>st'.
     bindA (set_session st') (\<lambda>_.
     bindA (on_world (handle h (message_text cmd) st' history)) (\<lambda>r.
     bindA (remember (message_text cmd) (response_text r)) (\<lambda>_.
     retA (to_chat_result r intent (cmd_session_id cmd))))))"

definition chat_full_body :: "'w agent_env \<Rightarrow> ChatCommand \<Rightarrow> ('w agent_state, ChatResult) act" where
  "chat_full_body env cmd =
     bindA (settle_mode env cmd) (\<lambda>(history, intent, st).
     if needs_clarification intent then
       bindA (remember (message_text cmd) (clarification_question intent)) (\<lambda>_.
       retA (text_result (mode_text (active_mode st)) (clarification_question intent) intent
               (cmd_session_id cmd)))
     else case handler_for env (active_mode st) of
       None \<Rightarrow>
         bindA (remember (message_text cmd) GENERAL_RESPONSE) (\<lambda>_.
         retA (text_result ''general'' GENERAL_RESPONSE intent (cmd_session_id cmd)))
     | Some h \<Rightarrow> answer_full cmd h history intent st)"

definition chat_full :: "'w agent_env \<Rightarrow> ChatCommand \<Rightarrow> ('w agent_state, ChatResult) act" where
  "chat_full env cmd =
     or_service_error ''The language model failed while generating a response.'' (chat_full_body env cmd)"

section \<open>Streamed chats\<close>

text \<open>What \<^verbatim>\<open>chat_stream\<close> returns before anything is streamed: the generator to run.\<close>

datatype 'w stream_plan =
    StaticPlan string string
  | HandlerPlan "'w mode_handler" string

definition chat_stream_body :: "'w agent_env \<Rightarrow> ChatCommand \<Rightarrow> ('w agent_state, 'w stream_plan) act" where
  "chat_stream_body env cmd =
     bindA (settle_mode env cmd) (\<lambda>(history, intent, st).
     if needs_clarification intent
     then retA (StaticPlan (mode_text (active_mode st)) (clarification_question intent))
     else case handler_for env (active_mode st) of
       None \<Rightarrow> retA (StaticPlan ''general'' GENERAL_RESPONSE)
     | Some h \<Rightarrow>
         bindA (on_world (update_session_state h (message_text cmd) st history)) (\<lambda>st'.
         bindA (set_session st') (\<lambda>_.
         retA (HandlerPlan h history))))"

definition chat_stream :: "'w agent_env \<Rightarrow> ChatCommand \<Rightarrow> ('w agent_state, 'w stream_plan) act" where
  "chat_stream env cmd =
     or_service_error ''The language model failed while starting a stream.'' (chat_stream_body env cmd)"

definition sse_data :: "(rat \<Rightarrow> string) \<Rightarrow> (string \<times> json) list \<Rightarrow> string" where
  "sse_data fr payload = ''data: '' @ dumps fr (JObj payload) @ [CHR 0x0A, CHR 0x0A]"

definition token_event :: "string \<Rightarrow> string \<Rightarrow> (string \<times> json) list" where
  "token_event m t = [(''mode'', JStr m), (''token'', JStr t)]"

definition done_event :: "string \<Rightarrow> (string \<times> json) list" where
  "done_event m = [(''mode'', JStr m), (''done'', JBool True)]"

definition error_event :: "(string \<times> json) list" where
  "error_event =
     [(''error'', JStr ''llm_service_error''),
      (''message'', JStr ''The language model failed while streaming a response.''),
      (''done'', JBool True)]"

text \<open>The \<^verbatim>\<open>async for\<close> loop of \<^verbatim>\<open>_stream_handler_response\<close>: the reply collected, the job named last, the
  payloads sent, and whether a done event ended it.\<close>

record stream_acc =
  acc_reply :: string
  acc_job :: "string option"
  acc_events :: "(string \<times> json) list list"
  acc_done :: bool

definition item_event :: "stream_item \<Rightarrow> (string \<times> json) list" where
  "item_event item = (case item of TokenItem t \<Rightarrow> [(''token'', JStr t)] | DictItem d \<Rightarrow> d)"

definition take_event :: "string \<Rightarrow> (string \<times> json) list \<Rightarrow> stream_acc \<Rightarrow> stream_acc" where
  "take_event m event a =
     \<lparr>acc_reply = acc_reply a @ (case jget event ''token'' of JStr t \<Rightarrow> t | _ \<Rightarrow> []),
      acc_job = (case jget event ''job_id'' of JStr j \<Rightarrow> Some j | _ \<Rightarrow> acc_job a),
      acc_events = acc_events a @ [dict_merge [(''mode'', JStr m)] event],
      acc_done = (jget event ''done'' = JBool True)\<rparr>"

fun consume :: "string \<Rightarrow> stream_item list \<Rightarrow> stream_acc \<Rightarrow> stream_acc" where
  "consume m [] a = a"
| "consume m (item # items) a =
     (let a' = take_event m (item_event item) a in
      if acc_done a' then a' else consume m items a')"

definition new_acc :: stream_acc where
  "new_acc = \<lparr>acc_reply = [], acc_job = None, acc_events = [], acc_done = False\<rparr>"

text \<open>How a generator ends for its consumer: it is exhausted, or the cancellation passes through.\<close>

datatype gen_end = Exhausted | CancelRaised

type_synonym 'w event_stream =
  "'w agent_state \<Rightarrow> ((string \<times> json) list list \<times> gen_end) \<times> 'w agent_state"

definition stream_static_response :: "string \<Rightarrow> string \<Rightarrow> string \<Rightarrow> 'w event_stream" where
  "stream_static_response msg m response s =
     (([token_event m response, done_event m], Exhausted), snd (remember msg response s))"

definition stream_mode_response :: "string \<Rightarrow> mode_response \<Rightarrow> 'w event_stream" where
  "stream_mode_response msg r = stream_static_response msg (response_mode r) (response_text r)"

definition finish_stream :: "string \<Rightarrow> string \<Rightarrow> stream_acc \<Rightarrow> 'w event_stream" where
  "finish_stream msg m a s =
     ((acc_events a @ (if acc_done a then [] else [done_event m]), Exhausted),
      if acc_reply a \<noteq> [] then snd (remember msg (acc_reply a) s) else s)"

definition stream_handler_response ::
  "'w agent_env \<Rightarrow> ChatCommand \<Rightarrow> 'w mode_handler \<Rightarrow> string \<Rightarrow> 'w event_stream" where
  "stream_handler_response env cmd h history s =
     (let m = mode_text (active_mode (session s)) in
      case handler_stream h of
        None \<Rightarrow>
          (case on_world (handle h (message_text cmd) (session s) history) s of
             (Inl e, s') \<Rightarrow> (([error_event], Exhausted), s')
           | (Inr r, s') \<Rightarrow> stream_mode_response (message_text cmd) r s')
      | Some strm \<Rightarrow>
          (case strm (message_text cmd) (session s) history (world s) of
             ((items, ending), w) \<Rightarrow>
               (let a = consume m items new_acc; s' = s\<lparr>world := w\<rparr> in
                if acc_done a then finish_stream (message_text cmd) m a s'
                else case ending of
                  Finished \<Rightarrow> finish_stream (message_text cmd) m a s'
                | Failed e \<Rightarrow> ((acc_events a @ [error_event], Exhausted), s')
                | Cancelled \<Rightarrow>
                    ((acc_events a, CancelRaised),
                     (case (acc_job a, gw_cancel (env_gateway env)) of
                        (Some j, Some cancel) \<Rightarrow> if j = [] then s' else snd (on_world (cancel j) s')
                      | _ \<Rightarrow> s')))))"

definition run_plan :: "'w agent_env \<Rightarrow> ChatCommand \<Rightarrow> 'w stream_plan \<Rightarrow> 'w event_stream" where
  "run_plan env cmd plan =
     (case plan of
        StaticPlan m response \<Rightarrow> stream_static_response (message_text cmd) m response
      | HandlerPlan h history \<Rightarrow> stream_handler_response env cmd h history)"

text \<open>The texts the client receives.\<close>

definition sent :: "'w agent_env \<Rightarrow> (string \<times> json) list list \<Rightarrow> string list" where
  "sent env events = map (sse_data (env_float_repr env)) events"

section \<open>One turn of the console\<close>

text \<open>\<^verbatim>\<open>ModeOutputConfig[mode]\<close>; the enum has no entry for the general mode.\<close>

definition output_mode :: "mode \<Rightarrow> string res" where
  "output_mode m = (if m = General then Inl (mk_exn KeyError (mode_text m)) else Inr ''stream'')"

text \<open>\<^verbatim>\<open>assistant_reply += token\<close> over what the handler streams: a dictionary is a \<^verbatim>\<open>TypeError\<close>.\<close>

fun collect_tokens :: "stream_item list \<Rightarrow> string res" where
  "collect_tokens [] = Inr []"
| "collect_tokens (TokenItem t # items) = bind_res (collect_tokens items) (\<lambda>r. Inr (t @ r))"
| "collect_tokens (DictItem d # items) = Inl (mk_exn TypeError [])"

record turn_result =
  turn_mode :: string
  turn_response :: string
  turn_intent :: "IntentResult option"

definition handle_turn :: "'w agent_env \<Rightarrow> string \<Rightarrow> ('w agent_state, turn_result) act" where
  "handle_turn env msg =
     bindA (getA (\<lambda>s. format_for_prompt (memory s))) (\<lambda>history.
     bindA (getA session) (\<lambda>st0.
     bindA (on_world (classify env msg st0 history)) (\<lambda>intent.
     let st = apply_intent st0 intent in
     bindA (set_session st) (\<lambda>_.
     if needs_clarification intent then
       bindA (remember msg (clarification_question intent)) (\<lambda>_.
       retA \<lparr>turn_mode = mode_text (active_mode st), turn_response = clarification_question intent,
             turn_intent = Some intent\<rparr>)
     else case handler_for env (active_mode st) of
       None \<Rightarrow>
         bindA (remember msg GENERAL_RESPONSE) (\<lambda>_.
         retA \<lparr>turn_mode = ''general'', turn_response = GENERAL_RESPONSE, turn_intent = Some intent\<rparr>)
     | Some h \<Rightarrow>
         bindA (on_world (update_session_state h msg st history)) (\<lambda>st'.
         bindA (set_session st') (\<lambda>_.
         bindA (liftA (output_mode (active_mode st'))) (\<lambda>om.
         if om \<noteq> ''stream'' then
           bindA (on_world (handle h msg st' history)) (\<lambda>r.
           bindA (remember msg (response_text r)) (\<lambda>_.
           retA \<lparr>turn_mode = response_mode r, turn_response = response_text r, turn_intent = None\<rparr>))
         else case handler_stream h of
           None \<Rightarrow> raiseA (mk_exn AttributeError [])
         | Some strm \<Rightarrow>
             bindA (\<lambda>s. case strm msg st' history (world s) of ((items, ending), w) \<Rightarrow>
                 (case ending of
                    Finished \<Rightarrow> collect_tokens items
                  | Failed e \<Rightarrow> bind_res (collect_tokens items) (\<lambda>_. Inl e)
                  | Cancelled \<Rightarrow> bind_res (collect_tokens items)
                      (\<lambda>_. Inl (mk_exn (ForeignError ''CancelledError'') [])), s\<lparr>world := w\<rparr>)) (\<lambda>reply.
             bindA (remember msg reply) (\<lambda>_.
             retA \<lparr>turn_mode = mode_text (active_mode st'), turn_response = reply,
                   turn_intent = Some intent\<rparr>)))))))))"

section \<open>Full chats\<close>

lemma on_world_frame [simp, keeps_rules]: "keeps memory (on_world m)" "keeps session (on_world m)"
  unfolding on_world_def by (auto intro!: keeps_zoomA)

lemma on_world_snd [simp]:
  "memory (snd (on_world m s)) = memory s" "session (snd (on_world m s)) = session s"
  using on_world_frame[of m] by (simp_all add: keeps_def)

lemma set_session_frame [keeps_rules]: "keeps memory (set_session st)"
  unfolding set_session_def by (auto intro!: keeps_modifyA)

lemma remember_run: "remember msg reply s = (r, s') \<longleftrightarrow>
    r = Inr () \<and> s' = s\<lparr>memory := add_turn msg reply (memory s)\<rparr>"
  by (auto simp: remember_def)

lemma set_session_run: "set_session st s = (r, s') \<longleftrightarrow> r = Inr () \<and> s' = s\<lparr>session := st\<rparr>"
  by (auto simp: set_session_def)

lemma resolve_intent_frame [keeps_rules]:
  "keeps memory (resolve_intent env cmd history)" "keeps session (resolve_intent env cmd history)"
  unfolding resolve_intent_def by (auto split: option.split intro!: keeps_rules)

lemma settle_mode_frame: "keeps memory (settle_mode env cmd)"
  unfolding settle_mode_def by (intro keeps_rules)

lemma settle_mode_Inr:
  assumes "settle_mode env cmd s = (Inr (history, intent, st), s')"
  shows "memory s' = memory s" "session s' = st" "st = apply_intent (session s) intent"
    "\<exists>s1. resolve_intent env cmd history s = (Inr intent, s1)"
proof -
  obtain s1 where s1: "resolve_intent env cmd history s = (Inr intent, s1)"
      "st = apply_intent (session s1) intent" "s' = s1\<lparr>session := st\<rparr>"
    using assms by (auto simp: settle_mode_def bindA_Inr set_session_run)
  have "session s1 = session s" "memory s1 = memory s"
    using keepsD[OF resolve_intent_frame(2) s1(1)] keepsD[OF resolve_intent_frame(1) s1(1)] by simp_all
  then show "memory s' = memory s" "session s' = st" "st = apply_intent (session s) intent"
    "\<exists>s1. resolve_intent env cmd history s = (Inr intent, s1)"
    using s1 by auto
qed

lemma or_service_error_Inr: "or_service_error text m s = (Inr x, s') \<longleftrightarrow> m s = (Inr x, s')"
  by (auto simp: or_service_error_def catchA_Inr split: if_splits)

lemma or_service_error_Inl:
  "or_service_error text m s = (Inl e, s') \<Longrightarrow> isinstance e APIError \<and> (\<exists>e'. m s = (Inl e', s'))"
  by (auto simp: or_service_error_def catchA_Inl split: if_splits)

lemma answer_full_Inr:
  assumes "answer_full cmd h history intent st s = (Inr r, s')" "handler_contract h own"
  shows "memory s' = add_turn (message_text cmd) (result_response r) (memory s)"
    "result_mode r = mode_text own" "active_mode (session s') = active_mode st"
proof -
  obtain st' s1 s2 rep where run:
      "on_world (update_session_state h (message_text cmd) st history) s = (Inr st', s1)"
      "on_world (handle h (message_text cmd) st' history) (s1\<lparr>session := st'\<rparr>) = (Inr rep, s2)"
      "r = to_chat_result rep intent (cmd_session_id cmd)"
      "s' = s2\<lparr>memory := add_turn (message_text cmd) (response_text rep) (memory s2)\<rparr>"
    using assms(1) by (auto simp: answer_full_def bindA_Inr set_session_run remember_run)
  have "active_mode st' = active_mode st" "response_mode rep = mode_text own"
    using handler_contract.update_frame[OF assms(2)] handler_contract.reply_mode[OF assms(2)] run(1,2)
    by (auto simp: on_world_def zoomA_Inr)
  moreover have "memory s2 = memory s" "session s2 = st'"
    using keepsD[OF on_world_frame(1) run(1)] keepsD[OF on_world_frame(1) run(2)]
      keepsD[OF on_world_frame(2) run(2)] by simp_all
  ultimately show "memory s' = add_turn (message_text cmd) (result_response r) (memory s)"
      "result_mode r = mode_text own" "active_mode (session s') = active_mode st"
    using run(3,4) by (simp_all add: to_chat_result_def)
qed

lemma answer_full_Inl:
  assumes "answer_full cmd h history intent st s = (Inl e, s')"
  shows "memory s' = memory s"
  using assms
  by (auto simp: answer_full_def bindA_Inl set_session_run remember_run
      dest!: keepsD[OF on_world_frame(1)])

lemma handler_None: "handler_for env m = None \<longleftrightarrow> m = General"
  by (cases m) (simp_all add: handler_for_def)

text \<open>A full chat that succeeds remembers exactly its answer, under the mode it answers in.\<close>

lemma chat_full_Inr:
  assumes "chat_full env cmd s = (Inr r, s')"
  shows "memory s' = add_turn (message_text cmd) (result_response r) (memory s)
    \<and> result_mode r = mode_text (active_mode (session s'))"
proof -
  obtain history intent st s1 where st: "settle_mode env cmd s = (Inr (history, intent, st), s1)"
    and rest: "(if needs_clarification intent then
       bindA (remember (message_text cmd) (clarification_question intent)) (\<lambda>_.
       retA (text_result (mode_text (active_mode st)) (clarification_question intent) intent
               (cmd_session_id cmd)))
     else case handler_for env (active_mode st) of
       None \<Rightarrow>
         bindA (remember (message_text cmd) GENERAL_RESPONSE) (\<lambda>_.
         retA (text_result ''general'' GENERAL_RESPONSE intent (cmd_session_id cmd)))
     | Some h \<Rightarrow> answer_full cmd h history intent st) s1 = (Inr r, s')"
    using assms unfolding chat_full_def or_service_error_Inr chat_full_body_def bindA_Inr by auto
  note fr = settle_mode_Inr(1,2)[OF st]
  show ?thesis
  proof (cases "\<not> needs_clarification intent \<and> active_mode st \<noteq> General")
    case True
    then obtain h where h: "handler_for env (active_mode st) = Some h"
      using handler_None[of env "active_mode st"] by auto
    then have "answer_full cmd h history intent st s1 = (Inr r, s')" using rest True by simp
    from answer_full_Inr[OF this handler_for_contract[OF h]] fr show ?thesis by simp
  next
    case False
    then show ?thesis using rest fr
      by (auto simp: handler_for_def bindA_Inr remember_run text_result_def mode_text_def
          split: if_splits)
  qed
qed

lemma chat_full_Inl:
  assumes "chat_full env cmd s = (Inl e, s')"
  shows "isinstance e APIError \<and> memory s' = memory s"
proof -
  obtain e' where api: "isinstance e APIError" and body: "chat_full_body env cmd s = (Inl e', s')"
    using or_service_error_Inl[OF assms[unfolded chat_full_def]] by blast
  show ?thesis
  proof (cases "settle_mode env cmd s")
    case (Pair x s1)
    then have mem: "memory s1 = memory s" by (rule keepsD[OF settle_mode_frame])
    show ?thesis
    proof (cases x)
      case (Inl a)
      then show ?thesis using body Pair mem api by (simp add: chat_full_body_def bindA_run)
    next
      case (Inr t)
      obtain history intent st where t: "t = (history, intent, st)" by (cases t)
      show ?thesis
        using body Pair Inr t mem api
        by (auto simp: chat_full_body_def bindA_run bindA_Inl remember_run
            split: if_splits option.splits dest!: answer_full_Inl)
    qed
  qed
qed

section \<open>A conversation\<close>

text \<open>Chats one after another, and what each success adds to the memory.\<close>

fun chats :: "'w agent_env \<Rightarrow> ChatCommand list \<Rightarrow> 'w agent_state \<Rightarrow> ChatResult res list \<times> 'w agent_state" where
  "chats env [] s = ([], s)"
| "chats env (c # cs) s =
     (case chat_full env c s of (r, s1) \<Rightarrow> (case chats env cs s1 of (rs, s2) \<Rightarrow> (r # rs, s2)))"

definition exchanges :: "ChatCommand list \<Rightarrow> ChatResult res list \<Rightarrow> (string \<times> string) list" where
  "exchanges cs rs = List.map_filter (\<lambda>(c, r). case r of
       Inl _ \<Rightarrow> None | Inr x \<Rightarrow> Some (message_text c, result_response x)) (zip cs rs)"

lemma chats_memory:
  "chats env cs s = (rs, s') \<Longrightarrow>
     memory s' = fold (\<lambda>(a, b). add_turn a b) (exchanges cs rs) (memory s)"
proof (induction cs arbitrary: s rs)
  case Nil
  then show ?case by (simp add: exchanges_def List.map_filter_def)
next
  case (Cons c cs)
  obtain r s1 where r: "chat_full env c s = (r, s1)" by (cases "chat_full env c s")
  obtain rs1 where rs: "chats env cs s1 = (rs1, s')" "rs = r # rs1"
    using Cons.prems r by (auto split: prod.splits)
  show ?case
  proof (cases r)
    case (Inl e)
    then show ?thesis using Cons.IH[OF rs(1)] chat_full_Inl[of env c s e s1] r rs(2)
      by (simp add: exchanges_def List.map_filter_def)
  next
    case (Inr x)
    then show ?thesis using Cons.IH[OF rs(1)] chat_full_Inr[of env c s x s1] r rs(2)
      by (simp add: exchanges_def List.map_filter_def)
  qed
qed

section \<open>Streams\<close>

lemma jget_merge:
  assumes "distinct (map fst e)" "k \<noteq> ''mode''"
  shows "jget (dict_merge [(''mode'', v)] e) k = jget e k"
proof (cases "map_of e k")
  case None
  then have "k \<notin> fst ` set e" by (simp add: map_of_eq_None_iff)
  then show ?thesis using assms(2) None by (simp add: jget_def dict_merge_absent)
next
  case (Some x)
  then show ?thesis using dict_merge_present[OF assms(1) Some] by (simp add: jget_def)
qed

definition event_token :: "(string \<times> json) list \<Rightarrow> string" where
  "event_token e = (case jget e ''token'' of JStr t \<Rightarrow> t | _ \<Rightarrow> [])"

definition event_text :: "(string \<times> json) list list \<Rightarrow> string" where
  "event_text es = concat (map event_token es)"

definition is_done :: "(string \<times> json) list \<Rightarrow> bool" where
  "is_done e \<longleftrightarrow> jget e ''done'' = JBool True"

lemma event_text_simps [simp]:
  "event_text [] = []" "event_text (es @ fs) = event_text es @ event_text fs"
  "event_text [done_event m] = []" "event_text [error_event] = []"
  "event_text [token_event m t] = t"
  "event_text [token_event m t, done_event m'] = t"
  by (simp_all add: event_text_def event_token_def done_event_def error_event_def token_event_def jget_def)

lemma is_done_simps [simp]: "is_done (done_event m)" "is_done error_event" "\<not> is_done (token_event m t)"
  by (simp_all add: is_done_def done_event_def error_event_def token_event_def jget_def)

definition items_ok :: "stream_item list \<Rightarrow> bool" where
  "items_ok items \<longleftrightarrow> (\<forall>d. DictItem d \<in> set items \<longrightarrow> distinct (map fst d))"

lemma item_event_distinct: "items_ok items \<Longrightarrow> x \<in> set items \<Longrightarrow> distinct (map fst (item_event x))"
  by (cases x) (auto simp: items_ok_def item_event_def)

text \<open>The loop collects the text of the events it sends, and only its last event can be a done event.\<close>

definition acc_ok :: "stream_acc \<Rightarrow> bool" where
  "acc_ok a \<longleftrightarrow> acc_reply a = event_text (acc_events a)
     \<and> (if acc_done a then acc_events a \<noteq> [] \<and> is_done (last (acc_events a))
           \<and> (\<forall>e\<in>set (butlast (acc_events a)). \<not> is_done e)
        else \<forall>e\<in>set (acc_events a). \<not> is_done e)"

lemma take_event_ok:
  assumes "acc_ok a" "\<not> acc_done a" "distinct (map fst ev)"
  shows "acc_ok (take_event m ev a)"
proof -
  let ?p = "dict_merge [(''mode'', JStr m)] ev"
  have "is_done ?p = (jget ev ''done'' = JBool True)" "event_token ?p = event_token ev"
    using jget_merge[OF assms(3)] by (simp_all add: is_done_def event_token_def)
  then show ?thesis using assms(1,2)
    by (auto simp: acc_ok_def take_event_def event_text_def event_token_def)
qed

lemma consume_ok:
  "items_ok items \<Longrightarrow> acc_ok a \<Longrightarrow> \<not> acc_done a \<Longrightarrow> acc_ok (consume m items a)"
proof (induction items arbitrary: a)
  case (Cons x items)
  have "distinct (map fst (item_event x))" using item_event_distinct[OF Cons.prems(1)] by simp
  then have "acc_ok (take_event m (item_event x) a)" by (rule take_event_ok[OF Cons.prems(2,3)])
  moreover have "items_ok items" using Cons.prems(1) by (auto simp: items_ok_def)
  ultimately show ?case using Cons.IH by (auto simp: Let_def)
qed simp

lemma consume_new: "items_ok items \<Longrightarrow> acc_ok (consume m items new_acc)"
  by (rule consume_ok) (simp_all add: acc_ok_def new_acc_def)

lemma handler_items:
  assumes "llm_port (env_gateway env)" "handler_for env m = Some h" "handler_stream h = Some strm"
    "strm msg st history w = ((items, e), w')"
  shows "items_ok items"
  using assms llm_port.stream_dicts[OF assms(1)]
  by (auto simp: handler_for_def translation_handler_def definition_handler_def learning_handler_def
      Let_def stream_prompt_def items_ok_def split: mode.splits sum.splits)

text \<open>A plan comes from the agent's own start of the stream.\<close>

definition plan_ok :: "'w agent_env \<Rightarrow> 'w stream_plan \<Rightarrow> bool" where
  "plan_ok env plan \<longleftrightarrow>
     (case plan of StaticPlan _ _ \<Rightarrow> True | HandlerPlan h _ \<Rightarrow> \<exists>m. handler_for env m = Some h)"

lemma chat_stream_plan:
  assumes "chat_stream env cmd s = (Inr plan, s')"
  shows "plan_ok env plan \<and> memory s' = memory s"
proof -
  have "chat_stream_body env cmd s = (Inr plan, s')"
    using assms by (simp add: chat_stream_def or_service_error_Inr)
  then show ?thesis
    by (auto simp: chat_stream_body_def bindA_Inr plan_ok_def set_session_run
        split: if_splits option.splits dest!: settle_mode_Inr(1) keepsD[OF on_world_frame(1)])
qed

lemma chat_stream_error:
  assumes "chat_stream env cmd s = (Inl e, s')"
  shows "isinstance e APIError \<and> memory s' = memory s"
proof -
  obtain e' where api: "isinstance e APIError" and body: "chat_stream_body env cmd s = (Inl e', s')"
    using or_service_error_Inl[OF assms[unfolded chat_stream_def]] by blast
  have "keeps memory (chat_stream_body env cmd)"
    unfolding chat_stream_body_def
    by (auto split: option.split intro!: keeps_rules settle_mode_frame)
  from api keepsD[OF this body] show ?thesis by blast
qed

lemma handler_has_stream: "handler_for env m = Some h \<Longrightarrow> handler_stream h \<noteq> None"
  by (auto simp: handler_for_def translation_handler_def definition_handler_def learning_handler_def
      Let_def split: mode.splits)

lemma run_plan_cases:
  assumes "llm_port (env_gateway env)" "plan_ok env plan" "run_plan env cmd plan s = ((events, e), s')"
  shows "(\<exists>a. acc_ok a \<and> \<not> acc_done a \<and> events = acc_events a \<and> e = CancelRaised \<and> memory s' = memory s)
    \<or> (\<exists>es d. events = es @ [d] \<and> is_done d \<and> (\<forall>x\<in>set es. \<not> is_done x) \<and> e = Exhausted
        \<and> (memory s' = memory s \<or> memory s' = add_turn (message_text cmd) (event_text events) (memory s))
        \<and> (d \<noteq> error_event \<and> event_text events \<noteq> [] \<longrightarrow>
             memory s' = add_turn (message_text cmd) (event_text events) (memory s)))"
proof (cases plan)
  case (StaticPlan m r)
  then show ?thesis using assms(3)
    by (intro disjI2 exI[of _ "[token_event m r]"] exI[of _ "done_event m"])
      (auto simp: run_plan_def stream_static_response_def remember_def)
next
  case (HandlerPlan h history)
  obtain k where k: "handler_for env k = Some h" using assms(2) HandlerPlan by (auto simp: plan_ok_def)
  obtain strm where strm: "handler_stream h = Some strm" using handler_has_stream[OF k] by auto
  let ?m = "mode_text (active_mode (session s))"
  obtain items ending w where run: "strm (message_text cmd) (session s) history (world s) = ((items, ending), w)"
    by (metis surj_pair)
  let ?a = "consume ?m items new_acc"
  have ok: "acc_ok ?a" by (rule consume_new[OF handler_items[OF assms(1) k strm run]])
  have all: "stream_handler_response env cmd h history s = ((events, e), s')"
    using assms(3) HandlerPlan by (simp add: run_plan_def)
  show ?thesis
  proof (cases "acc_done ?a")
    case True
    then obtain es d where es: "acc_events ?a = es @ [d]" "is_done d" "\<forall>x\<in>set es. \<not> is_done x"
      using ok by (cases "acc_events ?a" rule: rev_cases) (auto simp: acc_ok_def)
    have "events = acc_events ?a" "e = Exhausted"
        "memory s' = (if acc_reply ?a \<noteq> [] then add_turn (message_text cmd) (acc_reply ?a) (memory s) else memory s)"
      using all True strm run
      by (auto simp: stream_handler_response_def Let_def finish_stream_def remember_def)
    moreover have "acc_reply ?a = event_text (acc_events ?a)" using ok by (simp add: acc_ok_def)
    ultimately show ?thesis using es by (intro disjI2 exI[of _ es] exI[of _ d]) auto
  next
    case nd: False
    then have none: "\<forall>x\<in>set (acc_events ?a). \<not> is_done x" and rep: "acc_reply ?a = event_text (acc_events ?a)"
      using ok by (auto simp: acc_ok_def)
    show ?thesis
    proof (cases ending)
      case Finished
      then have "events = acc_events ?a @ [done_event ?m]" "e = Exhausted"
          "memory s' = (if acc_reply ?a \<noteq> [] then add_turn (message_text cmd) (acc_reply ?a) (memory s) else memory s)"
        using all nd strm run
        by (auto simp: stream_handler_response_def Let_def finish_stream_def remember_def)
      then show ?thesis using none rep
        by (intro disjI2 exI[of _ "acc_events ?a"] exI[of _ "done_event ?m"]) auto
    next
      case (Failed x)
      then have "events = acc_events ?a @ [error_event]" "e = Exhausted" "memory s' = memory s"
        using all nd strm run by (auto simp: stream_handler_response_def Let_def)
      then show ?thesis using none
        by (intro disjI2 exI[of _ "acc_events ?a"] exI[of _ error_event]) auto
    next
      case Cancelled
      then have "events = acc_events ?a" "e = CancelRaised" "memory s' = memory s"
        using all nd strm run Cancelled
        by (auto simp: stream_handler_response_def Let_def split: option.splits if_splits)
      then show ?thesis using ok nd by blast
    qed
  qed
qed

section \<open>Supplied modes\<close>

lemma supplied_intent:
  assumes "pydantic (env_pydantic env)" "requested_mode cmd = Some (mode_text md)"
  shows "resolve_intent env cmd history
    = retA \<lparr>intent_mode = md, confidence = ''high'', should_switch_mode = True,
            reason = ''Mode supplied by API request.'', clarification_question = []\<rparr>"
  using assms pydantic.bool_kept[OF assms(1)]
  by (intro ext) (simp add: resolve_intent_def IntentResult_of_def kwargs_def field_def as_str_def
      as_literal_def)

lemma chat_full_supplied:
  assumes "pydantic (env_pydantic env)" "requested_mode cmd = Some (mode_text md)"
    and "chat_full env cmd s = (Inr r, s')"
  shows "active_mode (session s') = md \<and> result_mode r = mode_text md"
proof -
  let ?i = "\<lparr>intent_mode = md, confidence = ''high'', should_switch_mode = True,
            reason = ''Mode supplied by API request.'', clarification_question = []\<rparr>"
  let ?st = "apply_intent (session s) ?i"
  have settle: "settle_mode env cmd s = (Inr (format_for_prompt (memory s), ?i, ?st), s\<lparr>session := ?st\<rparr>)"
    by (simp add: settle_mode_def supplied_intent[OF assms(1,2)] set_session_def)
  have act: "active_mode ?st = md" by (simp add: apply_intent_def)
  have body: "chat_full_body env cmd s = (Inr r, s')"
    using assms(3) by (simp add: chat_full_def or_service_error_Inr)
  have "active_mode (session s') = md"
  proof (cases "handler_for env md")
    case None
    then show ?thesis using body act
      by (auto simp: chat_full_body_def bindA_def settle needs_clarification_def remember_def)
  next
    case (Some h)
    then have "answer_full cmd h (format_for_prompt (memory s)) ?i ?st (s\<lparr>session := ?st\<rparr>) = (Inr r, s')"
      using body act
      by (simp add: chat_full_body_def bindA_def settle needs_clarification_def)
    from answer_full_Inr(3)[OF this handler_for_contract[OF Some]] act show ?thesis by simp
  qed
  then show ?thesis using chat_full_Inr[OF assms(3)] by simp
qed

section \<open>A sample service\<close>

text \<open>A gateway whose model answers every question the same way, and streams two tokens and a job.\<close>

definition sample_answer :: json where
  "sample_answer = JObj
     [(''response'', JStr ''Hola''), (''source_language'', JStr ''en''), (''target_language'', JStr ''es''),
      (''translated_text'', JStr ''Hola'')]"

definition sample_gateway :: "unit llm_gateway" where
  "sample_gateway =
     \<lparr>gw_ask = (\<lambda>_ _ _ _ w. (Inr sample_answer, w)),
      gw_stream = (\<lambda>_ _ _ w.
        (([DictItem [(''job_id'', JStr ''j1'')], TokenItem ''Ho'', TokenItem ''la''], Finished), w)),
      gw_cancel = None\<rparr>"

definition plain_coercions :: coercions where
  "plain_coercions =
     \<lparr>lax_bool = (\<lambda>j. case j of JBool b \<Rightarrow> Some b | _ \<Rightarrow> None),
      lax_int = (\<lambda>j. case j of JInt i \<Rightarrow> Some i | _ \<Rightarrow> None)\<rparr>"

definition blank_prompts :: prompt_set where
  "blank_prompts =
     \<lparr>STATE_UPDATE_SYSTEM_PROMPT = [], INTENT_SYSTEM_PROMPT = [], INTENT_TASK_PROMPT = [],
      TRANSLATION_SYSTEM_PROMPT = [], TRANSLATION_TASK_PROMPT = ''{user_input}'',
      TRANSLATION_STATE_UPDATE_TASK_PROMPT = [], DEFINITION_SYSTEM_PROMPT = [],
      DEFINITION_TASK_PROMPT = [], DEFINITION_STATE_UPDATE_TASK_PROMPT = [],
      LEARNING_SYSTEM_PROMPT = [], LEARNING_TASK_PROMPT = [], LEARNING_STATE_UPDATE_TASK_PROMPT = []\<rparr>"

definition blank_schemas :: schema_set where
  "blank_schemas =
     \<lparr>INTENT_RESPONSE_SCHEMA = JNull, TRANSLATION_RESPONSE_SCHEMA = JNull,
      TRANSLATION_STATE_SCHEMA = JNull, DEFINITION_RESPONSE_SCHEMA = JNull,
      DEFINITION_STATE_SCHEMA = JNull, LEARNING_RESPONSE_SCHEMA = JNull, LEARNING_STATE_SCHEMA = JNull,
      LITE_LANGUAGE_RESPONSE_SCHEMA = JNull\<rparr>"

definition sample_env :: "unit agent_env" where
  "sample_env =
     \<lparr>env_gateway = sample_gateway, env_pydantic = plain_coercions, env_prompts = blank_prompts,
      env_schemas = blank_schemas, env_float_repr = (\<lambda>_. [])\<rparr>"

interpretation plain_lax: pydantic plain_coercions
  by unfold_locales (simp_all add: plain_coercions_def)

interpretation sample: llm_port sample_gateway
  by unfold_locales (auto simp: sample_gateway_def)

definition sample_chat :: ChatCommand where
  "sample_chat = \<lparr>message_text = ''Hello'', requested_mode = Some ''translation'', cmd_metadata = None\<rparr>"

lemma sample_env_simps [simp]:
  "env_gateway sample_env = sample_gateway" "env_pydantic sample_env = plain_coercions"
  by (simp_all add: sample_env_def)

section \<open>Properties\<close>

text \<open>C24. A full chat either answers or fails as the API promises: an error is always an \<^verbatim>\<open>APIError\<close> and
  leaves the conversation's memory as it was; an answer is remembered with its question, once, and
  carries the mode the session is then in.\<close>

theorem chat_full_outcome:
  "case chat_full env cmd s of
     (Inl e, s') \<Rightarrow> isinstance e APIError \<and> memory s' = memory s
   | (Inr r, s') \<Rightarrow>
       memory s' = add_turn (message_text cmd) (result_response r) (memory s)
       \<and> result_mode r = mode_text (active_mode (session s'))"
proof (cases "chat_full env cmd s")
  case (Pair r s')
  then show ?thesis using chat_full_Inl[of env cmd s _ s'] chat_full_Inr[of env cmd s _ s']
    by (cases r) simp_all
qed

text \<open>C13. Over any sequence of full chats, successful and failed, the memory of a new agent holds exactly
  the five most recent successful exchanges, oldest first.\<close>

theorem memory_holds_recent_exchanges:
  "case chats env cs (new_agent w) of (rs, s) \<Rightarrow>
     turns (memory s) = last_n 5 (map the_turn (exchanges cs rs))"
proof -
  obtain rs s where run: "chats env cs (new_agent w) = (rs, s)" by (metis surj_pair)
  have mem: "memory s = fold (\<lambda>(a, b). add_turn a b) (exchanges cs rs) (new_memory 5)"
    using chats_memory[OF run] by (simp add: new_agent_def)
  show ?thesis
    using add_turns_recent[of "new_memory 5" "[]" "exchanges cs rs"] run mem
    by (simp add: new_memory_def last_n_def)
qed

text \<open>C6. A streamed chat tells its client exactly once that it is over: unless it is cancelled, its last
  event and no other is a done event; what is remembered, if anything, is the text the events
  showed; a cancelled stream remembers nothing and sends no done event.\<close>

theorem stream_ends_once:
  assumes "llm_port (env_gateway env)" "chat_stream env cmd s0 = (Inr plan, s)"
    and "run_plan env cmd plan s = ((events, e), s')"
  shows "(e = CancelRaised \<and> (\<forall>x\<in>set events. \<not> is_done x) \<and> memory s' = memory s0)
    \<or> (e = Exhausted
        \<and> (\<exists>es d. events = es @ [d] \<and> is_done d \<and> (\<forall>x\<in>set es. \<not> is_done x)
             \<and> (d \<noteq> error_event \<and> event_text events \<noteq> [] \<longrightarrow>
                  memory s' = add_turn (message_text cmd) (event_text events) (memory s0)))
        \<and> memory s' \<in> {memory s0, add_turn (message_text cmd) (event_text events) (memory s0)})"
proof -
  have plan: "plan_ok env plan" "memory s = memory s0" using chat_stream_plan[OF assms(2)] by simp_all
  consider (cancelled) a where "acc_ok a" "\<not> acc_done a" "events = acc_events a" "e = CancelRaised"
        "memory s' = memory s"
    | (over) es d where "events = es @ [d]" "is_done d" "\<forall>x\<in>set es. \<not> is_done x" "e = Exhausted"
        "memory s' = memory s \<or> memory s' = add_turn (message_text cmd) (event_text events) (memory s)"
        "d \<noteq> error_event \<and> event_text events \<noteq> [] \<longrightarrow>
           memory s' = add_turn (message_text cmd) (event_text events) (memory s)"
    using run_plan_cases[OF assms(1) plan(1) assms(3)] by blast
  then show ?thesis
  proof cases
    case cancelled
    then show ?thesis using plan(2) by (intro disjI1) (simp add: acc_ok_def)
  next
    case over
    then show ?thesis unfolding plan(2) by (intro disjI2) blast
  qed
qed

theorem stream_ends_once_witness:
  "\<exists>plan s events e s'. chat_stream sample_env sample_chat (new_agent ()) = (Inr plan, s)
     \<and> run_plan sample_env sample_chat plan s = ((events, e), s')
     \<and> ((e = CancelRaised \<and> (\<forall>x\<in>set events. \<not> is_done x))
        \<or> (e = Exhausted \<and> (\<exists>es d. events = es @ [d] \<and> is_done d \<and> (\<forall>x\<in>set es. \<not> is_done x))))"
proof -
  have "\<not> isl (fst (chat_stream sample_env sample_chat (new_agent ())))" by code_simp
  then obtain plan s where plan: "chat_stream sample_env sample_chat (new_agent ()) = (Inr plan, s)"
    by (cases "chat_stream sample_env sample_chat (new_agent ())") (metis fst_conv isl_def sum.exhaust)
  obtain events e s' where run: "run_plan sample_env sample_chat plan s = ((events, e), s')"
    by (metis surj_pair)
  have "llm_port (env_gateway sample_env)" using sample.llm_port_axioms by simp
  from stream_ends_once[OF this plan run] plan run show ?thesis by blast
qed

text \<open>C35. A mode supplied with the request is the mode of the answer and of the session afterwards, from
  whatever mode the session was in.\<close>

theorem supplied_mode_is_used:
  assumes "pydantic (env_pydantic env)" "requested_mode cmd = Some (mode_text md)"
    and "chat_full env cmd s = (Inr r, s')"
  shows "active_mode (session s') = md \<and> result_mode r = mode_text md"
  by (rule chat_full_supplied[OF assms])

theorem supplied_mode_is_used_witness:
  "\<exists>r s'. chat_full sample_env sample_chat (new_agent ()) = (Inr r, s')
     \<and> result_mode r = ''translation'' \<and> active_mode (session s') = Translation"
proof -
  have "\<not> isl (fst (chat_full sample_env sample_chat (new_agent ())))" by code_simp
  then obtain r s' where run: "chat_full sample_env sample_chat (new_agent ()) = (Inr r, s')"
    by (cases "chat_full sample_env sample_chat (new_agent ())") (metis fst_conv isl_def sum.exhaust)
  have "pydantic (env_pydantic sample_env)" using plain_lax.pydantic_axioms by simp
  moreover have "requested_mode sample_chat = Some (mode_text Translation)"
    by (simp add: sample_chat_def mode_text_def)
  ultimately have "active_mode (session s') = Translation \<and> result_mode r = mode_text Translation"
    by (rule supplied_mode_is_used[OF _ _ run])
  then show ?thesis using run by (simp add: mode_text_def)
qed

text \<open>A memory of zero turns keeps every turn: the slice from minus zero is the whole list.\<close>

lemma zero_turns_keep_all:
  "turns (add_turn a b \<lparr>max_turns = 0, turns = ts\<rparr>) = ts @ [the_turn (a, b)]"
  by (simp add: add_turn_def slice_last_def the_turn_def Let_def)

end
