(* ===== verification/App_Config.thy ===== *)
theory App_Config
  imports Lang_Prelude
begin

text \<open>
  The settings: \<^verbatim>\<open>app/core/config.py\<close> and the constants of the queue,
  \<^verbatim>\<open>app/infrastructure/redis/config.py\<close>.  Both read the environment of the process; each is a function of it that
  fails with a \<^verbatim>\<open>ValueError\<close> when a number does not parse.  The rendering of a database URL by
  SQLAlchemy is a parameter of the functions that use it.
\<close>

section \<open>Reading the environment\<close>

type_synonym env = "string \<Rightarrow> string option"

definition getenv :: "env \<Rightarrow> string \<Rightarrow> string \<Rightarrow> string" where
  "getenv env k d = (case env k of None \<Rightarrow> d | Some v \<Rightarrow> v)"

lemma getenv_simps [simp]:
  "env k = None \<Longrightarrow> getenv env k d = d" "env k = Some v \<Longrightarrow> getenv env k d = v"
  by (simp_all add: getenv_def)

definition parse_bool :: "string \<Rightarrow> bool \<Rightarrow> bool" where
  "parse_bool value dflt =
     (let normalized = lower (strip value) in
      if normalized \<in> {''1'', ''true'', ''t'', ''yes'', ''y'', ''on''} then True
      else if normalized \<in> {''0'', ''false'', ''f'', ''no'', ''n'', ''off''} then False
      else dflt)"

definition parse_csv_env :: "string \<Rightarrow> string list" where
  "parse_csv_env value = [strip item. item \<leftarrow> split_on CHR '','' value, strip item \<noteq> []]"

text \<open>\<^verbatim>\<open>int(text)\<close> and \<^verbatim>\<open>float(text)\<close> with their \<^verbatim>\<open>ValueError\<close>.  The grammar of a float: a sign,
  then \<^verbatim>\<open>inf\<close>, \<^verbatim>\<open>infinity\<close>, \<^verbatim>\<open>nan\<close> in any case, or digits with a point and an exponent.\<close>

definition to_int :: "string \<Rightarrow> int res" where
  "to_int s = (case py_int s of None \<Rightarrow> Inl (mk_exn ValueError []) | Some i \<Rightarrow> Inr i)"

definition digits_opt :: "string \<Rightarrow> string option" where
  "digits_opt s = (if s = [] then Some [] else int_digits s)"

definition signed :: "string \<Rightarrow> rat \<times> string" where
  "signed s = (case s of [] \<Rightarrow> (1, []) | c # cs \<Rightarrow>
     if c = CHR ''-'' then (-1, cs) else if c = CHR ''+'' then (1, cs) else (1, s))"

definition mantissa :: "string \<Rightarrow> rat option" where
  "mantissa s = (case split_on CHR ''.'' s of
     [a] \<Rightarrow> map_option (\<lambda>ds. of_nat (digits_val 0 ds)) (int_digits a)
   | [a, b] \<Rightarrow>
       (case (digits_opt a, digits_opt b) of
          (Some da, Some db) \<Rightarrow>
            if da = [] \<and> db = [] then None
            else Some (of_nat (digits_val 0 (da @ db)) / 10 ^ length db)
        | _ \<Rightarrow> None)
   | _ \<Rightarrow> None)"

definition exponent :: "string \<Rightarrow> rat option" where
  "exponent s = (case signed s of (sg, ds) \<Rightarrow>
     map_option (\<lambda>d. if sg < 0 then 1 / 10 ^ digits_val 0 d else 10 ^ digits_val 0 d) (int_digits ds))"

definition py_float :: "string \<Rightarrow> pyfloat option" where
  "py_float s = (case signed (lower (strip s)) of (sg, t) \<Rightarrow>
     if t = ''inf'' \<or> t = ''infinity'' then Some (if sg < 0 then NegInf else PosInf)
     else if t = ''nan'' then Some NaN
     else case split_on CHR ''e'' t of
       [m] \<Rightarrow> map_option (\<lambda>r. Fin (sg * r)) (mantissa m)
     | [m, e] \<Rightarrow>
         (case (mantissa m, exponent e) of
            (Some r, Some p) \<Rightarrow> Some (Fin (sg * r * p)) | _ \<Rightarrow> None)
     | _ \<Rightarrow> None)"

definition to_float :: "string \<Rightarrow> pyfloat res" where
  "to_float s = (case py_float s of None \<Rightarrow> Inl (mk_exn ValueError []) | Some f \<Rightarrow> Inr f)"

lemma to_int_str_int [simp]: "to_int (str_int i) = Inr i"
  by (simp add: to_int_def)

section \<open>Database URLs\<close>

text \<open>The arguments of \<^verbatim>\<open>URL.create\<close>, rendered by the parameter.  \<^verbatim>\<open>x or None\<close> turns an empty
  text into \<^const>\<open>None\<close>.\<close>

record url_parts =
  drivername :: string
  url_username :: "string option"
  url_password :: "string option"
  url_host :: "string option"
  url_port :: "int option"
  url_database :: string

definition or_none :: "string option \<Rightarrow> string option" where
  "or_none v = (case v of None \<Rightarrow> None | Some s \<Rightarrow> if s = [] then None else Some s)"

definition build_database_url ::
  "(url_parts \<Rightarrow> string) \<Rightarrow> string \<Rightarrow> string option \<Rightarrow> int option \<Rightarrow> string \<Rightarrow> string option
     \<Rightarrow> string option \<Rightarrow> string" where
  "build_database_url render scheme host port name username password =
     (let normalized_scheme = strip scheme in
      if prefix ''sqlite'' normalized_scheme then
        (if name = '':memory:'' then normalized_scheme @ '':///'' @ name
         else normalized_scheme @ '':///'' @ dropWhile (\<lambda>c. c = CHR ''/'') name)
      else render \<lparr>drivername = normalized_scheme, url_username = or_none username,
                   url_password = or_none password, url_host = or_none host, url_port = port,
                   url_database = name\<rparr>)"

definition build_chainlit_database_url ::
  "(url_parts \<Rightarrow> string) \<Rightarrow> string \<Rightarrow> string option \<Rightarrow> int option \<Rightarrow> string \<Rightarrow> string option
     \<Rightarrow> string option \<Rightarrow> string" where
  "build_chainlit_database_url render scheme host port name username password =
     (let s = strip scheme;
          normalized_scheme =
            (if prefix ''postgresql+'' s then ''postgresql''
             else if prefix ''postgres+'' s then ''postgres'' else s)
      in build_database_url render normalized_scheme host port name username password)"

section \<open>The application settings\<close>

record AppSettings =
  auth_enabled :: bool
  auth_max_failed_attempts :: int
  auth_lockout_seconds :: int
  auth_rate_limit_window_seconds :: int
  auth_min_password_length :: int
  auth_require_strong_password :: bool
  signup_enabled :: bool
  signup_default_role :: string
  signup_require_admin_approval :: bool
  fastapi_api_key :: "string option"
  chainlit_auth_secret :: "string option"
  session_cookie_secure :: bool
  session_cookie_samesite :: string
  cors_allowed_origins :: "string list"
  database_scheme :: string
  database_host :: string
  database_port :: int
  database_name :: string
  database_user :: string
  database_password :: string
  database_url :: string
  database_pool_size :: int
  database_echo :: bool
  password_hash_scheme :: string
  redis_url :: string
  llm_backend :: string
  llm_queue_name :: string
  llm_queue_timeout_seconds :: int
  llm_queue_wait_timeout_seconds :: int
  llm_generation_timeout_seconds :: int
  llm_result_ttl_seconds :: int
  llm_max_queue_size :: int
  llm_worker_concurrency :: int
  llm_job_max_retries :: int
  llm_stream_channel_prefix :: string
  llm_status_poll_interval_seconds :: pyfloat
  llm_stream_timeout_seconds :: int
  llama_server_url :: string
  llama_server_api_key :: string
  llama_server_timeout_seconds :: int
  llama_server_stream_timeout_seconds :: int
  llama_server_model_name :: string
  llama_server_health_path :: string
  model_profiles_path :: string

text \<open>\<^verbatim>\<open>int(os.getenv(key, default))\<close>, and the flag and text lookups of \<^verbatim>\<open>from_env\<close>.\<close>

definition env_int :: "env \<Rightarrow> string \<Rightarrow> string \<Rightarrow> int res" where
  "env_int env k d = to_int (getenv env k d)"

definition env_bool :: "env \<Rightarrow> string \<Rightarrow> string \<Rightarrow> bool \<Rightarrow> bool" where
  "env_bool env k d dflt = parse_bool (getenv env k d) dflt"

definition samesite_from_env :: "env \<Rightarrow> string" where
  "samesite_from_env env =
     (let s = lower (strip (getenv env ''SESSION_COOKIE_SAMESITE''
                (getenv env ''CHAINLIT_COOKIE_SAMESITE'' ''lax'')))
      in if s \<in> {''lax'', ''strict'', ''none''} then s else ''lax'')"

definition cookie_secure_from_env :: "env \<Rightarrow> bool" where
  "cookie_secure_from_env env =
     (let s = samesite_from_env env in
      env_bool env ''SESSION_COOKIE_SECURE'' (if s = ''none'' then ''true'' else ''false'') (s = ''none''))"

definition poll_interval_from_env :: "env \<Rightarrow> pyfloat res" where
  "poll_interval_from_env env =
     to_float (getenv env ''LLM_STATUS_POLL_INTERVAL_SECONDS''
       (getenv env ''LLM_QUEUE_POLL_INTERVAL_SECONDS'' ''0.05''))"

text \<open>The numbers are read first, in the order of the source; the record is then built from them.\<close>

definition database_url_from_env :: "(url_parts \<Rightarrow> string) \<Rightarrow> env \<Rightarrow> int \<Rightarrow> string" where
  "database_url_from_env render env port =
     build_database_url render (getenv env ''DATABASE_SCHEME'' ''postgresql+asyncpg'')
       (Some (getenv env ''DATABASE_HOST'' ''127.0.0.1'')) (Some port)
       (getenv env ''DATABASE_NAME'' ''language_agent'')
       (Some (getenv env ''DATABASE_USER'' ''language_agent''))
       (Some (getenv env ''DATABASE_PASSWORD'' ''change-me''))"

definition from_env :: "(url_parts \<Rightarrow> string) \<Rightarrow> env \<Rightarrow> AppSettings res" where
  "from_env render env =
     bind_res (env_int env ''LLM_QUEUE_TIMEOUT_SECONDS'' ''180'') (\<lambda>queue_timeout.
     bind_res (env_int env ''DATABASE_PORT'' ''5432'') (\<lambda>port.
     bind_res (env_int env ''AUTH_MAX_FAILED_ATTEMPTS'' ''5'') (\<lambda>max_failed.
     bind_res (env_int env ''AUTH_LOCKOUT_SECONDS'' ''300'') (\<lambda>lockout.
     bind_res (env_int env ''AUTH_RATE_LIMIT_WINDOW_SECONDS'' ''300'') (\<lambda>window.
     bind_res (env_int env ''AUTH_MIN_PASSWORD_LENGTH'' ''12'') (\<lambda>min_pw.
     bind_res (env_int env ''DATABASE_POOL_SIZE'' ''5'') (\<lambda>pool.
     bind_res (env_int env ''LLM_QUEUE_WAIT_TIMEOUT_SECONDS'' ''300'') (\<lambda>wait_timeout.
     bind_res (env_int env ''LLM_GENERATION_TIMEOUT_SECONDS'' (str_int queue_timeout)) (\<lambda>gen_timeout.
     bind_res (env_int env ''LLM_RESULT_TTL_SECONDS'' ''300'') (\<lambda>result_ttl.
     bind_res (env_int env ''LLM_MAX_QUEUE_SIZE'' ''100'') (\<lambda>max_queue.
     bind_res (env_int env ''LLM_WORKER_CONCURRENCY'' ''1'') (\<lambda>concurrency.
     bind_res (env_int env ''LLM_JOB_MAX_RETRIES'' ''2'') (\<lambda>max_retries.
     bind_res (poll_interval_from_env env) (\<lambda>poll.
     bind_res (env_int env ''LLM_STREAM_TIMEOUT_SECONDS'' (str_int queue_timeout)) (\<lambda>stream_timeout.
     bind_res (env_int env ''LLAMA_SERVER_TIMEOUT_SECONDS'' (str_int queue_timeout)) (\<lambda>server_timeout.
     bind_res (env_int env ''LLAMA_SERVER_STREAM_TIMEOUT_SECONDS'' (str_int queue_timeout)) (\<lambda>server_stream_timeout.
     Inr \<lparr>auth_enabled = env_bool env ''AUTH_ENABLED'' ''true'' True,
       auth_max_failed_attempts = max_failed,
       auth_lockout_seconds = lockout,
       auth_rate_limit_window_seconds = window,
       auth_min_password_length = min_pw,
       auth_require_strong_password = env_bool env ''AUTH_REQUIRE_STRONG_PASSWORD'' ''true'' True,
       signup_enabled = env_bool env ''SIGNUP_ENABLED'' ''true'' True,
       signup_default_role = (let r = strip (getenv env ''SIGNUP_DEFAULT_ROLE'' ''user'') in if r = [] then ''user'' else r),
       signup_require_admin_approval = env_bool env ''SIGNUP_REQUIRE_ADMIN_APPROVAL'' ''false'' False,
       fastapi_api_key = env ''FASTAPI_API_KEY'',
       chainlit_auth_secret = env ''CHAINLIT_AUTH_SECRET'',
       session_cookie_secure = cookie_secure_from_env env,
       session_cookie_samesite = samesite_from_env env,
       cors_allowed_origins = parse_csv_env (getenv env ''CORS_ALLOWED_ORIGINS'' ''''),
       database_scheme = getenv env ''DATABASE_SCHEME'' ''postgresql+asyncpg'',
       database_host = getenv env ''DATABASE_HOST'' ''127.0.0.1'',
       database_port = port,
       database_name = getenv env ''DATABASE_NAME'' ''language_agent'',
       database_user = getenv env ''DATABASE_USER'' ''language_agent'',
       database_password = getenv env ''DATABASE_PASSWORD'' ''change-me'',
       database_url = database_url_from_env render env port,
       database_pool_size = pool,
       database_echo = env_bool env ''DATABASE_ECHO'' ''false'' False,
       password_hash_scheme = getenv env ''PASSWORD_HASH_SCHEME'' ''argon2id'',
       redis_url = getenv env ''REDIS_URL'' ''redis://127.0.0.1:6379/0'',
       llm_backend = getenv env ''LLM_BACKEND'' ''llama_server'',
       llm_queue_name = getenv env ''LLM_QUEUE_NAME'' ''llm'',
       llm_queue_timeout_seconds = queue_timeout,
       llm_queue_wait_timeout_seconds = wait_timeout,
       llm_generation_timeout_seconds = gen_timeout,
       llm_result_ttl_seconds = result_ttl,
       llm_max_queue_size = max_queue,
       llm_worker_concurrency = concurrency,
       llm_job_max_retries = max_retries,
       llm_stream_channel_prefix = getenv env ''LLM_STREAM_CHANNEL_PREFIX'' ''llm-stream'',
       llm_status_poll_interval_seconds = poll,
       llm_stream_timeout_seconds = stream_timeout,
       llama_server_url = getenv env ''LLAMA_SERVER_URL'' ''http://localhost:8080'',
       llama_server_api_key = getenv env ''LLAMA_SERVER_API_KEY'' '''',
       llama_server_timeout_seconds = server_timeout,
       llama_server_stream_timeout_seconds = server_stream_timeout,
       llama_server_model_name = getenv env ''LLAMA_SERVER_MODEL_NAME'' '''',
       llama_server_health_path = getenv env ''LLAMA_SERVER_HEALTH_PATH'' ''/health'',
       model_profiles_path = getenv env ''MODEL_PROFILES_PATH'' ''config/model_profiles.yml''\<rparr>)))))))))))))))))"

section \<open>The constants of the queue\<close>

record redis_config =
  REDIS_URL :: string
  LLM_QUEUE_NAME :: string
  LLM_QUEUE_TIMEOUT_SECONDS :: int
  LLM_QUEUE_WAIT_TIMEOUT_SECONDS :: int
  LLM_GENERATION_TIMEOUT_SECONDS :: int
  LLM_RESULT_TTL_SECONDS :: int
  LLM_MAX_QUEUE_SIZE :: int
  LLM_WORKER_CONCURRENCY :: int
  LLM_JOB_MAX_RETRIES :: int
  LLM_STREAM_CHANNEL_PREFIX :: string
  LLM_STATUS_POLL_INTERVAL_SECONDS :: pyfloat
  LLM_STREAM_TIMEOUT_SECONDS :: int

text \<open>What importing \<^verbatim>\<open>app/infrastructure/redis/config.py\<close> evaluates.\<close>

definition load_redis_config :: "env \<Rightarrow> redis_config res" where
  "load_redis_config env =
     bind_res (env_int env ''LLM_QUEUE_TIMEOUT_SECONDS'' ''180'') (\<lambda>queue_timeout.
     bind_res (env_int env ''LLM_QUEUE_WAIT_TIMEOUT_SECONDS'' ''300'') (\<lambda>wait_timeout.
     bind_res (env_int env ''LLM_GENERATION_TIMEOUT_SECONDS'' (str_int queue_timeout)) (\<lambda>gen_timeout.
     bind_res (env_int env ''LLM_RESULT_TTL_SECONDS'' ''300'') (\<lambda>result_ttl.
     bind_res (env_int env ''LLM_MAX_QUEUE_SIZE'' ''100'') (\<lambda>max_queue.
     bind_res (env_int env ''LLM_WORKER_CONCURRENCY'' ''1'') (\<lambda>concurrency.
     bind_res (env_int env ''LLM_JOB_MAX_RETRIES'' ''2'') (\<lambda>max_retries.
     bind_res (poll_interval_from_env env) (\<lambda>poll.
     bind_res (env_int env ''LLM_STREAM_TIMEOUT_SECONDS'' (str_int queue_timeout)) (\<lambda>stream_timeout.
     Inr \<lparr>REDIS_URL = getenv env ''REDIS_URL'' ''redis://127.0.0.1:6379/0'',
       LLM_QUEUE_NAME = getenv env ''LLM_QUEUE_NAME'' ''llm'',
       LLM_QUEUE_TIMEOUT_SECONDS = queue_timeout,
       LLM_QUEUE_WAIT_TIMEOUT_SECONDS = wait_timeout,
       LLM_GENERATION_TIMEOUT_SECONDS = gen_timeout,
       LLM_RESULT_TTL_SECONDS = result_ttl,
       LLM_MAX_QUEUE_SIZE = max_queue,
       LLM_WORKER_CONCURRENCY = concurrency,
       LLM_JOB_MAX_RETRIES = max_retries,
       LLM_STREAM_CHANNEL_PREFIX = getenv env ''LLM_STREAM_CHANNEL_PREFIX'' ''llm-stream'',
       LLM_STATUS_POLL_INTERVAL_SECONDS = poll,
       LLM_STREAM_TIMEOUT_SECONDS = stream_timeout\<rparr>)))))))))"


section \<open>Lemmas\<close>

lemma parse_bool_normal [simp]: "parse_bool (strip v) d = parse_bool v d"
  by (simp add: parse_bool_def)

lemma parse_bool_words [simp]:
  "parse_bool ''true'' d = True" "parse_bool ''false'' d = False"
  by (code_simp)+

lemma env_int_unset [simp]: "env k = None \<Longrightarrow> env_int env k d = to_int d"
  by (simp add: env_int_def)

lemma env_bool_unset [simp]: "env k = None \<Longrightarrow> env_bool env k d b = parse_bool d b"
  by (simp add: env_bool_def)

lemma samesite_range: "samesite_from_env env \<in> {''lax'', ''strict'', ''none''}"
  by (simp add: samesite_from_env_def Let_def)

lemma cookie_secure_unset:
  "env ''SESSION_COOKIE_SECURE'' = None \<Longrightarrow> cookie_secure_from_env env = (samesite_from_env env = ''none'')"
  by (simp add: cookie_secure_from_env_def Let_def)

text \<open>Items of a comma separated list are trimmed and not empty; joining such items reads back.\<close>

lemma parse_csv_env_items: "x \<in> set (parse_csv_env v) \<Longrightarrow> stripped x \<and> x \<noteq> []"
  by (auto simp: parse_csv_env_def)

lemma split_on_append: "c \<notin> set a \<Longrightarrow> split_on c (a @ c # b) = a # split_on c b"
  by (induction a) auto

lemma split_on_single: "c \<notin> set a \<Longrightarrow> split_on c a = [a]"
  by (induction a) auto

lemma split_on_join:
  "xs \<noteq> [] \<Longrightarrow> \<forall>x\<in>set xs. c \<notin> set x \<Longrightarrow> split_on c (join [c] xs) = xs"
  by (induction xs rule: induct_list012) (auto simp: split_on_append split_on_single)

text \<open>The fields of settings that loaded.\<close>

lemma from_env_fields:
  assumes "from_env render env = Inr s"
  shows "env_int env ''LLM_QUEUE_TIMEOUT_SECONDS'' ''180'' = Inr (llm_queue_timeout_seconds s)
    \<and> env_int env ''DATABASE_PORT'' ''5432'' = Inr (database_port s)
    \<and> env_int env ''AUTH_MAX_FAILED_ATTEMPTS'' ''5'' = Inr (auth_max_failed_attempts s)
    \<and> env_int env ''AUTH_LOCKOUT_SECONDS'' ''300'' = Inr (auth_lockout_seconds s)
    \<and> env_int env ''AUTH_RATE_LIMIT_WINDOW_SECONDS'' ''300'' = Inr (auth_rate_limit_window_seconds s)
    \<and> env_int env ''AUTH_MIN_PASSWORD_LENGTH'' ''12'' = Inr (auth_min_password_length s)
    \<and> env_int env ''LLM_QUEUE_WAIT_TIMEOUT_SECONDS'' ''300'' = Inr (llm_queue_wait_timeout_seconds s)
    \<and> env_int env ''LLM_RESULT_TTL_SECONDS'' ''300'' = Inr (llm_result_ttl_seconds s)
    \<and> env_int env ''LLM_MAX_QUEUE_SIZE'' ''100'' = Inr (llm_max_queue_size s)
    \<and> env_int env ''LLM_WORKER_CONCURRENCY'' ''1'' = Inr (llm_worker_concurrency s)
    \<and> env_int env ''LLM_JOB_MAX_RETRIES'' ''2'' = Inr (llm_job_max_retries s)
    \<and> poll_interval_from_env env = Inr (llm_status_poll_interval_seconds s)
    \<and> env_int env ''LLM_GENERATION_TIMEOUT_SECONDS'' (str_int (llm_queue_timeout_seconds s))
        = Inr (llm_generation_timeout_seconds s)
    \<and> env_int env ''LLM_STREAM_TIMEOUT_SECONDS'' (str_int (llm_queue_timeout_seconds s))
        = Inr (llm_stream_timeout_seconds s)
    \<and> env_int env ''LLAMA_SERVER_TIMEOUT_SECONDS'' (str_int (llm_queue_timeout_seconds s))
        = Inr (llama_server_timeout_seconds s)
    \<and> env_int env ''LLAMA_SERVER_STREAM_TIMEOUT_SECONDS'' (str_int (llm_queue_timeout_seconds s))
        = Inr (llama_server_stream_timeout_seconds s)
    \<and> session_cookie_samesite s = samesite_from_env env
    \<and> session_cookie_secure s = cookie_secure_from_env env
    \<and> signup_default_role s \<noteq> []
    \<and> llm_queue_name s = getenv env ''LLM_QUEUE_NAME'' ''llm''
    \<and> llm_stream_channel_prefix s = getenv env ''LLM_STREAM_CHANNEL_PREFIX'' ''llm-stream''
    \<and> redis_url s = getenv env ''REDIS_URL'' ''redis://127.0.0.1:6379/0''
    \<and> database_url s = database_url_from_env render env (database_port s)
    \<and> auth_enabled s = env_bool env ''AUTH_ENABLED'' ''true'' True
    \<and> auth_require_strong_password s = env_bool env ''AUTH_REQUIRE_STRONG_PASSWORD'' ''true'' True
    \<and> signup_enabled s = env_bool env ''SIGNUP_ENABLED'' ''true'' True
    \<and> signup_require_admin_approval s
        = env_bool env ''SIGNUP_REQUIRE_ADMIN_APPROVAL'' ''false'' False
    \<and> chainlit_auth_secret s = env ''CHAINLIT_AUTH_SECRET''"
  using assms unfolding from_env_def bind_res_Inr
  by (elim exE conjE, drule_tac Inr_inject, hypsubst) (simp add: Let_def)

text \<open>The module constants of the queue and the settings read the same environment alike.\<close>

lemma load_redis_config_agrees:
  assumes "from_env render env = Inr s"
  shows "load_redis_config env = Inr
    \<lparr>REDIS_URL = redis_url s, LLM_QUEUE_NAME = llm_queue_name s,
     LLM_QUEUE_TIMEOUT_SECONDS = llm_queue_timeout_seconds s,
     LLM_QUEUE_WAIT_TIMEOUT_SECONDS = llm_queue_wait_timeout_seconds s,
     LLM_GENERATION_TIMEOUT_SECONDS = llm_generation_timeout_seconds s,
     LLM_RESULT_TTL_SECONDS = llm_result_ttl_seconds s,
     LLM_MAX_QUEUE_SIZE = llm_max_queue_size s,
     LLM_WORKER_CONCURRENCY = llm_worker_concurrency s,
     LLM_JOB_MAX_RETRIES = llm_job_max_retries s,
     LLM_STREAM_CHANNEL_PREFIX = llm_stream_channel_prefix s,
     LLM_STATUS_POLL_INTERVAL_SECONDS = llm_status_poll_interval_seconds s,
     LLM_STREAM_TIMEOUT_SECONDS = llm_stream_timeout_seconds s\<rparr>"
  using from_env_fields[OF assms] by (simp add: load_redis_config_def)

section \<open>The defaults\<close>

text \<open>The settings of an empty environment (with a renderer that shows nothing).\<close>

definition default_settings :: AppSettings where
  "default_settings =
     \<lparr>auth_enabled = True,
      auth_max_failed_attempts = 5,
      auth_lockout_seconds = 300,
      auth_rate_limit_window_seconds = 300,
      auth_min_password_length = 12,
      auth_require_strong_password = True,
      signup_enabled = True,
      signup_default_role = ''user'',
      signup_require_admin_approval = False,
      fastapi_api_key = None,
      chainlit_auth_secret = None,
      session_cookie_secure = False,
      session_cookie_samesite = ''lax'',
      cors_allowed_origins = [],
      database_scheme = ''postgresql+asyncpg'',
      database_host = ''127.0.0.1'',
      database_port = 5432,
      database_name = ''language_agent'',
      database_user = ''language_agent'',
      database_password = ''change-me'',
      database_url = [],
      database_pool_size = 5,
      database_echo = False,
      password_hash_scheme = ''argon2id'',
      redis_url = ''redis://127.0.0.1:6379/0'',
      llm_backend = ''llama_server'',
      llm_queue_name = ''llm'',
      llm_queue_timeout_seconds = 180,
      llm_queue_wait_timeout_seconds = 300,
      llm_generation_timeout_seconds = 180,
      llm_result_ttl_seconds = 300,
      llm_max_queue_size = 100,
      llm_worker_concurrency = 1,
      llm_job_max_retries = 2,
      llm_stream_channel_prefix = ''llm-stream'',
      llm_status_poll_interval_seconds = Fin (1/20),
      llm_stream_timeout_seconds = 180,
      llama_server_url = ''http://localhost:8080'',
      llama_server_api_key = [],
      llama_server_timeout_seconds = 180,
      llama_server_stream_timeout_seconds = 180,
      llama_server_model_name = [],
      llama_server_health_path = ''/health'',
      model_profiles_path = ''config/model_profiles.yml''\<rparr>"

lemma from_env_empty: "from_env (\<lambda>_. []) (\<lambda>_. None) = Inr default_settings"
  by code_simp

section \<open>Properties\<close>

text \<open>Whatever the environment, settings that load have a SameSite policy a browser knows, a
  default role that is not blank, and, unless the operator says otherwise, a secure session cookie
  exactly when the policy is \<^verbatim>\<open>none\<close>.\<close>

theorem settings_cookie_policy:
  assumes "from_env render env = Inr s"
  shows "session_cookie_samesite s \<in> {''lax'', ''strict'', ''none''}
    \<and> signup_default_role s \<noteq> []
    \<and> (env ''SESSION_COOKIE_SECURE'' = None \<longrightarrow>
         session_cookie_secure s = (session_cookie_samesite s = ''none''))"
  using from_env_fields[OF assms] samesite_range[of env] cookie_secure_unset[of env] by metis

theorem settings_cookie_policy_witness:
  "\<exists>s. from_env (\<lambda>u. []) ((\<lambda>_. None)(''SESSION_COOKIE_SAMESITE'' := Some '' None '')) = Inr s
     \<and> session_cookie_samesite s \<in> {''lax'', ''strict'', ''none''}"
proof -
  let ?env = "(\<lambda>_. None)(''SESSION_COOKIE_SAMESITE'' := Some '' None '')"
  have "\<not> isl (from_env (\<lambda>u. []) ?env)" by code_simp
  then obtain s where s: "from_env (\<lambda>u. []) ?env = Inr s" by (auto simp: isl_def) (metis sum.exhaust)
  then show ?thesis using settings_cookie_policy[OF s] by blast
qed

text \<open>The queue's module constants and the settings agree on one environment: whenever the
  settings load, so do the constants, with the same queue name, limits, retry count and channel; and
  every timeout the operator leaves unset is the queue timeout.\<close>

theorem queue_constants_agree:
  assumes "from_env render env = Inr s"
  shows "(\<exists>c. load_redis_config env = Inr c
       \<and> LLM_QUEUE_NAME c = llm_queue_name s \<and> LLM_MAX_QUEUE_SIZE c = llm_max_queue_size s
       \<and> LLM_JOB_MAX_RETRIES c = llm_job_max_retries s
       \<and> LLM_QUEUE_WAIT_TIMEOUT_SECONDS c = llm_queue_wait_timeout_seconds s
       \<and> LLM_GENERATION_TIMEOUT_SECONDS c = llm_generation_timeout_seconds s
       \<and> LLM_STREAM_TIMEOUT_SECONDS c = llm_stream_timeout_seconds s
       \<and> LLM_STREAM_CHANNEL_PREFIX c = llm_stream_channel_prefix s)
    \<and> (env ''LLM_GENERATION_TIMEOUT_SECONDS'' = None \<longrightarrow>
         llm_generation_timeout_seconds s = llm_queue_timeout_seconds s)
    \<and> (env ''LLM_STREAM_TIMEOUT_SECONDS'' = None \<longrightarrow>
         llm_stream_timeout_seconds s = llm_queue_timeout_seconds s)
    \<and> (env ''LLAMA_SERVER_TIMEOUT_SECONDS'' = None \<longrightarrow>
         llama_server_timeout_seconds s = llm_queue_timeout_seconds s)"
proof (intro conjI)
  show "\<exists>c. load_redis_config env = Inr c
       \<and> LLM_QUEUE_NAME c = llm_queue_name s \<and> LLM_MAX_QUEUE_SIZE c = llm_max_queue_size s
       \<and> LLM_JOB_MAX_RETRIES c = llm_job_max_retries s
       \<and> LLM_QUEUE_WAIT_TIMEOUT_SECONDS c = llm_queue_wait_timeout_seconds s
       \<and> LLM_GENERATION_TIMEOUT_SECONDS c = llm_generation_timeout_seconds s
       \<and> LLM_STREAM_TIMEOUT_SECONDS c = llm_stream_timeout_seconds s
       \<and> LLM_STREAM_CHANNEL_PREFIX c = llm_stream_channel_prefix s"
    unfolding load_redis_config_agrees[OF assms] by simp
qed (rule impI, insert from_env_fields[OF assms], simp)+

theorem queue_constants_agree_witness:
  "\<exists>c. load_redis_config (\<lambda>_. None) = Inr c \<and> LLM_MAX_QUEUE_SIZE c = 100
     \<and> LLM_JOB_MAX_RETRIES c = 2"
  using queue_constants_agree[OF from_env_empty] by (auto simp: default_settings_def)

end
