(* ===== verification/Model_Profiles.thy ===== *)
theory Model_Profiles
  imports Lang_Prelude
begin

text \<open>
  The model profiles (\<^verbatim>\<open>app/core/model_profiles.py\<close>): the YAML document checked field by field, the
  choice of a profile for a mode, and the cache of loaded files.  The file system and the YAML loader
  are parameters: whether a path exists, and the decoded document of a path or the exception of the
  loader.  Mapping keys are text.
\<close>

section \<open>The code\<close>

record ModelMetadata =
  active_model_id :: string
  active_model_name :: string
  model_backend :: string

record ModelProfile =
  profile_name :: string
  profile_model :: string
  reasoning :: string
  prompt_control :: string
  temperature :: pyfloat
  top_p :: pyfloat
  top_k :: int
  min_p :: pyfloat
  max_tokens :: int
  profile_stream :: bool

record ModelProfiles =
  metadata :: ModelMetadata
  profiles :: "(string \<times> ModelProfile) list"

definition generation_parameters :: "ModelProfile \<Rightarrow> (string \<times> json) list" where
  "generation_parameters p =
     [(''model'', JStr (profile_model p)), (''temperature'', JFloat (temperature p)),
      (''top_p'', JFloat (top_p p)), (''top_k'', JInt (top_k p)),
      (''min_p'', JFloat (min_p p)), (''max_tokens'', JInt (max_tokens p))]"

text \<open>\<^verbatim>\<open>ModelProfiles.select\<close>; a missing default is Python's \<^verbatim>\<open>KeyError\<close>.\<close>

definition dict_item :: "(string \<times> 'a) list \<Rightarrow> string \<Rightarrow> 'a res" where
  "dict_item d k = (case map_of d k of None \<Rightarrow> Inl (mk_exn KeyError k) | Some v \<Rightarrow> Inr v)"

definition select :: "ModelProfiles \<Rightarrow> string option \<Rightarrow> ModelProfile res" where
  "select ps mode =
     (if mode = Some ''general'' \<and> map_of (profiles ps) ''general'' \<noteq> None
      then dict_item (profiles ps) ''general''
      else case mode of
        None \<Rightarrow> dict_item (profiles ps) ''default''
      | Some m \<Rightarrow>
          if m \<noteq> [] \<and> map_of (profiles ps) m \<noteq> None then dict_item (profiles ps) m
          else dict_item (profiles ps) ''default'')"

definition config_error :: "string \<Rightarrow> exn" where
  "config_error m = mk_exn ModelProfileConfigurationError m"

definition require_mapping :: "json \<Rightarrow> string \<Rightarrow> (string \<times> json) list res" where
  "require_mapping value lbl =
     (case value of JObj kvs \<Rightarrow> Inr kvs | _ \<Rightarrow> Inl (config_error (lbl @ '' must be a mapping.'')))"

definition require_string :: "json \<Rightarrow> string \<Rightarrow> string res" where
  "require_string value lbl =
     (case value of
        JStr s \<Rightarrow> if strip s = [] then Inl (config_error (lbl @ '' must be a non-empty string.''))
                  else Inr (strip s)
      | _ \<Rightarrow> Inl (config_error (lbl @ '' must be a non-empty string.'')))"

text \<open>\<^verbatim>\<open>bool\<close> is a subclass of \<^verbatim>\<open>int\<close>, so \<^verbatim>\<open>isinstance(True, int)\<close> holds and \<^verbatim>\<open>float(True)\<close> is 1.0.
  An integer beyond the range of a float makes \<^verbatim>\<open>float\<close> raise \<^verbatim>\<open>OverflowError\<close>.\<close>

definition float_of_int :: "int \<Rightarrow> pyfloat res" where
  "float_of_int i =
     (if \<bar>i\<bar> < 2 ^ 1024 - 2 ^ 970 then Inr (Fin (of_int i))
      else Inl (mk_exn (ForeignError ''OverflowError'') []))"

definition require_float :: "json \<Rightarrow> string \<Rightarrow> pyfloat res" where
  "require_float value lbl =
     (case value of
        JInt i \<Rightarrow> float_of_int i
      | JBool b \<Rightarrow> Inr (Fin (if b then 1 else 0))
      | JFloat f \<Rightarrow> Inr f
      | _ \<Rightarrow> Inl (config_error (lbl @ '' must be a number.'')))"

text \<open>The value a \<^verbatim>\<open>bool\<close> keeps as an \<^verbatim>\<open>int\<close> is its number.\<close>

definition require_int :: "json \<Rightarrow> string \<Rightarrow> int res" where
  "require_int value lbl =
     (case value of
        JInt i \<Rightarrow> Inr i
      | JBool b \<Rightarrow> Inr (if b then 1 else 0)
      | _ \<Rightarrow> Inl (config_error (lbl @ '' must be an integer.'')))"

definition require_bool :: "json \<Rightarrow> string \<Rightarrow> bool res" where
  "require_bool value lbl =
     (case value of JBool b \<Rightarrow> Inr b | _ \<Rightarrow> Inl (config_error (lbl @ '' must be a boolean.'')))"

definition require_one_of :: "string list \<Rightarrow> string \<Rightarrow> string \<Rightarrow> unit res" where
  "require_one_of options text message =
     (if text \<in> set options then Inr () else Inl (config_error message))"

definition parse_profile :: "string \<Rightarrow> json \<Rightarrow> ModelProfile res" where
  "parse_profile nm data =
     (let field = (\<lambda>f. ''profiles.'' @ nm @ ''.'' @ f) in
      bind_res (require_mapping data (''profiles.'' @ nm)) (\<lambda>m.
      bind_res (require_string (jget m ''reasoning'') (field ''reasoning'')) (\<lambda>rsn.
      bind_res (require_one_of [''on'', ''off''] rsn (field ''reasoning must be 'on' or 'off'.'')) (\<lambda>_.
      bind_res (require_string (jget m ''prompt_control'') (field ''prompt_control'')) (\<lambda>pc.
      bind_res (require_one_of [''/think'', ''/no_think''] pc
                  (field ''prompt_control must be '/think' or '/no_think'.'')) (\<lambda>_.
      bind_res (require_string (jget m ''model'') (field ''model'')) (\<lambda>mdl.
      bind_res (require_float (jget m ''temperature'') (field ''temperature'')) (\<lambda>temp.
      bind_res (require_float (jget m ''top_p'') (field ''top_p'')) (\<lambda>tp.
      bind_res (require_int (jget m ''top_k'') (field ''top_k'')) (\<lambda>tk.
      bind_res (require_float (jget m ''min_p'') (field ''min_p'')) (\<lambda>mp.
      bind_res (require_int (jget m ''max_tokens'') (field ''max_tokens'')) (\<lambda>mt.
      bind_res (require_bool (jget m ''stream'') (field ''stream'')) (\<lambda>st.
      Inr \<lparr>profile_name = nm, profile_model = mdl, reasoning = rsn, prompt_control = pc, temperature = temp,
           top_p = tp, top_k = tk, min_p = mp, max_tokens = mt, profile_stream = st\<rparr>)))))))))))))"

definition parse_metadata :: "(string \<times> json) list \<Rightarrow> ModelMetadata res" where
  "parse_metadata m =
     bind_res (require_string (jget m ''active_model_id'') ''model.active_model_id'') (\<lambda>i.
     bind_res (require_string (jget m ''active_model_name'') ''model.active_model_name'') (\<lambda>n.
     bind_res (require_string (jget m ''backend'') ''model.backend'') (\<lambda>b.
     Inr \<lparr>active_model_id = i, active_model_name = n, model_backend = b\<rparr>)))"

text \<open>\<^verbatim>\<open>_normalize_path\<close> on a POSIX path.\<close>

definition normalize_path :: "string \<Rightarrow> string \<Rightarrow> string" where
  "normalize_path cwd path = (if prefix ''/'' path then path else cwd @ ''/'' @ path)"

text \<open>The part of \<^verbatim>\<open>load_model_profiles\<close> after the document is read.\<close>

definition parse_profiles :: "json \<Rightarrow> ModelProfiles res" where
  "parse_profiles raw =
     bind_res (require_mapping raw ''model_profiles'') (\<lambda>root.
     bind_res (require_mapping (jget root ''model'') ''model'') (\<lambda>model_mapping.
     bind_res (require_mapping (jget root ''profiles'') ''profiles'') (\<lambda>profiles_mapping.
     if map_of profiles_mapping ''default'' = None
     then Inl (config_error ''Model profiles must define a default profile.'')
     else
       bind_res (parse_metadata model_mapping) (\<lambda>md.
       bind_res (map_res (\<lambda>(nm, d). bind_res (parse_profile nm d) (\<lambda>p. Inr (nm, p))) profiles_mapping)
         (\<lambda>ps. Inr \<lparr>metadata = md, profiles = ps\<rparr>)))))"

definition load_model_profiles ::
  "string \<Rightarrow> (string \<Rightarrow> bool) \<Rightarrow> (string \<Rightarrow> json res) \<Rightarrow> string \<Rightarrow> ModelProfiles res" where
  "load_model_profiles cwd file_exists read_yaml path =
     (let resolved_path = normalize_path cwd path in
      if \<not> file_exists resolved_path
      then Inl (config_error (''Model profiles file not found: '' @ resolved_path))
      else bind_res (read_yaml resolved_path) parse_profiles)"

text \<open>\<^verbatim>\<open>get_model_profiles\<close> under \<^verbatim>\<open>lru_cache(maxsize=8)\<close>: most recently used first; an exception is
  not cached.\<close>

type_synonym profile_cache = "(string \<times> ModelProfiles) list"

definition get_model_profiles ::
  "(string \<Rightarrow> ModelProfiles res) \<Rightarrow> string \<Rightarrow> (profile_cache, ModelProfiles) act" where
  "get_model_profiles load path cache =
     (case map_of cache path of
        Some ps \<Rightarrow> (Inr ps, (path, ps) # filter (\<lambda>(k, _). k \<noteq> path) cache)
      | None \<Rightarrow>
          (case load path of
             Inl e \<Rightarrow> (Inl e, cache)
           | Inr ps \<Rightarrow> (Inr ps, take 8 ((path, ps) # cache))))"

definition clear_model_profiles_cache :: "profile_cache \<Rightarrow> profile_cache" where
  "clear_model_profiles_cache cache = []"

section \<open>Valid profiles\<close>

definition valid_profile :: "ModelProfile \<Rightarrow> bool" where
  "valid_profile p \<longleftrightarrow>
     profile_model p \<noteq> [] \<and> stripped (profile_model p)
     \<and> reasoning p \<in> {''on'', ''off''} \<and> prompt_control p \<in> {''/think'', ''/no_think''}"

definition valid_profiles :: "ModelProfiles \<Rightarrow> bool" where
  "valid_profiles ps \<longleftrightarrow>
     map_of (profiles ps) ''default'' \<noteq> None
     \<and> (\<forall>(k, p) \<in> set (profiles ps). valid_profile p \<and> profile_name p = k)"

lemma require_string_Inr: "require_string v l = Inr s \<Longrightarrow> s \<noteq> [] \<and> stripped s"
  by (auto simp: require_string_def split: json.splits if_splits)

lemma require_one_of_Inr [simp]: "require_one_of xs t msg = Inr u \<longleftrightarrow> t \<in> set xs"
  by (auto simp: require_one_of_def)

lemma parse_profile_valid:
  assumes "parse_profile nm d = Inr p"
  shows "valid_profile p \<and> profile_name p = nm"
  using assms unfolding parse_profile_def bind_res_Inr Let_def
  by (elim exE conjE, drule_tac Inr_inject, hypsubst)
    (auto simp: valid_profile_def dest: require_string_Inr)

lemma parse_profiles_entries:
  assumes "list_all2 (\<lambda>x y. (case x of (nm, d) \<Rightarrow> bind_res (parse_profile nm d) (\<lambda>p. Inr (nm, p))) = Inr y)
             kvs ps"
  shows "map fst ps = map fst kvs \<and> (\<forall>(k, p)\<in>set ps. valid_profile p \<and> profile_name p = k)"
  using assms
  by (induction rule: list_all2_induct) (auto simp: bind_res_Inr dest: parse_profile_valid)

lemma parse_profiles_valid:
  assumes "parse_profiles raw = Inr ps"
  shows "valid_profiles ps"
proof -
  obtain kvs md xs z where kvs: "map_of kvs ''default'' = Some z" "ps = \<lparr>metadata = md, profiles = xs\<rparr>"
      and items: "map_res (\<lambda>(nm, d). bind_res (parse_profile nm d) (\<lambda>p. Inr (nm, p))) kvs = Inr xs"
    using assms unfolding parse_profiles_def
    by (auto simp: bind_res_Inr split: if_splits)
  then have "map fst xs = map fst kvs" and ok: "\<forall>(k, p)\<in>set xs. valid_profile p \<and> profile_name p = k"
    using parse_profiles_entries[of kvs xs] by (simp_all add: map_res_Inr)
  then have "fst ` set xs = fst ` set kvs" by (metis list.set_map)
  then have "map_of xs ''default'' \<noteq> None" using kvs(1) by (metis map_of_eq_None_iff option.distinct(1))
  then show ?thesis using ok kvs(2) by (simp add: valid_profiles_def)
qed

lemma load_model_profiles_valid:
  "load_model_profiles cwd ex rd path = Inr ps \<Longrightarrow> valid_profiles ps"
  by (auto simp: load_model_profiles_def Let_def bind_res_Inr parse_profiles_valid split: if_splits)

lemma dict_item_valid:
  "valid_profiles ps \<Longrightarrow> map_of (profiles ps) k \<noteq> None \<Longrightarrow>
     \<exists>p. dict_item (profiles ps) k = Inr p \<and> valid_profile p \<and> profile_name p = k"
  unfolding dict_item_def valid_profiles_def by (fastforce dest: map_of_SomeD)

text \<open>The first branch of \<^verbatim>\<open>select\<close> is a case of the second.\<close>

lemma select_eq:
  "select ps mode = dict_item (profiles ps)
     (case mode of None \<Rightarrow> ''default''
      | Some m \<Rightarrow> if m \<noteq> [] \<and> map_of (profiles ps) m \<noteq> None then m else ''default'')"
  by (auto simp: select_def split: option.split)

lemma valid_select:
  assumes "valid_profiles ps"
  shows "\<exists>p. select ps mode = Inr p \<and> valid_profile p
    \<and> profile_name p = (case mode of None \<Rightarrow> ''default''
        | Some m \<Rightarrow> if m \<noteq> [] \<and> map_of (profiles ps) m \<noteq> None then m else ''default'')"
proof -
  have "map_of (profiles ps) ''default'' \<noteq> None" using assms by (simp add: valid_profiles_def)
  then show ?thesis unfolding select_eq
    by (intro dict_item_valid[OF assms]) (auto split: option.split)
qed

section \<open>Properties\<close>

text \<open>C40. Profiles that load are usable for every mode: the selection returns the profile of that name
  when there is one and the default otherwise, and the profile returned names a model, a reasoning
  switch and one of the two prompt controls.\<close>

theorem loaded_profiles_select:
  assumes "load_model_profiles cwd ex rd path = Inr ps"
  shows "\<exists>p. select ps mode = Inr p \<and> valid_profile p
    \<and> profile_name p = (case mode of None \<Rightarrow> ''default''
        | Some m \<Rightarrow> if m \<noteq> [] \<and> map_of (profiles ps) m \<noteq> None then m else ''default'')"
  using load_model_profiles_valid[OF assms] by (rule valid_select)

definition sample_profile :: json where
  "sample_profile = JObj
     [(''reasoning'', JStr ''off''), (''prompt_control'', JStr '' /no_think''),
      (''model'', JStr ''qwen''), (''temperature'', JFloat (Fin (1/2))), (''top_p'', JInt 1),
      (''top_k'', JInt 20), (''min_p'', JInt 0), (''max_tokens'', JInt 512), (''stream'', JBool True)]"

definition sample_document :: json where
  "sample_document = JObj
     [(''model'', JObj [(''active_model_id'', JStr ''q''), (''active_model_name'', JStr ''Q''),
                        (''backend'', JStr ''llama_server'')]),
      (''profiles'', JObj [(''default'', sample_profile), (''translation'', sample_profile)])]"

theorem loaded_profiles_select_witness:
  "\<exists>ps p. load_model_profiles ''/srv'' (\<lambda>_. True) (\<lambda>_. Inr sample_document) ''p.yml'' = Inr ps
     \<and> select ps (Some ''translation'') = Inr p \<and> prompt_control p \<in> {''/think'', ''/no_think''}"
proof -
  have "\<not> isl (load_model_profiles ''/srv'' (\<lambda>_. True) (\<lambda>_. Inr sample_document) ''p.yml'')" by code_simp
  then obtain ps where ps:
      "load_model_profiles ''/srv'' (\<lambda>_. True) (\<lambda>_. Inr sample_document) ''p.yml'' = Inr ps"
    by (auto simp: isl_def) (metis sum.exhaust)
  then show ?thesis
    using loaded_profiles_select[OF ps, of "Some ''translation''"] by (auto simp: valid_profile_def)
qed

text \<open>The cache never holds more than eight files, each of them once and each with profiles that
  loaded.\<close>

definition cache_ok :: "profile_cache \<Rightarrow> bool" where
  "cache_ok cache \<longleftrightarrow>
     distinct (map fst cache) \<and> length cache \<le> 8 \<and> (\<forall>(k, ps)\<in>set cache. valid_profiles ps)"

lemma cache_key_fresh: "map_of c k = None \<Longrightarrow> k \<notin> set (map fst c)"
  by (simp add: map_of_eq_None_iff)

lemma get_model_profiles_hit:
  assumes "cache_ok cache" "map_of cache path = Some ps"
  shows "cache_ok ((path, ps) # filter (\<lambda>(k, _). k \<noteq> path) cache) \<and> valid_profiles ps"
proof -
  have mem: "(path, ps) \<in> set cache" using assms(2) by (rule map_of_SomeD)
  then have "length (filter (\<lambda>(k, _). k \<noteq> path) cache) < length cache"
    by (intro length_filter_less[of "(path, ps)"]) auto
  moreover have "distinct (map fst (filter (\<lambda>(k, _). k \<noteq> path) cache))"
    using assms(1) by (simp add: cache_ok_def distinct_map_filter)
  ultimately show ?thesis using assms(1) mem by (auto simp: cache_ok_def)
qed

lemma get_model_profiles_miss:
  assumes "cache_ok cache" "map_of cache path = None" "valid_profiles ps"
  shows "cache_ok (take 8 ((path, ps) # cache))"
  using assms cache_key_fresh[OF assms(2)]
  by (auto simp: cache_ok_def take_Cons' take_map[symmetric] distinct_take dest: in_set_takeD)

text \<open>The cached loader keeps the cache well formed (at most eight files, each once, each with valid
  profiles) and answers with valid profiles, whether it hits, misses or evicts.\<close>

theorem get_model_profiles_cache:
  assumes "cache_ok cache"
    and "get_model_profiles (load_model_profiles cwd ex rd) path cache = (r, cache')"
  shows "cache_ok cache' \<and> (\<forall>ps. r = Inr ps \<longrightarrow> valid_profiles ps \<and> map_of cache' path = Some ps)"
  using assms get_model_profiles_hit[OF assms(1), of path]
    get_model_profiles_miss[OF assms(1), of path] load_model_profiles_valid[of cwd ex rd path]
  by (auto simp: get_model_profiles_def split: option.splits sum.splits)

theorem get_model_profiles_cache_witness:
  "cache_ok (snd (get_model_profiles
      (load_model_profiles ''/srv'' (\<lambda>_. True) (\<lambda>_. Inr sample_document)) ''p.yml'' []))"
  using get_model_profiles_cache[of "[]" "''/srv''" "\<lambda>_. True" "\<lambda>_. Inr sample_document" "''p.yml''"]
  by (cases "get_model_profiles
      (load_model_profiles ''/srv'' (\<lambda>_. True) (\<lambda>_. Inr sample_document)) ''p.yml'' []")
    (simp add: cache_ok_def)

end
