(* ===== verification/Think_Filter.thy ===== *)
theory Think_Filter
  imports Lang_Prelude
begin

text \<open>
  The removal of reasoning text from model output (\<^verbatim>\<open>app/infrastructure/llm/llama_server_gateway.py\<close>):
  the incremental filter \<^verbatim>\<open>_ThinkStreamFilter\<close> of the streaming path and the regular expression of
  \<^verbatim>\<open>_strip_think_blocks\<close> of the blocking path, both against one reference reading of a whole text,
  \<open>visible_text\<close>.
\<close>

section \<open>The code\<close>

definition THINK_OPEN_TAG :: string where "THINK_OPEN_TAG = ''<think>''"
definition THINK_CLOSE_TAG :: string where "THINK_CLOSE_TAG = ''</think>''"

text \<open>\<^verbatim>\<open>text.lower().find(tag)\<close>.\<close>

definition ifind :: "string \<Rightarrow> string \<Rightarrow> nat option" where
  "ifind tag text = find_sub tag (lower text)"

record think_filter =
  buffer :: string
  inside_think :: bool

definition new_filter :: think_filter where
  "new_filter = \<lparr>buffer = [], inside_think = False\<rparr>"

text \<open>The loop of \<^verbatim>\<open>_overlap_suffix\<close>, from the largest size down to 1.\<close>

fun overlap_at :: "nat \<Rightarrow> string \<Rightarrow> string \<Rightarrow> string" where
  "overlap_at 0 text tag = []"
| "overlap_at (Suc k) text tag =
     (let suf = drop (length text - Suc k) text in
      if lower suf = take (Suc k) tag then suf else overlap_at k text tag)"

definition overlap_suffix :: "string \<Rightarrow> string \<Rightarrow> string" where
  "overlap_suffix text tag = overlap_at (min (length text) (length tag - 1)) text tag"

lemma ifind_bound: "ifind tag text = Some i \<Longrightarrow> i + length tag \<le> length text"
  unfolding ifind_def by (drule find_sub_Some) simp

lemma tag_lengths [simp]:
  "length THINK_OPEN_TAG = 7" "length THINK_CLOSE_TAG = 8"
  by (simp_all add: THINK_OPEN_TAG_def THINK_CLOSE_TAG_def)

text \<open>The \<^verbatim>\<open>while text\<close> loop of \<^verbatim>\<open>feed\<close>: the parts collected so far, the text left, the flag.  The
  result is what \<^verbatim>\<open>feed\<close> returns and the filter it leaves.  A block that stays open returns the
  empty string, whatever was collected before it.\<close>

function feed_loop :: "bool \<Rightarrow> string \<Rightarrow> string \<Rightarrow> string \<times> think_filter" where
  "feed_loop ins visible text =
     (if text = [] then (visible, \<lparr>buffer = [], inside_think = ins\<rparr>)
      else if ins then
        (case ifind THINK_CLOSE_TAG text of
           None \<Rightarrow> ([], \<lparr>buffer = overlap_suffix text THINK_CLOSE_TAG, inside_think = True\<rparr>)
         | Some i \<Rightarrow> feed_loop False visible (drop (i + length THINK_CLOSE_TAG) text))
      else
        (case ifind THINK_OPEN_TAG text of
           None \<Rightarrow>
             (let tail = overlap_suffix text THINK_OPEN_TAG in
              if tail \<noteq> []
              then (visible @ take (length text - length tail) text,
                    \<lparr>buffer = tail, inside_think = False\<rparr>)
              else (visible @ text, \<lparr>buffer = [], inside_think = False\<rparr>))
         | Some i \<Rightarrow> feed_loop True (visible @ take i text) (drop (i + length THINK_OPEN_TAG) text)))"
  by pat_completeness auto
termination
  by (relation "measure (\<lambda>(ins, visible, text). length text)") (auto dest: ifind_bound)

declare feed_loop.simps [simp del]

definition feed :: "think_filter \<Rightarrow> string \<Rightarrow> string \<times> think_filter" where
  "feed f chunk = feed_loop (inside_think f) [] (buffer f @ chunk)"

definition flush :: "think_filter \<Rightarrow> string \<times> think_filter" where
  "flush f =
     (if inside_think f then ([], f\<lparr>buffer := []\<rparr>) else (buffer f, f\<lparr>buffer := []\<rparr>))"

text \<open>What the streaming path shows of a list of tokens: the results of \<^verbatim>\<open>feed\<close>, and the filter
  after them; then with the trailing \<^verbatim>\<open>flush\<close>.\<close>

fun feed_all :: "think_filter \<Rightarrow> string list \<Rightarrow> string list \<times> think_filter" where
  "feed_all f [] = ([], f)"
| "feed_all f (c # cs) =
     (case feed f c of (v, f1) \<Rightarrow> (case feed_all f1 cs of (vs, f2) \<Rightarrow> (v # vs, f2)))"

definition streamed :: "string list \<Rightarrow> string" where
  "streamed chunks = (case feed_all new_filter chunks of (vs, f) \<Rightarrow> concat vs @ fst (flush f))"

text \<open>\<^verbatim>\<open>_THINK_BLOCK_PATTERN.sub("", content)\<close>: the leftmost opening tag, up to the first closing tag
  after it, over and over; \<^verbatim>\<open>_strip_think_blocks\<close> then drops stray tags as written.\<close>

function sub_blocks :: "string \<Rightarrow> string" where
  "sub_blocks t =
     (case ifind THINK_OPEN_TAG t of
        None \<Rightarrow> t
      | Some i \<Rightarrow>
          (case ifind THINK_CLOSE_TAG (drop (i + length THINK_OPEN_TAG) t) of
             None \<Rightarrow> t
           | Some j \<Rightarrow>
               take i t
               @ sub_blocks (drop (j + length THINK_CLOSE_TAG) (drop (i + length THINK_OPEN_TAG) t))))"
  by pat_completeness auto
termination
  by (relation "measure length") (auto dest: ifind_bound)

declare sub_blocks.simps [simp del]

definition strip_think_blocks :: "string \<Rightarrow> string" where
  "strip_think_blocks content =
     replace_sub THINK_CLOSE_TAG [] (replace_sub THINK_OPEN_TAG [] (sub_blocks content))"

section \<open>The reference reading\<close>

text \<open>The text outside think blocks, read in one piece; an unclosed block hides the rest.\<close>

function visible_text :: "bool \<Rightarrow> string \<Rightarrow> string" where
  "visible_text ins t =
     (if ins then
        (case ifind THINK_CLOSE_TAG t of
           None \<Rightarrow> []
         | Some i \<Rightarrow> visible_text False (drop (i + length THINK_CLOSE_TAG) t))
      else
        (case ifind THINK_OPEN_TAG t of
           None \<Rightarrow> t
         | Some i \<Rightarrow> take i t @ visible_text True (drop (i + length THINK_OPEN_TAG) t)))"
  by pat_completeness auto
termination
  by (relation "measure (\<lambda>(ins, t). length t)") (auto dest: ifind_bound)

declare visible_text.simps [simp del]

text \<open>Whether a reading ends outside every block.\<close>

function ends_visible :: "bool \<Rightarrow> string \<Rightarrow> bool" where
  "ends_visible ins t =
     (if ins then
        (case ifind THINK_CLOSE_TAG t of
           None \<Rightarrow> False
         | Some i \<Rightarrow> ends_visible False (drop (i + length THINK_CLOSE_TAG) t))
      else
        (case ifind THINK_OPEN_TAG t of
           None \<Rightarrow> True
         | Some i \<Rightarrow> ends_visible True (drop (i + length THINK_OPEN_TAG) t)))"
  by pat_completeness auto
termination
  by (relation "measure (\<lambda>(ins, t). length t)") (auto dest: ifind_bound)

declare ends_visible.simps [simp del]

section \<open>Searching a growing text\<close>

lemma find_sub_prefix: "prefix pat s \<Longrightarrow> find_sub pat s = Some 0"
  by (simp add: find_sub.simps[of pat s])

lemma find_sub_append: "find_sub pat s = Some i \<Longrightarrow> find_sub pat (s @ x) = Some i"
proof (induction s arbitrary: i)
  case Nil
  then show ?case by (simp add: find_sub_prefix split: if_splits)
next
  case (Cons c s)
  show ?case
  proof (cases "prefix pat (c # s)")
    case True
    then have "prefix pat ((c # s) @ x)" by (rule prefix_prefix)
    then show ?thesis using Cons.prems True by (simp add: find_sub_Cons)
  next
    case False
    then obtain k where k: "find_sub pat s = Some k" "i = Suc k"
      using Cons.prems by (auto simp: find_sub_Cons)
    then have fit: "length pat \<le> length (c # s)" using find_sub_Some[OF k(1)] by simp
    have "\<not> prefix pat ((c # s) @ x)"
    proof
      assume "prefix pat ((c # s) @ x)"
      with fit False show False
        using prefix_length_prefix[of pat "(c # s) @ x" "c # s"] by simp
    qed
    then show ?thesis using Cons.IH[OF k(1)] k(2) by (simp add: find_sub_Cons)
  qed
qed

lemma ifind_append: "ifind tag s = Some i \<Longrightarrow> ifind tag (s @ x) = Some i"
  by (simp add: ifind_def find_sub_append)

text \<open>An occurrence in \<^term>\<open>u @ v\<close> cannot start inside \<^term>\<open>u\<close> when no suffix of \<^term>\<open>u @ v\<close> longer than
  \<^term>\<open>v\<close> could still grow into the pattern.\<close>

lemma find_sub_skip:
  assumes "\<And>k. k < length u \<Longrightarrow> \<not> prefix pat (drop k (u @ w))"
  shows "find_sub pat (u @ w) = map_option ((+) (length u)) (find_sub pat w)"
  using assms
proof (induction u)
  case Nil
  show ?case by (cases "find_sub pat w") simp_all
next
  case (Cons c u)
  have "find_sub pat (u @ w) = map_option ((+) (length u)) (find_sub pat w)"
    using Cons.prems[of "Suc k" for k] by (intro Cons.IH) auto
  moreover have "\<not> prefix pat (c # u @ w)" using Cons.prems[of 0] by simp
  ultimately show ?case by (simp add: find_sub_Cons option.map_comp comp_def)
qed

section \<open>The held-back suffix\<close>

lemma overlap_at_spec:
  "n \<le> length t \<Longrightarrow>
   \<exists>m\<le>n. overlap_at n t tag = drop (length t - m) t
     \<and> lower (drop (length t - m) t) = take m tag
     \<and> (\<forall>k. m < k \<and> k \<le> n \<longrightarrow> lower (drop (length t - k) t) \<noteq> take k tag)"
proof (induction n)
  case (Suc n)
  show ?case
  proof (cases "lower (drop (length t - Suc n) t) = take (Suc n) tag")
    case True
    then have "overlap_at (Suc n) t tag = drop (length t - Suc n) t" by simp
    with True show ?thesis by (intro exI[of _ "Suc n"]) (auto simp del: overlap_at.simps)
  next
    case False
    then obtain m where "m \<le> n" "overlap_at n t tag = drop (length t - m) t"
        "lower (drop (length t - m) t) = take m tag"
        "\<forall>k. m < k \<and> k \<le> n \<longrightarrow> lower (drop (length t - k) t) \<noteq> take k tag"
      using Suc by auto
    then show ?thesis using False by (intro exI[of _ m]) (auto simp: le_Suc_eq)
  qed
qed simp

lemma overlap_suffix_spec:
  obtains m where "m \<le> length t" "m \<le> length tag - 1"
    "overlap_suffix t tag = drop (length t - m) t"
    "\<And>k. m < k \<Longrightarrow> k \<le> length t \<Longrightarrow> k < length tag \<Longrightarrow>
       lower (drop (length t - k) t) \<noteq> take k tag"
proof -
  obtain m where "m \<le> min (length t) (length tag - 1)"
      "overlap_at (min (length t) (length tag - 1)) t tag = drop (length t - m) t"
      "\<forall>k. m < k \<and> k \<le> min (length t) (length tag - 1) \<longrightarrow>
        lower (drop (length t - k) t) \<noteq> take k tag"
    using overlap_at_spec[of "min (length t) (length tag - 1)" t tag] by auto
  then show thesis by (intro that[of m]) (auto simp: overlap_suffix_def)
qed

lemma overlap_suffix_length: "length (overlap_suffix t tag) \<le> length tag - 1"
  by (rule overlap_suffix_spec[of t tag]) simp

lemma overlap_suffix_split:
  "take (length t - length (overlap_suffix t tag)) t @ overlap_suffix t tag = t"
  by (rule overlap_suffix_spec[of t tag]) simp

text \<open>What was held back is all that a later chunk can complete.\<close>

lemma ifind_overlap:
  assumes none: "ifind tag t = None" and u: "t = u @ overlap_suffix t tag"
  shows "ifind tag (t @ x) = map_option ((+) (length u)) (ifind tag (overlap_suffix t tag @ x))"
proof -
  let ?tail = "overlap_suffix t tag"
  obtain m where m: "m \<le> length t" "?tail = drop (length t - m) t"
    and longest: "\<And>k. m < k \<Longrightarrow> k \<le> length t \<Longrightarrow> k < length tag \<Longrightarrow>
       lower (drop (length t - k) t) \<noteq> take k tag"
    by (rule overlap_suffix_spec[of t tag]) auto
  have lt: "length ?tail = m" using m by simp
  have lu: "length u = length t - m" using lt u by (metis add_diff_cancel_right' length_append)
  have whole: "lower u @ lower ?tail @ lower x = lower t @ lower x"
    using u by (metis append_assoc lower_append)
  have "\<not> prefix tag (drop k (lower t @ lower x))" if k: "k < length u" for k
  proof
    let ?s = "drop k (lower t)"
    assume "prefix tag (drop k (lower t @ lower x))"
    then have pre: "prefix tag (?s @ lower x)" using k lu by simp
    show False
    proof (cases "length tag \<le> length ?s")
      case True
      then have "prefix tag ?s" using prefix_length_prefix[OF pre, of ?s] by simp
      then obtain v where "drop k (lower t) = tag @ v" by (auto simp: prefix_def)
      then have "lower t = take k (lower t) @ tag @ v"
        by (rule subst[where P = "\<lambda>z. lower t = take k (lower t) @ z"]) simp
      then show False using none unfolding ifind_def find_sub_None_iff by blast
    next
      case False
      then have "prefix ?s tag" using prefix_length_prefix[OF _ pre, of ?s] by simp
      then have "?s = take (length ?s) tag" by (auto simp: prefix_def)
      moreover have "?s = lower (drop (length t - length ?s) t)"
        using k lu by (simp add: lower_drop)
      moreover have "m < length ?s" "length ?s < length tag" "length ?s \<le> length t"
        using False k lu m(1) by simp_all
      ultimately show False using longest[of "length ?s"] by metis
    qed
  qed
  then have "find_sub tag (lower t @ lower x)
      = map_option ((+) (length u)) (find_sub tag (lower ?tail @ lower x))"
    using find_sub_skip[of "lower u" tag "lower ?tail @ lower x"] unfolding whole by simp
  then show ?thesis by (simp add: ifind_def)
qed

section \<open>One call of feed against the reference\<close>

text \<open>What a call would return if it kept the visible parts collected before an unclosed block;
  and whether it is a call that drops some.\<close>

function emitted :: "bool \<Rightarrow> string \<Rightarrow> string" where
  "emitted ins t =
     (if t = [] then []
      else if ins then
        (case ifind THINK_CLOSE_TAG t of
           None \<Rightarrow> []
         | Some i \<Rightarrow> emitted False (drop (i + length THINK_CLOSE_TAG) t))
      else
        (case ifind THINK_OPEN_TAG t of
           None \<Rightarrow> take (length t - length (overlap_suffix t THINK_OPEN_TAG)) t
         | Some i \<Rightarrow> take i t @ emitted True (drop (i + length THINK_OPEN_TAG) t)))"
  by pat_completeness auto
termination
  by (relation "measure (\<lambda>(ins, t). length t)") (auto dest: ifind_bound)

declare emitted.simps [simp del]

lemma visible_text_close:
  assumes "ifind THINK_CLOSE_TAG t = Some i"
  shows "visible_text True (t @ x) = visible_text False (drop (i + length THINK_CLOSE_TAG) t @ x)"
  using ifind_append[OF assms, of x] ifind_bound[OF assms]
  by (simp add: visible_text.simps[of True "t @ x"])

lemma visible_text_open:
  assumes "ifind THINK_OPEN_TAG t = Some i"
  shows "visible_text False (t @ x)
    = take i t @ visible_text True (drop (i + length THINK_OPEN_TAG) t @ x)"
  using ifind_append[OF assms, of x] ifind_bound[OF assms]
  by (simp add: visible_text.simps[of False "t @ x"])

lemma visible_text_held_close:
  assumes "ifind THINK_CLOSE_TAG t = None"
  shows "visible_text True (t @ x) = visible_text True (overlap_suffix t THINK_CLOSE_TAG @ x)"
proof -
  let ?tail = "overlap_suffix t THINK_CLOSE_TAG"
  define u where "u = take (length t - length ?tail) t"
  have u: "t = u @ ?tail" unfolding u_def by (simp add: overlap_suffix_split)
  have whole: "t @ x = u @ ?tail @ x" using u by (metis append_assoc)
  have f: "ifind THINK_CLOSE_TAG (t @ x)
      = map_option ((+) (length u)) (ifind THINK_CLOSE_TAG (?tail @ x))"
    by (rule ifind_overlap[OF assms u])
  show ?thesis
    unfolding visible_text.simps[of True "t @ x"] visible_text.simps[of True "?tail @ x"] f
    unfolding whole by (simp split: option.split)
qed

lemma visible_text_held_open:
  assumes "ifind THINK_OPEN_TAG t = None"
  shows "visible_text False (t @ x)
    = take (length t - length (overlap_suffix t THINK_OPEN_TAG)) t
      @ visible_text False (overlap_suffix t THINK_OPEN_TAG @ x)"
proof -
  let ?tail = "overlap_suffix t THINK_OPEN_TAG"
  define u where "u = take (length t - length ?tail) t"
  have u: "t = u @ ?tail" unfolding u_def by (simp add: overlap_suffix_split)
  have whole: "t @ x = u @ ?tail @ x" using u by (metis append_assoc)
  have f: "ifind THINK_OPEN_TAG (t @ x)
      = map_option ((+) (length u)) (ifind THINK_OPEN_TAG (?tail @ x))"
    by (rule ifind_overlap[OF assms u])
  show ?thesis
    unfolding visible_text.simps[of False "t @ x"] visible_text.simps[of False "?tail @ x"] f
      u_def[symmetric]
    unfolding whole by (simp split: option.split)
qed

text \<open>The loop leaves the filter in the reading's state, whatever was collected; its result is the
  collected text and the rest, or nothing at all when it ends inside a block.\<close>

lemma feed_loop_spec:
  "feed_loop ins vis t = (r, f) \<Longrightarrow>
     visible_text ins (t @ x) = emitted ins t @ visible_text (inside_think f) (buffer f @ x)
     \<and> (r = vis @ emitted ins t \<or> r = [] \<and> inside_think f)"
proof (induction ins vis t arbitrary: r f rule: feed_loop.induct)
  case (1 ins vis t)
  show ?case
  proof (cases "t = []")
    case True
    then show ?thesis using 1(3)
      by (auto simp: feed_loop.simps[of ins vis "[]"] emitted.simps[of ins "[]"])
  next
    case ne: False
    show ?thesis
    proof (cases ins)
      case True
      then show ?thesis
        using 1(1)[OF ne True, of _ r f] 1(3) ne
        by (auto simp: feed_loop.simps[of True vis t] emitted.simps[of True t]
            visible_text_close visible_text_held_close split: option.splits)
    next
      case False
      then show ?thesis
        using 1(2)[OF ne False, of _ r f] 1(3) ne
        by (auto simp: feed_loop.simps[of False vis t] emitted.simps[of False t] Let_def
            visible_text_open visible_text_held_open split: option.splits if_splits)
    qed
  qed
qed

section \<open>The filter over a whole stream\<close>

text \<open>The invariant of the filter: what it holds back is shorter than the tag it waits for.\<close>

definition filter_ok :: "think_filter \<Rightarrow> bool" where
  "filter_ok f \<longleftrightarrow>
     length (buffer f) < length (if inside_think f then THINK_CLOSE_TAG else THINK_OPEN_TAG)"

text \<open>A call that returns less than it should: it ends inside a block after visible text.\<close>

definition drops_text :: "think_filter \<Rightarrow> string \<Rightarrow> bool" where
  "drops_text f chunk \<longleftrightarrow>
     fst (feed f chunk) \<noteq> emitted (inside_think f) (buffer f @ chunk)"

fun some_drop :: "think_filter \<Rightarrow> string list \<Rightarrow> bool" where
  "some_drop f [] = False"
| "some_drop f (c # cs) = (drops_text f c \<or> some_drop (snd (feed f c)) cs)"

lemma filter_ok_leaves:
  "filter_ok \<lparr>buffer = [], inside_think = ins\<rparr>"
  "filter_ok \<lparr>buffer = overlap_suffix t THINK_CLOSE_TAG, inside_think = True\<rparr>"
  "filter_ok \<lparr>buffer = overlap_suffix t THINK_OPEN_TAG, inside_think = False\<rparr>"
  using overlap_suffix_length[of t THINK_CLOSE_TAG] overlap_suffix_length[of t THINK_OPEN_TAG]
  by (simp_all add: filter_ok_def less_Suc_eq_le THINK_OPEN_TAG_def THINK_CLOSE_TAG_def)

lemma feed_loop_ok: "feed_loop ins vis t = (r, f) \<Longrightarrow> filter_ok f"
proof (induction ins vis t arbitrary: r f rule: feed_loop.induct)
  case (1 ins vis t)
  from 1(3) show ?case
    by (subst (asm) feed_loop.simps[of ins vis t])
      (auto simp: Let_def filter_ok_leaves split: if_splits option.splits dest: 1(1,2))
qed

lemma feed_ok: "filter_ok (snd (feed f chunk))"
  unfolding feed_def
  by (cases "feed_loop (inside_think f) [] (buffer f @ chunk)") (auto dest: feed_loop_ok)

lemma new_filter_ok: "filter_ok new_filter"
  by (simp add: filter_ok_def new_filter_def)

lemma visible_text_flush: "filter_ok f \<Longrightarrow> visible_text (inside_think f) (buffer f) = fst (flush f)"
proof -
  assume ok: "filter_ok f"
  have "ifind (if inside_think f then THINK_CLOSE_TAG else THINK_OPEN_TAG) (buffer f) = None"
    using ok ifind_bound unfolding filter_ok_def by (metis add_leD2 not_None_eq not_le)
  then show ?thesis
    by (simp add: flush_def visible_text.simps[of _ "buffer f"] split: if_splits)
qed

lemma feed_spec:
  "visible_text (inside_think f) (buffer f @ chunk @ x)
     = emitted (inside_think f) (buffer f @ chunk)
       @ visible_text (inside_think (snd (feed f chunk))) (buffer (snd (feed f chunk)) @ x)"
  "fst (feed f chunk) = emitted (inside_think f) (buffer f @ chunk) \<or> fst (feed f chunk) = []"
  using feed_loop_spec[of "inside_think f" "[]" "buffer f @ chunk" "fst (feed f chunk)"
      "snd (feed f chunk)" x]
  by (auto simp: feed_def)

lemma feed_all_spec:
  assumes "filter_ok f"
  shows "subseq (concat (fst (feed_all f cs)) @ fst (flush (snd (feed_all f cs))))
           (visible_text (inside_think f) (buffer f @ concat cs))
         \<and> (concat (fst (feed_all f cs)) @ fst (flush (snd (feed_all f cs)))
              = visible_text (inside_think f) (buffer f @ concat cs) \<longleftrightarrow> \<not> some_drop f cs)"
  using assms
proof (induction cs arbitrary: f)
  case Nil
  then show ?case by (simp add: visible_text_flush)
next
  case (Cons c cs)
  let ?f1 = "snd (feed f c)" and ?e = "emitted (inside_think f) (buffer f @ c)"
  let ?out = "concat (fst (feed_all ?f1 cs)) @ fst (flush (snd (feed_all ?f1 cs)))"
  let ?vis = "visible_text (inside_think ?f1) (buffer ?f1 @ concat cs)"
  have IH: "subseq ?out ?vis" "?out = ?vis \<longleftrightarrow> \<not> some_drop ?f1 cs"
    using Cons.IH[OF feed_ok[of f c]] by auto
  have all: "concat (fst (feed_all f (c # cs))) @ fst (flush (snd (feed_all f (c # cs))))
      = fst (feed f c) @ ?out"
    by (simp add: split_beta)
  have vis: "visible_text (inside_think f) (buffer f @ concat (c # cs)) = ?e @ ?vis"
    using feed_spec(1)[of f c "concat cs"] by simp
  show ?case
  proof (cases "fst (feed f c) = ?e")
    case True
    then show ?thesis using IH list_emb_append_mono[OF subseq_order.order_refl IH(1), of ?e]
      unfolding all vis by (simp add: drops_text_def)
  next
    case False
    then have r: "fst (feed f c) = []" and e: "?e \<noteq> []" using feed_spec(2)[of f c] by auto
    have "length ?out \<le> length ?vis" using IH(1) by (rule list_emb_length)
    then have "?out \<noteq> ?e @ ?vis" using e by (metis add_le_same_cancel2 le_0_eq length_0_conv length_append)
    moreover have "subseq ?out (?e @ ?vis)" using IH(1) by (rule list_emb_append2)
    ultimately show ?thesis using False r unfolding all vis by (simp add: drops_text_def)
  qed
qed

lemma streamed_spec:
  "subseq (streamed cs) (visible_text False (concat cs))"
  "streamed cs = visible_text False (concat cs) \<longleftrightarrow> \<not> some_drop new_filter cs"
  using feed_all_spec[OF new_filter_ok, of cs]
  by (simp_all add: streamed_def split_beta new_filter_def)

text \<open>A token of one character completes a tag or nothing, so nothing precedes an opened block.\<close>

lemma one_char_no_drop:
  assumes "filter_ok f" "length chunk \<le> 1"
  shows "\<not> drops_text f chunk"
proof -
  let ?t = "buffer f @ chunk"
  have open_at: "i = 0 \<and> drop 7 ?t = []" if "ifind THINK_OPEN_TAG ?t = Some i" "\<not> inside_think f" for i
    using ifind_bound[OF that(1)] that(2) assms by (simp add: filter_ok_def)
  have close_at: "drop (i + 8) ?t = []" if "ifind THINK_CLOSE_TAG ?t = Some i" "inside_think f" for i
    using ifind_bound[OF that(1)] that(2) assms by (simp add: filter_ok_def)
  show ?thesis
    by (cases "inside_think f")
      (auto simp: drops_text_def feed_def feed_loop.simps[of _ _ ?t] emitted.simps[of _ ?t] Let_def
        feed_loop.simps[of _ _ "[]"] emitted.simps[of _ "[]"]
        split: option.split dest!: open_at close_at simp del: drop_append)
qed

lemma one_char_exact:
  assumes "\<forall>c\<in>set cs. length c \<le> 1"
  shows "streamed cs = visible_text False (concat cs)"
proof -
  have "\<not> some_drop f cs" if "filter_ok f" for f
    using assms that by (induction cs arbitrary: f) (auto simp: one_char_no_drop feed_ok)
  then show ?thesis using streamed_spec(2) new_filter_ok by simp
qed

section \<open>The blocking path\<close>

lemma ends_visible_close: "ends_visible True t \<longleftrightarrow>
    (\<exists>j. ifind THINK_CLOSE_TAG t = Some j \<and> ends_visible False (drop (j + length THINK_CLOSE_TAG) t))"
  by (simp add: ends_visible.simps[of True] split: option.split)

lemma sub_blocks_visible: "ends_visible False t \<Longrightarrow> sub_blocks t = visible_text False t"
proof (induction t rule: sub_blocks.induct)
  case (1 t)
  show ?case
  proof (cases "ifind THINK_OPEN_TAG t")
    case None
    then show ?thesis by (simp add: sub_blocks.simps[of t] visible_text.simps[of False t])
  next
    case (Some i)
    let ?rest = "drop (i + length THINK_OPEN_TAG) t"
    have "ends_visible True ?rest" using 1(2) Some by (simp add: ends_visible.simps[of False t])
    then obtain j where j: "ifind THINK_CLOSE_TAG ?rest = Some j"
        "ends_visible False (drop (j + length THINK_CLOSE_TAG) ?rest)"
      unfolding ends_visible_close by blast
    have "sub_blocks (drop (j + length THINK_CLOSE_TAG) ?rest)
        = visible_text False (drop (j + length THINK_CLOSE_TAG) ?rest)"
      by (rule 1(1)[OF Some j])
    then show ?thesis using Some j(1)
      by (simp add: sub_blocks.simps[of t] visible_text.simps[of False t]
          visible_text.simps[of True "drop (i + 7) t"] del: drop_drop)
  qed
qed

lemma strip_think_visible:
  assumes "ends_visible False t" "\<not> contains THINK_OPEN_TAG (visible_text False t)"
    "\<not> contains THINK_CLOSE_TAG (visible_text False t)"
  shows "strip_think_blocks t = visible_text False t"
  using assms by (simp add: strip_think_blocks_def sub_blocks_visible replace_sub_absent)

section \<open>Properties\<close>




text \<open>C38. The filter never holds back a whole tag: after any sequence of tokens its buffer is shorter
  than the tag it waits for, so at most seven characters of the answer are ever delayed.\<close>

theorem filter_holds_back_little:
  "length (buffer (snd (feed_all new_filter cs))) \<le> 7
   \<and> filter_ok (snd (feed_all new_filter cs))"
proof -
  have "filter_ok (snd (feed_all f cs))" if "filter_ok f" for f
    using that by (induction cs arbitrary: f) (simp_all add: split_beta feed_ok)
  from this[OF new_filter_ok] show ?thesis
    by (auto simp: filter_ok_def split: if_splits)
qed

text \<open>Two tokens on which the filter loses text: the block opened in the first token makes \<^verbatim>\<open>feed\<close>
  return the empty string, and the text before the tag is gone.\<close>

lemma feed_loses_text_before_open_block:
  "streamed [''Hello <think>plan'', ''</think> world''] = '' world''
   \<and> visible_text False ''Hello <think>plan</think> world'' = ''Hello  world''"
  by code_simp

text \<open>Output cut off inside a block: the streaming path shows nothing of it, the blocking path shows the
  reasoning.\<close>

lemma blocking_shows_unclosed_block:
  "streamed [''<think>secret''] = [] \<and> strip_think_blocks ''<think>secret'' = ''secret''"
  by code_simp

end
