(* ===== verification/Llama_Gateway.thy ===== *)
theory Llama_Gateway
  imports App_Config Model_Profiles Json_Text Think_Filter
begin

text \<open>
  The client of the model server (\<^verbatim>\<open>app/infrastructure/llm/llama_server_gateway.py\<close>): the request
  it builds from a profile, the blocking call, the streaming call over server-sent events, and the
  health check.  The HTTP library is a parameter: a function from a request to a failure or a
  response.  The JSON of a response body is read with \<^const>\<open>json_loads\<close>.
\<close>

section \<open>HTTP\<close>

text \<open>The failures of \<^verbatim>\<open>httpx\<close> the code tells apart: \<^verbatim>\<open>TimeoutException\<close>, \<^verbatim>\<open>ConnectError\<close>, any other
  \<^verbatim>\<open>RequestError\<close>, and an exception outside that family.\<close>

datatype http_error = HttpTimeout | HttpConnect | HttpRequest | HttpForeign exn

record http_request =
  req_path :: string
  req_json :: "(string \<times> json) list"
  req_headers :: "(string \<times> string) list"
  req_timeout :: int

record http_response =
  status_code :: int
  body :: string

text \<open>A streamed response: its lines, and the failure that ends the reading of them, if any.\<close>

record stream_response =
  stream_status :: int
  stream_lines :: "string list"
  stream_end :: "http_error option"

definition http_exn :: "http_error \<Rightarrow> exn" where
  "http_exn h = (case h of
     HttpTimeout \<Rightarrow> mk_exn LlamaServerTimeoutError ''llama-server timed out.''
   | HttpConnect \<Rightarrow> mk_exn LlamaServerUnavailableError ''llama-server is unavailable.''
   | HttpRequest \<Rightarrow> mk_exn LlamaServerGatewayError ''llama-server request failed.''
   | HttpForeign e \<Rightarrow> e)"

definition status_error :: "int \<Rightarrow> exn" where
  "status_error n = mk_exn LlamaServerGatewayError (''llama-server returned HTTP '' @ str_int n @ ''.'')"

definition malformed :: "string \<Rightarrow> exn" where
  "malformed m = mk_exn LlamaServerMalformedResponseError m"

section \<open>The request\<close>

record gateway =
  settings :: AppSettings
  base_url :: string
  model_profiles :: ModelProfiles

definition new_gateway :: "AppSettings \<Rightarrow> ModelProfiles \<Rightarrow> gateway" where
  "new_gateway s ps =
     \<lparr>settings = s,
      base_url = rev (dropWhile (\<lambda>c. c = CHR ''/'') (rev (llama_server_url s))),
      model_profiles = ps\<rparr>"

definition gateway_headers :: "gateway \<Rightarrow> (string \<times> string) list" where
  "gateway_headers g =
     (''Accept'', ''application/json'') #
     (if llama_server_api_key (settings g) \<noteq> []
      then [(''Authorization'', ''Bearer '' @ llama_server_api_key (settings g))] else [])"

text \<open>A chat message is a dictionary of texts.\<close>

type_synonym message = "(string \<times> string) list"

definition msg_content :: "message \<Rightarrow> string" where
  "msg_content m = (case map_of m ''content'' of None \<Rightarrow> [] | Some c \<Rightarrow> c)"

definition add_control :: "string \<Rightarrow> message \<Rightarrow> message" where
  "add_control ctl m =
     (let content = msg_content m in
      if ctl \<in> set (splitlines content) then m
      else AList.update ''content''
             (if strip content \<noteq> [] then rstrip content @ [CHR 0x0A, CHR 0x0A] @ ctl else ctl) m)"

fun control_first :: "string \<Rightarrow> message list \<Rightarrow> message list option" where
  "control_first ctl [] = None"
| "control_first ctl (m # ms) =
     (if map_of m ''role'' = Some ''system'' then Some (add_control ctl m # ms)
      else map_option ((#) m) (control_first ctl ms))"

definition apply_prompt_control :: "message list \<Rightarrow> string \<Rightarrow> message list" where
  "apply_prompt_control messages ctl =
     (if ctl = [] then messages
      else case control_first ctl messages of
        Some ms \<Rightarrow> ms
      | None \<Rightarrow> [(''role'', ''system''), (''content'', ctl)] # messages)"

definition merge_generation_parameters ::
  "gateway \<Rightarrow> ModelProfile \<Rightarrow> (string \<times> json) list \<Rightarrow> bool \<Rightarrow> (string \<times> json) list" where
  "merge_generation_parameters g p params strm =
     (let resolved = fold (\<lambda>(k, v) d. if v = JNull then d else AList.update k v d) params
                       (generation_parameters p);
          resolved = AList.update ''stream'' (JBool strm) resolved
      in if \<not> truthy (jget resolved ''model'') then
           (if llama_server_model_name (settings g) \<noteq> []
            then AList.update ''model'' (JStr (llama_server_model_name (settings g))) resolved
            else AList.delete ''model'' resolved)
         else resolved)"

definition json_messages :: "message list \<Rightarrow> json" where
  "json_messages ms = JList (map (\<lambda>m. JObj (map (\<lambda>(k, v). (k, JStr v)) m)) ms)"

definition build_payload ::
  "gateway \<Rightarrow> message list \<Rightarrow> string option \<Rightarrow> bool \<Rightarrow> json option \<Rightarrow> (string \<times> json) list
     \<Rightarrow> (string \<times> json) list res" where
  "build_payload g messages mode strm schema params =
     bind_res (select (model_profiles g) mode) (\<lambda>p.
     let payload = merge_generation_parameters g p params strm;
         payload = AList.update ''messages''
                     (json_messages (apply_prompt_control messages (prompt_control p))) payload
     in Inr (case schema of None \<Rightarrow> payload
        | Some sch \<Rightarrow> AList.update ''response_format''
            (JObj [(''type'', JStr ''json_schema''),
                   (''json_schema'', JObj [(''name'', JStr ''structured_response''), (''schema'', sch)])])
            payload))"

section \<open>The blocking call\<close>

text \<open>\<^verbatim>\<open>value.get(key)\<close> on a decoded value; anything but an object raises \<^verbatim>\<open>AttributeError\<close>.\<close>

definition obj_get :: "json \<Rightarrow> string \<Rightarrow> json res" where
  "obj_get j k = (case j of JObj kvs \<Rightarrow> Inr (jget kvs k) | _ \<Rightarrow> Inl (mk_exn AttributeError []))"

type_synonym post_fun = "http_request \<Rightarrow> http_error + http_response"

definition post_json :: "post_fun \<Rightarrow> gateway \<Rightarrow> (string \<times> json) list \<Rightarrow> int \<Rightarrow> json res" where
  "post_json post g payload timeout =
     (case post \<lparr>req_path = ''/v1/chat/completions'', req_json = payload,
                 req_headers = gateway_headers g, req_timeout = timeout\<rparr> of
        Inl h \<Rightarrow> Inl (http_exn h)
      | Inr r \<Rightarrow>
          if status_code r \<noteq> 200 then Inl (status_error (status_code r))
          else case json_loads (body r) of
            None \<Rightarrow> Inl (malformed ''llama-server returned malformed JSON.'')
          | Some j \<Rightarrow> Inr j)"

definition extract_message_content :: "json \<Rightarrow> string res" where
  "extract_message_content resp =
     bind_res (obj_get resp ''choices'') (\<lambda>choices.
     case choices of
       JList (choice # _) \<Rightarrow>
         bind_res (obj_get choice ''message'') (\<lambda>msg.
         case msg of
           JObj m \<Rightarrow>
             (case jget m ''content'' of
                JStr content \<Rightarrow> Inr (strip (strip_think_blocks content))
              | _ \<Rightarrow> Inl (malformed ''llama-server response did not contain text content.''))
         | _ \<Rightarrow> Inl (malformed ''llama-server response did not contain a message payload.''))
     | _ \<Rightarrow> Inl (malformed ''llama-server response did not contain any choices.''))"

definition ask_llm_sync ::
  "post_fun \<Rightarrow> gateway \<Rightarrow> message list \<Rightarrow> json \<Rightarrow> string option \<Rightarrow> (string \<times> json) list \<Rightarrow> json res" where
  "ask_llm_sync post g messages schema mode params =
     bind_res (build_payload g messages mode False (Some schema) params) (\<lambda>payload.
     bind_res (post_json post g payload (llama_server_timeout_seconds (settings g))) (\<lambda>resp.
     bind_res (extract_message_content resp) (\<lambda>content.
     case json_loads content of
       None \<Rightarrow> Inl (malformed ''llama-server returned malformed structured output.'')
     | Some j \<Rightarrow> Inr j)))"

definition generate_text_sync ::
  "post_fun \<Rightarrow> gateway \<Rightarrow> message list \<Rightarrow> string option \<Rightarrow> (string \<times> json) list \<Rightarrow> string res" where
  "generate_text_sync post g messages mode params =
     bind_res (build_payload g messages mode False None params) (\<lambda>payload.
     bind_res (post_json post g payload (llama_server_timeout_seconds (settings g)))
       extract_message_content)"

section \<open>The streaming call\<close>

text \<open>What one line of the response means: nothing, the end marker, or an event with its finish flag
  and its token.\<close>

datatype line_event = NoEvent | DoneEvent | Event bool "string option"

definition read_line :: "string \<Rightarrow> line_event res" where
  "read_line line =
     (if line = [] \<or> \<not> prefix ''data:'' line then Inr NoEvent
      else let raw_event = strip (drop 5 line) in
        if raw_event = [] then Inr NoEvent
        else if raw_event = ''[DONE]'' then Inr DoneEvent
        else case json_loads raw_event of
          None \<Rightarrow> Inl (malformed ''llama-server returned malformed stream data.'')
        | Some event \<Rightarrow>
            bind_res (obj_get event ''choices'') (\<lambda>choices.
            case choices of
              JList (choice # _) \<Rightarrow>
                bind_res (obj_get choice ''finish_reason'') (\<lambda>fr.
                bind_res (obj_get choice ''delta'') (\<lambda>delta.
                Inr (Event (fr \<noteq> JNull)
                  (case delta of
                     JObj d \<Rightarrow> (case jget d ''content'' of
                        JStr t \<Rightarrow> if t = [] then None else Some t | _ \<Rightarrow> None)
                   | _ \<Rightarrow> None))))
            | _ \<Rightarrow> Inl (malformed ''llama-server stream event did not contain choices.'')))"

definition content_chunk :: "string \<Rightarrow> json" where
  "content_chunk t =
     JObj [(''choices'', JList [JObj [(''delta'', JObj [(''content'', JStr t)])]])]"

text \<open>A generator: what it has yielded, and the exception that ends it, if any.\<close>

type_synonym 'a gen = "'a list \<times> exn option"

text \<open>The \<^verbatim>\<open>for line\<close> loop: the tokens shown, and the failure or the flag and filter at its end.\<close>

fun stream_loop ::
  "think_filter \<Rightarrow> bool \<Rightarrow> string list \<Rightarrow> http_error option
     \<Rightarrow> string list \<times> (exn + (bool \<times> think_filter))" where
  "stream_loop f saw [] err =
     ([], case err of None \<Rightarrow> Inr (saw, f) | Some h \<Rightarrow> Inl (http_exn h))"
| "stream_loop f saw (line # ls) err =
     (case read_line line of
        Inl e \<Rightarrow> ([], Inl e)
      | Inr NoEvent \<Rightarrow> stream_loop f saw ls err
      | Inr DoneEvent \<Rightarrow> ([], Inr (True, f))
      | Inr (Event fin None) \<Rightarrow> stream_loop f (saw \<or> fin) ls err
      | Inr (Event fin (Some t)) \<Rightarrow>
          (case feed f t of (visible, f1) \<Rightarrow>
             (case stream_loop f1 (saw \<or> fin) ls err of (ts, r) \<Rightarrow>
                ((if visible = [] then ts else visible # ts), r))))"

type_synonym stream_fun = "http_request \<Rightarrow> http_error + stream_response"

definition stream_tokens ::
  "stream_fun \<Rightarrow> gateway \<Rightarrow> message list \<Rightarrow> string option \<Rightarrow> (string \<times> json) list \<Rightarrow> string gen" where
  "stream_tokens open_stream g messages mode params =
     (case build_payload g messages mode True None params of
        Inl e \<Rightarrow> ([], Some e)
      | Inr payload \<Rightarrow>
          (case open_stream \<lparr>req_path = ''/v1/chat/completions'', req_json = payload,
                   req_headers = gateway_headers g,
                   req_timeout = llama_server_stream_timeout_seconds (settings g)\<rparr> of
             Inl h \<Rightarrow> ([], Some (http_exn h))
           | Inr r \<Rightarrow>
               if stream_status r \<noteq> 200 then ([], Some (status_error (stream_status r)))
               else (case stream_loop new_filter False (stream_lines r) (stream_end r) of
                   (ts, Inl e) \<Rightarrow> (ts, Some e)
                 | (ts, Inr (saw, f)) \<Rightarrow>
                     if \<not> saw
                     then (ts, Some (mk_exn LlamaServerInterruptedError
                                ''llama-server interrupted generation.''))
                     else (let trailing = fst (flush f) in
                       (ts @ (if trailing = [] then [] else [trailing]), None)))))"

text \<open>\<^verbatim>\<open>stream_llm_sync\<close> yields the chunks; \<^verbatim>\<open>stream_llm\<close> reads the tokens back out of them through its
  queue, and raises the error after the tokens before it.\<close>

definition stream_llm_sync ::
  "stream_fun \<Rightarrow> gateway \<Rightarrow> message list \<Rightarrow> string option \<Rightarrow> (string \<times> json) list \<Rightarrow> json gen" where
  "stream_llm_sync open_stream g messages mode params =
     (case stream_tokens open_stream g messages mode params of (ts, e) \<Rightarrow> (map content_chunk ts, e))"

definition chat_messages :: "string \<Rightarrow> string \<Rightarrow> message list" where
  "chat_messages system_prompt user_prompt =
     [[(''role'', ''system''), (''content'', system_prompt)],
      [(''role'', ''user''), (''content'', user_prompt)]]"

text \<open>\<^verbatim>\<open>chunk["choices"][0].get("delta", {}).get("content")\<close>, on the chunks of \<^const>\<open>stream_llm_sync\<close>.\<close>

definition chunk_token :: "json \<Rightarrow> string option" where
  "chunk_token j = (case j of
     JObj kvs \<Rightarrow> (case jget kvs ''choices'' of
        JList (JObj c # _) \<Rightarrow> (case jget c ''delta'' of
           JObj d \<Rightarrow> (case jget d ''content'' of JStr t \<Rightarrow> if t = [] then None else Some t | _ \<Rightarrow> None)
         | _ \<Rightarrow> None)
      | _ \<Rightarrow> None)
   | _ \<Rightarrow> None)"

definition ask_llm ::
  "post_fun \<Rightarrow> gateway \<Rightarrow> string \<Rightarrow> string \<Rightarrow> json \<Rightarrow> string option \<Rightarrow> json res" where
  "ask_llm post g system_prompt user_prompt schema mode =
     ask_llm_sync post g (chat_messages system_prompt user_prompt) schema mode []"

definition stream_llm ::
  "stream_fun \<Rightarrow> gateway \<Rightarrow> string \<Rightarrow> string \<Rightarrow> string option \<Rightarrow> string gen" where
  "stream_llm open_stream g system_prompt user_prompt mode =
     (case stream_llm_sync open_stream g (chat_messages system_prompt user_prompt) mode [] of
        (chunks, e) \<Rightarrow> (List.map_filter chunk_token chunks, e))"

definition check_health :: "(http_request \<Rightarrow> http_error + int) \<Rightarrow> gateway \<Rightarrow> bool res" where
  "check_health get g =
     (let path = (if llama_server_health_path (settings g) = [] then ''/health''
                  else llama_server_health_path (settings g)) in
      case get \<lparr>req_path = path, req_json = [], req_headers = gateway_headers g,
                req_timeout = llama_server_timeout_seconds (settings g)\<rparr> of
        Inl (HttpForeign e) \<Rightarrow> Inl e
      | Inl _ \<Rightarrow> Inr False
      | Inr status \<Rightarrow> Inr (status = 200))"

section \<open>The prompt control\<close>

text \<open>A control is a nonempty text of one line, as both controls of a profile are.\<close>

definition one_line :: "string \<Rightarrow> bool" where
  "one_line ctl \<longleftrightarrow> ctl \<noteq> [] \<and> (\<forall>c\<in>set ctl. \<not> is_break c)"

lemma valid_profile_control: "valid_profile p \<Longrightarrow> one_line (prompt_control p)"
  by (auto simp: valid_profile_def one_line_def is_break_def)

lemma msg_content_update [simp]: "msg_content (AList.update ''content'' c m) = c"
  by (simp add: msg_content_def)

lemma add_control_line:
  assumes "one_line ctl"
  shows "ctl \<in> set (splitlines (msg_content (add_control ctl m)))"
proof -
  have plain: "splitlines ctl = [ctl]"
    using assms splitlines_from_plain[of ctl "[]"] by (simp add: one_line_def splitlines_def)
  have "ctl \<in> set (splitlines (rstrip c @ [CHR 0x0A, CHR 0x0A] @ ctl))" for c
    using assms splitlines_from_last[of ctl "[]" "rstrip c @ [CHR 0x0A]"]
    by (simp add: one_line_def splitlines_def)
  then show ?thesis by (simp add: add_control_def Let_def plain)
qed

lemma add_control_same: "ctl \<in> set (splitlines (msg_content m)) \<Longrightarrow> add_control ctl m = m"
  by (simp add: add_control_def)

lemma add_control_role [simp]: "map_of (add_control ctl m) ''role'' = map_of m ''role''"
  by (simp add: add_control_def Let_def)

lemma control_first_twice:
  "one_line ctl \<Longrightarrow> control_first ctl ms = Some ms' \<Longrightarrow> control_first ctl ms' = Some ms'"
  by (induction ms arbitrary: ms') (auto simp: add_control_same add_control_line split: if_splits)

lemma control_first_None: "control_first ctl ms = None \<longleftrightarrow> (\<forall>m\<in>set ms. map_of m ''role'' \<noteq> Some ''system'')"
  by (induction ms) auto

lemma control_first_Some:
  "control_first ctl ms = Some ms' \<Longrightarrow>
     \<exists>us m vs. ms = us @ m # vs \<and> (\<forall>u\<in>set us. map_of u ''role'' \<noteq> Some ''system'')
       \<and> map_of m ''role'' = Some ''system'' \<and> ms' = us @ add_control ctl m # vs"
proof (induction ms arbitrary: ms')
  case (Cons a ms)
  show ?case
  proof (cases "map_of a ''role'' = Some ''system''")
    case True
    then show ?thesis using Cons.prems
      by (intro exI[of _ "[]"] exI[of _ a] exI[of _ ms]) simp
  next
    case False
    then obtain ms1 where ms1: "control_first ctl ms = Some ms1" "ms' = a # ms1"
      using Cons.prems by auto
    then obtain us m vs where "ms = us @ m # vs" "\<forall>u\<in>set us. map_of u ''role'' \<noteq> Some ''system''"
        "map_of m ''role'' = Some ''system''" "ms1 = us @ add_control ctl m # vs"
      using Cons.IH by blast
    then show ?thesis using False ms1(2)
      by (intro exI[of _ "a # us"] exI[of _ m] exI[of _ vs]) simp
  qed
qed simp

lemma apply_prompt_control_twice:
  assumes "one_line ctl"
  shows "apply_prompt_control (apply_prompt_control ms ctl) ctl = apply_prompt_control ms ctl"
proof (cases "control_first ctl ms")
  case None
  have "splitlines ctl = [ctl]"
    using assms splitlines_from_plain[of ctl "[]"] by (simp add: one_line_def splitlines_def)
  then have "add_control ctl [(''role'', ''system''), (''content'', ctl)]
      = [(''role'', ''system''), (''content'', ctl)]"
    by (intro add_control_same) (simp add: msg_content_def)
  then show ?thesis using assms None by (simp add: apply_prompt_control_def one_line_def)
next
  case (Some ms')
  then show ?thesis using assms control_first_twice[OF assms Some]
    by (simp add: apply_prompt_control_def one_line_def)
qed

section \<open>The payload\<close>

lemma fold_overrides:
  "distinct (map fst params) \<Longrightarrow>
   map_of (fold (\<lambda>(k, v) d. if v = JNull then d else AList.update k v d) params d) key
     = (case map_of params key of
          Some v \<Rightarrow> if v = JNull then map_of d key else Some v
        | None \<Rightarrow> map_of d key)"
proof (induction params arbitrary: d)
  case (Cons kv params)
  obtain k v where kv: "kv = (k, v)" by (cases kv)
  have "map_of params k = None" using Cons.prems kv by (simp add: map_of_eq_None_iff)
  then show ?case using Cons kv
    by (cases "key = k") (auto split: option.split)
qed simp

lemma map_of_delete: "map_of (AList.delete k d) k' = (if k' = k then None else map_of d k')"
  by (simp add: delete_conv')

lemma merge_lookup:
  assumes "key \<noteq> ''stream''" "key \<noteq> ''model''" "distinct (map fst params)"
  shows "map_of (merge_generation_parameters g p params strm) key
    = (case map_of params key of
         Some v \<Rightarrow> if v = JNull then map_of (generation_parameters p) key else Some v
       | None \<Rightarrow> map_of (generation_parameters p) key)"
  using assms by (simp add: merge_generation_parameters_def Let_def map_of_delete fold_overrides
      split: option.split)

lemma merge_stream: "map_of (merge_generation_parameters g p params strm) ''stream'' = Some (JBool strm)"
  by (simp add: merge_generation_parameters_def Let_def map_of_delete)

lemma merge_model:
  "map_of (merge_generation_parameters g p params strm) ''model'' = None
   \<or> (\<exists>v. map_of (merge_generation_parameters g p params strm) ''model'' = Some v \<and> truthy v)"
  by (auto simp: merge_generation_parameters_def Let_def map_of_delete jget_def
      split: option.splits)

lemma build_payload_ok:
  assumes "select (model_profiles g) mode = Inr p"
  shows "\<exists>payload. build_payload g ms mode strm schema params = Inr payload
    \<and> (\<forall>key. key \<noteq> ''messages'' \<longrightarrow> key \<noteq> ''response_format'' \<longrightarrow>
         map_of payload key = map_of (merge_generation_parameters g p params strm) key)
    \<and> jget payload ''messages'' = json_messages (apply_prompt_control ms (prompt_control p))"
  using assms by (cases schema) (simp_all add: build_payload_def Let_def jget_def)

section \<open>Reading the answer\<close>

definition event_line :: "(rat \<Rightarrow> string) \<Rightarrow> string \<Rightarrow> string" where
  "event_line fr t = ''data: '' @ dumps fr (content_chunk t)"

lemma read_event_line:
  assumes "t \<noteq> []"
  shows "read_line (event_line fr t) = Inr (Event False (Some t))"
proof -
  let ?j = "content_chunk t"
  obtain s where s: "dumps fr ?j = CHR ''{'' # s @ ''}''"
    by (simp add: content_chunk_def)
  have "json_loads (dumps fr ?j) = Some ?j"
    by (rule json_loads_dumps) (simp add: content_chunk_def)
  moreover have "strip (drop 5 (event_line fr t)) = dumps fr ?j"
    by (simp add: event_line_def s strip_space_braced)
  ultimately show ?thesis using assms
    by (simp add: read_line_def Let_def s) (simp add: event_line_def content_chunk_def obj_get_def jget_def)
qed

lemma read_done: "read_line ''data: [DONE]'' = Inr DoneEvent"
  by code_simp

lemma read_blank [simp]: "read_line [] = Inr NoEvent"
  by (simp add: read_line_def)

text \<open>The lines of a complete answer: one event and a blank line for each token, then the end mark.\<close>

definition sse_lines :: "(rat \<Rightarrow> string) \<Rightarrow> string list \<Rightarrow> string list" where
  "sse_lines fr ts = concat (map (\<lambda>t. [event_line fr t, []]) ts) @ [''data: [DONE]'']"

lemma stream_loop_sse:
  "\<forall>t\<in>set ts. t \<noteq> [] \<Longrightarrow>
   stream_loop f saw (sse_lines fr ts) err
     = (filter (\<lambda>v. v \<noteq> []) (fst (feed_all f ts)), Inr (True, snd (feed_all f ts)))"
  unfolding sse_lines_def
  by (induction ts arbitrary: f saw) (simp_all add: read_done read_event_line split_beta)

lemma concat_filter_Nil [simp]: "concat (filter (\<lambda>v. v \<noteq> []) vs) = concat vs"
  by (induction vs) auto

lemma chunk_tokens: "\<forall>t\<in>set ts. t \<noteq> [] \<Longrightarrow> List.map_filter chunk_token (map content_chunk ts) = ts"
  by (induction ts) (simp_all add: List.map_filter_def chunk_token_def content_chunk_def jget_def)

lemma stream_loop_nonempty: "t \<in> set (fst (stream_loop f saw ls err)) \<Longrightarrow> t \<noteq> []"
  by (induction ls arbitrary: f saw)
    (auto simp: split_beta split: sum.splits line_event.splits option.splits if_splits)

lemma stream_tokens_nonempty: "t \<in> set (fst (stream_tokens op g ms mode ps)) \<Longrightarrow> t \<noteq> []"
  using stream_loop_nonempty[of t new_filter False]
  by (auto simp: stream_tokens_def Let_def split: sum.splits prod.splits if_splits)
    (metis fst_conv)+

lemma stream_llm_tokens: "stream_llm op g sp up mode = stream_tokens op g (chat_messages sp up) mode []"
  using stream_tokens_nonempty[of _ op g "chat_messages sp up" mode "[]"]
  by (simp add: stream_llm_def stream_llm_sync_def split_beta chunk_tokens)

lemma obj_get_error: "obj_get j k = Inl e \<Longrightarrow> exn_cls e = AttributeError"
  by (cases j) (auto simp: obj_get_def)

lemma message_text_error:
  assumes "(case msg of
         JObj m \<Rightarrow>
           (case jget m ''content'' of
              JStr content \<Rightarrow> Inr (strip (strip_think_blocks content))
            | _ \<Rightarrow> Inl (malformed ''llama-server response did not contain text content.''))
       | _ \<Rightarrow> Inl (malformed ''llama-server response did not contain a message payload.'')) = Inl e"
  shows "exn_cls e = LlamaServerMalformedResponseError"
proof (cases msg)
  case (JObj m)
  then show ?thesis using assms by (cases "jget m ''content''") (auto simp: malformed_def)
qed (use assms in \<open>auto simp: malformed_def\<close>)

lemma extract_error:
  assumes "extract_message_content r = Inl e"
  shows "exn_cls e \<in> {LlamaServerMalformedResponseError, AttributeError}"
proof (cases "obj_get r ''choices''")
  case (Inl e')
  then show ?thesis using assms obj_get_error[OF Inl] by (simp add: extract_message_content_def)
next
  case (Inr choices)
  show ?thesis
  proof (cases "\<exists>choice cs. choices = JList (choice # cs)")
    case True
    then obtain choice cs where c: "choices = JList (choice # cs)" by blast
    show ?thesis
      using assms Inr c obj_get_error[of choice "''message''"] message_text_error
      by (cases "obj_get choice ''message''") (auto simp: extract_message_content_def)
  next
    case False
    then have "extract_message_content r
        = Inl (malformed ''llama-server response did not contain any choices.'')"
      using Inr by (cases choices rule: json.exhaust)
        (auto simp: extract_message_content_def split: list.split)
    then show ?thesis using assms by (simp add: malformed_def)
  qed
qed

section \<open>Properties\<close>


definition plain_profile :: ModelProfile where
  "plain_profile = \<lparr>profile_name = ''default'', profile_model = ''qwen'', reasoning = ''off'',
     prompt_control = ''/no_think'', temperature = Fin (1/2), top_p = Fin 1, top_k = 20,
     min_p = Fin 0, max_tokens = 512, profile_stream = True\<rparr>"

definition plain_gateway :: gateway where
  "plain_gateway = new_gateway default_settings
     \<lparr>metadata = \<lparr>active_model_id = ''q'', active_model_name = ''Q'', model_backend = ''b''\<rparr>,
      profiles = [(''default'', plain_profile)]\<rparr>"

lemma plain_profile_valid: "valid_profile plain_profile"
  by code_simp

lemma plain_gateway_select: "select (model_profiles plain_gateway) mode = Inr plain_profile"
  by (simp add: plain_gateway_def new_gateway_def select_eq dict_item_def split: option.split)


text \<open>The payload carries the generation parameters of the selected profile, each replaced by the
  caller's value where that is not \<^verbatim>\<open>None\<close>; the stream flag is the call's; a model entry, where there
  is one, is not empty; and the messages carry the profile's prompt control.\<close>

theorem payload_parameters:
  assumes "select (model_profiles g) mode = Inr p" "distinct (map fst params)"
  shows "\<exists>payload. build_payload g ms mode strm schema params = Inr payload
    \<and> (\<forall>key. key \<notin> {''messages'', ''response_format'', ''stream'', ''model''} \<longrightarrow>
         map_of payload key
           = (case map_of params key of
                Some v \<Rightarrow> if v = JNull then map_of (generation_parameters p) key else Some v
              | None \<Rightarrow> map_of (generation_parameters p) key))
    \<and> map_of payload ''stream'' = Some (JBool strm)
    \<and> (\<forall>v. map_of payload ''model'' = Some v \<longrightarrow> truthy v)
    \<and> jget payload ''messages'' = json_messages (apply_prompt_control ms (prompt_control p))"
proof -
  obtain payload where pl: "build_payload g ms mode strm schema params = Inr payload"
      "\<And>key. key \<noteq> ''messages'' \<Longrightarrow> key \<noteq> ''response_format'' \<Longrightarrow>
         map_of payload key = map_of (merge_generation_parameters g p params strm) key"
      "jget payload ''messages'' = json_messages (apply_prompt_control ms (prompt_control p))"
    using build_payload_ok[OF assms(1), of ms strm schema params] by blast
  show ?thesis
  proof (intro exI conjI allI impI)
    show "build_payload g ms mode strm schema params = Inr payload" by (rule pl(1))
    show "map_of payload ''stream'' = Some (JBool strm)" by (simp add: pl(2) merge_stream)
    show "truthy v" if "map_of payload ''model'' = Some v" for v
      using that merge_model[of g p params strm] by (simp add: pl(2))
    show "map_of payload key
           = (case map_of params key of
                Some v \<Rightarrow> if v = JNull then map_of (generation_parameters p) key else Some v
              | None \<Rightarrow> map_of (generation_parameters p) key)"
      if "key \<notin> {''messages'', ''response_format'', ''stream'', ''model''}" for key
      using that assms(2) by (simp add: pl(2) merge_lookup)
  qed (rule pl(3))
qed

theorem payload_parameters_witness:
  "\<exists>payload. build_payload plain_gateway [] None True None [(''top_k'', JInt 5), (''top_p'', JNull)] = Inr payload
     \<and> map_of payload ''top_k'' = Some (JInt 5) \<and> map_of payload ''top_p'' = Some (JFloat (Fin 1))"
proof -
  let ?ps = "[(''top_k'', JInt 5), (''top_p'', JNull)]"
  have "distinct (map fst ?ps)" by simp
  then obtain payload where pl: "build_payload plain_gateway [] None True None ?ps = Inr payload"
      "\<And>key. key \<notin> {''messages'', ''response_format'', ''stream'', ''model''} \<Longrightarrow>
         map_of payload key
           = (case map_of ?ps key of
                Some v \<Rightarrow> if v = JNull then map_of (generation_parameters plain_profile) key else Some v
              | None \<Rightarrow> map_of (generation_parameters plain_profile) key)"
    using payload_parameters[OF plain_gateway_select, of ?ps "[]" None True None] by blast
  show ?thesis
    by (intro exI[of _ payload]) (simp add: pl generation_parameters_def plain_profile_def)
qed

text \<open>C28. A structured answer survives the model's reasoning: when the server answers with a message
  whose text outside think blocks is, up to surrounding white space, the printed form of a value, the
  blocking call returns that value.\<close>

theorem ask_reads_structured_answer:
  assumes "select (model_profiles g) mode = Inr p"
    and "\<And>req. post req = Inr \<lparr>status_code = 200, body = dumps fr
           (JObj [(''choices'', JList [JObj [(''message'', JObj [(''content'', JStr answer)])]])])\<rparr>"
    and "ends_visible False answer"
    and "\<not> contains THINK_OPEN_TAG (visible_text False answer)"
    and "\<not> contains THINK_CLOSE_TAG (visible_text False answer)"
    and "strip (visible_text False answer) = dumps fr j" "printable fr j"
  shows "ask_llm post g system_prompt user_prompt schema mode = Inr j"
proof -
  let ?resp = "JObj [(''choices'', JList [JObj [(''message'', JObj [(''content'', JStr answer)])]])]"
  obtain payload where pl: "build_payload g (chat_messages system_prompt user_prompt) mode False (Some schema) []
      = Inr payload"
    using build_payload_ok[OF assms(1)] by blast
  have "json_loads (dumps fr ?resp) = Some ?resp" by (rule json_loads_dumps) simp
  then have resp: "post_json post g payload t = Inr ?resp" for t
    by (simp add: post_json_def assms(2))
  have "extract_message_content ?resp = Inr (dumps fr j)"
    using strip_think_visible[OF assms(3-5)] assms(6)
    by (simp add: extract_message_content_def obj_get_def jget_def)
  then show ?thesis
    using pl resp json_loads_dumps[OF assms(7)] by (simp add: ask_llm_def ask_llm_sync_def)
qed

theorem ask_reads_structured_answer_witness:
  "ask_llm (\<lambda>_. Inr \<lparr>status_code = 200, body = dumps (\<lambda>_. [])
       (JObj [(''choices'', JList [JObj [(''message'', JObj [(''content'', JStr ''<think>x</think> true'')])]])])\<rparr>)
     plain_gateway ''S'' ''U'' JNull None = Inr (JBool True)"
proof (rule ask_reads_structured_answer[OF plain_gateway_select])
  show "ends_visible False ''<think>x</think> true''" by code_simp
  show "\<not> contains THINK_OPEN_TAG (visible_text False ''<think>x</think> true'')" by code_simp
  show "\<not> contains THINK_CLOSE_TAG (visible_text False ''<think>x</think> true'')" by code_simp
  show "strip (visible_text False ''<think>x</think> true'') = dumps (\<lambda>_. []) (JBool True)" by code_simp
qed simp_all

text \<open>C27. Streaming delivers the filtered answer: over a complete event stream of tokens the call ends
  without an error, shows no empty token, and what it shows is what the think filter shows of the
  tokens.\<close>

theorem stream_shows_filtered_tokens:
  assumes "select (model_profiles g) mode = Inr p" "\<forall>t\<in>set ts. t \<noteq> []"
    and "\<And>req. open_stream req = Inr \<lparr>stream_status = 200, stream_lines = sse_lines fr ts, stream_end = None\<rparr>"
  shows "\<exists>shown. stream_llm open_stream g system_prompt user_prompt mode = (shown, None)
    \<and> concat shown = streamed ts \<and> [] \<notin> set shown"
proof -
  let ?ms = "chat_messages system_prompt user_prompt"
  obtain payload where pl: "build_payload g ?ms mode True None [] = Inr payload"
    using build_payload_ok[OF assms(1)] by blast
  have "\<exists>shown. stream_tokens open_stream g ?ms mode [] = (shown, None) \<and> concat shown = streamed ts"
    by (simp add: stream_tokens_def pl assms(3) stream_loop_sse[OF assms(2)] Let_def
        streamed_def split_beta)
  then show ?thesis using stream_tokens_nonempty[of "[]" open_stream g ?ms mode "[]"]
    by (auto simp: stream_llm_tokens)
qed

theorem stream_shows_filtered_tokens_witness:
  "\<exists>shown. stream_llm (\<lambda>_. Inr \<lparr>stream_status = 200,
       stream_lines = sse_lines (\<lambda>_. []) [''<thi'', ''nk>x</think>'', ''Hola''], stream_end = None\<rparr>)
       plain_gateway ''S'' ''U'' None = (shown, None)
     \<and> concat shown = streamed [''<thi'', ''nk>x</think>'', ''Hola'']"
  using stream_shows_filtered_tokens[OF plain_gateway_select,
      of "[''<thi'', ''nk>x</think>'', ''Hola'']"
        "\<lambda>_. Inr \<lparr>stream_status = 200,
           stream_lines = sse_lines (\<lambda>_. []) [''<thi'', ''nk>x</think>'', ''Hola''], stream_end = None\<rparr>"
        "\<lambda>_. []" "''S''" "''U''" None]
  by auto

text \<open>A stream without a finish reason and without an end mark.\<close>

fun unfinished :: "string list \<Rightarrow> bool" where
  "unfinished [] = True"
| "unfinished (l # ls) =
     (case read_line l of
        Inr NoEvent \<Rightarrow> unfinished ls
      | Inr (Event fin tok) \<Rightarrow> \<not> fin \<and> unfinished ls
      | _ \<Rightarrow> False)"

lemma stream_loop_unfinished:
  "unfinished ls \<Longrightarrow> \<exists>f'. snd (stream_loop f False ls None) = Inr (False, f')"
  by (induction ls arbitrary: f)
    (auto simp: split_beta split: sum.splits line_event.splits option.splits)

text \<open>C33. A stream that stops early is never taken for a complete answer: without a finish reason or an
  end mark the call ends with \<^verbatim>\<open>LlamaServerInterruptedError\<close>, after the tokens it showed.\<close>

theorem stream_interruption_detected:
  assumes "select (model_profiles g) mode = Inr p" "unfinished ls"
    and "\<And>req. open_stream req = Inr \<lparr>stream_status = 200, stream_lines = ls, stream_end = None\<rparr>"
  shows "snd (stream_llm open_stream g system_prompt user_prompt mode)
    = Some (mk_exn LlamaServerInterruptedError ''llama-server interrupted generation.'')"
proof -
  obtain payload where pl:
      "build_payload g (chat_messages system_prompt user_prompt) mode True None [] = Inr payload"
    using build_payload_ok[OF assms(1)] by blast
  then show ?thesis using stream_loop_unfinished[OF assms(2), of new_filter]
    by (auto simp: stream_llm_tokens stream_tokens_def assms(3) split: prod.splits)
qed

theorem stream_interruption_detected_witness:
  "snd (stream_llm (\<lambda>_. Inr \<lparr>stream_status = 200, stream_lines = [event_line (\<lambda>_. []) ''Ho'', []],
       stream_end = None\<rparr>) plain_gateway ''S'' ''U'' None)
   = Some (mk_exn LlamaServerInterruptedError ''llama-server interrupted generation.'')"
  by (rule stream_interruption_detected[OF plain_gateway_select]) (simp_all add: read_event_line)

text \<open>C34. The blocking call fails only in the ways its callers know: when the HTTP client fails only with
  its own request errors and the profiles are valid, an error is one of the gateway's, or the
  \<^verbatim>\<open>AttributeError\<close> of a reply (or first choice) that is not an object.\<close>

theorem ask_error_classes:
  assumes "valid_profiles (model_profiles g)" "\<And>req e. post req \<noteq> Inl (HttpForeign e)"
    and "ask_llm post g system_prompt user_prompt schema mode = Inl err"
  shows "exn_cls err \<in> {LlamaServerTimeoutError, LlamaServerUnavailableError, LlamaServerGatewayError,
      LlamaServerMalformedResponseError, AttributeError}"
proof -
  obtain p where p: "select (model_profiles g) mode = Inr p"
    using valid_select[OF assms(1)] by blast
  obtain payload where pl: "build_payload g (chat_messages system_prompt user_prompt) mode False (Some schema) []
      = Inr payload"
    using build_payload_ok[OF p] by blast
  have post_err: "exn_cls e \<in> {LlamaServerTimeoutError, LlamaServerUnavailableError, LlamaServerGatewayError,
      LlamaServerMalformedResponseError}" if "post_json post g payload t = Inl e" for t e
    using that assms(2)
    by (auto simp: post_json_def http_exn_def status_error_def malformed_def
        split: sum.splits http_error.splits if_splits option.splits)
  have extract_err: "exn_cls e \<in> {LlamaServerMalformedResponseError, AttributeError}"
    if "extract_message_content r = Inl e" for r e
    using that by (rule extract_error)
  let ?post = "post_json post g payload (llama_server_timeout_seconds (settings g))"
  have run: "ask_llm post g system_prompt user_prompt schema mode
      = bind_res ?post (\<lambda>resp. bind_res (extract_message_content resp) (\<lambda>content.
          case json_loads content of
            None \<Rightarrow> Inl (malformed ''llama-server returned malformed structured output.'')
          | Some j \<Rightarrow> Inr j))"
    by (simp add: ask_llm_def ask_llm_sync_def pl)
  show ?thesis
  proof (cases ?post)
    case (Inl e)
    then show ?thesis using assms(3) post_err[OF Inl] unfolding run by auto
  next
    case (Inr resp)
    then show ?thesis
      using assms(3) extract_err[of resp] unfolding run
      by (cases "extract_message_content resp") (auto simp: malformed_def split: option.splits)
  qed
qed

theorem ask_error_classes_witness:
  "exn_cls (projl (ask_llm (\<lambda>_. Inl HttpTimeout) plain_gateway ''S'' ''U'' JNull None))
     \<in> {LlamaServerTimeoutError, LlamaServerUnavailableError, LlamaServerGatewayError,
        LlamaServerMalformedResponseError, AttributeError}"
proof (rule ask_error_classes)
  show "valid_profiles (model_profiles plain_gateway)" by code_simp
  show "ask_llm (\<lambda>_. Inl HttpTimeout) plain_gateway ''S'' ''U'' JNull None
      = Inl (projl (ask_llm (\<lambda>_. Inl HttpTimeout) plain_gateway ''S'' ''U'' JNull None))"
    using plain_gateway_select[of None]
    by (auto simp: ask_llm_def ask_llm_sync_def post_json_def build_payload_def Let_def)
qed simp

text \<open>A reply that is valid JSON but not an object escapes the gateway's own errors.\<close>

lemma ask_non_object_reply:
  "exn_cls (projl (ask_llm (\<lambda>_. Inr \<lparr>status_code = 200, body = ''[]''\<rparr>) plain_gateway ''S'' ''U'' JNull None))
   = AttributeError"
proof -
  have "json_loads ''[]'' = Some (JList [])" by code_simp
  then show ?thesis using plain_gateway_select[of None]
    by (simp add: ask_llm_def ask_llm_sync_def post_json_def build_payload_def Let_def
        extract_message_content_def obj_get_def)
qed

end
