(* ===== verification/User_Accounts.thy ===== *)
theory User_Accounts
  imports App_Config
begin

text \<open>
  User accounts: the password policy and hashing (\<^verbatim>\<open>app/infrastructure/security\<close>), the user table and
  its repository (\<^verbatim>\<open>app/infrastructure/database\<close>), sign-up and password login
  (\<^verbatim>\<open>app/application/user_auth_service.py\<close>) and the script \<^verbatim>\<open>scripts/create_user.py\<close>.

  The hashing libraries and the database session are parameters.  What the code relies on of them is
  stated as the laws of the locales \<open>password_hashing\<close> and \<open>orm_session\<close>; the port
  \<^verbatim>\<open>UserRepository\<close> is the locale \<open>user_repository\<close>, which the SQLAlchemy repository satisfies over
  every session with those laws.
\<close>

section \<open>The password policy\<close>

definition MIN_PASSWORD_LENGTH :: int where "MIN_PASSWORD_LENGTH = 12"

definition OBVIOUS_PASSWORDS :: "string list" where
  "OBVIOUS_PASSWORDS =
     [''password'', ''password123'', ''12345678'', ''123456789'', ''1234567890'', ''qwerty'',
      ''qwerty123'', ''letmein'', ''admin'', ''changeme'', ''welcome'']"

definition value_error :: "string \<Rightarrow> exn" where
  "value_error m = mk_exn ValueError m"

definition validate_password_strength ::
  "string \<Rightarrow> string option \<Rightarrow> bool \<Rightarrow> int \<Rightarrow> unit res" where
  "validate_password_strength password uname require_strong min_length =
     (if \<not> require_strong then
        (if password = [] \<or> strip password = []
         then Inl (value_error ''Password must not be empty.'') else Inr ())
      else if strip password = [] then Inl (value_error ''Password must not be empty.'')
      else let lowered_password = casefold password;
               normalized_username = casefold (strip (case uname of None \<Rightarrow> [] | Some u \<Rightarrow> u)) in
        if lowered_password \<in> set OBVIOUS_PASSWORDS
        then Inl (value_error
          ''Password is too weak. Use a longer unique password from a password manager.'')
        else if normalized_username \<noteq> [] \<and> lowered_password = normalized_username
        then Inl (value_error ''Password must not match the username.'')
        else if int (length password) < min_length
        then Inl (value_error
          (''Password must be at least '' @ str_int min_length @ '' characters long.''))
        else Inr ())"

section \<open>Password hashing\<close>

text \<open>The outcomes of \<^verbatim>\<open>PasswordHasher.verify\<close>: it returns true or raises.\<close>

datatype argon2_outcome = Verified | VerifyMismatch | InvalidHash | VerifyRaises exn

text \<open>The two libraries.  A hash call also takes the salt it draws.\<close>

record crypto =
  argon2_hash :: "string \<Rightarrow> string \<Rightarrow> string"
  argon2_verify :: "string \<Rightarrow> string \<Rightarrow> argon2_outcome"
  bcrypt_hashpw :: "string \<Rightarrow> string \<Rightarrow> string res"
  bcrypt_checkpw :: "string \<Rightarrow> string \<Rightarrow> bool res"

text \<open>\<^verbatim>\<open>_normalize_scheme\<close>.  The settings are read from the environment when they are needed, so the
  argument is the outcome of that reading.\<close>

definition normalize_scheme ::
  "AppSettings res \<Rightarrow> string option \<Rightarrow> string option \<Rightarrow> string res" where
  "normalize_scheme sttngs scheme pwhash =
     (let from_hash =
        (case (scheme, pwhash) of
           (None, Some h) \<Rightarrow>
             if prefix ''$argon2id$'' h then Some ''argon2id''
             else if prefix ''$2'' h then Some ''bcrypt'' else None
         | _ \<Rightarrow> None)
      in case from_hash of
           Some s \<Rightarrow> Inr s
         | None \<Rightarrow>
             bind_res
               (case scheme of
                  Some s \<Rightarrow> if s \<noteq> [] then Inr s
                            else bind_res sttngs (\<lambda>st. Inr (password_hash_scheme st))
                | None \<Rightarrow> bind_res sttngs (\<lambda>st. Inr (password_hash_scheme st)))
               (\<lambda>chosen. let configured = lower (strip chosen) in
                  if configured \<in> {''argon2id'', ''bcrypt''} then Inr configured
                  else Inl (value_error (''Unsupported password hash scheme: '' @ configured))))"

definition hash_password ::
  "crypto \<Rightarrow> AppSettings res \<Rightarrow> string \<Rightarrow> string \<Rightarrow> string option \<Rightarrow> string res" where
  "hash_password c sttngs salt password scheme =
     bind_res (normalize_scheme sttngs scheme None) (\<lambda>selected.
     if selected = ''argon2id'' then Inr (argon2_hash c salt password)
     else bcrypt_hashpw c salt password)"

definition verify_password ::
  "crypto \<Rightarrow> AppSettings res \<Rightarrow> string \<Rightarrow> string \<Rightarrow> string option \<Rightarrow> bool res" where
  "verify_password c sttngs password pwhash scheme =
     bind_res (normalize_scheme sttngs scheme (Some pwhash)) (\<lambda>selected.
     if selected = ''argon2id'' then
       (case argon2_verify c pwhash password of
          Verified \<Rightarrow> Inr True
        | VerifyMismatch \<Rightarrow> Inr False
        | InvalidHash \<Rightarrow> Inr False
        | VerifyRaises e \<Rightarrow> Inl e)
     else
       (case bcrypt_checkpw c password pwhash of
          Inl e \<Rightarrow> if isinstance e ValueError then Inr False else Inl e
        | Inr b \<Rightarrow> Inr b))"

text \<open>The documented behaviour of the libraries: a hash carries the marker of its scheme and verifies
  the password it was made from.\<close>

locale password_hashing =
  fixes c :: crypto
  assumes argon2_marker: "prefix ''$argon2id$'' (argon2_hash c salt password)"
    and argon2_roundtrip: "argon2_verify c (argon2_hash c salt password) password = Verified"
    and bcrypt_marker: "bcrypt_hashpw c salt password = Inr h \<Longrightarrow> prefix ''$2'' h"
    and bcrypt_roundtrip: "bcrypt_hashpw c salt password = Inr h \<Longrightarrow> bcrypt_checkpw c password h = Inr True"
begin

lemma hash_marker:
  assumes "hash_password c s salt password None = Inr h"
  shows "prefix ''$argon2id$'' h \<and> argon2_verify c h password = Verified
    \<or> \<not> prefix ''$argon2id$'' h \<and> prefix ''$2'' h \<and> bcrypt_checkpw c password h = Inr True"
proof -
  have "\<not> (prefix ''$argon2id$'' h \<and> prefix ''$2'' h)" by (auto simp: prefix_def)
  moreover obtain selected where "normalize_scheme s None None = Inr selected"
      "(if selected = ''argon2id'' then Inr (argon2_hash c salt password)
        else bcrypt_hashpw c salt password) = Inr h"
    using assms unfolding hash_password_def bind_res_Inr by blast
  ultimately show ?thesis
    using argon2_marker argon2_roundtrip bcrypt_marker bcrypt_roundtrip by (auto split: if_splits)
qed

lemma hash_verifies:
  assumes "hash_password c s salt password None = Inr h"
  shows "verify_password c s' password h None = Inr True"
  using hash_marker[OF assms]
  by (auto simp: verify_password_def normalize_scheme_def Let_def)

end

section \<open>Users and their table\<close>

text \<open>Times are counted in microseconds.\<close>

record UserProfile =
  user_id :: int
  username :: string
  display_name :: "string option"
  password_hash :: string
  role :: string
  is_active :: bool
  is_admin :: bool
  created_at :: int
  updated_at :: int
  last_login_at :: "int option"
  preferred_language :: "string option"
  ui_theme :: "string option"
  profile_metadata :: "(string \<times> json) list"

record UserModel =
  row_id :: int
  row_username :: string
  row_display_name :: "string option"
  row_password_hash :: string
  row_role :: string
  row_is_active :: bool
  row_is_admin :: bool
  row_created_at :: int
  row_updated_at :: int
  row_last_login_at :: "int option"
  row_preferred_language :: "string option"
  row_ui_theme :: "string option"
  row_profile_metadata :: "(string \<times> json) list option"

definition to_domain :: "UserModel \<Rightarrow> UserProfile" where
  "to_domain r =
     \<lparr>user_id = row_id r, username = row_username r, display_name = row_display_name r,
      password_hash = row_password_hash r, role = row_role r, is_active = row_is_active r,
      is_admin = row_is_admin r, created_at = row_created_at r, updated_at = row_updated_at r,
      last_login_at = row_last_login_at r, preferred_language = row_preferred_language r,
      ui_theme = row_ui_theme r,
      profile_metadata = (case row_profile_metadata r of None \<Rightarrow> [] | Some m \<Rightarrow> m)\<rparr>"

text \<open>The keyword arguments of \<^verbatim>\<open>create_user\<close>.\<close>

record new_user =
  nu_username :: string
  nu_password_hash :: string
  nu_display_name :: "string option"
  nu_role :: string
  nu_is_active :: bool
  nu_is_admin :: bool
  nu_preferred_language :: "string option"
  nu_ui_theme :: "string option"
  nu_profile_metadata :: "(string \<times> json) list"

text \<open>What the repository uses of a session on the table: a select by name, a get by key, the insert of
  a row with its commit (an \<^verbatim>\<open>IntegrityError\<close> when the unique index refuses it), an update of a row
  with its commit, the ordered list, and the clock.  A row to insert has no key yet: its \<^verbatim>\<open>id\<close> field is
  given by the database.\<close>

record 'w orm =
  orm_select_username :: "string \<Rightarrow> ('w, UserModel option) act"
  orm_get :: "int \<Rightarrow> ('w, UserModel option) act"
  orm_insert :: "UserModel \<Rightarrow> ('w, UserModel) act"
  orm_update :: "int \<Rightarrow> (UserModel \<Rightarrow> UserModel) \<Rightarrow> ('w, UserModel) act"
  orm_list :: "('w, UserModel list) act"
  orm_now :: "('w, int) act"

section \<open>The repository\<close>

text \<open>The port \<^verbatim>\<open>UserRepository\<close>.\<close>

record 'w user_repo =
  get_by_username :: "string \<Rightarrow> ('w, UserProfile option) act"
  get_by_id :: "int \<Rightarrow> ('w, UserProfile option) act"
  create_user :: "new_user \<Rightarrow> ('w, UserProfile) act"
  update_last_login :: "int \<Rightarrow> ('w, UserProfile option) act"
  list_users :: "('w, UserProfile list) act"

definition model_of :: "new_user \<Rightarrow> int \<Rightarrow> UserModel" where
  "model_of u now =
     \<lparr>row_id = 0, row_username = nu_username u, row_display_name = nu_display_name u,
      row_password_hash = nu_password_hash u, row_role = nu_role u, row_is_active = nu_is_active u,
      row_is_admin = nu_is_admin u, row_created_at = now, row_updated_at = now,
      row_last_login_at = None, row_preferred_language = nu_preferred_language u,
      row_ui_theme = nu_ui_theme u, row_profile_metadata = Some (nu_profile_metadata u)\<rparr>"

definition sql_create_user :: "'w orm \<Rightarrow> new_user \<Rightarrow> ('w, UserProfile) act" where
  "sql_create_user orm u =
     bindA (orm_now orm) (\<lambda>now.
     bindA
       (catchA (orm_insert orm (model_of u now))
         (\<lambda>e. if exn_cls e = ForeignError ''IntegrityError''
              then raiseA (mk_exn UsernameAlreadyExistsError (nu_username u)) else raiseA e))
       (\<lambda>r. retA (to_domain r)))"

definition sql_update_last_login :: "'w orm \<Rightarrow> int \<Rightarrow> ('w, UserProfile option) act" where
  "sql_update_last_login orm uid =
     bindA (orm_get orm uid) (\<lambda>found.
     case found of
       None \<Rightarrow> retA None
     | Some r \<Rightarrow>
         bindA (orm_now orm) (\<lambda>now.
         bindA (orm_update orm uid (\<lambda>r. r\<lparr>row_last_login_at := Some now, row_updated_at := now\<rparr>))
           (\<lambda>r. retA (Some (to_domain r)))))"

definition sqlalchemy_repository :: "'w orm \<Rightarrow> 'w user_repo" where
  "sqlalchemy_repository orm =
     \<lparr>get_by_username =
        (\<lambda>u. bindA (orm_select_username orm u) (\<lambda>r. retA (map_option to_domain r))),
      get_by_id = (\<lambda>i. bindA (orm_get orm i) (\<lambda>r. retA (map_option to_domain r))),
      create_user = sql_create_user orm,
      update_last_login = sql_update_last_login orm,
      list_users = bindA (orm_list orm) (\<lambda>rs. retA (map to_domain rs))\<rparr>"

section \<open>Sign-up and login\<close>

definition USERNAME_MIN_LENGTH :: nat where "USERNAME_MIN_LENGTH = 3"
definition USERNAME_MAX_LENGTH :: nat where "USERNAME_MAX_LENGTH = 64"
definition DISPLAY_NAME_MAX_LENGTH :: nat where "DISPLAY_NAME_MAX_LENGTH = 80"

record UserSignupCommand =
  cmd_username :: string
  cmd_password :: string
  cmd_confirm_password :: "string option"
  cmd_display_name :: "string option"
  cmd_preferred_language :: "string option"

definition normalize_username :: "string \<Rightarrow> string" where
  "normalize_username uname = strip uname"

text \<open>\<^verbatim>\<open>USERNAME_PATTERN\<close> against a whole text: one alphanumeric character, or one, then one to 62 of the
  allowed ones, then an alphanumeric one.\<close>

definition is_alnum :: "char \<Rightarrow> bool" where
  "is_alnum c \<longleftrightarrow> (let n = of_char c :: nat in
     (48 \<le> n \<and> n \<le> 57) \<or> (65 \<le> n \<and> n \<le> 90) \<or> (97 \<le> n \<and> n \<le> 122))"

definition username_char :: "char \<Rightarrow> bool" where
  "username_char c \<longleftrightarrow> is_alnum c \<or> c \<in> {CHR ''.'', CHR ''_'', CHR ''@'', CHR ''-''}"

definition username_pattern :: "string \<Rightarrow> bool" where
  "username_pattern s =
     (case s of
        [] \<Rightarrow> False
      | c # rest \<Rightarrow> is_alnum c
          \<and> (rest = [] \<or> 2 \<le> length rest \<and> length rest \<le> 63
               \<and> list_all username_char (butlast rest) \<and> is_alnum (last rest)))"

definition validate_username :: "string \<Rightarrow> unit res" where
  "validate_username uname =
     (if uname = [] then Inl (value_error ''Username is required.'')
      else if length uname < USERNAME_MIN_LENGTH \<or> USERNAME_MAX_LENGTH < length uname
      then Inl (value_error (''Username must be between '' @ str_nat USERNAME_MIN_LENGTH @ '' and ''
             @ str_nat USERNAME_MAX_LENGTH @ '' characters long.''))
      else if \<not> username_pattern uname
      then Inl (value_error ''Username may use letters, numbers, dots, underscores, hyphens, or @.'')
      else Inr ())"

definition validate_display_name :: "string option \<Rightarrow> string option res" where
  "validate_display_name dn =
     (case dn of
        None \<Rightarrow> Inr None
      | Some d \<Rightarrow>
          if strip d = [] then Inr None
          else if DISPLAY_NAME_MAX_LENGTH < length (strip d)
          then Inl (value_error (''Display name must be '' @ str_nat DISPLAY_NAME_MAX_LENGTH
                 @ '' characters or fewer.''))
          else Inr (Some (strip d)))"

definition authenticate_password_user ::
  "crypto \<Rightarrow> AppSettings res \<Rightarrow> 'w user_repo \<Rightarrow> string \<Rightarrow> string \<Rightarrow> ('w, UserProfile option) act" where
  "authenticate_password_user c sttngs repo uname password =
     bindA (get_by_username repo (normalize_username uname)) (\<lambda>found.
     case found of
       None \<Rightarrow> retA None
     | Some user \<Rightarrow>
         if \<not> is_active user then retA None
         else bindA (liftA (verify_password c sttngs password (password_hash user) None)) (\<lambda>ok.
           if \<not> ok then retA None
           else bindA (update_last_login repo (user_id user)) (\<lambda>updated.
             retA (Some (case updated of None \<Rightarrow> user | Some u \<Rightarrow> u)))))"

definition signup_user ::
  "crypto \<Rightarrow> AppSettings res \<Rightarrow> string \<Rightarrow> 'w user_repo \<Rightarrow> UserSignupCommand \<Rightarrow> bool \<Rightarrow> int \<Rightarrow> string
     \<Rightarrow> bool \<Rightarrow> ('w, UserProfile) act" where
  "signup_user c sttngs salt repo cmd require_strong min_length default_role require_approval =
     (let normalized = normalize_username (cmd_username cmd) in
      bindA (liftA (validate_username normalized)) (\<lambda>_.
      bindA (liftA (validate_display_name (cmd_display_name cmd))) (\<lambda>dn.
      if cmd_confirm_password cmd \<noteq> None \<and> Some (cmd_password cmd) \<noteq> cmd_confirm_password cmd
      then raiseA (value_error ''Password confirmation does not match.'')
      else
        bindA (liftA (validate_password_strength (cmd_password cmd) (Some normalized)
                        require_strong min_length)) (\<lambda>_.
        bindA (liftA (hash_password c sttngs salt (cmd_password cmd) None)) (\<lambda>h.
        create_user repo
          \<lparr>nu_username = normalized, nu_password_hash = h, nu_display_name = dn,
           nu_role = default_role, nu_is_active = (\<not> require_approval), nu_is_admin = False,
           nu_preferred_language =
             or_none (Some (strip (case cmd_preferred_language cmd of None \<Rightarrow> [] | Some l \<Rightarrow> l))),
           nu_ui_theme = None, nu_profile_metadata = []\<rparr>)))))"

section \<open>The script create_user\<close>

record create_user_args =
  arg_username :: string
  arg_password :: string
  arg_display_name :: "string option"
  arg_admin :: bool
  arg_inactive :: bool
  arg_role :: string
  arg_preferred_language :: "string option"
  arg_ui_theme :: "string option"

definition validate_create_user_password :: "AppSettings res \<Rightarrow> string \<Rightarrow> string \<Rightarrow> unit res" where
  "validate_create_user_password sttngs uname password =
     bind_res sttngs (\<lambda>s. validate_password_strength password (Some uname)
       (auth_require_strong_password s) (auth_min_password_length s))"

text \<open>\<^verbatim>\<open>run\<close>: the exit code and the line it prints (the arguments are parsed already).\<close>

definition run_create_user ::
  "crypto \<Rightarrow> AppSettings res \<Rightarrow> string \<Rightarrow> 'w user_repo \<Rightarrow> create_user_args \<Rightarrow> ('w, int \<times> string) act" where
  "run_create_user c sttngs salt repo args =
     (case validate_create_user_password sttngs (arg_username args) (arg_password args) of
        Inl e \<Rightarrow> if isinstance e ValueError then retA (1, exn_text e) else raiseA e
      | Inr _ \<Rightarrow>
          catchA
            (bindA (liftA (hash_password c sttngs salt (arg_password args) None)) (\<lambda>h.
             bindA (create_user repo
               \<lparr>nu_username = arg_username args, nu_password_hash = h,
                nu_display_name = arg_display_name args, nu_role = arg_role args,
                nu_is_active = (\<not> arg_inactive args), nu_is_admin = arg_admin args,
                nu_preferred_language = arg_preferred_language args,
                nu_ui_theme = arg_ui_theme args, nu_profile_metadata = []\<rparr>) (\<lambda>u.
             retA (0, ''Created user username='' @ username u @ '' id='' @ str_int (user_id u)
                    @ '' admin='' @ (if is_admin u then ''True'' else ''False'')
                    @ '' active='' @ (if is_active u then ''True'' else ''False'')))))
            (\<lambda>e. if isinstance e UsernameAlreadyExistsError
                 then retA (1, ''Refusing to create duplicate username: '' @ arg_username args)
                 else raiseA e))"

section \<open>The contracts\<close>

lemma find_map: "find P (map f xs) = map_option f (find (\<lambda>x. P (f x)) xs)"
  by (induction xs) auto

lemma find_append: "find P (xs @ ys) = (case find P xs of None \<Rightarrow> find P ys | Some x \<Rightarrow> Some x)"
  by (induction xs) auto

lemma find_None: "find P xs = None \<longleftrightarrow> (\<forall>x\<in>set xs. \<not> P x)"
  by (induction xs) auto

lemma find_SomeD: "find P xs = Some x \<Longrightarrow> x \<in> set xs \<and> P x"
  by (induction xs) (auto split: if_splits)

lemmas find_lemmas = find_map find_append find_None

text \<open>A session on a table with a unique name and a generated key.\<close>

locale orm_session =
  fixes orm :: "'w orm" and rows :: "'w \<Rightarrow> UserModel list"
  assumes select_row:
      "fst (orm_select_username orm u w) = Inr (find (\<lambda>r. row_username r = u) (rows w))"
      "rows (snd (orm_select_username orm u w)) = rows w"
    and get_row:
      "fst (orm_get orm i w) = Inr (find (\<lambda>r. row_id r = i) (rows w))"
      "rows (snd (orm_get orm i w)) = rows w"
    and insert_row:
      "orm_insert orm m w = (Inr r, w') \<Longrightarrow>
         rows w' = rows w @ [r] \<and> (\<exists>i. r = m\<lparr>row_id := i\<rparr> \<and> i \<notin> row_id ` set (rows w))
         \<and> row_username m \<notin> row_username ` set (rows w)"
      "orm_insert orm m w = (Inl e, w') \<Longrightarrow> rows w' = rows w"
    and update_row:
      "find (\<lambda>r. row_id r = i) (rows w) = Some r \<Longrightarrow> (\<And>r. row_id (f r) = row_id r) \<Longrightarrow>
         fst (orm_update orm i f w) = Inr (f r)
         \<and> rows (snd (orm_update orm i f w)) = map (\<lambda>r. if row_id r = i then f r else r) (rows w)"
    and clock:
      "\<exists>t. fst (orm_now orm w) = Inr t" "rows (snd (orm_now orm w)) = rows w"

text \<open>What a login changes of a user.\<close>

definition logged_in :: "int \<Rightarrow> UserProfile \<Rightarrow> UserProfile" where
  "logged_in t p = p\<lparr>last_login_at := Some t, updated_at := t\<rparr>"

lemma logged_in_simps [simp]:
  "user_id (logged_in t p) = user_id p" "username (logged_in t p) = username p"
  "is_active (logged_in t p) = is_active p" "password_hash (logged_in t p) = password_hash p"
  "is_admin (logged_in t p) = is_admin p" "role (logged_in t p) = role p"
  by (simp_all add: logged_in_def)

text \<open>A user made from the arguments of \<^verbatim>\<open>create_user\<close>.\<close>

definition made_from :: "new_user \<Rightarrow> UserProfile \<Rightarrow> bool" where
  "made_from u p \<longleftrightarrow>
     username p = nu_username u \<and> password_hash p = nu_password_hash u
     \<and> display_name p = nu_display_name u \<and> role p = nu_role u \<and> is_active p = nu_is_active u
     \<and> is_admin p = nu_is_admin u \<and> preferred_language p = nu_preferred_language u
     \<and> ui_theme p = nu_ui_theme u \<and> last_login_at p = None"

text \<open>The contract of the port: the accounts are a list that a lookup reads, a creation extends by one
  fresh user or leaves alone, and a login stamps.\<close>

locale user_repository =
  fixes repo :: "'w user_repo" and users :: "'w \<Rightarrow> UserProfile list"
  assumes get_user:
      "fst (get_by_username repo u w) = Inr (find (\<lambda>p. username p = u) (users w))"
      "users (snd (get_by_username repo u w)) = users w"
    and create_ok:
      "create_user repo nu w = (Inr p, w') \<Longrightarrow>
         users w' = users w @ [p] \<and> made_from nu p \<and> user_id p \<notin> user_id ` set (users w)
         \<and> nu_username nu \<notin> username ` set (users w)"
    and create_error: "create_user repo nu w = (Inl e, w') \<Longrightarrow> users w' = users w"
    and login:
      "\<exists>t. users (snd (update_last_login repo i w))
              = map (\<lambda>p. if user_id p = i then logged_in t p else p) (users w)
         \<and> fst (update_last_login repo i w)
              = Inr (map_option (logged_in t) (find (\<lambda>p. user_id p = i) (users w)))"

lemma to_domain_simps [simp]:
  "user_id (to_domain r) = row_id r" "username (to_domain r) = row_username r"
  by (simp_all add: to_domain_def)

lemma to_domain_login:
  "to_domain (r\<lparr>row_last_login_at := Some t, row_updated_at := t\<rparr>) = logged_in t (to_domain r)"
  by (simp add: to_domain_def logged_in_def)

lemma to_domain_model: "made_from u (to_domain ((model_of u now)\<lparr>row_id := i\<rparr>))"
  by (simp add: to_domain_def model_of_def made_from_def)

sublocale orm_session \<subseteq> sql: user_repository "sqlalchemy_repository orm" "\<lambda>w. map to_domain (rows w)"
proof
  fix u w
  show "fst (get_by_username (sqlalchemy_repository orm) u w)
      = Inr (find (\<lambda>p. username p = u) (map to_domain (rows w)))"
    using select_row(1)[of u w]
    by (cases "orm_select_username orm u w")
      (simp add: sqlalchemy_repository_def find_map bindA_run)
  show "map to_domain (rows (snd (get_by_username (sqlalchemy_repository orm) u w)))
      = map to_domain (rows w)"
    using select_row[of u w]
    by (cases "orm_select_username orm u w") (simp add: sqlalchemy_repository_def bindA_run)
next
  fix nu w p w'
  obtain t w1 where clk: "orm_now orm w = (Inr t, w1)" "rows w1 = rows w"
    using clock[of w] by (cases "orm_now orm w") auto
  assume "create_user (sqlalchemy_repository orm) nu w = (Inr p, w')"
  then obtain r where r: "orm_insert orm (model_of nu t) w1 = (Inr r, w')" "p = to_domain r"
    using clk(1) by (auto simp: sqlalchemy_repository_def sql_create_user_def bindA_Inr catchA_Inr
        split: if_splits)
  then show "map to_domain (rows w') = map to_domain (rows w) @ [p] \<and> made_from nu p
      \<and> user_id p \<notin> user_id ` set (map to_domain (rows w))
      \<and> nu_username nu \<notin> username ` set (map to_domain (rows w))"
    using insert_row(1)[OF r(1)] clk(2) to_domain_model
    by (auto simp: image_iff) (auto simp: model_of_def)
next
  fix nu w e w'
  obtain t w1 where clk: "orm_now orm w = (Inr t, w1)" "rows w1 = rows w"
    using clock[of w] by (cases "orm_now orm w") auto
  assume "create_user (sqlalchemy_repository orm) nu w = (Inl e, w')"
  then obtain e' where "orm_insert orm (model_of nu t) w1 = (Inl e', w')"
    using clk(1) by (auto simp: sqlalchemy_repository_def sql_create_user_def bindA_Inl catchA_Inl
        split: if_splits)
  then show "map to_domain (rows w') = map to_domain (rows w)"
    using insert_row(2) clk(2) by metis
next
  fix i w
  let ?rows = "\<lambda>w. map to_domain (rows w)"
  obtain found w1 where g: "orm_get orm i w = (Inr found, w1)" "rows w1 = rows w"
      "found = find (\<lambda>r. row_id r = i) (rows w)"
    using get_row[of i w] by (cases "orm_get orm i w") auto
  show "\<exists>t. ?rows (snd (update_last_login (sqlalchemy_repository orm) i w))
          = map (\<lambda>p. if user_id p = i then logged_in t p else p) (?rows w)
      \<and> fst (update_last_login (sqlalchemy_repository orm) i w)
          = Inr (map_option (logged_in t) (find (\<lambda>p. user_id p = i) (?rows w)))"
  proof (cases found)
    case None
    then have "update_last_login (sqlalchemy_repository orm) i w = (Inr None, w1)"
      using g(1) by (simp add: sqlalchemy_repository_def sql_update_last_login_def bindA_run)
    then show ?thesis using None g by (auto simp: find_map find_None)
  next
    case (Some r)
    obtain t w2 where clk: "orm_now orm w1 = (Inr t, w2)" "rows w2 = rows w1"
      using clock[of w1] by (cases "orm_now orm w1") auto
    let ?f = "\<lambda>r. r\<lparr>row_last_login_at := Some t, row_updated_at := t\<rparr>"
    have upd: "fst (orm_update orm i ?f w2) = Inr (?f r)"
        "rows (snd (orm_update orm i ?f w2)) = map (\<lambda>r. if row_id r = i then ?f r else r) (rows w)"
      using update_row[of i w2 r ?f] Some g clk(2) by simp_all
    then obtain w3 where w3: "orm_update orm i ?f w2 = (Inr (?f r), w3)"
        "rows w3 = map (\<lambda>r. if row_id r = i then ?f r else r) (rows w)"
      by (cases "orm_update orm i ?f w2") auto
    have "update_last_login (sqlalchemy_repository orm) i w = (Inr (Some (logged_in t (to_domain r))), w3)"
      using g(1) Some clk(1) w3(1)
      by (simp add: sqlalchemy_repository_def sql_update_last_login_def bindA_run to_domain_login)
    then show ?thesis using Some g(3) w3(2)
      by (intro exI[of _ t]) (simp add: find_map to_domain_login)
  qed
qed

section \<open>What the contract gives\<close>

definition accounts_ok :: "UserProfile list \<Rightarrow> bool" where
  "accounts_ok ps \<longleftrightarrow> distinct (map username ps) \<and> distinct (map user_id ps)"

text \<open>The arguments a sign-up was accepted with.\<close>

definition signup_valid :: "UserSignupCommand \<Rightarrow> bool \<Rightarrow> int \<Rightarrow> bool" where
  "signup_valid cmd require_strong min_length \<longleftrightarrow>
     (let u = normalize_username (cmd_username cmd) in
      3 \<le> length u \<and> length u \<le> 64 \<and> username_pattern u
      \<and> cmd_confirm_password cmd \<in> {None, Some (cmd_password cmd)}
      \<and> validate_password_strength (cmd_password cmd) (Some u) require_strong min_length = Inr ())"

lemma validate_username_Inr:
  "validate_username u = Inr x \<longleftrightarrow> 3 \<le> length u \<and> length u \<le> 64 \<and> username_pattern u"
  by (auto simp: validate_username_def USERNAME_MIN_LENGTH_def USERNAME_MAX_LENGTH_def)

lemma find_by_key: "distinct (map f xs) \<Longrightarrow> x \<in> set xs \<Longrightarrow> find (\<lambda>y. f y = f x) xs = Some x"
  by (induction xs) auto

text \<open>The specification of a login over the accounts.\<close>

definition login_outcome ::
  "crypto \<Rightarrow> AppSettings res \<Rightarrow> string \<Rightarrow> int \<Rightarrow> UserProfile option \<Rightarrow> UserProfile option res" where
  "login_outcome c sttngs password t found =
     (case found of
        None \<Rightarrow> Inr None
      | Some p \<Rightarrow>
          if \<not> is_active p then Inr None
          else bind_res (verify_password c sttngs password (password_hash p) None)
            (\<lambda>ok. Inr (if ok then Some (logged_in t p) else None)))"

definition stamped :: "int \<Rightarrow> UserProfile option res \<Rightarrow> UserProfile list \<Rightarrow> UserProfile list" where
  "stamped t r ps =
     (case r of Inr (Some u) \<Rightarrow> map (\<lambda>q. if user_id q = user_id u then logged_in t q else q) ps | _ \<Rightarrow> ps)"

lemma login_outcome_Some:
  "login_outcome c s password t found = Inr (Some u) \<longleftrightarrow>
     (\<exists>p. found = Some p \<and> is_active p \<and> u = logged_in t p
        \<and> verify_password c s password (password_hash p) None = Inr True)"
  by (auto simp: login_outcome_def bind_res_Inr split: option.splits if_splits)

lemma stamped_keys [simp]:
  "map username (stamped t r ps) = map username ps" "map user_id (stamped t r ps) = map user_id ps"
  by (auto simp: stamped_def split: sum.splits option.splits)

context user_repository
begin

lemma authenticate_refines:
  assumes ok: "accounts_ok (users w)"
  shows "\<exists>t. let r = login_outcome c s password t (find (\<lambda>p. username p = strip uname) (users w)) in
      fst (authenticate_password_user c s repo uname password w) = r
      \<and> users (snd (authenticate_password_user c s repo uname password w)) = stamped t r (users w)"
proof -
  let ?found = "find (\<lambda>p. username p = strip uname) (users w)"
  obtain w1 where w1: "get_by_username repo (strip uname) w = (Inr ?found, w1)" "users w1 = users w"
    using get_user[of "strip uname" w] by (cases "get_by_username repo (strip uname) w") auto
  note start = authenticate_password_user_def normalize_username_def bindA_run(1)[where m = "get_by_username repo (strip uname)", OF w1(1)]
  show ?thesis
  proof (cases "\<exists>p. ?found = Some p \<and> is_active p \<and> verify_password c s password (password_hash p) None = Inr True")
    case True
    then obtain p where p: "?found = Some p" "is_active p"
        "verify_password c s password (password_hash p) None = Inr True" by blast
    then have "p \<in> set (users w)" by (auto dest: find_SomeD)
    then have q: "find (\<lambda>q. user_id q = user_id p) (users w1) = Some p"
      using ok w1(2) by (simp add: accounts_ok_def find_by_key)
    obtain t w2 where t: "update_last_login repo (user_id p) w1 = (Inr (Some (logged_in t p)), w2)"
        "users w2 = map (\<lambda>q. if user_id q = user_id p then logged_in t q else q) (users w)"
      using login[of "user_id p" w1] w1(2) q by (cases "update_last_login repo (user_id p) w1") auto
    then show ?thesis using p
      by (intro exI[of _ t]) (simp add: start login_outcome_def stamped_def bindA_run)
  next
    case False
    show ?thesis
    proof (cases ?found)
      case None
      then show ?thesis using w1(2) by (simp add: start login_outcome_def stamped_def)
    next
      case (Some p)
      then show ?thesis using w1(2) False
        by (cases "verify_password c s password (password_hash p) None")
          (auto simp: start login_outcome_def stamped_def bindA_run)
    qed
  qed
qed

lemma signup_run:
  assumes "signup_user c s salt repo cmd strong min_length default_role approval w = (Inr p, w')"
  shows "signup_valid cmd strong min_length
    \<and> users w' = users w @ [p] \<and> user_id p \<notin> user_id ` set (users w)
    \<and> username p = normalize_username (cmd_username cmd) \<and> username p \<notin> username ` set (users w)
    \<and> role p = default_role \<and> is_active p = (\<not> approval) \<and> \<not> is_admin p \<and> last_login_at p = None
    \<and> hash_password c s salt (cmd_password cmd) None = Inr (password_hash p)"
  using assms
  by (auto simp: signup_user_def Let_def bindA_Inr validate_username_Inr signup_valid_def made_from_def
      image_iff dest!: create_ok split: if_splits) metis+

lemma signup_error:
  assumes "signup_user c s salt repo cmd strong min_length default_role approval w = (Inl e, w')"
  shows "users w' = users w"
  using assms
  by (auto simp: signup_user_def Let_def bindA_Inl dest: create_error split: if_splits)

lemma signup_accounts_ok:
  assumes "accounts_ok (users w)"
  shows "accounts_ok (users (snd (signup_user c s salt repo cmd strong min_length default_role approval w)))"
proof (cases "signup_user c s salt repo cmd strong min_length default_role approval w")
  case (Pair r w')
  show ?thesis
  proof (cases r)
    case (Inl e)
    then show ?thesis using assms signup_error Pair by simp
  next
    case (Inr p)
    then have "users w' = users w @ [p]" "user_id p \<notin> user_id ` set (users w)"
        "username p \<notin> username ` set (users w)"
      using signup_run Pair by blast+
    then show ?thesis using assms Pair by (auto simp: accounts_ok_def)
  qed
qed

lemma authenticate_accounts_ok:
  assumes "accounts_ok (users w)"
  shows "accounts_ok (users (snd (authenticate_password_user c s repo uname password w)))"
  using authenticate_refines[OF assms, of c s password uname] assms
  by (auto simp: Let_def accounts_ok_def)

lemma find_new_user:
  "users w' = users w @ [p] \<Longrightarrow> username p \<notin> username ` set (users w) \<Longrightarrow>
     find (\<lambda>q. username q = username p) (users w') = Some p"
proof -
  assume fresh: "users w' = users w @ [p]" "username p \<notin> username ` set (users w)"
  then have "find (\<lambda>q. username q = username p) (users w) = None" by (auto simp: find_None image_iff)
  then show ?thesis using fresh(1) by (simp add: find_append)
qed

lemma run_create_user_effect:
  assumes "run_create_user c s salt repo args w = (Inr (code, line), w')"
  shows "code = 0 \<and> (\<exists>p. users w' = users w @ [p] \<and> username p = arg_username args
             \<and> is_admin p = arg_admin args)
    \<or> code = 1 \<and> users w' = users w"
  using assms
  by (auto simp: run_create_user_def bindA_Inr bindA_Inl catchA_Inr made_from_def
      dest!: create_ok dest: create_error split: sum.splits if_splits)

end

section \<open>A table in memory\<close>

text \<open>A session over a list of rows with a key counter and a clock, and a transparent pair of hash
  functions: instances on which the laws hold and the witnesses run.\<close>

record user_table =
  table_rows :: "UserModel list"
  table_clock :: int

definition table_orm :: "user_table orm" where
  "table_orm =
     \<lparr>orm_select_username = (\<lambda>u t. (Inr (find (\<lambda>r. row_username r = u) (table_rows t)), t)),
      orm_get = (\<lambda>i t. (Inr (find (\<lambda>r. row_id r = i) (table_rows t)), t)),
      orm_insert = (\<lambda>m t.
        if row_username m \<in> set (map row_username (table_rows t))
        then (Inl (mk_exn (ForeignError ''IntegrityError'') []), t)
        else let i = 1 + fold max (map row_id (table_rows t)) 0;
                 r = m\<lparr>row_id := i\<rparr>
          in (Inr r, t\<lparr>table_rows := table_rows t @ [r]\<rparr>)),
      orm_update = (\<lambda>i f t.
        case find (\<lambda>r. row_id r = i) (table_rows t) of
          None \<Rightarrow> (Inl (mk_exn (ForeignError ''StaleDataError'') []), t)
        | Some r \<Rightarrow>
            (Inr (f r), t\<lparr>table_rows := map (\<lambda>r. if row_id r = i then f r else r) (table_rows t)\<rparr>)),
      orm_list = (\<lambda>t. (Inr (table_rows t), t)),
      orm_now = (\<lambda>t. (Inr (table_clock t), t\<lparr>table_clock := table_clock t + 1\<rparr>))\<rparr>"

lemma fold_max_ge: "(m::int) \<le> fold max xs m \<and> (\<forall>x\<in>set xs. x \<le> fold max xs m)"
proof (induction xs arbitrary: m)
  case (Cons x xs)
  have "max x m \<le> fold max xs (max x m)" "\<forall>y\<in>set xs. y \<le> fold max xs (max x m)"
    using Cons.IH[of "max x m"] by auto
  then show ?case by auto
qed simp

interpretation table: orm_session table_orm table_rows
proof
  fix m t r t'
  assume "orm_insert table_orm m t = (Inr r, t')"
  then show "table_rows t' = table_rows t @ [r] \<and> (\<exists>i. r = m\<lparr>row_id := i\<rparr> \<and> i \<notin> row_id ` set (table_rows t))
      \<and> row_username m \<notin> row_username ` set (table_rows t)"
    using fold_max_ge[of 0 "map row_id (table_rows t)"]
    by (auto simp: table_orm_def Let_def split: if_splits) force+
qed (auto simp: table_orm_def Let_def split: if_splits)

definition plain_crypto :: crypto where
  "plain_crypto =
     \<lparr>argon2_hash = (\<lambda>salt p. ''$argon2id$'' @ p),
      argon2_verify = (\<lambda>h p. if h = ''$argon2id$'' @ p then Verified else VerifyMismatch),
      bcrypt_hashpw = (\<lambda>salt p. Inr (''$2'' @ p)),
      bcrypt_checkpw = (\<lambda>p h. Inr (h = ''$2'' @ p))\<rparr>"

interpretation plain: password_hashing plain_crypto
  by unfold_locales (auto simp: plain_crypto_def)

definition empty_table :: user_table where
  "empty_table = \<lparr>table_rows = [], table_clock = 0\<rparr>"

definition table_repo :: "user_table user_repo" where
  "table_repo = sqlalchemy_repository table_orm"

lemma table_repository: "user_repository table_repo (\<lambda>t. map to_domain (table_rows t))"
  unfolding table_repo_def by (rule table.sql.user_repository_axioms)

definition sample_signup :: UserSignupCommand where
  "sample_signup = \<lparr>cmd_username = '' ana '', cmd_password = ''correct horse'',
     cmd_confirm_password = None, cmd_display_name = None, cmd_preferred_language = None\<rparr>"

section \<open>Properties\<close>

text \<open>C18. A password login is exactly its specification over the accounts: it finds the account of the
  trimmed name, refuses an inactive one whatever the password, checks the password against that
  account's hash, and on success stamps that account and no other.\<close>

theorem login_refines_specification:
  assumes "user_repository repo users" "accounts_ok (users w)"
  shows "\<exists>t. let r = login_outcome c s password t (find (\<lambda>p. username p = strip uname) (users w)) in
      fst (authenticate_password_user c s repo uname password w) = r
      \<and> users (snd (authenticate_password_user c s repo uname password w)) = stamped t r (users w)"
  by (rule user_repository.authenticate_refines[OF assms])

theorem login_refines_specification_witness:
  "\<exists>t. fst (authenticate_password_user plain_crypto (Inr default_settings) table_repo ''ana'' ''x'' empty_table)
     = login_outcome plain_crypto (Inr default_settings) ''x'' t None"
proof -
  have "accounts_ok (map to_domain (table_rows empty_table))"
    by (simp add: accounts_ok_def empty_table_def)
  from login_refines_specification[OF table_repository this, of plain_crypto "Inr default_settings" "''x''" "''ana''"]
  show ?thesis by (auto simp: Let_def empty_table_def)
qed



text \<open>C17. Sign-up and login agree: with the password of a successful sign-up the new account logs in
  when no approval is required and does not when it is, whatever hash scheme is configured by then.\<close>

theorem signup_then_login:
  assumes "user_repository repo users" "password_hashing c" "accounts_ok (users w)"
    and "signup_user c s salt repo cmd strong min_length default_role approval w = (Inr p, w')"
  shows "if approval
    then fst (authenticate_password_user c s' repo (cmd_username cmd) (cmd_password cmd) w') = Inr None
    else \<exists>u. fst (authenticate_password_user c s' repo (cmd_username cmd) (cmd_password cmd) w') = Inr (Some u)
        \<and> user_id u = user_id p \<and> username u = username p \<and> \<not> is_admin u"
proof -
  have sg: "users w' = users w @ [p]" "username p = strip (cmd_username cmd)"
      "username p \<notin> username ` set (users w)" "is_active p = (\<not> approval)" "\<not> is_admin p"
      "hash_password c s salt (cmd_password cmd) None = Inr (password_hash p)"
    using user_repository.signup_run[OF assms(1,4)] by (auto simp: normalize_username_def)
  have ok: "accounts_ok (users w')"
    using user_repository.signup_accounts_ok[OF assms(1,3), of c s salt cmd strong min_length
        default_role approval] assms(4) by simp
  have found: "find (\<lambda>q. username q = strip (cmd_username cmd)) (users w') = Some p"
    using user_repository.find_new_user[OF assms(1) sg(1,3)] sg(2) by simp
  have "verify_password c s' (cmd_password cmd) (password_hash p) None = Inr True"
    by (rule password_hashing.hash_verifies[OF assms(2) sg(6)])
  then show ?thesis
    using user_repository.authenticate_refines[OF assms(1) ok, of c s' "cmd_password cmd" "cmd_username cmd"]
      found sg(4,5) by (auto simp: Let_def login_outcome_def)
qed

theorem signup_then_login_witness:
  "\<exists>u p w'. signup_user plain_crypto (Inr default_settings) [] table_repo sample_signup True 12 ''user'' False
       empty_table = (Inr p, w')
     \<and> fst (authenticate_password_user plain_crypto (Inl (value_error [])) table_repo '' ana '' ''correct horse'' w')
         = Inr (Some u)"
proof -
  let ?run = "signup_user plain_crypto (Inr default_settings) [] table_repo sample_signup True 12 ''user'' False
       empty_table"
  have "\<not> isl (fst ?run)" by code_simp
  then obtain p w' where run: "?run = (Inr p, w')" by (cases ?run) (metis fst_conv isl_def sum.exhaust)
  have "accounts_ok (map to_domain (table_rows empty_table))"
    by (simp add: accounts_ok_def empty_table_def)
  from signup_then_login[OF table_repository plain.password_hashing_axioms this run, of "Inl (value_error [])"]
  show ?thesis using run by (auto simp: sample_signup_def)
qed



text \<open>The script stores a name untrimmed while a login trims it: such an account cannot log in.\<close>

lemma untrimmed_account_cannot_login:
  "(case run_create_user plain_crypto (Inr default_settings) [] table_repo
          \<lparr>arg_username = ''ana '', arg_password = ''correct horse'', arg_display_name = None,
           arg_admin = False, arg_inactive = False, arg_role = ''user'',
           arg_preferred_language = None, arg_ui_theme = None\<rparr> empty_table of
      (Inr (code, _), w') \<Rightarrow>
        code = 0 \<and> \<not> isl (fst (authenticate_password_user plain_crypto (Inr default_settings) table_repo
          ''ana '' ''correct horse'' w'))
        \<and> map_sum id (\<lambda>u. u = None) (fst (authenticate_password_user plain_crypto (Inr default_settings)
          table_repo ''ana '' ''correct horse'' w')) = Inr True
    | _ \<Rightarrow> False)"
  by code_simp

end
