(* ===== verification/Queue_Core.thy ===== *)
theory Queue_Core
  imports Json_Text App_Config
begin

text \<open>
  The job of the queue (\<^verbatim>\<open>app/domain/jobs.py\<close>), the errors of the API and the queue
  (\<^verbatim>\<open>app/core/errors.py\<close>, \<^verbatim>\<open>app/infrastructure/redis/errors.py\<close>), and the services the queue rests
  on: RQ, Redis and the clocks, as a record of operations over a world \<^typ>\<open>'w\<close>.  A job's serialised
  payload stands for the job itself: \<^verbatim>\<open>model_validate\<close> reads back what \<^verbatim>\<open>model_dump\<close> wrote.
  Times are seconds.
\<close>

section \<open>Errors with their defaults\<close>

text \<open>\<^verbatim>\<open>APIError.__init__\<close>: the message given, unless it is missing or empty, then the class's.\<close>

definition api_message :: "exn_class \<Rightarrow> string" where
  "api_message c = (case c of
     LLMServiceError \<Rightarrow> ''The language model service failed.''
   | QueueSaturatedError \<Rightarrow> ''The language model queue is full. Please try again shortly.''
   | QueueWaitTimeoutError \<Rightarrow> ''The request waited too long in the language model queue.''
   | GenerationTimeoutError \<Rightarrow> ''The language model took too long to generate a response.''
   | StreamingTimeoutError \<Rightarrow> ''The language model stream timed out before completion.''
   | _ \<Rightarrow> ''An internal service error occurred.'')"

definition api_status :: "exn_class \<Rightarrow> int" where
  "api_status c = (case c of
     QueueSaturatedError \<Rightarrow> 429 | QueueWaitTimeoutError \<Rightarrow> 504 | GenerationTimeoutError \<Rightarrow> 504
   | StreamingTimeoutError \<Rightarrow> 504 | _ \<Rightarrow> 500)"

definition api_code :: "exn_class \<Rightarrow> string" where
  "api_code c = (case c of
     LLMServiceError \<Rightarrow> ''llm_service_error'' | QueueSaturatedError \<Rightarrow> ''queue_saturated''
   | QueueWaitTimeoutError \<Rightarrow> ''queue_wait_timeout'' | GenerationTimeoutError \<Rightarrow> ''generation_timeout''
   | StreamingTimeoutError \<Rightarrow> ''stream_timeout'' | _ \<Rightarrow> ''internal_error'')"

definition api_error :: "exn_class \<Rightarrow> string option \<Rightarrow> (string \<times> string) list option \<Rightarrow> exn" where
  "api_error c msg hdrs =
     Exn c (case msg of None \<Rightarrow> api_message c | Some m \<Rightarrow> if m = [] then api_message c else m)
       (case hdrs of None \<Rightarrow> NoExtra | Some h \<Rightarrow> Headers h)"

definition queue_saturated :: "string option \<Rightarrow> int \<Rightarrow> exn" where
  "queue_saturated msg retry_after_seconds =
     api_error QueueSaturatedError msg (Some [(''Retry-After'', str_int (max 1 retry_after_seconds))])"

section \<open>Jobs\<close>

datatype call_type = StructuredJson | TextGeneration | StreamingTextGeneration

datatype job_status = JQueued | JProcessing | JStreaming | JCompleted | JFailed | JCancelled

definition status_text :: "job_status \<Rightarrow> string" where
  "status_text s = (case s of
     JQueued \<Rightarrow> ''queued'' | JProcessing \<Rightarrow> ''processing'' | JStreaming \<Rightarrow> ''streaming''
   | JCompleted \<Rightarrow> ''completed'' | JFailed \<Rightarrow> ''failed'' | JCancelled \<Rightarrow> ''cancelled'')"

definition terminal :: "job_status \<Rightarrow> bool" where
  "terminal s \<longleftrightarrow> s \<in> {JCompleted, JFailed, JCancelled}"

record LLMCallJob =
  job_id :: string
  call_type :: call_type
  job_prompt :: "string option"
  job_messages :: "(string \<times> string) list list"
  job_mode :: "string option"
  job_parameters :: "(string \<times> json) list"
  response_schema :: "json option"
  job_created_at :: rat
  job_started_at :: "rat option"
  job_completed_at :: "rat option"
  job_status :: job_status
  cancel_requested :: bool
  queue_position :: "int option"
  elapsed_seconds :: "rat option"
  stream_channel :: "string option"
  retry_count :: int
  last_error :: "string option"
  job_result :: "json option"
  job_error :: "string option"

record QueueStatusSnapshot =
  redis_connected :: bool
  queue_depth :: int
  active_job_count :: int
  failed_job_count :: int
  worker_count :: int
  worker_heartbeat_age_seconds :: "rat option"
  average_wait_time_seconds :: "rat option"
  estimated_wait_time_seconds :: "rat option"

section \<open>The services underneath\<close>

text \<open>The metadata dictionary of an RQ job, and a fetched job: its key, its metadata as of the fetch, and
  the return value of a finished run.\<close>

record rq_meta =
  meta_llm_call :: "LLMCallJob option"
  meta_retry_count :: "int option"
  meta_last_error :: "string option option"

record rq_job =
  rq_id :: string
  rq_meta :: rq_meta
  rq_result :: "LLMCallJob option"

definition no_meta :: rq_meta where
  "no_meta = \<lparr>meta_llm_call = None, meta_retry_count = None, meta_last_error = None\<rparr>"

text \<open>What the code calls of RQ, Redis and the clocks.  The fields of a Redis hash are read as numbers:
  the code reads only fields it increments.\<close>

record 'w backend =
  rq_enqueue :: "LLMCallJob \<Rightarrow> string \<Rightarrow> int \<Rightarrow> int \<Rightarrow> int option \<Rightarrow> ('w, rq_job) act"
  rq_fetch :: "string \<Rightarrow> ('w, rq_job) act"
  rq_save_meta :: "rq_job \<Rightarrow> ('w, unit) act"
  rq_get_status :: "string \<Rightarrow> ('w, string) act"
  rq_set_status :: "string \<Rightarrow> string \<Rightarrow> ('w, unit) act"
  rq_get_position :: "string \<Rightarrow> ('w, int option) act"
  rq_remove :: "string \<Rightarrow> ('w, unit) act"
  rq_count :: "('w, int) act"
  rq_started_count :: "('w, int) act"
  rq_failed_count :: "('w, int) act"
  rq_workers :: "('w, rat option list) act"
  redis_ping :: "('w, bool) act"
  redis_hincr :: "string \<Rightarrow> string \<Rightarrow> rat \<Rightarrow> ('w, unit) act"
  redis_hgetall :: "string \<Rightarrow> ('w, (string \<times> rat) list) act"
  redis_xadd :: "string \<Rightarrow> string \<Rightarrow> ('w, string) act"
  redis_expire :: "string \<Rightarrow> int \<Rightarrow> ('w, unit) act"
  redis_xread :: "string \<Rightarrow> string \<Rightarrow> ('w, (string \<times> string) list) act"
  clock_now :: "('w, rat) act"
  loop_time :: "('w, rat) act"
  loop_sleep :: "pyfloat \<Rightarrow> ('w, unit) act"

type_synonym payload = "(string \<times> json) list"

end
