(* ===== verification/Queue_Laws.thy ===== *)
theory Queue_Laws
  imports Queue_Core
begin

text \<open>
  What the queue relies on of RQ, Redis and the event loop, as laws of the backend's operations: the
  stored jobs and the queue (\<open>rq_server\<close>), the append-only streams (\<open>redis_streams\<close>), and the
  monotonic clock (\<open>event_loop\<close>).  An operation may always fail; then it has changed nothing.  An
  in-memory backend, in which other clients append to streams while a reader blocks, satisfies all
  three.
\<close>

section \<open>What the server holds\<close>

record job_entry =
  je_status :: string
  je_meta :: rq_meta
  je_result :: "LLMCallJob option"

record queue_view =
  v_jobs :: "string \<Rightarrow> job_entry option"
  v_queue :: "string list"
  v_streams :: "string \<Rightarrow> (string \<times> string) list"

definition put_entry :: "string \<Rightarrow> (job_entry \<Rightarrow> job_entry) \<Rightarrow> queue_view \<Rightarrow> queue_view" where
  "put_entry j f v = v\<lparr>v_jobs := (v_jobs v)(j := map_option f (v_jobs v j))\<rparr>"

definition add_record :: "string \<Rightarrow> string \<times> string \<Rightarrow> queue_view \<Rightarrow> queue_view" where
  "add_record c r v = v\<lparr>v_streams := (v_streams v)(c := v_streams v c @ [r])\<rparr>"

lemma put_entry_simps [simp]:
  "v_queue (put_entry j f v) = v_queue v" "v_streams (put_entry j f v) = v_streams v"
  "v_jobs (put_entry j f v) j = map_option f (v_jobs v j)"
  "k \<noteq> j \<Longrightarrow> v_jobs (put_entry j f v) k = v_jobs v k"
  by (simp_all add: put_entry_def)

lemma add_record_simps [simp]:
  "v_queue (add_record c r v) = v_queue v" "v_jobs (add_record c r v) = v_jobs v"
  "v_streams (add_record c r v) c = v_streams v c @ [r]"
  "d \<noteq> c \<Longrightarrow> v_streams (add_record c r v) d = v_streams v d"
  by (simp_all add: add_record_def)

text \<open>The records after a key, as \<^verbatim>\<open>XREAD\<close> counts them; the key \<^verbatim>\<open>0-0\<close> precedes every record.\<close>

definition after_id :: "string \<Rightarrow> (string \<times> string) list \<Rightarrow> (string \<times> string) list" where
  "after_id i xs = (if i = ''0-0'' then xs else tl (dropWhile (\<lambda>r. fst r \<noteq> i) xs))"

lemma after_id_start [simp]: "after_id ''0-0'' xs = xs"
  by (simp add: after_id_def)

lemma after_id_append:
  "distinct (map fst (xs @ ys)) \<Longrightarrow> xs \<noteq> [] \<Longrightarrow> ''0-0'' \<notin> fst ` set xs \<Longrightarrow>
     after_id (fst (last xs)) (xs @ ys) = ys"
proof (induction xs)
  case (Cons x xs)
  show ?case
  proof (cases "xs = []")
    case True
    then show ?thesis using Cons.prems by (auto simp: after_id_def)
  next
    case False
    then have "fst x \<noteq> fst (last xs)" using Cons.prems by (auto simp: image_iff)
    then show ?thesis using Cons False by (auto simp: after_id_def)
  qed
qed simp

section \<open>The laws\<close>

locale rq_server =
  fixes b :: "'w backend" and view :: "'w \<Rightarrow> queue_view"
  assumes fetch:
      "rq_fetch b j w = (Inr job, w') \<Longrightarrow>
         \<exists>e. v_jobs (view w) j = Some e \<and> job = \<lparr>rq_id = j, rq_meta = je_meta e, rq_result = je_result e\<rparr>"
    and status: "rq_get_status b j w = (Inr st, w') \<Longrightarrow> \<exists>e. v_jobs (view w) j = Some e \<and> st = je_status e"
    and count: "rq_count b w = (Inr n, w') \<Longrightarrow> n = int (length (v_queue (view w)))"
    and reads [keeps_rules]:
      "keeps view (rq_fetch b j)" "keeps view (rq_get_status b j)" "keeps view (rq_get_position b j)"
      "keeps view (rq_count b)" "keeps view (rq_started_count b)" "keeps view (rq_failed_count b)"
      "keeps view (rq_workers b)" "keeps view (redis_ping b)" "keeps view (redis_hincr b h f x)"
      "keeps view (redis_hgetall b h)" "keeps view (redis_expire b c t)" "keeps view (clock_now b)"
      "keeps view (loop_time b)"
    and save_meta:
      "rq_save_meta b job w = (Inr u, w') \<Longrightarrow>
         view w' = put_entry (rq_id job) (\<lambda>e. e\<lparr>je_meta := rq_meta job\<rparr>) (view w)"
      "rq_save_meta b job w = (Inl e, w') \<Longrightarrow> view w' = view w"
    and set_status:
      "rq_set_status b j st w = (Inr u, w') \<Longrightarrow>
         view w' = put_entry j (\<lambda>e. e\<lparr>je_status := st\<rparr>) (view w)"
      "rq_set_status b j st w = (Inl e, w') \<Longrightarrow> view w' = view w"
    and remove:
      "rq_remove b j w = (Inr u, w') \<Longrightarrow> view w' = (view w)\<lparr>v_queue := remove1 j (v_queue (view w))\<rparr>"
      "rq_remove b j w = (Inl e, w') \<Longrightarrow> view w' = view w"
    and enqueue:
      "rq_enqueue b call j ttl tmo rt w = (Inr job, w') \<Longrightarrow>
         job = \<lparr>rq_id = j, rq_meta = no_meta, rq_result = None\<rparr> \<and>
         view w' = (view w)\<lparr>v_jobs := (v_jobs (view w))(j \<mapsto>
             \<lparr>je_status = ''queued'', je_meta = no_meta, je_result = None\<rparr>),
           v_queue := v_queue (view w) @ [j]\<rparr>"
      "rq_enqueue b call j ttl tmo rt w = (Inl e, w') \<Longrightarrow> view w' = view w"
    and xadd:
      "redis_xadd b c raw w = (Inr i, w') \<Longrightarrow> view w' = add_record c (i, raw) (view w)"
      "redis_xadd b c raw w = (Inl e, w') \<Longrightarrow> view w' = view w"

text \<open>A blocked read returns after at least one second without a record, and meanwhile other clients
  may append; \<open>coming\<close> counts the records they still write.\<close>

locale redis_streams =
  fixes b :: "'w backend" and records :: "'w \<Rightarrow> string \<Rightarrow> (string \<times> string) list"
    and now :: "'w \<Rightarrow> rat" and coming :: "'w \<Rightarrow> nat"
  assumes xread:
      "redis_xread b c i w = (r, w') \<Longrightarrow>
         (\<exists>more. records w' c = records w c @ more \<and> length more + coming w' \<le> coming w) \<and> now w \<le> now w'"
      "redis_xread b c i w = (Inr recs, w') \<Longrightarrow>
         prefix recs (after_id i (records w' c)) \<and> (recs = [] \<longrightarrow> after_id i (records w' c) = [] \<and> now w + 1 \<le> now w')"
    and keys: "distinct (map fst (records w c))" "''0-0'' \<notin> fst ` set (records w c)"
    and loop_clock: "loop_time b w = (Inr (now w), w)"

locale event_loop =
  fixes b :: "'w backend" and now :: "'w \<Rightarrow> rat"
  assumes loop_clock: "loop_time b w = (Inr (now w), w)"
    and sleep: "loop_sleep b (Fin d) w = (r, w') \<Longrightarrow> r = Inr () \<and> now w + max 0 d \<le> now w'"
    and advances:
      "now w \<le> now (snd (rq_fetch b j w))" "now w \<le> now (snd (rq_get_status b j w))"
      "now w \<le> now (snd (rq_get_position b j w))" "now w \<le> now (snd (clock_now b w))"

section \<open>A backend in memory\<close>

record mem_world =
  mem_jobs :: "string \<Rightarrow> job_entry option"
  mem_queue :: "string list"
  mem_log :: "string \<Rightarrow> string list"
  mem_metrics :: "(string \<times> rat) list"
  mem_clock :: rat
  mem_script :: "(string \<times> string) list"

fun numbered :: "nat \<Rightarrow> string list \<Rightarrow> (string \<times> string) list" where
  "numbered n [] = []"
| "numbered n (r # rs) = (str_nat n, r) # numbered (Suc n) rs"

definition mem_records :: "mem_world \<Rightarrow> string \<Rightarrow> (string \<times> string) list" where
  "mem_records w c = numbered 1 (mem_log w c)"

definition mem_view :: "mem_world \<Rightarrow> queue_view" where
  "mem_view w = \<lparr>v_jobs = mem_jobs w, v_queue = mem_queue w, v_streams = mem_records w\<rparr>"

definition mem_append :: "string \<Rightarrow> string \<Rightarrow> mem_world \<Rightarrow> mem_world" where
  "mem_append c raw w = w\<lparr>mem_log := (mem_log w)(c := mem_log w c @ [raw])\<rparr>"

text \<open>A read that finds nothing waits a second; the next scripted append of another client happens
  meanwhile.\<close>

definition mem_wait :: "mem_world \<Rightarrow> mem_world" where
  "mem_wait w = (case mem_script w of
       [] \<Rightarrow> w\<lparr>mem_clock := mem_clock w + 1\<rparr>
     | (c, raw) # rest \<Rightarrow> (mem_append c raw w)\<lparr>mem_clock := mem_clock w + 1, mem_script := rest\<rparr>)"

definition mem_xread :: "string \<Rightarrow> string \<Rightarrow> (mem_world, (string \<times> string) list) act" where
  "mem_xread c i w =
     (let recs = take 20 (after_id i (mem_records w c)) in
      if recs \<noteq> [] then (Inr recs, w)
      else let w' = mem_wait w in (Inr (take 20 (after_id i (mem_records w' c))), w'))"

definition no_such_job :: exn where
  "no_such_job = mk_exn (ForeignError ''NoSuchJobError'') ''No such job''"

definition of_entry :: "(job_entry \<Rightarrow> 'a) \<Rightarrow> string \<Rightarrow> (mem_world, 'a) act" where
  "of_entry f j w = ((case mem_jobs w j of None \<Rightarrow> Inl no_such_job | Some e \<Rightarrow> Inr (f e)), w)"

definition mem_position :: "string \<Rightarrow> mem_world \<Rightarrow> int option" where
  "mem_position j w =
     (if j \<in> set (mem_queue w) then Some (int (length (takeWhile (\<lambda>k. k \<noteq> j) (mem_queue w)))) else None)"

definition mem_backend :: "mem_world backend" where
  "mem_backend =
     \<lparr>rq_enqueue = (\<lambda>call j ttl tmo rt w.
        (Inr \<lparr>rq_id = j, rq_meta = no_meta, rq_result = None\<rparr>,
         w\<lparr>mem_jobs := (mem_jobs w)(j \<mapsto> \<lparr>je_status = ''queued'', je_meta = no_meta, je_result = None\<rparr>),
           mem_queue := mem_queue w @ [j]\<rparr>)),
      rq_fetch = (\<lambda>j. of_entry (\<lambda>e. \<lparr>rq_id = j, rq_meta = je_meta e, rq_result = je_result e\<rparr>) j),
      rq_save_meta = (\<lambda>job. modifyA (\<lambda>w. w\<lparr>mem_jobs := (mem_jobs w)(rq_id job :=
         map_option (\<lambda>e. e\<lparr>je_meta := rq_meta job\<rparr>) (mem_jobs w (rq_id job)))\<rparr>)),
      rq_get_status = of_entry je_status,
      rq_set_status = (\<lambda>j st. modifyA (\<lambda>w. w\<lparr>mem_jobs := (mem_jobs w)(j :=
         map_option (\<lambda>e. e\<lparr>je_status := st\<rparr>) (mem_jobs w j))\<rparr>)),
      rq_get_position = (\<lambda>j. getA (mem_position j)),
      rq_remove = (\<lambda>j. modifyA (\<lambda>w. w\<lparr>mem_queue := remove1 j (mem_queue w)\<rparr>)),
      rq_count = getA (\<lambda>w. int (length (mem_queue w))),
      rq_started_count = retA 0,
      rq_failed_count = retA 0,
      rq_workers = retA [],
      redis_ping = retA True,
      redis_hincr = (\<lambda>h f x. modifyA (\<lambda>w. w\<lparr>mem_metrics :=
         AList.update f (x + (case map_of (mem_metrics w) f of None \<Rightarrow> 0 | Some y \<Rightarrow> y)) (mem_metrics w)\<rparr>)),
      redis_hgetall = (\<lambda>h. getA mem_metrics),
      redis_xadd = (\<lambda>c raw w. (Inr (str_nat (Suc (length (mem_log w c)))), mem_append c raw w)),
      redis_expire = (\<lambda>c t. retA ()),
      redis_xread = mem_xread,
      clock_now = getA mem_clock,
      loop_time = getA mem_clock,
      loop_sleep = (\<lambda>d. case d of
         Fin secs \<Rightarrow> modifyA (\<lambda>w. w\<lparr>mem_clock := mem_clock w + max 0 secs\<rparr>)
       | _ \<Rightarrow> raiseA (mk_exn ValueError []))\<rparr>"

definition empty_world :: mem_world where
  "empty_world = \<lparr>mem_jobs = (\<lambda>j. None), mem_queue = [], mem_log = (\<lambda>c. []), mem_metrics = [],
     mem_clock = 0, mem_script = []\<rparr>"

lemma numbered_append: "numbered n (rs @ ss) = numbered n rs @ numbered (n + length rs) ss"
  by (induction rs arbitrary: n) auto

lemma numbered_keys: "map fst (numbered n rs) = map str_nat [n..<n + length rs]"
  by (induction rs arbitrary: n) (simp_all add: upt_conv_Cons del: upt_Suc)

lemma str_nat_inject: "str_nat m = str_nat n \<longleftrightarrow> m = n"
  by (metis digits_val_str_nat)

lemma numbered_distinct: "distinct (map fst (numbered n rs))"
  unfolding numbered_keys by (auto simp: distinct_map str_nat_inject intro: inj_onI)

lemma numbered_not_start: "''0-0'' \<notin> fst ` set (numbered n rs)"
proof
  assume "''0-0'' \<in> fst ` set (numbered n rs)"
  then have "''0-0'' \<in> set (map fst (numbered n rs))" by simp
  then obtain k where "str_nat k = ''0-0''" unfolding numbered_keys by auto
  then have "is_digit (CHR ''-'')" using str_nat_digits[of k] by simp
  then show False by (simp add: is_digit_def)
qed

lemma mem_view_jobs:
  "mem_view (w\<lparr>mem_jobs := (mem_jobs w)(j := map_option f (mem_jobs w j))\<rparr>) = put_entry j f (mem_view w)"
  by (simp add: mem_view_def put_entry_def mem_records_def fun_eq_iff)

lemma mem_view_append:
  "mem_view (mem_append c raw w) = add_record c (str_nat (Suc (length (mem_log w c))), raw) (mem_view w)"
  by (auto simp: mem_view_def add_record_def mem_append_def mem_records_def fun_eq_iff numbered_append)

lemma mem_wait_records:
  "\<exists>more. mem_records (mem_wait w) c = mem_records w c @ more
     \<and> length more + length (mem_script (mem_wait w)) \<le> length (mem_script w)"
  by (cases "mem_script w")
    (auto simp: mem_wait_def mem_records_def mem_append_def numbered_append split: prod.split)

lemma mem_wait_clock: "mem_clock (mem_wait w) = mem_clock w + 1"
  by (auto simp: mem_wait_def split: list.split)

interpretation mem: rq_server mem_backend mem_view
proof
  fix c raw w i w'
  assume "redis_xadd mem_backend c raw w = (Inr i, w')"
  then show "mem_view w' = add_record c (i, raw) (mem_view w)"
    by (auto simp: mem_backend_def mem_view_append)
qed (auto simp: mem_backend_def of_entry_def keeps_def mem_view_jobs split: option.splits,
     auto simp: mem_view_def mem_records_def fun_eq_iff)

interpretation mem_streams: redis_streams mem_backend mem_records mem_clock "\<lambda>w. length (mem_script w)"
proof
  fix c i w r w'
  assume "redis_xread mem_backend c i w = (r, w')"
  then show "(\<exists>more. mem_records w' c = mem_records w c @ more
      \<and> length more + length (mem_script w') \<le> length (mem_script w)) \<and> mem_clock w \<le> mem_clock w'"
    using mem_wait_records[of w c]
    by (auto simp: mem_backend_def mem_xread_def Let_def mem_wait_clock split: if_splits)
next
  fix c i w recs w'
  assume "redis_xread mem_backend c i w = (Inr recs, w')"
  then show "prefix recs (after_id i (mem_records w' c))
      \<and> (recs = [] \<longrightarrow> after_id i (mem_records w' c) = [] \<and> mem_clock w + 1 \<le> mem_clock w')"
    by (auto simp: mem_backend_def mem_xread_def Let_def mem_wait_clock take_is_prefix split: if_splits)
next
  fix w c
  show "distinct (map fst (mem_records w c))" "''0-0'' \<notin> fst ` set (mem_records w c)"
    unfolding mem_records_def by (rule numbered_distinct numbered_not_start)+
  show "loop_time mem_backend w = (Inr (mem_clock w), w)" by (simp add: mem_backend_def)
qed

interpretation mem_loop: event_loop mem_backend mem_clock
  by unfold_locales (auto simp: mem_backend_def of_entry_def)

end
