(* ===== verification/Queue_Store.thy ===== *)
theory Queue_Store
  imports Queue_Laws
begin

text \<open>
  The two ports of the queue, \<^verbatim>\<open>QueueClient\<close> and \<^verbatim>\<open>JobStore\<close>, and their implementations over RQ and
  Redis (\<^verbatim>\<open>app/infrastructure/redis/rq_queue.py\<close>, \<^verbatim>\<open>app/infrastructure/redis/job_store.py\<close>).  The
  contract of the two is the locale \<open>queue_ports\<close>; the implementations satisfy it over every backend with
  the laws of \<open>rq_server\<close>.  The reader of a stream rests on the laws of \<open>redis_streams\<close>.
\<close>

section \<open>The ports\<close>

record 'w queue_client =
  qc_enqueue :: "LLMCallJob \<Rightarrow> string \<Rightarrow> int \<Rightarrow> int \<Rightarrow> int \<Rightarrow> ('w, rq_job) act"
  qc_get_job :: "string \<Rightarrow> ('w, rq_job) act"
  qc_get_job_status :: "string \<Rightarrow> ('w, string) act"
  qc_get_job_position :: "string \<Rightarrow> ('w, int option) act"
  qc_remove :: "string \<Rightarrow> ('w, unit) act"
  qc_get_queue_depth :: "('w, int) act"
  qc_get_active_job_count :: "('w, int) act"
  qc_get_failed_job_count :: "('w, int) act"
  qc_get_worker_heartbeats :: "('w, rat list) act"
  qc_ping :: "('w, bool) act"
  qc_build_queue_status :: "bool \<Rightarrow> rat option \<Rightarrow> rat option \<Rightarrow> ('w, QueueStatusSnapshot) act"
  qc_check_backpressure :: "(rat \<Rightarrow> ('w, unit) act) option"
  qc_set_status :: "string \<Rightarrow> string \<Rightarrow> ('w, unit) act"

text \<open>A store call that updates the job object and the call it is given returns both.\<close>

record 'w job_store =
  js_get_stream_channel :: "string \<Rightarrow> string"
  js_compute_elapsed_seconds :: "LLMCallJob \<Rightarrow> ('w, rat) act"
  js_serialize_llm_call :: "LLMCallJob \<Rightarrow> ('w, LLMCallJob) act"
  js_save_job_payload :: "rq_job \<Rightarrow> LLMCallJob \<Rightarrow> ('w, rq_job \<times> LLMCallJob) act"
  js_record_wait_time :: "rat \<Rightarrow> ('w, unit) act"
  js_record_completion_metrics :: "LLMCallJob \<Rightarrow> ('w, unit) act"
  js_read_average_wait_time_seconds :: "('w, rat option) act"
  js_read_average_generation_time_seconds :: "('w, rat option) act"
  js_append_stream_event :: "string \<Rightarrow> payload \<Rightarrow> ('w, string) act"
  js_get_job_result :: "string \<Rightarrow> ('w, LLMCallJob) act"
  js_is_cancel_requested :: "string \<Rightarrow> ('w, bool) act"
  js_stream_llm_events :: "nat \<Rightarrow> string \<Rightarrow> int \<Rightarrow> 'w \<Rightarrow> (payload list \<times> ending option) \<times> 'w"

section \<open>The queue client over RQ\<close>

definition heartbeats_of :: "rat option list \<Rightarrow> rat list" where
  "heartbeats_of ws = List.map_filter id ws"

fun min_age :: "rat \<Rightarrow> rat list \<Rightarrow> rat option" where
  "min_age t [] = None"
| "min_age t (h # hs) =
     (case min_age t hs of None \<Rightarrow> Some (max 0 (t - h)) | Some a \<Rightarrow> Some (min (max 0 (t - h)) a))"

definition build_queue_status ::
  "'w backend \<Rightarrow> bool \<Rightarrow> rat option \<Rightarrow> rat option \<Rightarrow> ('w, QueueStatusSnapshot) act" where
  "build_queue_status b conn avg_wait est_wait =
     (if \<not> conn then
        retA \<lparr>redis_connected = False, queue_depth = 0, active_job_count = 0, failed_job_count = 0,
              worker_count = 0, worker_heartbeat_age_seconds = None,
              average_wait_time_seconds = None, estimated_wait_time_seconds = None\<rparr>
      else
        bindA (rq_workers b) (\<lambda>ws.
        let hs = heartbeats_of ws in
        bindA (if hs = [] then retA None else bindA (clock_now b) (\<lambda>t. retA (min_age t hs))) (\<lambda>age.
        bindA (rq_count b) (\<lambda>depth.
        bindA (rq_started_count b) (\<lambda>active.
        bindA (rq_failed_count b) (\<lambda>failed.
        retA \<lparr>redis_connected = True, queue_depth = depth, active_job_count = active,
              failed_job_count = failed, worker_count = int (length ws),
              worker_heartbeat_age_seconds = age, average_wait_time_seconds = avg_wait,
              estimated_wait_time_seconds = est_wait\<rparr>))))))"

definition check_backpressure :: "AppSettings \<Rightarrow> 'w backend \<Rightarrow> rat \<Rightarrow> ('w, unit) act" where
  "check_backpressure s b estimated =
     bindA (rq_count b) (\<lambda>depth.
     if depth \<ge> llm_max_queue_size s then raiseA (queue_saturated None \<lfloor>max 1 estimated\<rfloor>)
     else if estimated > of_int (llm_queue_wait_timeout_seconds s)
     then raiseA (queue_saturated
       (Some ''The language model queue is too busy to accept this request right now.'')
       \<lfloor>max 1 estimated\<rfloor>)
     else retA ())"

definition rq_queue_client :: "AppSettings \<Rightarrow> 'w backend \<Rightarrow> 'w queue_client" where
  "rq_queue_client s b =
     \<lparr>qc_enqueue = (\<lambda>call jid ttl timeout retry_max.
        rq_enqueue b call jid ttl timeout (if retry_max > 0 then Some retry_max else None)),
      qc_get_job = rq_fetch b,
      qc_get_job_status = (\<lambda>jid. bindA (rq_fetch b jid) (\<lambda>_. rq_get_status b jid)),
      qc_get_job_position = (\<lambda>jid. catchA (rq_get_position b jid) (\<lambda>_. retA None)),
      qc_remove = rq_remove b,
      qc_get_queue_depth = rq_count b,
      qc_get_active_job_count = rq_started_count b,
      qc_get_failed_job_count = rq_failed_count b,
      qc_get_worker_heartbeats = bindA (rq_workers b) (\<lambda>ws. retA (heartbeats_of ws)),
      qc_ping = catchA (redis_ping b) (\<lambda>_. retA False),
      qc_build_queue_status = build_queue_status b,
      qc_check_backpressure = Some (check_backpressure s b),
      qc_set_status = rq_set_status b\<rparr>"

section \<open>The job store over Redis\<close>

definition QUEUE_METRICS_KEY :: string where "QUEUE_METRICS_KEY = ''llm:queue:metrics''"

definition stream_channel_of :: "AppSettings \<Rightarrow> string \<Rightarrow> string" where
  "stream_channel_of s jid = llm_stream_channel_prefix s @ '':'' @ jid"

definition compute_elapsed_seconds :: "'w backend \<Rightarrow> LLMCallJob \<Rightarrow> ('w, rat) act" where
  "compute_elapsed_seconds b call =
     (let start = (case job_started_at call of None \<Rightarrow> job_created_at call | Some t \<Rightarrow> t) in
      bindA (case job_completed_at call of Some t \<Rightarrow> retA t | None \<Rightarrow> clock_now b) (\<lambda>fin.
      retA (max 0 (fin - start))))"

definition serialize_llm_call :: "'w backend \<Rightarrow> LLMCallJob \<Rightarrow> ('w, LLMCallJob) act" where
  "serialize_llm_call b call =
     bindA (compute_elapsed_seconds b call) (\<lambda>t. retA (call\<lparr>elapsed_seconds := Some t\<rparr>))"

definition save_job_payload :: "'w backend \<Rightarrow> rq_job \<Rightarrow> LLMCallJob \<Rightarrow> ('w, rq_job \<times> LLMCallJob) act" where
  "save_job_payload b job call =
     bindA (serialize_llm_call b call) (\<lambda>call'.
     let job' = job\<lparr>rq_meta := (rq_meta job)\<lparr>meta_llm_call := Some call'\<rparr>\<rparr> in
     bindA (rq_save_meta b job') (\<lambda>_. retA (job', call')))"

definition record_wait_time :: "'w backend \<Rightarrow> rat \<Rightarrow> ('w, unit) act" where
  "record_wait_time b secs =
     bindA (redis_hincr b QUEUE_METRICS_KEY ''total_wait_seconds'' secs) (\<lambda>_.
     redis_hincr b QUEUE_METRICS_KEY ''started_jobs'' 1)"

definition record_completion_metrics :: "'w backend \<Rightarrow> LLMCallJob \<Rightarrow> ('w, unit) act" where
  "record_completion_metrics b call =
     bindA (case (job_started_at call, job_completed_at call) of
              (Some t0, Some t1) \<Rightarrow>
                redis_hincr b QUEUE_METRICS_KEY ''total_generation_seconds'' (max 0 (t1 - t0))
            | _ \<Rightarrow> retA ()) (\<lambda>_.
     redis_hincr b QUEUE_METRICS_KEY ''completed_jobs'' 1)"

text \<open>\<^verbatim>\<open>total / count\<close>, unless a field is missing or the count is not positive.\<close>

definition average_of :: "(string \<times> rat) list \<Rightarrow> string \<Rightarrow> string \<Rightarrow> rat option" where
  "average_of metrics count_field total_field =
     (case (map_of metrics count_field, map_of metrics total_field) of
        (Some n, Some tot) \<Rightarrow> if \<lfloor>n\<rfloor> \<le> 0 then None else Some (tot / of_int \<lfloor>n\<rfloor>)
      | _ \<Rightarrow> None)"

definition read_average_wait_time_seconds :: "'w backend \<Rightarrow> ('w, rat option) act" where
  "read_average_wait_time_seconds b =
     bindA (redis_hgetall b QUEUE_METRICS_KEY) (\<lambda>m.
     retA (average_of m ''started_jobs'' ''total_wait_seconds''))"

definition read_average_generation_time_seconds :: "'w backend \<Rightarrow> ('w, rat option) act" where
  "read_average_generation_time_seconds b =
     bindA (redis_hgetall b QUEUE_METRICS_KEY) (\<lambda>m.
     retA (average_of m ''completed_jobs'' ''total_generation_seconds''))"

definition append_stream_event ::
  "(rat \<Rightarrow> string) \<Rightarrow> AppSettings \<Rightarrow> 'w backend \<Rightarrow> string \<Rightarrow> payload \<Rightarrow> ('w, string) act" where
  "append_stream_event fr s b jid event =
     (let chan = stream_channel_of s jid in
      bindA (redis_xadd b chan (dumps fr (JObj event))) (\<lambda>event_id.
      bindA (redis_expire b chan (llm_result_ttl_seconds s)) (\<lambda>_.
      retA event_id)))"

definition get_job_result ::
  "AppSettings \<Rightarrow> 'w queue_client \<Rightarrow> 'w backend \<Rightarrow> string \<Rightarrow> ('w, LLMCallJob) act" where
  "get_job_result s q b jid =
     bindA (qc_get_job q jid) (\<lambda>job.
     case (case rq_result job of Some r \<Rightarrow> Some r | None \<Rightarrow> meta_llm_call (rq_meta job)) of
       None \<Rightarrow> raiseA (mk_exn RuntimeError (''LLM job '' @ [CHR 0x27] @ jid @ [CHR 0x27]
                 @ '' has no result payload.''))
     | Some call \<Rightarrow>
         let call = (if stream_channel call = None
                     then call\<lparr>stream_channel := Some (stream_channel_of s jid)\<rparr> else call) in
         bindA (if job_status call = JQueued
                then bindA (qc_get_job_position q jid)
                       (\<lambda>pos. retA (call\<lparr>queue_position := pos\<rparr>))
                else retA call) (\<lambda>call.
         bindA (compute_elapsed_seconds b call) (\<lambda>t.
         retA (call\<lparr>elapsed_seconds := Some t\<rparr>))))"

definition is_cancel_requested ::
  "AppSettings \<Rightarrow> 'w queue_client \<Rightarrow> 'w backend \<Rightarrow> string \<Rightarrow> ('w, bool) act" where
  "is_cancel_requested s q b jid =
     bindA (get_job_result s q b jid) (\<lambda>call. retA (cancel_requested call))"

subsection \<open>Reading a stream\<close>

text \<open>One record: its JSON must be an object, and the key \<^verbatim>\<open>_stream_id\<close> is set and popped again.\<close>

definition decode_record :: "string \<times> string \<Rightarrow> (string \<times> payload) res" where
  "decode_record r = (case r of (event_id, raw) \<Rightarrow>
     (case json_loads raw of
        None \<Rightarrow> Inl (mk_exn JSONDecodeError [])
      | Some (JObj d) \<Rightarrow> Inr (event_id, AList.delete ''_stream_id'' d)
      | Some _ \<Rightarrow> Inl (mk_exn TypeError [])))"

definition ends_stream :: "payload \<Rightarrow> bool" where
  "ends_stream event \<longleftrightarrow>
     jget event ''done'' = JBool True
     \<or> jget event ''status'' \<in> {JStr ''completed'', JStr ''failed'', JStr ''cancelled''}"

text \<open>The inner \<^verbatim>\<open>for\<close> loop: the events yielded, whether one of them ended the stream, the last key.\<close>

fun yield_events :: "string \<Rightarrow> (string \<times> payload) list \<Rightarrow> payload list \<times> bool \<times> string" where
  "yield_events last_id [] = ([], False, last_id)"
| "yield_events last_id ((i, event) # rest) =
     (if ends_stream event then ([event], True, i)
      else case yield_events i rest of (ys, stopped, l) \<Rightarrow> (event # ys, stopped, l))"

definition stream_timeout :: "string \<Rightarrow> exn" where
  "stream_timeout jid =
     mk_exn TimeoutError (''Timed out waiting for LLM stream '' @ [CHR 0x27] @ jid @ [CHR 0x27] @ ''.'')"

text \<open>The \<^verbatim>\<open>while True\<close> loop; the number bounds its rounds, and \<^const>\<open>None\<close> means it still runs.\<close>

fun poll_stream ::
  "nat \<Rightarrow> AppSettings \<Rightarrow> 'w backend \<Rightarrow> string \<Rightarrow> int \<Rightarrow> rat \<Rightarrow> string \<Rightarrow> 'w
     \<Rightarrow> (payload list \<times> ending option) \<times> 'w" where
  "poll_stream 0 s b jid timeout deadline last_id w = (([], None), w)"
| "poll_stream (Suc n) s b jid timeout deadline last_id w =
     (case bindA (redis_xread b (stream_channel_of s jid) last_id) (\<lambda>recs.
           bindA (liftA (map_res decode_record recs)) (\<lambda>events.
           bindA (loop_time b) (\<lambda>t. retA (events, t)))) w of
        (Inl e, w1) \<Rightarrow> (([], Some (Failed e)), w1)
      | (Inr (events, t), w1) \<Rightarrow>
          if events = [] then
            (if t \<ge> deadline then (([], Some (Failed (stream_timeout jid))), w1)
             else poll_stream n s b jid timeout deadline last_id w1)
          else case yield_events last_id events of (ys, stopped, l) \<Rightarrow>
            if stopped then ((ys, Some Finished), w1)
            else case poll_stream n s b jid timeout (t + of_int timeout) l w1 of
              ((zs, e), w2) \<Rightarrow> ((ys @ zs, e), w2))"

definition stream_llm_events ::
  "AppSettings \<Rightarrow> 'w backend \<Rightarrow> nat \<Rightarrow> string \<Rightarrow> int \<Rightarrow> 'w \<Rightarrow> (payload list \<times> ending option) \<times> 'w" where
  "stream_llm_events s b fuel jid timeout w =
     (case loop_time b w of
        (Inl e, w1) \<Rightarrow> (([], Some (Failed e)), w1)
      | (Inr t, w1) \<Rightarrow> poll_stream fuel s b jid timeout (t + of_int timeout) ''0-0'' w1)"

definition redis_job_store ::
  "(rat \<Rightarrow> string) \<Rightarrow> AppSettings \<Rightarrow> 'w queue_client \<Rightarrow> 'w backend \<Rightarrow> 'w job_store" where
  "redis_job_store fr s q b =
     \<lparr>js_get_stream_channel = stream_channel_of s,
      js_compute_elapsed_seconds = compute_elapsed_seconds b,
      js_serialize_llm_call = serialize_llm_call b,
      js_save_job_payload = save_job_payload b,
      js_record_wait_time = record_wait_time b,
      js_record_completion_metrics = record_completion_metrics b,
      js_read_average_wait_time_seconds = read_average_wait_time_seconds b,
      js_read_average_generation_time_seconds = read_average_generation_time_seconds b,
      js_append_stream_event = append_stream_event fr s b,
      js_get_job_result = get_job_result s q b,
      js_is_cancel_requested = is_cancel_requested s q b,
      js_stream_llm_events = stream_llm_events s b\<rparr>"

section \<open>The contract of the ports\<close>

text \<open>The call a job stores: the return value of a finished run, or the metadata; and the part of a call
  that loading and saving leave alone.\<close>

definition stored :: "queue_view \<Rightarrow> string \<Rightarrow> LLMCallJob option" where
  "stored v j = (case v_jobs v j of None \<Rightarrow> None
     | Some e \<Rightarrow> (case je_result e of Some r \<Rightarrow> Some r | None \<Rightarrow> meta_llm_call (je_meta e)))"

definition core_of :: "LLMCallJob \<Rightarrow> LLMCallJob" where
  "core_of call = call\<lparr>queue_position := None, elapsed_seconds := None, stream_channel := None\<rparr>"

lemma core_of_simps [simp]:
  "core_of (call\<lparr>queue_position := x\<rparr>) = core_of call"
  "core_of (call\<lparr>elapsed_seconds := y\<rparr>) = core_of call"
  "core_of (call\<lparr>stream_channel := z\<rparr>) = core_of call"
  by (simp_all add: core_of_def)

lemma core_ofD:
  assumes "core_of c = core_of d"
  shows "job_status c = job_status d" "cancel_requested c = cancel_requested d" "job_id c = job_id d"
    "call_type c = call_type d" "job_error c = job_error d" "retry_count c = retry_count d"
  using assms by (cases c, cases d, simp add: core_of_def)+

locale queue_ports =
  fixes q :: "'w queue_client" and st :: "'w job_store" and view :: "'w \<Rightarrow> queue_view"
    and enc :: "payload \<Rightarrow> string"
  assumes get_job:
      "qc_get_job q j w = (Inr job, w') \<Longrightarrow>
         \<exists>e. v_jobs (view w) j = Some e \<and> job = \<lparr>rq_id = j, rq_meta = je_meta e, rq_result = je_result e\<rparr>"
    and get_job_status:
      "qc_get_job_status q j w = (Inr x, w') \<Longrightarrow> \<exists>e. v_jobs (view w) j = Some e \<and> x = je_status e"
    and depth: "qc_get_queue_depth q w = (Inr n, w') \<Longrightarrow> n = int (length (v_queue (view w)))"
    and reads [keeps_rules]:
      "keeps view (qc_get_job q j)" "keeps view (qc_get_job_status q j)"
      "keeps view (qc_get_job_position q j)" "keeps view (qc_get_queue_depth q)"
      "keeps view (qc_get_active_job_count q)" "keeps view (js_get_job_result st j)"
      "keeps view (js_compute_elapsed_seconds st call)" "keeps view (js_serialize_llm_call st call)"
      "keeps view (js_read_average_generation_time_seconds st)"
      "keeps view (case qc_check_backpressure q of None \<Rightarrow> retA () | Some check \<Rightarrow> check est)"
    and get_job_result:
      "js_get_job_result st j w = (Inr call, w') \<Longrightarrow>
         \<exists>c. stored (view w) j = Some c \<and> core_of call = core_of c"
    and serialize: "js_serialize_llm_call st call w = (Inr call', w') \<Longrightarrow> core_of call' = core_of call"
    and save_job_payload:
      "js_save_job_payload st job call w = (Inr (job', call'), w') \<Longrightarrow>
         core_of call' = core_of call \<and> rq_id job' = rq_id job \<and>
         view w' = put_entry (rq_id job)
           (\<lambda>e. e\<lparr>je_meta := (rq_meta job)\<lparr>meta_llm_call := Some call'\<rparr>\<rparr>) (view w)"
      "js_save_job_payload st job call w = (Inl y, w') \<Longrightarrow> view w' = view w"
    and append:
      "js_append_stream_event st j p w = (r, w') \<Longrightarrow>
         (\<exists>i. view w' = add_record (js_get_stream_channel st j) (i, enc p) (view w))
         \<or> isl r \<and> view w' = view w"
    and remove:
      "qc_remove q j w = (Inr u, w') \<Longrightarrow> view w' = (view w)\<lparr>v_queue := remove1 j (v_queue (view w))\<rparr>"
      "qc_remove q j w = (Inl y, w') \<Longrightarrow> view w' = view w"
    and set_status:
      "qc_set_status q j x w = (Inr u, w') \<Longrightarrow> view w' = put_entry j (\<lambda>e. e\<lparr>je_status := x\<rparr>) (view w)"
      "qc_set_status q j x w = (Inl y, w') \<Longrightarrow> view w' = view w"
    and enqueue:
      "qc_enqueue q call j ttl tmo rt w = (Inr job, w') \<Longrightarrow>
         job = \<lparr>rq_id = j, rq_meta = no_meta, rq_result = None\<rparr> \<and>
         view w' = (view w)\<lparr>v_jobs := (v_jobs (view w))(j \<mapsto>
             \<lparr>je_status = ''queued'', je_meta = no_meta, je_result = None\<rparr>),
           v_queue := v_queue (view w) @ [j]\<rparr>"
      "qc_enqueue q call j ttl tmo rt w = (Inl y, w') \<Longrightarrow> view w' = view w"

text \<open>The operations of the two implementations.\<close>

lemma client_ops [simp]:
  "qc_enqueue (rq_queue_client s b) call jid ttl tmo n
     = rq_enqueue b call jid ttl tmo (if n > 0 then Some n else None)"
  "qc_get_job (rq_queue_client s b) = rq_fetch b"
  "qc_get_job_status (rq_queue_client s b) jid = bindA (rq_fetch b jid) (\<lambda>_. rq_get_status b jid)"
  "qc_get_job_position (rq_queue_client s b) jid = catchA (rq_get_position b jid) (\<lambda>_. retA None)"
  "qc_remove (rq_queue_client s b) = rq_remove b"
  "qc_get_queue_depth (rq_queue_client s b) = rq_count b"
  "qc_get_active_job_count (rq_queue_client s b) = rq_started_count b"
  "qc_check_backpressure (rq_queue_client s b) = Some (check_backpressure s b)"
  "qc_set_status (rq_queue_client s b) = rq_set_status b"
  by (simp_all add: rq_queue_client_def)

lemma store_ops [simp]:
  "js_get_stream_channel (redis_job_store fr s q b) = stream_channel_of s"
  "js_compute_elapsed_seconds (redis_job_store fr s q b) = compute_elapsed_seconds b"
  "js_serialize_llm_call (redis_job_store fr s q b) = serialize_llm_call b"
  "js_save_job_payload (redis_job_store fr s q b) = save_job_payload b"
  "js_record_wait_time (redis_job_store fr s q b) = record_wait_time b"
  "js_record_completion_metrics (redis_job_store fr s q b) = record_completion_metrics b"
  "js_read_average_wait_time_seconds (redis_job_store fr s q b) = read_average_wait_time_seconds b"
  "js_read_average_generation_time_seconds (redis_job_store fr s q b) = read_average_generation_time_seconds b"
  "js_append_stream_event (redis_job_store fr s q b) = append_stream_event fr s b"
  "js_get_job_result (redis_job_store fr s q b) = get_job_result s q b"
  "js_is_cancel_requested (redis_job_store fr s q b) = is_cancel_requested s q b"
  "js_stream_llm_events (redis_job_store fr s q b) = stream_llm_events s b"
  by (simp_all add: redis_job_store_def)

text \<open>What the implementations over a backend keep of its view.\<close>

lemma keeps_if [keeps_rules]: "keeps f a \<Longrightarrow> keeps f b \<Longrightarrow> keeps f (if c then a else b)"
  by simp

lemma keeps_option [keeps_rules]:
  "keeps f a \<Longrightarrow> (\<And>x. keeps f (g x)) \<Longrightarrow> keeps f (case v of None \<Rightarrow> a | Some x \<Rightarrow> g x)"
  by (cases v) auto

lemma keeps_Let [keeps_rules]: "(\<And>x. keeps f (g x)) \<Longrightarrow> keeps f (let x = v in g x)"
  by simp

context rq_server
begin

lemma keeps_elapsed [keeps_rules]: "keeps view (compute_elapsed_seconds b call)"
  unfolding compute_elapsed_seconds_def by (intro keeps_rules reads)

lemma keeps_serialize [keeps_rules]: "keeps view (serialize_llm_call b call)"
  unfolding serialize_llm_call_def by (intro keeps_rules keeps_elapsed)

lemma keeps_position [keeps_rules]: "keeps view (qc_get_job_position (rq_queue_client s b) j)"
  unfolding client_ops by (intro keeps_rules reads)

lemma keeps_get_job_result [keeps_rules]: "keeps view (get_job_result s (rq_queue_client s b) b j)"
  unfolding get_job_result_def client_ops
  by (intro keeps_rules reads keeps_elapsed)

lemma keeps_backpressure [keeps_rules]: "keeps view (check_backpressure s b x)"
  unfolding check_backpressure_def by (intro keeps_rules reads)

lemma serialize_core: "serialize_llm_call b call w = (Inr call', w') \<Longrightarrow> core_of call' = core_of call"
  by (auto simp: serialize_llm_call_def bindA_Inr)

lemma get_job_result_core:
  assumes "get_job_result s (rq_queue_client s b) b j w = (Inr call, w')"
  shows "\<exists>c. stored (view w) j = Some c \<and> core_of call = core_of c"
proof -
  obtain job v where f: "rq_fetch b j w = (Inr job, v)"
    using assms by (auto simp: get_job_result_def bindA_Inr)
  from fetch[OF this] obtain e where e: "v_jobs (view w) j = Some e"
      "job = \<lparr>rq_id = j, rq_meta = je_meta e, rq_result = je_result e\<rparr>" by blast
  show ?thesis
  proof (cases "stored (view w) j")
    case None
    then show ?thesis
      using assms f e by (auto simp: get_job_result_def bindA_run stored_def split: option.splits)
  next
    case (Some c)
    then have "(case rq_result job of Some r \<Rightarrow> Some r | None \<Rightarrow> meta_llm_call (rq_meta job)) = Some c"
      using e by (auto simp: stored_def split: option.splits)
    then show ?thesis using assms f Some
      by (auto simp: get_job_result_def bindA_run bindA_Inr Let_def split: if_splits)
  qed
qed

lemma save_run:
  assumes "save_job_payload b job call w = (r, w')"
  shows "(\<exists>call'. r = Inr (job\<lparr>rq_meta := (rq_meta job)\<lparr>meta_llm_call := Some call'\<rparr>\<rparr>, call')
      \<and> core_of call' = core_of call \<and> view w' = put_entry (rq_id job)
           (\<lambda>e. e\<lparr>je_meta := (rq_meta job)\<lparr>meta_llm_call := Some call'\<rparr>\<rparr>) (view w))
    \<or> isl r \<and> view w' = view w"
proof (cases "serialize_llm_call b call w")
  case (Pair r1 w1)
  have w1: "view w1 = view w" using keeps_serialize keepsD Pair by fastforce
  show ?thesis
  proof (cases r1)
    case (Inl x)
    then show ?thesis using assms Pair w1 by (auto simp: save_job_payload_def bindA_run)
  next
    case (Inr call')
    let ?job = "job\<lparr>rq_meta := (rq_meta job)\<lparr>meta_llm_call := Some call'\<rparr>\<rparr>"
    obtain r2 w2 where s: "rq_save_meta b ?job w1 = (r2, w2)" by fastforce
    then show ?thesis
      using assms Pair Inr w1 save_meta[of ?job w1] serialize_core[of call w call' w1]
      by (cases r2) (auto simp: save_job_payload_def bindA_run Let_def)
  qed
qed

lemma append_run:
  assumes "append_stream_event fr s b j p w = (r, w')"
  shows "(\<exists>i. view w' = add_record (stream_channel_of s j) (i, dumps fr (JObj p)) (view w))
    \<or> isl r \<and> view w' = view w"
proof (cases "redis_xadd b (stream_channel_of s j) (dumps fr (JObj p)) w")
  case (Pair r1 w1)
  show ?thesis
  proof (cases r1)
    case (Inl x)
    then show ?thesis using assms Pair xadd(2) by (auto simp: append_stream_event_def bindA_run Let_def)
  next
    case (Inr i)
    have k: "keeps view (bindA (redis_expire b (stream_channel_of s j) (llm_result_ttl_seconds s))
        (\<lambda>_. retA i))" by (intro keeps_rules reads)
    have "bindA (redis_expire b (stream_channel_of s j) (llm_result_ttl_seconds s)) (\<lambda>_. retA i) w1 = (r, w')"
      using assms Pair Inr by (simp add: append_stream_event_def bindA_run Let_def)
    from k keepsD[OF k this] have "view w' = view w1" by simp
    then show ?thesis using Pair Inr xadd(1) by auto
  qed
qed

end

sublocale rq_server \<subseteq> ports: queue_ports "rq_queue_client s b" "redis_job_store fr s (rq_queue_client s b) b"
  view "\<lambda>p. dumps fr (JObj p)"
proof
  fix j w x w'
  assume "qc_get_job_status (rq_queue_client s b) j w = (Inr x, w')"
  then obtain job v where f: "rq_fetch b j w = (Inr job, v)" and g: "rq_get_status b j v = (Inr x, w')"
    by (auto simp: bindA_Inr)
  from reads(1) keepsD[OF reads(1) f] have "view v = view w" by simp
  then show "\<exists>e. v_jobs (view w) j = Some e \<and> x = je_status e" using status[OF g] by simp
next
  fix j p w r w'
  assume "js_append_stream_event (redis_job_store fr s (rq_queue_client s b) b) j p w = (r, w')"
  then show "(\<exists>i. view w' = add_record (js_get_stream_channel (redis_job_store fr s (rq_queue_client s b) b) j)
        (i, dumps fr (JObj p)) (view w)) \<or> isl r \<and> view w' = view w"
    using append_run by (simp del: dumps.simps)
next
  fix job call w job' call' w'
  assume "js_save_job_payload (redis_job_store fr s (rq_queue_client s b) b) job call w = (Inr (job', call'), w')"
  then show "core_of call' = core_of call \<and> rq_id job' = rq_id job \<and>
      view w' = put_entry (rq_id job) (\<lambda>e. e\<lparr>je_meta := (rq_meta job)\<lparr>meta_llm_call := Some call'\<rparr>\<rparr>) (view w)"
    by (auto dest: save_run)
next
  fix job call w y w'
  assume "js_save_job_payload (redis_job_store fr s (rq_queue_client s b) b) job call w = (Inl y, w')"
  then show "view w' = view w" by (auto dest: save_run)
next
  show "keeps view (js_read_average_generation_time_seconds (redis_job_store fr s (rq_queue_client s b) b))"
    unfolding store_ops read_average_generation_time_seconds_def by (intro keeps_rules reads)
next
  fix j
  show "keeps view (qc_get_job_status (rq_queue_client s b) j)"
    unfolding client_ops by (intro keeps_rules reads)
  show "keeps view (qc_get_job_position (rq_queue_client s b) j)" by (rule keeps_position)
qed (auto simp: reads keeps_get_job_result keeps_elapsed keeps_serialize keeps_backpressure
     dest: count get_job_result_core serialize_core remove set_status enqueue fetch)

end
