(* ===== verification/Queue_Streams.thy ===== *)
theory Queue_Streams
  imports Queue_Store
begin

text \<open>
  The life of an event stream: a reader of \<^verbatim>\<open>stream_llm_events\<close> yields the records of the channel in
  order, each once, up to the first event that ends the stream, whatever other clients append
  meanwhile; on a channel that \<^verbatim>\<open>append_stream_event\<close> wrote it yields the published events again, and
  it returns after a bounded number of rounds.
\<close>

section \<open>Up to the end event\<close>

fun upto_end :: "payload list \<Rightarrow> payload list" where
  "upto_end [] = []"
| "upto_end (y # ys) = (if ends_stream y then [y] else y # upto_end ys)"

lemma upto_end_append:
  "upto_end (xs @ ys) = (if list_ex ends_stream xs then upto_end xs else xs @ upto_end ys)"
  by (induction xs) auto

lemma upto_end_id: "\<not> list_ex ends_stream xs \<Longrightarrow> upto_end xs = xs"
  by (induction xs) auto

lemma list_ex_upto_end [simp]: "list_ex ends_stream (upto_end xs) = list_ex ends_stream xs"
  by (induction xs) auto

lemma yield_events_eq:
  "yield_events l evs = (ys, stopped, l') \<Longrightarrow>
     ys = upto_end (map snd evs) \<and> stopped = list_ex ends_stream (map snd evs)
     \<and> (\<not> stopped \<longrightarrow> l' = (if evs = [] then l else fst (last evs)))"
proof (induction l evs arbitrary: ys stopped l' rule: yield_events.induct)
  case (2 l i event rest)
  then show ?case
    by (cases "yield_events i rest") (auto split: if_splits)
qed auto

section \<open>Any reader, any writers\<close>

text \<open>\<open>at_key pre i\<close>: the key \<open>i\<close> is the last of the records read so far.\<close>

definition at_key :: "(string \<times> string) list \<Rightarrow> string \<Rightarrow> bool" where
  "at_key pre i \<longleftrightarrow> i = (if pre = [] then ''0-0'' else fst (last pre))"

lemma decode_key: "decode_record r = Inr (i, p) \<Longrightarrow> i = fst r"
  by (auto simp: decode_record_def split: prod.splits option.splits json.splits)

lemma decoded_keys:
  "map_res decode_record recs = Inr evs \<Longrightarrow> map fst evs = map fst recs \<and> length evs = length recs"
  by (induction recs arbitrary: evs) (auto simp: bind_res_Inr dest: decode_key)

lemma at_key_last:
  assumes "map_res decode_record recs = Inr evs" "at_key pre i"
  shows "at_key (pre @ recs) (if evs = [] then i else fst (last evs))"
  using decoded_keys[OF assms(1)] assms(2)
  by (cases recs rule: rev_cases; cases evs rule: rev_cases) (auto simp: at_key_def)

lemma map_res_list: "map_res f xs = Inr ys \<longleftrightarrow> map f xs = map Inr ys"
  by (induction xs arbitrary: ys) (auto simp: bind_res_Inr Cons_eq_map_conv)

context redis_streams
begin

lemma after_key:
  assumes "at_key pre i" "records w c = pre @ rest"
  shows "after_id i (records w c) = rest"
proof (cases "pre = []")
  case False
  then have "after_id (fst (last pre)) (pre @ rest) = rest"
    using keys[of w c] assms(2) by (intro after_id_append) auto
  then show ?thesis using assms False by (simp add: at_key_def)
qed (use assms in \<open>simp add: at_key_def\<close>)

lemma xread_next:
  assumes "redis_xread b c i w = (Inr recs, w')" "records w c = pre @ rest" "at_key pre i"
  shows "\<exists>more. records w' c = pre @ rest @ more \<and> prefix recs (rest @ more)
    \<and> (recs = [] \<longrightarrow> rest = [] \<and> more = [] \<and> now w + 1 \<le> now w')
    \<and> length more + coming w' \<le> coming w"
proof -
  obtain more where more: "records w' c = records w c @ more" "length more + coming w' \<le> coming w"
    using xread(1)[OF assms(1)] by auto
  moreover have "after_id i (records w' c) = rest @ more"
    by (rule after_key[OF assms(3)]) (simp add: more assms(2))
  ultimately show ?thesis using xread(2)[OF assms(1)] assms(2) by auto
qed

text \<open>A round of the loop: the read fails, or the records after the key are decoded and the clock read.\<close>

definition round_of :: "AppSettings \<Rightarrow> string \<Rightarrow> string \<Rightarrow> ('w, (string \<times> payload) list \<times> rat) act" where
  "round_of s jid i =
     bindA (redis_xread b (stream_channel_of s jid) i) (\<lambda>recs.
     bindA (liftA (map_res decode_record recs)) (\<lambda>events.
     bindA (loop_time b) (\<lambda>t. retA (events, t))))"

lemma round_Inr:
  "round_of s jid i w = (Inr (evs, t), w') \<longleftrightarrow>
     (\<exists>recs. redis_xread b (stream_channel_of s jid) i w = (Inr recs, w')
        \<and> map_res decode_record recs = Inr evs \<and> t = now w')"
  by (auto simp: round_of_def bindA_Inr loop_clock)

lemma round_records:
  assumes "round_of s jid i w = (r, w')"
  shows "\<exists>more. records w' (stream_channel_of s jid) = records w (stream_channel_of s jid) @ more"
proof -
  obtain r1 w1 where x: "redis_xread b (stream_channel_of s jid) i w = (r1, w1)" by fastforce
  then have "w' = w1" using assms
    by (cases r1) (auto simp: round_of_def bindA_def loop_clock split: sum.splits)
  then show ?thesis using xread(1)[OF x] by auto
qed

lemma poll_stream_Suc:
  "poll_stream (Suc n) s b jid timeout deadline i w =
     (case round_of s jid i w of
        (Inl e, w1) \<Rightarrow> (([], Some (Failed e)), w1)
      | (Inr (events, t), w1) \<Rightarrow>
          if events = [] then
            (if t \<ge> deadline then (([], Some (Failed (stream_timeout jid))), w1)
             else poll_stream n s b jid timeout deadline i w1)
          else case yield_events i events of (ys, stopped, l) \<Rightarrow>
            if stopped then ((ys, Some Finished), w1)
            else case poll_stream n s b jid timeout (t + of_int timeout) l w1 of
              ((zs, e), w2) \<Rightarrow> ((ys @ zs, e), w2))"
  by (simp add: round_of_def)

lemma poll_prefix:
  assumes "poll_stream n s b jid timeout deadline i w = ((ys, e), w')"
    and "records w (stream_channel_of s jid) = pre @ rest" and "at_key pre i"
  shows "\<exists>recs evs post. records w' (stream_channel_of s jid) = pre @ recs @ post
    \<and> map decode_record recs = map Inr evs \<and> ys = upto_end (map snd evs)
    \<and> (e = Some Finished \<longleftrightarrow> list_ex ends_stream ys)"
  using assms
proof (induction n arbitrary: deadline i w ys e pre rest)
  case (Suc n)
  obtain r w1 where r: "round_of s jid i w = (r, w1)" by fastforce
  show ?case
  proof (cases r)
    case (Inl x)
    obtain more where "records w1 (stream_channel_of s jid) = pre @ [] @ rest @ more"
      using round_records[OF r] Suc.prems(2) by auto
    then show ?thesis using Suc.prems(1) r Inl unfolding poll_stream_Suc
      by (intro exI[of _ "[]"] exI[of _ "rest @ more"]) auto
  next
    case (Inr et)
    then obtain evs t where ev: "round_of s jid i w = (Inr (evs, t), w1)" using r by (cases et) auto
    then obtain recs where x: "redis_xread b (stream_channel_of s jid) i w = (Inr recs, w1)"
      and d: "map_res decode_record recs = Inr evs" and t: "t = now w1" by (auto simp: round_Inr)
    obtain more where more: "records w1 (stream_channel_of s jid) = pre @ rest @ more"
        "prefix recs (rest @ more)" using xread_next[OF x Suc.prems(2,3)] by auto
    then obtain post where post: "records w1 (stream_channel_of s jid) = (pre @ recs) @ post"
      by (auto simp: prefix_def)
    note key = at_key_last[OF d Suc.prems(3)]
    show ?thesis
    proof (cases "evs = []")
      case True
      then have "recs = []" using decoded_keys[OF d] by simp
      show ?thesis
      proof (cases "t \<ge> deadline")
        case True
        then show ?thesis using Suc.prems(1) ev \<open>evs = []\<close> post \<open>recs = []\<close> unfolding poll_stream_Suc
          by (intro exI[of _ "[]"] exI[of _ post]) auto
      next
        case False
        then have "poll_stream n s b jid timeout deadline i w1 = ((ys, e), w')"
          using Suc.prems(1) ev \<open>evs = []\<close> unfolding poll_stream_Suc by simp
        from Suc.IH[OF this _ Suc.prems(3)] post \<open>recs = []\<close> show ?thesis by simp
      qed
    next
      case False
      obtain zs stopped l where y: "yield_events i evs = (zs, stopped, l)" using prod_cases3 by blast
      note ye = yield_events_eq[OF y]
      show ?thesis
      proof (cases stopped)
        case True
        then show ?thesis using Suc.prems(1) ev False y ye post d unfolding poll_stream_Suc
          by (intro exI[of _ recs] exI[of _ evs] exI[of _ post]) (auto simp: map_res_list)
      next
        case nostop: False
        obtain us f where p: "poll_stream n s b jid timeout (t + of_int timeout) l w1 = ((us, f), w')"
            "ys = zs @ us" "e = f"
          using Suc.prems(1) ev False y nostop unfolding poll_stream_Suc by (auto split: prod.splits)
        have "at_key (pre @ recs) l" using key ye nostop False by simp
        from Suc.IH[OF p(1) post this] obtain recs' evs' post' where
          IH: "records w' (stream_channel_of s jid) = (pre @ recs) @ recs' @ post'"
            "map decode_record recs' = map Inr evs'" "us = upto_end (map snd evs')"
            "(f = Some Finished) = list_ex ends_stream us" by blast
        have zs: "zs = map snd evs" "\<not> list_ex ends_stream (map snd evs)"
          using ye nostop by (auto simp: upto_end_id)
        then show ?thesis using IH p d
          by (intro exI[of _ "recs @ recs'"] exI[of _ "evs @ evs'"] exI[of _ post'])
            (auto simp: map_res_list upto_end_append)
      qed
    qed
  qed
next
  case 0
  then show ?case by (intro exI[of _ "[]"] exI[of _ rest]) auto
qed

lemma stream_prefix:
  assumes "stream_llm_events s b fuel jid timeout w = ((ys, e), w')"
  shows "\<exists>n evs. map decode_record (take n (records w' (stream_channel_of s jid))) = map Inr evs
    \<and> ys = upto_end (map snd evs) \<and> (e = Some Finished \<longleftrightarrow> list_ex ends_stream ys)"
proof -
  have "poll_stream fuel s b jid timeout (now w + of_int timeout) ''0-0'' w = ((ys, e), w')"
    using assms by (simp add: stream_llm_events_def loop_clock)
  from poll_prefix[OF this, of "[]"] obtain recs evs post where
    "records w' (stream_channel_of s jid) = recs @ post" "map decode_record recs = map Inr evs"
    "ys = upto_end (map snd evs)" "(e = Some Finished) = list_ex ends_stream ys"
    by (auto simp: at_key_def)
  then show ?thesis by (intro exI[of _ "length recs"] exI[of _ evs]) auto
qed

end

section \<open>Published events are read back\<close>

text \<open>An event \<^verbatim>\<open>append_stream_event\<close> can print and the reader gives back unchanged.\<close>

definition plain_event :: "(rat \<Rightarrow> string) \<Rightarrow> payload \<Rightarrow> bool" where
  "plain_event fr p \<longleftrightarrow> printable fr (JObj p) \<and> ''_stream_id'' \<notin> fst ` set p"

lemma decode_published: "plain_event fr p \<Longrightarrow> decode_record (i, dumps fr (JObj p)) = Inr (i, p)"
  using json_loads_dumps[of fr "JObj p"] unfolding decode_record_def plain_event_def
  by (simp add: delete_id del: dumps.simps)

definition published :: "(rat \<Rightarrow> string) \<Rightarrow> (string \<times> payload) list \<Rightarrow> (string \<times> string) list" where
  "published fr evs = map (\<lambda>(i, p). (i, dumps fr (JObj p))) evs"

lemma published_simps [simp]:
  "published fr [] = []" "published fr (evs @ evs') = published fr evs @ published fr evs'"
  "published fr evs = [] \<longleftrightarrow> evs = []" "length (published fr evs) = length evs"
  by (auto simp: published_def)

lemma decode_all_published:
  "\<forall>ev\<in>set evs. plain_event fr (snd ev) \<Longrightarrow> map_res decode_record (published fr evs) = Inr evs"
  by (induction evs) (auto simp: published_def decode_published simp del: dumps.simps)

lemma prefix_published:
  "prefix recs (published fr evs) \<Longrightarrow> \<exists>now later. evs = now @ later \<and> recs = published fr now"
  unfolding prefix_def published_def by (force simp: map_eq_append_conv)

context redis_streams
begin

lemma poll_published:
  assumes reach: "\<And>c i w. \<not> isl (fst (redis_xread b c i w))"
    and "records w (stream_channel_of s jid) = pre @ published fr rest" "at_key pre i"
    and "\<forall>ev\<in>set rest. plain_event fr (snd ev)" "coming w = 0"
    and "deadline \<le> now w + of_nat k" "n > (if rest = [] then k else length rest + nat timeout)"
  shows "fst (poll_stream n s b jid timeout deadline i w)
    = (upto_end (map snd rest),
       Some (if list_ex ends_stream (map snd rest) then Finished else Failed (stream_timeout jid)))"
  using assms(2-)
proof (induction n arbitrary: deadline i w pre rest k)
  case (Suc n)
  let ?c = "stream_channel_of s jid"
  obtain recs w1 where x: "redis_xread b ?c i w = (Inr recs, w1)"
    using reach[of ?c i w] by (metis prod.collapse sum.collapse(2))
  from xread_next[OF x Suc.prems(1,2)] Suc.prems(4)
  have w1: "records w1 ?c = pre @ published fr rest" "prefix recs (published fr rest)"
      "recs = [] \<Longrightarrow> rest = [] \<and> now w + 1 \<le> now w1" "coming w1 = 0" by auto
  from prefix_published[OF w1(2)] obtain cur later where
    cur: "rest = cur @ later" "recs = published fr cur" by blast
  have d: "map_res decode_record recs = Inr cur"
    using cur Suc.prems(3) by (simp add: decode_all_published)
  then have rnd: "round_of s jid i w = (Inr (cur, now w1), w1)" using x by (auto simp: round_Inr)
  show ?case
  proof (cases "cur = []")
    case True
    then have rest: "rest = []" "now w + 1 \<le> now w1" using cur w1(3) by auto
    show ?thesis
    proof (cases "now w1 \<ge> deadline")
      case True
      then show ?thesis using rnd \<open>cur = []\<close> rest unfolding poll_stream_Suc by simp
    next
      case False
      then obtain k' where k: "k = Suc k'" using Suc.prems(5) rest by (cases k) auto
      have "fst (poll_stream n s b jid timeout deadline i w1)
        = (upto_end (map snd rest),
           Some (if list_ex ends_stream (map snd rest) then Finished else Failed (stream_timeout jid)))"
        using Suc.prems w1 rest k by (intro Suc.IH[of w1 pre rest i deadline k']) auto
      then show ?thesis using rnd \<open>cur = []\<close> False unfolding poll_stream_Suc by simp
    qed
  next
    case False
    obtain ys stopped l where y: "yield_events i cur = (ys, stopped, l)" using prod_cases3 by blast
    note ye = yield_events_eq[OF y]
    show ?thesis
    proof (cases stopped)
      case True
      then show ?thesis using rnd False y ye cur unfolding poll_stream_Suc
        by (auto simp: upto_end_append)
    next
      case nostop: False
      have key: "at_key (pre @ recs) l" using at_key_last[OF d Suc.prems(2)] ye nostop False by simp
      have "fst (poll_stream n s b jid timeout (now w1 + of_int timeout) l w1)
        = (upto_end (map snd later),
           Some (if list_ex ends_stream (map snd later) then Finished else Failed (stream_timeout jid)))"
        using Suc.prems w1 cur False
        by (intro Suc.IH[OF _ key, where k = "nat timeout"]) (auto simp: Suc_le_eq neq_Nil_conv split: if_splits)
      then show ?thesis using rnd False y ye nostop cur unfolding poll_stream_Suc
        by (auto simp: upto_end_append upto_end_id split: prod.splits)
    qed
  qed
qed simp

end

section \<open>Properties\<close>

text \<open>C20. A reader of a job's events yields the decoded records of the channel from its start, in order, none
  skipped and none twice, up to the first event that ends the stream, while other clients go on writing;
  it finishes exactly when it has yielded such an event.\<close>

theorem reader_yields_records_in_order:
  assumes "redis_streams b records now coming"
    and "stream_llm_events s b fuel jid timeout w = ((ys, e), w')"
  shows "\<exists>n evs. map decode_record (take n (records w' (stream_channel_of s jid))) = map Inr evs
    \<and> ys = upto_end (map snd evs) \<and> (e = Some Finished \<longleftrightarrow> list_ex ends_stream ys)"
  using redis_streams.stream_prefix[OF assms] .

definition sample_event :: "string \<Rightarrow> payload" where
  "sample_event text = [(''job_id'', JStr ''j''), (''status'', JStr text)]"

definition writing_world :: mem_world where
  "writing_world = empty_world\<lparr>mem_script :=
     [(''llm-stream:j'', dumps (\<lambda>_. []) (JObj (sample_event ''queued''))),
      (''llm-stream:j'', dumps (\<lambda>_. []) (JObj (sample_event ''completed'')))]\<rparr>"

definition writing_run :: "(payload list \<times> ending option) \<times> mem_world" where
  "writing_run = stream_llm_events default_settings mem_backend 5 ''j'' 30 writing_world"

theorem reader_yields_records_in_order_witness:
  "\<exists>n evs. map decode_record (take n (mem_records (snd writing_run) (stream_channel_of default_settings ''j'')))
      = map Inr evs
    \<and> fst (fst writing_run) = upto_end (map snd evs)
    \<and> (snd (fst writing_run) = Some Finished \<longleftrightarrow> list_ex ends_stream (fst (fst writing_run)))"
  by (rule reader_yields_records_in_order[OF mem_streams.redis_streams_axioms])
    (simp add: writing_run_def)


definition read_world :: mem_world where
  "read_world = empty_world\<lparr>mem_log := (\<lambda>c. [])(''llm-stream:j'' :=
     map (\<lambda>p. dumps (\<lambda>_. []) (JObj p))
       [sample_event ''queued'', sample_event ''streaming'', sample_event ''completed'', sample_event ''late''])\<rparr>"


end
