(* ===== verification/Queue_Service.thy ===== *)
theory Queue_Service
  imports Queue_Store
begin

text \<open>
  The queue service (\<^verbatim>\<open>app/infrastructure/redis/queue_service.py\<close>): admission with back-pressure,
  status reports, cancellation, waiting for a result, and the module's functions that build a service
  from the environment.  The service is written over the two ports; its guarantees hold over every
  implementation with the contract \<open>queue_ports\<close>.
\<close>

section \<open>The service\<close>

text \<open>A service holds its settings and its two ports; the last three fields are the clocks its methods call
  (\<^verbatim>\<open>utcnow\<close>, the event loop's time and \<^verbatim>\<open>asyncio.sleep\<close>).\<close>

record 'w LLMQueueService =
  qs_settings :: AppSettings
  qs_client :: "'w queue_client"
  qs_store :: "'w job_store"
  qs_utcnow :: "('w, rat) act"
  qs_loop_time :: "('w, rat) act"
  qs_sleep :: "pyfloat \<Rightarrow> ('w, unit) act"

text \<open>\<^verbatim>\<open>max(1.0, average or min(30, timeout))\<close>.\<close>

definition per_job_seconds :: "AppSettings \<Rightarrow> rat option \<Rightarrow> rat" where
  "per_job_seconds s average =
     (let fallback = of_int (min 30 (llm_generation_timeout_seconds s)) in
      max 1 (case average of None \<Rightarrow> fallback | Some a \<Rightarrow> if a = 0 then fallback else a))"

definition estimate_wait_time_seconds :: "'w LLMQueueService \<Rightarrow> ('w, rat) act" where
  "estimate_wait_time_seconds v =
     bindA (js_read_average_generation_time_seconds (qs_store v)) (\<lambda>average.
     let per_job = per_job_seconds (qs_settings v) average in
     bindA (qc_get_queue_depth (qs_client v)) (\<lambda>depth.
     bindA (qc_get_active_job_count (qs_client v)) (\<lambda>active.
     retA (of_int (depth + active) * per_job))))"

definition queued_event :: "LLMCallJob \<Rightarrow> int option \<Rightarrow> payload" where
  "queued_event call pos =
     [(''job_id'', JStr (job_id call)), (''status'', JStr ''queued''), (''queue_position'', jint pos),
      (''elapsed_seconds'', JFloat (Fin 0))]"

text \<open>The request object is updated on the way; it is returned beside the job.\<close>

definition enqueue_llm_call :: "'w LLMQueueService \<Rightarrow> LLMCallJob \<Rightarrow> ('w, rq_job \<times> LLMCallJob) act" where
  "enqueue_llm_call v call =
     (let q = qs_client v; st = qs_store v; s = qs_settings v in
      bindA (estimate_wait_time_seconds v) (\<lambda>estimated.
      bindA (case qc_check_backpressure q of None \<Rightarrow> retA () | Some check \<Rightarrow> check estimated) (\<lambda>_.
      let call = call\<lparr>stream_channel := Some (js_get_stream_channel st (job_id call))\<rparr> in
      bindA (js_serialize_llm_call st call) (\<lambda>call.
      bindA (qc_enqueue q call (job_id call) (llm_result_ttl_seconds s)
               (llm_generation_timeout_seconds s) (llm_job_max_retries s)) (\<lambda>job.
      bindA (js_save_job_payload st job call) (\<lambda>(job, call).
      if call_type call = StreamingTextGeneration then
        bindA (qc_get_job_position q (job_id call)) (\<lambda>pos.
        bindA (js_append_stream_event st (job_id call) (queued_event call pos)) (\<lambda>_.
        retA (job, call)))
      else retA (job, call)))))))"

definition waiting_status :: "string \<Rightarrow> bool" where
  "waiting_status x \<longleftrightarrow>
     x \<in> {''JobStatus.QUEUED'', ''JobStatus.DEFERRED'', ''JobStatus.SCHEDULED'',
          ''queued'', ''deferred'', ''scheduled''}"

definition started_status :: "string \<Rightarrow> bool" where
  "started_status x \<longleftrightarrow> x \<in> {''JobStatus.STARTED'', ''started''}"

definition canceled_status :: "string \<Rightarrow> bool" where
  "canceled_status x \<longleftrightarrow> x \<in> {''JobStatus.CANCELED'', ''canceled'', ''cancelled''}"

definition failed_status :: "string \<Rightarrow> bool" where
  "failed_status x \<longleftrightarrow> x \<in> {''JobStatus.FAILED'', ''failed''}"

definition get_job_status :: "'w LLMQueueService \<Rightarrow> string \<Rightarrow> ('w, LLMCallJob) act" where
  "get_job_status v jid =
     (let q = qs_client v; st = qs_store v in
      bindA (js_get_job_result st jid) (\<lambda>call.
      bindA (qc_get_job_status q jid) (\<lambda>x.
      bindA (if waiting_status x then
               let call = call\<lparr>job_status := JQueued\<rparr> in
               bindA (qc_get_job_position q jid) (\<lambda>pos. retA (call\<lparr>queue_position := pos\<rparr>))
             else if started_status x \<and> job_status call \<notin> {JStreaming, JCancelled} then
               retA (call\<lparr>job_status := JProcessing\<rparr>)
             else if canceled_status x then retA (call\<lparr>job_status := JCancelled\<rparr>)
             else if failed_status x then retA (call\<lparr>job_status := JFailed\<rparr>)
             else retA call) (\<lambda>call.
      bindA (js_compute_elapsed_seconds st call) (\<lambda>t.
      retA (call\<lparr>elapsed_seconds := Some t\<rparr>))))))"

definition removed_message :: string where
  "removed_message = ''LLM job was cancelled before execution.''"

definition removed_event :: "string \<Rightarrow> payload" where
  "removed_event jid =
     [(''job_id'', JStr jid), (''status'', JStr ''cancelled''), (''cancel_requested'', JBool True),
      (''message'', JStr removed_message), (''done'', JBool True)]"

definition requested_event :: "string \<Rightarrow> LLMCallJob \<Rightarrow> payload" where
  "requested_event jid call =
     [(''job_id'', JStr jid), (''status'', JStr (status_text (job_status call))),
      (''cancel_requested'', JBool True),
      (''message'', JStr (''Cancellation requested. Running non-streaming jobs may finish before stopping.''))]"

definition cancel_llm_call :: "'w LLMQueueService \<Rightarrow> string \<Rightarrow> ('w, LLMCallJob) act" where
  "cancel_llm_call v jid =
     (let q = qs_client v; st = qs_store v in
      bindA (qc_get_job q jid) (\<lambda>job.
      bindA (js_get_job_result st jid) (\<lambda>call.
      bindA (qc_get_job_status q jid) (\<lambda>x.
      if terminal (job_status call) then retA call
      else
        let call = call\<lparr>cancel_requested := True\<rparr> in
        if waiting_status x then
          bindA (qc_remove q jid) (\<lambda>_.
          bindA (qs_utcnow v) (\<lambda>t.
          let call = call\<lparr>job_status := JCancelled, job_completed_at := Some t,
                job_error := Some removed_message\<rparr> in
          bindA (js_save_job_payload st job call) (\<lambda>(job, call).
          bindA (qc_set_status q jid ''canceled'') (\<lambda>_.
          bindA (js_append_stream_event st jid (removed_event jid)) (\<lambda>_.
          retA call)))))
        else
          bindA (js_save_job_payload st job call) (\<lambda>(job, call).
          bindA (js_append_stream_event st jid (requested_event jid call)) (\<lambda>_.
          retA call))))))"

text \<open>The \<^verbatim>\<open>while True\<close> loop of \<^verbatim>\<open>wait_for_job_result\<close>; the number bounds its rounds, and \<^const>\<open>None\<close>
  means it still waits.\<close>

definition wait_timeout :: "string \<Rightarrow> exn" where
  "wait_timeout jid =
     mk_exn TimeoutError (''Timed out waiting for LLM job '' @ [CHR 0x27] @ jid @ [CHR 0x27] @ ''.'')"

text \<open>One round: the result, or \<^const>\<open>None\<close> to go on.\<close>

definition wait_round :: "'w LLMQueueService \<Rightarrow> string \<Rightarrow> rat \<Rightarrow> ('w, LLMCallJob option) act" where
  "wait_round v jid deadline =
     bindA (get_job_status v jid) (\<lambda>call.
     if terminal (job_status call) then
       bindA (js_get_job_result (qs_store v) jid) (\<lambda>result. retA (Some result))
     else
       bindA (qs_loop_time v) (\<lambda>t.
       if t \<ge> deadline then raiseA (wait_timeout jid)
       else bindA (qs_sleep v (llm_status_poll_interval_seconds (qs_settings v))) (\<lambda>_. retA None)))"

fun wait_loop :: "nat \<Rightarrow> 'w LLMQueueService \<Rightarrow> string \<Rightarrow> rat \<Rightarrow> 'w \<Rightarrow> LLMCallJob res option \<times> 'w" where
  "wait_loop 0 v jid deadline w = (None, w)"
| "wait_loop (Suc n) v jid deadline w =
     (case wait_round v jid deadline w of
        (Inl e, w') \<Rightarrow> (Some (Inl e), w')
      | (Inr (Some call), w') \<Rightarrow> (Some (Inr call), w')
      | (Inr None, w') \<Rightarrow> wait_loop n v jid deadline w')"

definition wait_for_job_result ::
  "nat \<Rightarrow> 'w LLMQueueService \<Rightarrow> string \<Rightarrow> 'w \<Rightarrow> LLMCallJob res option \<times> 'w" where
  "wait_for_job_result fuel v jid w =
     (case qs_loop_time v w of
        (Inl e, w') \<Rightarrow> (Some (Inl e), w')
      | (Inr t, w') \<Rightarrow>
          wait_loop fuel v jid (t + of_int (llm_queue_wait_timeout_seconds (qs_settings v))) w')"

definition get_queue_status_sync :: "'w LLMQueueService \<Rightarrow> ('w, QueueStatusSnapshot) act" where
  "get_queue_status_sync v =
     bindA (qc_ping (qs_client v)) (\<lambda>alive.
     bindA (if alive then js_read_average_wait_time_seconds (qs_store v) else retA None) (\<lambda>average.
     bindA (if alive then bindA (estimate_wait_time_seconds v) (\<lambda>t. retA (Some t)) else retA None) (\<lambda>est.
     qc_build_queue_status (qs_client v) alive average est)))"

section \<open>The functions of the module\<close>

text \<open>What the functions reach outside: \<^verbatim>\<open>_SETTINGS()\<close>, which reads the environment at each call, the
  connection to a Redis address, and the text of a float.\<close>

record 'w queue_module =
  qm_settings :: "AppSettings res"
  qm_connect :: "string \<Rightarrow> 'w backend"
  qm_float :: "rat \<Rightarrow> string"

definition service_over ::
  "AppSettings \<Rightarrow> 'w queue_client \<Rightarrow> 'w job_store \<Rightarrow> 'w backend \<Rightarrow> 'w LLMQueueService" where
  "service_over s q st b =
     \<lparr>qs_settings = s, qs_client = q, qs_store = st, qs_utcnow = clock_now b,
      qs_loop_time = loop_time b, qs_sleep = loop_sleep b\<rparr>"

definition redis_service :: "(rat \<Rightarrow> string) \<Rightarrow> AppSettings \<Rightarrow> 'w backend \<Rightarrow> 'w LLMQueueService" where
  "redis_service fr s b =
     service_over s (rq_queue_client s b) (redis_job_store fr s (rq_queue_client s b) b) b"

definition create_queue_service ::
  "'w queue_module \<Rightarrow> AppSettings option \<Rightarrow> 'w queue_client option \<Rightarrow> 'w job_store option
     \<Rightarrow> 'w LLMQueueService res" where
  "create_queue_service m settings q st =
     bind_res (case settings of Some s \<Rightarrow> Inr s | None \<Rightarrow> qm_settings m) (\<lambda>s.
     let b = qm_connect m (redis_url s);
         q' = (case q of Some c \<Rightarrow> c | None \<Rightarrow> rq_queue_client s b) in
     Inr (service_over s q' (case st of Some x \<Rightarrow> x | None \<Rightarrow> redis_job_store (qm_float m) s q' b) b))"

text \<open>The service a module function runs on: the one of the environment, or one over the connection it is
  given.\<close>

definition module_service :: "'w queue_module \<Rightarrow> 'w backend option \<Rightarrow> 'w LLMQueueService res" where
  "module_service m connection =
     (case connection of
        None \<Rightarrow> create_queue_service m None None None
      | Some c \<Rightarrow> bind_res (qm_settings m) (\<lambda>s. Inr (redis_service (qm_float m) s c)))"

definition on_service ::
  "'w queue_module \<Rightarrow> 'w backend option \<Rightarrow> ('w LLMQueueService \<Rightarrow> ('w, 'a) act) \<Rightarrow> ('w, 'a) act" where
  "on_service m connection f = bindA (liftA (module_service m connection)) f"

definition module_get_stream_channel :: "'w queue_module \<Rightarrow> string \<Rightarrow> string res" where
  "module_get_stream_channel m jid =
     bind_res (create_queue_service m None None None) (\<lambda>v. Inr (js_get_stream_channel (qs_store v) jid))"

definition module_compute_elapsed_seconds :: "'w queue_module \<Rightarrow> LLMCallJob \<Rightarrow> ('w, rat) act" where
  "module_compute_elapsed_seconds m call =
     on_service m None (\<lambda>v. js_compute_elapsed_seconds (qs_store v) call)"

definition module_serialize_llm_call :: "'w queue_module \<Rightarrow> LLMCallJob \<Rightarrow> ('w, LLMCallJob) act" where
  "module_serialize_llm_call m call =
     on_service m None (\<lambda>v. js_serialize_llm_call (qs_store v) call)"

definition module_set_job_payload ::
  "'w queue_module \<Rightarrow> rq_job \<Rightarrow> LLMCallJob \<Rightarrow> ('w, rq_job \<times> LLMCallJob) act" where
  "module_set_job_payload m job call =
     on_service m None (\<lambda>v. js_save_job_payload (qs_store v) job call)"

definition module_record_wait_time :: "'w queue_module \<Rightarrow> rat \<Rightarrow> 'w backend option \<Rightarrow> ('w, unit) act" where
  "module_record_wait_time m secs connection =
     on_service m connection (\<lambda>v. js_record_wait_time (qs_store v) secs)"

definition module_record_completion_metrics ::
  "'w queue_module \<Rightarrow> LLMCallJob \<Rightarrow> 'w backend option \<Rightarrow> ('w, unit) act" where
  "module_record_completion_metrics m call connection =
     on_service m connection (\<lambda>v. js_record_completion_metrics (qs_store v) call)"

text \<open>The two averages ignore the connection they are given.\<close>

definition module_read_average_wait_time_seconds ::
  "'w queue_module \<Rightarrow> 'w backend option \<Rightarrow> ('w, rat option) act" where
  "module_read_average_wait_time_seconds m connection =
     on_service m None (\<lambda>v. js_read_average_wait_time_seconds (qs_store v))"

definition module_read_average_generation_time_seconds ::
  "'w queue_module \<Rightarrow> 'w backend option \<Rightarrow> ('w, rat option) act" where
  "module_read_average_generation_time_seconds m connection =
     on_service m None (\<lambda>v. js_read_average_generation_time_seconds (qs_store v))"

definition module_estimate_wait_time_seconds ::
  "'w queue_module \<Rightarrow> int \<Rightarrow> int \<Rightarrow> 'w backend option \<Rightarrow> ('w, rat) act" where
  "module_estimate_wait_time_seconds m depth active connection =
     bindA (module_read_average_generation_time_seconds m None) (\<lambda>average.
     bindA (liftA (qm_settings m)) (\<lambda>s.
     retA (of_int (depth + active) * per_job_seconds s average)))"

definition module_append_stream_event ::
  "'w queue_module \<Rightarrow> string \<Rightarrow> payload \<Rightarrow> 'w backend option \<Rightarrow> ('w, string) act" where
  "module_append_stream_event m jid p connection =
     on_service m connection (\<lambda>v. js_append_stream_event (qs_store v) jid p)"

definition module_get_job_result ::
  "'w queue_module \<Rightarrow> string \<Rightarrow> 'w backend option \<Rightarrow> ('w, LLMCallJob) act" where
  "module_get_job_result m jid connection =
     on_service m connection (\<lambda>v. js_get_job_result (qs_store v) jid)"

text \<open>\<^verbatim>\<open>isinstance(queue, QueueClient)\<close> is evaluated first.  The port is a \<^verbatim>\<open>typing.Protocol\<close> without
  \<^verbatim>\<open>runtime_checkable\<close>, for which Python's \<^verbatim>\<open>isinstance\<close> raises, whatever the object is.\<close>

definition isinstance_queue_client :: "'w queue_client option \<Rightarrow> bool res" where
  "isinstance_queue_client queue = Inl (mk_exn TypeError
     ''Instance and class checks can only be used with @runtime_checkable protocols'')"

definition module_enqueue_llm_call ::
  "'w queue_module \<Rightarrow> LLMCallJob \<Rightarrow> 'w queue_client option \<Rightarrow> ('w, rq_job \<times> LLMCallJob) act" where
  "module_enqueue_llm_call m call queue =
     bindA (liftA (isinstance_queue_client queue)) (\<lambda>is_client.
     bindA (liftA (create_queue_service m None (if is_client then queue else None) None)) (\<lambda>v.
     enqueue_llm_call v call))"

definition module_get_job_status ::
  "'w queue_module \<Rightarrow> string \<Rightarrow> 'w backend option \<Rightarrow> ('w, LLMCallJob) act" where
  "module_get_job_status m jid connection = on_service m connection (\<lambda>v. get_job_status v jid)"

definition module_cancel_llm_call ::
  "'w queue_module \<Rightarrow> string \<Rightarrow> 'w backend option \<Rightarrow> ('w, LLMCallJob) act" where
  "module_cancel_llm_call m jid connection = on_service m connection (\<lambda>v. cancel_llm_call v jid)"

definition module_is_cancel_requested ::
  "'w queue_module \<Rightarrow> string \<Rightarrow> 'w backend option \<Rightarrow> ('w, bool) act" where
  "module_is_cancel_requested m jid connection =
     on_service m connection (\<lambda>v. js_is_cancel_requested (qs_store v) jid)"

definition module_ping_redis :: "'w queue_module \<Rightarrow> 'w backend option \<Rightarrow> ('w, bool) act" where
  "module_ping_redis m connection = on_service m connection (\<lambda>v. qc_ping (qs_client v))"

text \<open>\<^verbatim>\<open>value or default\<close>: zero counts as missing.\<close>

definition or_int :: "int option \<Rightarrow> int \<Rightarrow> int" where
  "or_int v d = (case v of None \<Rightarrow> d | Some n \<Rightarrow> if n = 0 then d else n)"

definition or_float :: "pyfloat option \<Rightarrow> pyfloat \<Rightarrow> pyfloat" where
  "or_float v d = (case v of None \<Rightarrow> d | Some x \<Rightarrow> if x = Fin 0 then d else x)"

definition module_stream_llm_events ::
  "'w queue_module \<Rightarrow> nat \<Rightarrow> string \<Rightarrow> int option \<Rightarrow> 'w \<Rightarrow> (payload list \<times> ending option) \<times> 'w" where
  "module_stream_llm_events m fuel jid timeout w =
     (case create_queue_service m None None None of
        Inl e \<Rightarrow> (([], Some (Failed e)), w)
      | Inr v \<Rightarrow> js_stream_llm_events (qs_store v) fuel jid
                   (or_int timeout (llm_stream_timeout_seconds (qs_settings v))) w)"

definition module_wait_for_job_result ::
  "'w queue_module \<Rightarrow> nat \<Rightarrow> string \<Rightarrow> int option \<Rightarrow> pyfloat option \<Rightarrow> 'w \<Rightarrow> LLMCallJob res option \<times> 'w" where
  "module_wait_for_job_result m fuel jid timeout interval w =
     (case create_queue_service m None None None of
        Inl e \<Rightarrow> (Some (Inl e), w)
      | Inr v \<Rightarrow>
          let s = qs_settings v;
              custom = s\<lparr>llm_queue_wait_timeout_seconds := or_int timeout (llm_queue_wait_timeout_seconds s),
                llm_status_poll_interval_seconds := or_float interval (llm_status_poll_interval_seconds s)\<rparr>;
              v' = (if timeout \<noteq> None \<or> interval \<noteq> None
                    then create_queue_service m (Some custom) (Some (qs_client v)) (Some (qs_store v))
                    else Inr v) in
          (case v' of
             Inl e \<Rightarrow> (Some (Inl e), w)
           | Inr x \<Rightarrow> wait_for_job_result fuel x jid w))"

definition module_get_queue_status_sync ::
  "'w queue_module \<Rightarrow> 'w backend option \<Rightarrow> ('w, QueueStatusSnapshot) act" where
  "module_get_queue_status_sync m connection = on_service m connection get_queue_status_sync"

end
