(* ===== verification/Queue_Guarantees.thy ===== *)
theory Queue_Guarantees
  imports Queue_Service
begin

text \<open>
  What the queue service guarantees: the queue never grows past its limit and an admitted call is stored
  as queued; a full queue refuses with the time to retry; the status reported is a function of the
  stored call and the status in RQ; a cancelled call is never run when it still waited, and is marked
  when it runs; waiting ends.
\<close>

section \<open>Admission\<close>

definition client_check :: "'w queue_client \<Rightarrow> rat \<Rightarrow> ('w, unit) act" where
  "client_check q est = (case qc_check_backpressure q of None \<Rightarrow> retA () | Some check \<Rightarrow> check est)"

lemma service_ops [simp]:
  "qs_settings (redis_service fr s b) = s"
  "qs_client (redis_service fr s b) = rq_queue_client s b"
  "qs_store (redis_service fr s b) = redis_job_store fr s (rq_queue_client s b) b"
  "qs_utcnow (redis_service fr s b) = clock_now b"
  "qs_loop_time (redis_service fr s b) = loop_time b"
  "qs_sleep (redis_service fr s b) = loop_sleep b"
  by (simp_all add: redis_service_def service_over_def)

context queue_ports
begin

lemma keeps_estimate [keeps_rules]:
  "qs_client v = q \<Longrightarrow> qs_store v = st \<Longrightarrow> keeps view (estimate_wait_time_seconds v)"
  unfolding estimate_wait_time_seconds_def by (simp only:) (intro keeps_rules reads)

lemma keeps_check [keeps_rules]: "keeps view (client_check q est)"
  unfolding client_check_def by (rule reads)

text \<open>What happens after admission.\<close>

definition admit :: "AppSettings \<Rightarrow> LLMCallJob \<Rightarrow> ('w, rq_job \<times> LLMCallJob) act" where
  "admit s call =
     (let call = call\<lparr>stream_channel := Some (js_get_stream_channel st (job_id call))\<rparr> in
      bindA (js_serialize_llm_call st call) (\<lambda>call.
      bindA (qc_enqueue q call (job_id call) (llm_result_ttl_seconds s)
               (llm_generation_timeout_seconds s) (llm_job_max_retries s)) (\<lambda>job.
      bindA (js_save_job_payload st job call) (\<lambda>(job, call).
      if call_type call = StreamingTextGeneration then
        bindA (qc_get_job_position q (job_id call)) (\<lambda>pos.
        bindA (js_append_stream_event st (job_id call) (queued_event call pos)) (\<lambda>_.
        retA (job, call)))
      else retA (job, call)))))"

lemma enqueue_admit:
  assumes "qs_client v = q" "qs_store v = st"
  shows "enqueue_llm_call v call =
    bindA (estimate_wait_time_seconds v) (\<lambda>est. bindA (client_check q est) (\<lambda>_. admit (qs_settings v) call))"
  unfolding enqueue_llm_call_def admit_def client_check_def Let_def assms by (rule refl)

lemma admit_queue:
  assumes "admit s call w = (r, w')"
  shows "v_queue (view w') = v_queue (view w) \<or> v_queue (view w') = v_queue (view w) @ [job_id call]"
proof -
  let ?call = "call\<lparr>stream_channel := Some (js_get_stream_channel st (job_id call))\<rparr>"
  obtain r1 w1 where ser: "js_serialize_llm_call st ?call w = (r1, w1)" by fastforce
  from reads keepsD[OF reads(8) ser] have v1: "view w1 = view w" by simp
  show ?thesis
  proof (cases r1)
    case (Inl x)
    then show ?thesis using assms ser v1 by (simp add: admit_def bindA_run Let_def)
  next
    case (Inr call1)
    have id1: "job_id call1 = job_id call" using core_ofD(3)[OF serialize[of ?call w call1 w1]] ser Inr by simp
    obtain r2 w2 where enq: "qc_enqueue q call1 (job_id call1) (llm_result_ttl_seconds s)
        (llm_generation_timeout_seconds s) (llm_job_max_retries s) w1 = (r2, w2)" by fastforce
    show ?thesis
    proof (cases r2)
      case (Inl x)
      then show ?thesis using assms ser Inr enq v1 enqueue(2) by (simp add: admit_def bindA_run Let_def)
    next
      case job: (Inr job)
      have v2: "v_queue (view w2) = v_queue (view w) @ [job_id call]"
        using enqueue(1)[OF enq[unfolded job]] v1 id1 by simp
      obtain r3 w3 where sv: "js_save_job_payload st job call1 w2 = (r3, w3)" by fastforce
      have v3: "v_queue (view w3) = v_queue (view w2)"
      proof (cases r3)
        case (Inr jc)
        then show ?thesis using save_job_payload(1)[of job call1 w2 "fst jc" "snd jc" w3] sv by simp
      next
        case (Inl y)
        then show ?thesis using save_job_payload(2)[of job call1 w2 y w3] sv by simp
      qed
      let ?rest = "\<lambda>(job, call). if call_type call = StreamingTextGeneration then
          bindA (qc_get_job_position q (job_id call)) (\<lambda>pos.
          bindA (js_append_stream_event st (job_id call) (queued_event call pos)) (\<lambda>_. retA (job, call)))
        else retA (job, call)"
      have rest: "bindA (js_save_job_payload st job call1) ?rest w2 = (r, w')"
        using assms ser Inr enq job by (simp add: admit_def bindA_run Let_def)
      have app: "keeps (v_queue \<circ> view) (js_append_stream_event st j p)" for j p
        unfolding keeps_def using append by (metis add_record_simps(1) comp_apply prod.collapse)
      have pos: "keeps (v_queue \<circ> view) (qc_get_job_position q j)" for j
        using reads(3) by (simp add: keeps_def)
      have k: "keeps (v_queue \<circ> view) (?rest x)" for x
        by (cases x) (auto intro!: keeps_rules app pos)
      show ?thesis
      proof (cases r3)
        case (Inl y)
        then show ?thesis using rest sv v3 v2 by (simp add: bindA_run)
      next
        case (Inr x)
        then have "?rest x w3 = (r, w')" using rest sv by (simp add: bindA_run)
        from k[of x] keepsD[OF k this] show ?thesis using v3 v2 by simp
      qed
    qed
  qed
qed

lemma admit_stored:
  assumes "admit s call w = (Inr (job, call'), w')"
  shows "v_queue (view w') = v_queue (view w) @ [job_id call] \<and> rq_id job = job_id call
    \<and> v_jobs (view w') (job_id call)
        = Some \<lparr>je_status = ''queued'', je_meta = no_meta\<lparr>meta_llm_call := Some call'\<rparr>, je_result = None\<rparr>
    \<and> core_of call' = core_of call
    \<and> (\<exists>i pos. v_streams (view w') = (if call_type call = StreamingTextGeneration
        then (v_streams (view w))(js_get_stream_channel st (job_id call) :=
          v_streams (view w) (js_get_stream_channel st (job_id call)) @ [(i, enc (queued_event call pos))])
        else v_streams (view w)))
    \<and> (\<forall>j. j \<noteq> job_id call \<longrightarrow> v_jobs (view w') j = v_jobs (view w) j)"
proof -
  let ?call = "call\<lparr>stream_channel := Some (js_get_stream_channel st (job_id call))\<rparr>"
  obtain call1 w1 job1 w2 job2 call2 w3 where
    ser: "js_serialize_llm_call st ?call w = (Inr call1, w1)"
    and enq: "qc_enqueue q call1 (job_id call1) (llm_result_ttl_seconds s)
        (llm_generation_timeout_seconds s) (llm_job_max_retries s) w1 = (Inr job1, w2)"
    and sv: "js_save_job_payload st job1 call1 w2 = (Inr (job2, call2), w3)"
    and rest: "(if call_type call2 = StreamingTextGeneration then
          bindA (qc_get_job_position q (job_id call2)) (\<lambda>pos.
          bindA (js_append_stream_event st (job_id call2) (queued_event call2 pos)) (\<lambda>_. retA (job2, call2)))
        else retA (job2, call2)) w3 = (Inr (job, call'), w')"
    using assms by (auto simp: admit_def Let_def bindA_Inr)
  from keepsD[OF reads(8) ser] have v1: "view w1 = view w" .
  have c1: "core_of call1 = core_of call" using serialize[OF ser] by simp
  have id1: "job_id call1 = job_id call" using core_ofD(3)[OF c1] .
  note e = enqueue(1)[OF enq]
  note sv' = save_job_payload(1)[OF sv]
  have c2: "core_of call2 = core_of call" using sv' c1 by simp
  have same: "job = job2 \<and> call' = call2" using rest by (auto simp: bindA_Inr split: if_splits)
  have id2: "job_id call2 = job_id call" "call_type call2 = call_type call"
    using core_ofD(3,4)[OF c2] by simp_all
  have ev: "queued_event call2 pos = queued_event call pos" for pos
    by (simp add: queued_event_def id2)
  have "\<exists>i pos. view w' = (if call_type call = StreamingTextGeneration
      then add_record (js_get_stream_channel st (job_id call)) (i, enc (queued_event call pos)) (view w3)
      else view w3)"
  proof (cases "call_type call = StreamingTextGeneration")
    case True
    then obtain pos w4 i where p: "qc_get_job_position q (job_id call2) w3 = (Inr pos, w4)"
      and a: "js_append_stream_event st (job_id call2) (queued_event call2 pos) w4 = (Inr i, w')"
      using rest id2 by (auto simp: bindA_Inr)
    from append[OF a] keepsD[OF reads(3) p] show ?thesis using True id2 ev by auto
  next
    case False
    then show ?thesis using rest id2 by simp
  qed
  then obtain i pos where w': "view w' = (if call_type call = StreamingTextGeneration
      then add_record (js_get_stream_channel st (job_id call)) (i, enc (queued_event call pos)) (view w3)
      else view w3)" by blast
  have jobs: "v_jobs (view w') = v_jobs (view w3)" "v_queue (view w') = v_queue (view w3)"
    by (simp_all add: w')
  have strm: "v_streams (view w') = (if call_type call = StreamingTextGeneration
        then (v_streams (view w))(js_get_stream_channel st (job_id call) :=
          v_streams (view w) (js_get_stream_channel st (job_id call)) @ [(i, enc (queued_event call pos))])
        else v_streams (view w))"
    using sv' e v1 by (simp add: w' add_record_def)
  show ?thesis
    using strm sv' e v1 id1 c2 same unfolding jobs by (auto simp: no_meta_def)
qed

end

section \<open>Status\<close>

text \<open>The specification: the status reported for a stored status and a status in RQ.\<close>

definition reported_status :: "job_status \<Rightarrow> string \<Rightarrow> job_status" where
  "reported_status c x =
     (if waiting_status x then JQueued
      else if started_status x then (if c = JStreaming \<or> c = JCancelled then c else JProcessing)
      else if canceled_status x then JCancelled
      else if failed_status x then JFailed
      else c)"

lemma core_of_cong:
  assumes "core_of c = core_of d"
  shows "core_of (c\<lparr>job_status := x\<rparr>) = core_of (d\<lparr>job_status := x\<rparr>)"
    "core_of (c\<lparr>cancel_requested := y\<rparr>) = core_of (d\<lparr>cancel_requested := y\<rparr>)"
  using assms by (cases c, cases d, simp add: core_of_def)+

lemma started_not_canceled: "started_status x \<Longrightarrow> \<not> canceled_status x \<and> \<not> failed_status x"
  by (auto simp: started_status_def canceled_status_def failed_status_def)

context queue_ports
begin

lemma status_reported:
  assumes "get_job_status v jid w = (Inr call, w')" "qs_client v = q" "qs_store v = st"
  shows "\<exists>c e. stored (view w) jid = Some c \<and> v_jobs (view w) jid = Some e
    \<and> core_of call = core_of (c\<lparr>job_status := reported_status (job_status c) (je_status e)\<rparr>)
    \<and> view w' = view w"
proof -
  obtain call1 w1 x w2 call2 w3 t where
    g: "js_get_job_result st jid w = (Inr call1, w1)"
    and x: "qc_get_job_status q jid w1 = (Inr x, w2)"
    and m: "(if waiting_status x then
               let call = call1\<lparr>job_status := JQueued\<rparr> in
               bindA (qc_get_job_position q jid) (\<lambda>pos. retA (call\<lparr>queue_position := pos\<rparr>))
             else if started_status x \<and> job_status call1 \<notin> {JStreaming, JCancelled} then
               retA (call1\<lparr>job_status := JProcessing\<rparr>)
             else if canceled_status x then retA (call1\<lparr>job_status := JCancelled\<rparr>)
             else if failed_status x then retA (call1\<lparr>job_status := JFailed\<rparr>)
             else retA call1) w2 = (Inr call2, w3)"
    and t: "js_compute_elapsed_seconds st call2 w3 = (Inr t, w')" "call = call2\<lparr>elapsed_seconds := Some t\<rparr>"
    using assms unfolding get_job_status_def Let_def bindA_Inr by auto
  obtain c where c: "stored (view w) jid = Some c" "core_of call1 = core_of c"
    using get_job_result[OF g] by blast
  have v1: "view w1 = view w" using keepsD[OF reads(6) g] .
  have v2: "view w2 = view w" using keepsD[OF reads(2) x] v1 by simp
  obtain e where e: "v_jobs (view w) jid = Some e" "x = je_status e"
    using get_job_status[OF x] v1 by auto
  have st1: "job_status call1 = job_status c" by (rule core_ofD(1)[OF c(2)])
  have "core_of call2 = core_of (c\<lparr>job_status := reported_status (job_status c) x\<rparr>) \<and> view w3 = view w"
  proof (cases "waiting_status x")
    case True
    then obtain pos where p: "qc_get_job_position q jid w2 = (Inr pos, w3)"
      and "call2 = call1\<lparr>job_status := JQueued, queue_position := pos\<rparr>"
      using m by (auto simp: bindA_Inr)
    then show ?thesis
      using True core_of_cong(1)[OF c(2), of JQueued] v2 keepsD[OF reads(3) p]
      by (simp add: reported_status_def)
  next
    case False
    then show ?thesis
      using m v2 st1 core_of_cong(1)[OF c(2)] c(2) started_not_canceled[of x]
      by (auto simp: reported_status_def split: if_splits)
  qed
  then show ?thesis using c e t keepsD[OF reads(7) t(1)] by auto
qed

end

section \<open>Cancellation\<close>

definition removed_call :: "rat \<Rightarrow> LLMCallJob \<Rightarrow> LLMCallJob" where
  "removed_call t c = c\<lparr>cancel_requested := True, job_status := JCancelled, job_completed_at := Some t,
     job_error := Some removed_message\<rparr>"

context queue_ports
begin

lemma append_ok:
  assumes "js_append_stream_event st j p w = (Inr x, w')"
  shows "\<exists>i. view w' = add_record (js_get_stream_channel st j) (i, enc p) (view w)"
  using append[OF assms] by auto

lemma cancel_outcome:
  assumes "cancel_llm_call v jid w = (Inr call, w')" "qs_client v = q" "qs_store v = st"
    and now: "keeps view (qs_utcnow v)"
  shows "\<exists>c e. stored (view w) jid = Some c \<and> v_jobs (view w) jid = Some e \<and>
    (if terminal (job_status c) then core_of call = core_of c \<and> view w' = view w
     else cancel_requested call \<and> (\<exists>i.
       if waiting_status (je_status e)
       then job_status call = JCancelled \<and>
         view w' = add_record (js_get_stream_channel st jid) (i, enc (removed_event jid))
           (put_entry jid (\<lambda>_. \<lparr>je_status = ''canceled'', je_meta = (je_meta e)\<lparr>meta_llm_call := Some call\<rparr>,
              je_result = je_result e\<rparr>) ((view w)\<lparr>v_queue := remove1 jid (v_queue (view w))\<rparr>))
       else job_status call = job_status c \<and>
         view w' = add_record (js_get_stream_channel st jid) (i, enc (requested_event jid call))
           (put_entry jid (\<lambda>_. e\<lparr>je_meta := (je_meta e)\<lparr>meta_llm_call := Some call\<rparr>\<rparr>) (view w))))"
proof -
  obtain job w1 call1 w2 x w3 where
    j: "qc_get_job q jid w = (Inr job, w1)"
    and g: "js_get_job_result st jid w1 = (Inr call1, w2)"
    and x: "qc_get_job_status q jid w2 = (Inr x, w3)"
    and rest: "(if terminal (job_status call1) then retA call1
      else
        let call = call1\<lparr>cancel_requested := True\<rparr> in
        if waiting_status x then
          bindA (qc_remove q jid) (\<lambda>_.
          bindA (qs_utcnow v) (\<lambda>t.
          let call = call\<lparr>job_status := JCancelled, job_completed_at := Some t,
                job_error := Some removed_message\<rparr> in
          bindA (js_save_job_payload st job call) (\<lambda>(job, call).
          bindA (qc_set_status q jid ''canceled'') (\<lambda>_.
          bindA (js_append_stream_event st jid (removed_event jid)) (\<lambda>_.
          retA call)))))
        else
          bindA (js_save_job_payload st job call) (\<lambda>(job, call).
          bindA (js_append_stream_event st jid (requested_event jid call)) (\<lambda>_.
          retA call))) w3 = (Inr call, w')"
    using assms(1) unfolding cancel_llm_call_def assms(2,3) Let_def bindA_Inr by auto
  have v1: "view w1 = view w" using keepsD[OF reads(1) j] .
  have v2: "view w2 = view w" using keepsD[OF reads(6) g] v1 by simp
  have v3: "view w3 = view w" using keepsD[OF reads(2) x] v2 by simp
  obtain e where e: "v_jobs (view w) jid = Some e"
      "job = \<lparr>rq_id = jid, rq_meta = je_meta e, rq_result = je_result e\<rparr>"
    using get_job[OF j] by blast
  have xe: "x = je_status e" using get_job_status[OF x] v2 e by auto
  obtain c where c: "stored (view w) jid = Some c" "core_of call1 = core_of c"
    using get_job_result[OF g] v1 by auto
  note st1 = core_ofD(1)[OF c(2)]
  consider (ended) "terminal (job_status c)" | (waits) "\<not> terminal (job_status c)" "waiting_status x"
    | (runs) "\<not> terminal (job_status c)" "\<not> waiting_status x" by blast
  then show ?thesis
  proof cases
    case ended
    then show ?thesis using rest st1 c e v3 by auto
  next
    case runs
    then obtain job2 call2 w4 k where
      sv: "js_save_job_payload st job (call1\<lparr>cancel_requested := True\<rparr>) w3 = (Inr (job2, call2), w4)"
      and a: "js_append_stream_event st jid (requested_event jid call2) w4 = (Inr k, w')"
      and "call = call2"
      using rest st1 by (auto simp: bindA_Inr)
    note s = save_job_payload(1)[OF sv]
    have "cancel_requested call2 \<and> job_status call2 = job_status c"
      using core_ofD(1,2)[of call2 "call1\<lparr>cancel_requested := True\<rparr>"] s st1 by simp
    moreover have "view w4 = put_entry jid (\<lambda>_. e\<lparr>je_meta := (je_meta e)\<lparr>meta_llm_call := Some call2\<rparr>\<rparr>) (view w)"
      using s v3 e by (auto simp: put_entry_def fun_eq_iff)
    ultimately show ?thesis using append_ok[OF a] runs xe c e \<open>call = call2\<close> by auto
  next
    case waits
    let ?call = "\<lambda>t. call1\<lparr>cancel_requested := True, job_status := JCancelled, job_completed_at := Some t,
                job_error := Some removed_message\<rparr>"
    from waits obtain u w4 t w5 job2 call2 w6 u2 w7 k where
      rm: "qc_remove q jid w3 = (Inr u, w4)" and tm: "qs_utcnow v w4 = (Inr t, w5)"
      and sv: "js_save_job_payload st job (?call t) w5 = (Inr (job2, call2), w6)"
      and ss: "qc_set_status q jid ''canceled'' w6 = (Inr u2, w7)"
      and a: "js_append_stream_event st jid (removed_event jid) w7 = (Inr k, w')"
      and "call = call2"
      using rest st1 by (auto simp: bindA_Inr Let_def)
    note s = save_job_payload(1)[OF sv]
    have "cancel_requested call2 \<and> job_status call2 = JCancelled"
      using core_ofD(1,2)[of call2 "?call t"] s by simp
    moreover have "view w5 = (view w)\<lparr>v_queue := remove1 jid (v_queue (view w))\<rparr>"
      using remove(1)[OF rm] keepsD[OF now tm] v3 by simp
    then have "view w7 = put_entry jid (\<lambda>_. \<lparr>je_status = ''canceled'',
        je_meta = (je_meta e)\<lparr>meta_llm_call := Some call2\<rparr>, je_result = je_result e\<rparr>)
        ((view w)\<lparr>v_queue := remove1 jid (v_queue (view w))\<rparr>)"
      using set_status(1)[OF ss] s e by (auto simp: put_entry_def fun_eq_iff)
    ultimately show ?thesis using append_ok[OF a] waits xe c e \<open>call = call2\<close> by auto
  qed
qed

end

section \<open>Waiting\<close>

context event_loop
begin

definition later :: "('w, 'a) act \<Rightarrow> bool" where
  "later m \<longleftrightarrow> (\<forall>w. now w \<le> now (snd (m w)))"

lemma laterD: "later m \<Longrightarrow> m w = (r, w') \<Longrightarrow> now w \<le> now w'"
  by (metis later_def snd_conv)

lemma later_bindA: "later m \<Longrightarrow> (\<And>x. later (k x)) \<Longrightarrow> later (bindA m k)"
  unfolding later_def bindA_def by (auto split: prod.split sum.split) (metis order_trans snd_conv)+

lemma later_catchA: "later m \<Longrightarrow> (\<And>x. later (h x)) \<Longrightarrow> later (catchA m h)"
  unfolding later_def catchA_def by (auto split: prod.split sum.split) (metis order_trans snd_conv)+

lemma later_option: "later a \<Longrightarrow> (\<And>x. later (g x)) \<Longrightarrow> later (case v of None \<Rightarrow> a | Some x \<Rightarrow> g x)"
  by (cases v) auto

lemma later_if: "later m \<Longrightarrow> later k \<Longrightarrow> later (if c then m else k)"
  by simp

lemma later_basic: "later (retA x)" "later (raiseA e)"
  by (simp_all add: later_def)

lemma later_reads:
  "later (rq_fetch b j)" "later (rq_get_status b j)" "later (rq_get_position b j)" "later (clock_now b)"
  by (simp_all add: later_def advances)

lemmas later_rules = later_bindA later_catchA later_option later_if later_basic later_reads

lemma later_result: "later (get_job_result s (rq_queue_client s b) b j)"
  unfolding get_job_result_def client_ops compute_elapsed_seconds_def Let_def by (intro later_rules)

lemma later_status: "later (get_job_status (redis_service fr s b) jid)"
  unfolding get_job_status_def service_ops store_ops client_ops Let_def compute_elapsed_seconds_def
  by (intro later_rules later_result)

lemma round_sleeps:
  assumes "wait_round (redis_service fr s b) jid deadline w = (Inr None, w')"
    and "llm_status_poll_interval_seconds s = Fin d"
  shows "now w < deadline \<and> now w + max 0 d \<le> now w'"
proof -
  obtain call w1 where st: "get_job_status (redis_service fr s b) jid w = (Inr call, w1)"
    and m: "(if terminal (job_status call) then
       bindA (get_job_result s (rq_queue_client s b) b jid) (\<lambda>result. retA (Some result))
     else
       bindA (loop_time b) (\<lambda>t.
       if t \<ge> deadline then raiseA (wait_timeout jid)
       else bindA (loop_sleep b (Fin d)) (\<lambda>_. retA None))) w1 = (Inr None, w')"
    using assms(1) unfolding wait_round_def bindA_Inr service_ops store_ops assms(2) by auto
  have "now w \<le> now w1" using laterD[OF later_status st] .
  moreover have "now w1 < deadline \<and> (\<exists>r. loop_sleep b (Fin d) w1 = (r, w'))"
    using m by (auto simp: bindA_Inr loop_clock split: if_splits)
  ultimately show ?thesis using sleep by fastforce
qed

lemma wait_loop_returns:
  assumes "llm_status_poll_interval_seconds s = Fin d" "d > 0"
    and "deadline \<le> now w + of_nat k * d" "n > k"
  shows "fst (wait_loop n (redis_service fr s b) jid deadline w) \<noteq> None"
  using assms(3-)
proof (induction n arbitrary: w k)
  case (Suc n)
  obtain r w1 where r: "wait_round (redis_service fr s b) jid deadline w = (r, w1)" by fastforce
  show ?case
  proof (cases "r = Inr None")
    case True
    with round_sleeps[OF _ assms(1)] r assms(2) have
      t: "now w < deadline" "now w + d \<le> now w1" by fastforce+
    then obtain k' where k: "k = Suc k'" using Suc.prems(1) by (cases k) auto
    have "deadline \<le> now w1 + of_nat k' * d" using Suc.prems(1) t k by (simp add: algebra_simps)
    from Suc.IH[OF this] show ?thesis using Suc.prems(2) r True k by simp
  next
    case False
    then show ?thesis using r by (cases r) (auto split: option.split)
  qed
qed simp

end

section \<open>Over Redis and RQ\<close>

context rq_server
begin

lemma check_bound:
  assumes "client_check (rq_queue_client s b) est w = (Inr u, w')"
  shows "int (length (v_queue (view w))) < llm_max_queue_size s
    \<and> est \<le> of_int (llm_queue_wait_timeout_seconds s)"
  using assms count by (auto simp: client_check_def check_backpressure_def bindA_Inr split: if_splits)

lemmas enqueue_steps = ports.enqueue_admit[OF service_ops(2,3)]

lemma estimate_view: "estimate_wait_time_seconds (redis_service fr s b) w = (r, w') \<Longrightarrow> view w' = view w"
  using keepsD[OF ports.keeps_estimate[OF service_ops(2,3)]] .

lemma enqueue_bounded:
  assumes "enqueue_llm_call (redis_service fr s b) call w = (r, w')"
  shows "v_queue (view w') = v_queue (view w)
    \<or> v_queue (view w') = v_queue (view w) @ [job_id call]
      \<and> int (length (v_queue (view w'))) \<le> llm_max_queue_size s"
proof (cases "estimate_wait_time_seconds (redis_service fr s b) w")
  case (Pair r1 w1)
  have v1: "view w1 = view w" using estimate_view[OF Pair] .
  show ?thesis
  proof (cases r1)
    case (Inl e)
    then show ?thesis using assms Pair v1 by (simp add: enqueue_steps bindA_run)
  next
    case (Inr est)
    obtain r2 w2 where c: "client_check (rq_queue_client s b) est w1 = (r2, w2)" by fastforce
    have v2: "view w2 = view w" using keepsD[OF ports.keeps_check c] v1 by simp
    show ?thesis
    proof (cases r2)
      case (Inl e)
      then show ?thesis using assms Pair Inr c v2 by (simp add: enqueue_steps bindA_run)
    next
      case u: (Inr u)
      have "ports.admit s fr s call w2 = (r, w')"
        using assms Pair Inr c u by (simp add: enqueue_steps bindA_run)
      from ports.admit_queue[OF this] check_bound[OF c[unfolded u]] show ?thesis
        using v1 v2 by auto
    qed
  qed
qed

lemma enqueue_stored:
  assumes "enqueue_llm_call (redis_service fr s b) call w = (Inr (job, call'), w')"
  shows "int (length (v_queue (view w))) < llm_max_queue_size s
    \<and> v_queue (view w') = v_queue (view w) @ [job_id call] \<and> rq_id job = job_id call
    \<and> stored (view w') (job_id call) = Some call' \<and> core_of call' = core_of call
    \<and> map_option je_status (v_jobs (view w') (job_id call)) = Some ''queued''
    \<and> (\<exists>i pos. v_streams (view w') = (if call_type call = StreamingTextGeneration
        then (v_streams (view w))(stream_channel_of s (job_id call) :=
          v_streams (view w) (stream_channel_of s (job_id call))
            @ [(i, dumps fr (JObj (queued_event call pos)))])
        else v_streams (view w)))"
proof -
  obtain est w1 u w2 where e: "estimate_wait_time_seconds (redis_service fr s b) w = (Inr est, w1)"
    and c: "client_check (rq_queue_client s b) est w1 = (Inr u, w2)"
    and a: "ports.admit s fr s call w2 = (Inr (job, call'), w')"
    using assms by (auto simp: enqueue_steps bindA_Inr)
  have v1: "view w1 = view w" using estimate_view[OF e] .
  have v2: "view w2 = view w" using keepsD[OF ports.keeps_check c] v1 by simp
  show ?thesis
    using ports.admit_stored[OF a, unfolded store_ops v2] check_bound[OF c, unfolded v1]
    by (simp add: stored_def no_meta_def split del: if_split del: dumps.simps)
qed

lemmas service_status = ports.status_reported[OF _ service_ops(2,3)]

lemmas service_cancel = ports.cancel_outcome[OF _ service_ops(2,3), unfolded service_ops store_ops, OF _ reads(12)]

lemma full_queue:
  assumes "int (length (v_queue (view w))) \<ge> llm_max_queue_size s"
    and "\<And>w. \<not> isl (fst (redis_hgetall b QUEUE_METRICS_KEY w))"
    and "\<And>w. \<not> isl (fst (rq_count b w))" "\<And>w. \<not> isl (fst (rq_started_count b w))"
  shows "\<exists>n w'. enqueue_llm_call (redis_service fr s b) call w = (Inl (queue_saturated None n), w')
    \<and> n \<ge> 1 \<and> view w' = view w"
proof -
  have run: "\<exists>x w'. m w = (Inr x, w')" if "\<not> isl (fst (m w))" for m :: "('w, 'a) act" and w
    using that by (metis prod.collapse sum.collapse(2))
  obtain mt w1 where g: "redis_hgetall b QUEUE_METRICS_KEY w = (Inr mt, w1)" using run assms(2) by blast
  obtain d w2 where d: "rq_count b w1 = (Inr d, w2)" using run assms(3) by blast
  obtain a w3 where a: "rq_started_count b w2 = (Inr a, w3)" using run assms(4) by blast
  obtain n w4 where n: "rq_count b w3 = (Inr n, w4)" using run assms(3) by blast
  obtain est where e: "estimate_wait_time_seconds (redis_service fr s b) w = (Inr est, w3)"
    using g d a by (auto simp: estimate_wait_time_seconds_def read_average_generation_time_seconds_def
        bindA_run Let_def)
  have v3: "view w3 = view w" using estimate_view[OF e] .
  have "llm_max_queue_size s \<le> n" using count[OF n] v3 assms(1) by simp
  then have c: "client_check (rq_queue_client s b) est w3 = (Inl (queue_saturated None \<lfloor>max 1 est\<rfloor>), w4)"
    using n by (simp add: client_check_def check_backpressure_def bindA_run)
  have "view w4 = view w" using keepsD[OF ports.keeps_check c] v3 by simp
  moreover have "\<lfloor>max 1 est\<rfloor> \<ge> 1" by (simp add: le_floor_iff)
  ultimately show ?thesis using e c by (auto simp: enqueue_steps bindA_run)
qed

end

section \<open>Properties\<close>

definition sample_call :: LLMCallJob where
  "sample_call = \<lparr>job_id = ''j'', call_type = StreamingTextGeneration, job_prompt = Some ''hola'',
     job_messages = [[(''role'', ''user''), (''content'', ''hola'')]], job_mode = None,
     job_parameters = [], response_schema = None, job_created_at = 0, job_started_at = None,
     job_completed_at = None, job_status = JQueued, cancel_requested = False, queue_position = None,
     elapsed_seconds = None, stream_channel = None, retry_count = 0, last_error = None,
     job_result = None, job_error = None\<rparr>"

lemma sample_simps: "job_id sample_call = ''j''" "call_type sample_call = StreamingTextGeneration"
  by (simp_all add: sample_call_def)

definition mem_service :: "AppSettings \<Rightarrow> mem_world LLMQueueService" where
  "mem_service s = redis_service (\<lambda>_. ''0.0'') s mem_backend"

definition queued_world :: mem_world where
  "queued_world = snd (enqueue_llm_call (mem_service default_settings) sample_call empty_world)"

text \<open>C23. Whatever happens on the way, admitting a call leaves the queue as it is, or adds the call at its
  end while the queue has room: the queue never grows past its limit.\<close>

theorem queue_limit_kept:
  assumes "rq_server b view" and "enqueue_llm_call (redis_service fr s b) call w = (r, w')"
  shows "v_queue (view w') = v_queue (view w)
    \<or> v_queue (view w') = v_queue (view w) @ [job_id call]
      \<and> int (length (v_queue (view w'))) \<le> llm_max_queue_size s"
  using rq_server.enqueue_bounded[OF assms] .

theorem queue_limit_kept_witness:
  "v_queue (mem_view queued_world) = v_queue (mem_view empty_world)
    \<or> v_queue (mem_view queued_world) = v_queue (mem_view empty_world) @ [''j'']
      \<and> int (length (v_queue (mem_view queued_world))) \<le> 100"
proof -
  obtain r where "enqueue_llm_call (redis_service (\<lambda>_. ''0.0'') default_settings mem_backend) sample_call empty_world
    = (r, queued_world)" unfolding queued_world_def mem_service_def by (metis prod.collapse)
  from queue_limit_kept[OF mem.rq_server_axioms this] show ?thesis
    by (simp add: default_settings_def sample_call_def)
qed

text \<open>C29. An admitted call stands at the end of the queue, its job is queued in RQ and stores the call as it
  was given, and a streaming call has announced its place on its channel.\<close>

theorem admitted_call_is_stored:
  assumes "rq_server b view"
    and "enqueue_llm_call (redis_service fr s b) call w = (Inr (job, call'), w')"
  shows "int (length (v_queue (view w))) < llm_max_queue_size s
    \<and> v_queue (view w') = v_queue (view w) @ [job_id call] \<and> rq_id job = job_id call
    \<and> stored (view w') (job_id call) = Some call' \<and> core_of call' = core_of call
    \<and> map_option je_status (v_jobs (view w') (job_id call)) = Some ''queued''
    \<and> (\<exists>i pos. v_streams (view w') = (if call_type call = StreamingTextGeneration
        then (v_streams (view w))(stream_channel_of s (job_id call) :=
          v_streams (view w) (stream_channel_of s (job_id call))
            @ [(i, dumps fr (JObj (queued_event call pos)))])
        else v_streams (view w)))"
  by (rule rq_server.enqueue_stored[OF assms])

theorem admitted_call_is_stored_witness:
  "v_queue (mem_view queued_world) = [''j'']
    \<and> map_option core_of (stored (mem_view queued_world) ''j'') = Some (core_of sample_call)
    \<and> (\<exists>i pos. v_streams (mem_view queued_world) ''llm-stream:j''
          = [(i, dumps (\<lambda>_. ''0.0'') (JObj (queued_event sample_call pos)))])"
proof -
  have "\<not> isl (fst (enqueue_llm_call (mem_service default_settings) sample_call empty_world))"
    by code_simp
  then obtain job call' where "enqueue_llm_call (redis_service (\<lambda>_. ''0.0'') default_settings mem_backend)
      sample_call empty_world = (Inr (job, call'), queued_world)"
    unfolding queued_world_def mem_service_def by (metis prod.collapse sum.collapse(2))
  note st = admitted_call_is_stored[OF mem.rq_server_axioms this, unfolded sample_simps]
  have chan: "stream_channel_of default_settings ''j'' = ''llm-stream:j''" by code_simp
  have "v_queue (mem_view empty_world) = []" "v_streams (mem_view empty_world) = (\<lambda>_. [])"
    by (simp_all add: mem_view_def empty_world_def mem_records_def fun_eq_iff)
  then show ?thesis using st by (auto simp: chan simp del: dumps.simps)
qed

text \<open>C31. A full queue refuses a call with status 429 and a Retry-After of at least one second, and nothing
  of the queue changes.\<close>

theorem full_queue_refuses:
  assumes "rq_server b view" and "int (length (v_queue (view w))) \<ge> llm_max_queue_size s"
    and "\<And>w. \<not> isl (fst (redis_hgetall b QUEUE_METRICS_KEY w))"
    and "\<And>w. \<not> isl (fst (rq_count b w))" "\<And>w. \<not> isl (fst (rq_started_count b w))"
  shows "\<exists>n e w'. enqueue_llm_call (redis_service fr s b) call w = (Inl e, w')
    \<and> exn_cls e = QueueSaturatedError \<and> api_status (exn_cls e) = 429
    \<and> exn_extra e = Headers [(''Retry-After'', str_int n)] \<and> n \<ge> 1 \<and> view w' = view w"
proof -
  obtain n w' where run: "enqueue_llm_call (redis_service fr s b) call w = (Inl (queue_saturated None n), w')"
      "n \<ge> 1" "view w' = view w"
    using rq_server.full_queue[OF assms] by blast
  then have "exn_cls (queue_saturated None n) = QueueSaturatedError"
      "exn_extra (queue_saturated None n) = Headers [(''Retry-After'', str_int n)]"
    by (simp_all add: queue_saturated_def api_error_def)
  then show ?thesis using run by (intro exI[of _ n] exI) (auto simp: api_status_def)
qed

theorem full_queue_refuses_witness:
  "\<exists>n e w'. enqueue_llm_call (mem_service (default_settings\<lparr>llm_max_queue_size := 0\<rparr>)) sample_call empty_world
      = (Inl e, w') \<and> exn_cls e = QueueSaturatedError \<and> api_status (exn_cls e) = 429
    \<and> exn_extra e = Headers [(''Retry-After'', str_int n)] \<and> n \<ge> 1 \<and> mem_view w' = mem_view empty_world"
  unfolding mem_service_def
  by (rule full_queue_refuses[OF mem.rq_server_axioms]) (simp_all add: mem_view_def empty_world_def mem_backend_def)

text \<open>C30. The status of a job is the specification's function of the status in RQ and the stored status, the
  rest of the call is the stored one, and looking changes nothing.\<close>

theorem status_refines_specification:
  assumes "rq_server b view" and "get_job_status (redis_service fr s b) jid w = (Inr call, w')"
  shows "\<exists>c e. stored (view w) jid = Some c \<and> v_jobs (view w) jid = Some e
    \<and> core_of call = core_of (c\<lparr>job_status := reported_status (job_status c) (je_status e)\<rparr>)
    \<and> view w' = view w"
  by (rule rq_server.service_status[OF assms])

theorem status_refines_specification_witness:
  "\<exists>call w'. get_job_status (mem_service default_settings) ''j'' queued_world = (Inr call, w')
    \<and> job_status call = JQueued \<and> mem_view w' = mem_view queued_world"
proof -
  have "\<not> isl (fst (get_job_status (mem_service default_settings) ''j'' queued_world))"
    unfolding queued_world_def by code_simp
  then obtain call w' where g: "get_job_status (redis_service (\<lambda>_. ''0.0'') default_settings mem_backend) ''j''
      queued_world = (Inr call, w')"
    unfolding mem_service_def by (metis prod.collapse sum.collapse(2))
  obtain c e where c: "v_jobs (mem_view queued_world) ''j'' = Some e"
    "core_of call = core_of (c\<lparr>job_status := reported_status (job_status c) (je_status e)\<rparr>)"
    "mem_view w' = mem_view queued_world"
    using status_refines_specification[OF mem.rq_server_axioms g] by blast
  have "map_option je_status (mem_jobs queued_world ''j'') = Some ''queued''"
    unfolding queued_world_def by code_simp
  then have "je_status e = ''queued''" using c(1) by (simp add: mem_view_def)
  then show ?thesis using g c core_ofD(1)[OF c(2)]
    by (auto simp: mem_service_def reported_status_def waiting_status_def)
qed

text \<open>C8. Cancelling a call that still waits takes it out of the queue, marks its job and its stored call as
  cancelled and ends its event stream; cancelling one that runs only marks the stored call and announces
  it; a call that has ended is left alone.\<close>

theorem cancel_by_stage:
  assumes "rq_server b view" and "cancel_llm_call (redis_service fr s b) jid w = (Inr call, w')"
  shows "\<exists>c e. stored (view w) jid = Some c \<and> v_jobs (view w) jid = Some e \<and>
    (if terminal (job_status c) then core_of call = core_of c \<and> view w' = view w
     else cancel_requested call \<and> (\<exists>i.
       if waiting_status (je_status e)
       then job_status call = JCancelled \<and>
         view w' = add_record (stream_channel_of s jid) (i, dumps fr (JObj (removed_event jid)))
           (put_entry jid (\<lambda>_. \<lparr>je_status = ''canceled'', je_meta = (je_meta e)\<lparr>meta_llm_call := Some call\<rparr>,
              je_result = je_result e\<rparr>) ((view w)\<lparr>v_queue := remove1 jid (v_queue (view w))\<rparr>))
       else job_status call = job_status c \<and>
         view w' = add_record (stream_channel_of s jid) (i, dumps fr (JObj (requested_event jid call)))
           (put_entry jid (\<lambda>_. e\<lparr>je_meta := (je_meta e)\<lparr>meta_llm_call := Some call\<rparr>\<rparr>) (view w))))"
  using rq_server.service_cancel[OF assms] .

theorem cancel_by_stage_witness:
  "\<exists>call w'. cancel_llm_call (mem_service default_settings) ''j'' queued_world = (Inr call, w')
    \<and> job_status call = JCancelled \<and> v_queue (mem_view w') = []
    \<and> stored (mem_view w') ''j'' = Some call"
proof -
  have "\<not> isl (fst (cancel_llm_call (mem_service default_settings) ''j'' queued_world))"
    unfolding queued_world_def by code_simp
  then obtain call w' where g: "cancel_llm_call (redis_service (\<lambda>_. ''0.0'') default_settings mem_backend) ''j''
      queued_world = (Inr call, w')"
    unfolding mem_service_def by (metis prod.collapse sum.collapse(2))
  have e: "map_option (\<lambda>e. (je_status e, je_result e)) (mem_jobs queued_world ''j'') = Some (''queued'', None)"
    "map_option (job_status \<circ> the) (map_option (meta_llm_call \<circ> je_meta) (mem_jobs queued_world ''j'')) = Some JQueued"
    "mem_queue queued_world = [''j'']"
    unfolding queued_world_def by code_simp+
  show ?thesis
    using cancel_by_stage[OF mem.rq_server_axioms g] e g
    by (auto simp: mem_service_def mem_view_def stored_def terminal_def waiting_status_def
        put_entry_def add_record_def simp del: dumps.simps split: if_splits)
qed

text \<open>C22. Waiting for a job ends, whatever the job does: with a positive poll interval the loop makes at most
  one round more than the timeout holds intervals.\<close>

theorem waiting_ends:
  assumes "event_loop b now" and "llm_status_poll_interval_seconds s = Fin d" "d > 0"
    and "fuel > nat \<lceil>of_int (llm_queue_wait_timeout_seconds s) / d\<rceil>"
  shows "fst (wait_for_job_result fuel (redis_service fr s b) jid w) \<noteq> None"
proof -
  let ?t = "of_int (llm_queue_wait_timeout_seconds s) :: rat"
  have "?t / d \<le> of_nat (nat \<lceil>?t / d\<rceil>)" by (rule order_trans[OF le_of_int_ceiling]) simp
  then have "?t \<le> of_nat (nat \<lceil>?t / d\<rceil>) * d" using assms(3) by (simp add: divide_le_eq)
  then have "fst (wait_loop fuel (redis_service fr s b) jid (now w + ?t) w) \<noteq> None"
    using assms(4) by (intro event_loop.wait_loop_returns[OF assms(1-3)]) auto
  then show ?thesis
    by (simp add: wait_for_job_result_def event_loop.loop_clock[OF assms(1)])
qed

theorem waiting_ends_witness:
  "fst (wait_for_job_result 6001 (mem_service default_settings) ''j'' queued_world) \<noteq> None"
  unfolding mem_service_def
  by (rule waiting_ends[OF mem_loop.event_loop_axioms, where d = "1/20"]) (simp_all add: default_settings_def)

text \<open>The module's own \<^verbatim>\<open>enqueue_llm_call\<close> raises for every argument.\<close>

lemma module_enqueue_raises:
  "\<exists>e. module_enqueue_llm_call m call queue w = (Inl e, w) \<and> exn_cls e = TypeError"
  by (simp add: module_enqueue_llm_call_def isinstance_queue_client_def)

end
