(* ===== verification/Queue_Worker.thy ===== *)
theory Queue_Worker
  imports Queue_Service Llama_Gateway
begin

text \<open>
  The queue worker (\<^verbatim>\<open>app/worker/jobs.py\<close>) and the factory of its model service
  (\<^verbatim>\<open>app/infrastructure/llm/factory.py\<close>).  \<open>process_llm_call\<close> is the whole handler of a job: the
  cancellation checks, the call of the model with its stream, and the three ways a failed attempt ends.
  Its state is the job as the worker holds it, over the world of the store; \<open>ws_sent\<close> records the stream
  events it has appended.
\<close>

section \<open>The model service\<close>

type_synonym parameters = "(string \<times> json) list"

record 'w model_service =
  ms_ask_llm_sync :: "message list \<Rightarrow> json \<Rightarrow> string option \<Rightarrow> parameters \<Rightarrow> ('w, json) act"
  ms_generate_text_sync :: "message list \<Rightarrow> string option \<Rightarrow> parameters \<Rightarrow> ('w, string) act"
  ms_stream_llm_sync :: "message list \<Rightarrow> string option \<Rightarrow> parameters \<Rightarrow> 'w \<Rightarrow> json gen \<times> 'w"

definition llama_service :: "post_fun \<Rightarrow> stream_fun \<Rightarrow> gateway \<Rightarrow> 'w model_service" where
  "llama_service post open_stream g =
     \<lparr>ms_ask_llm_sync = (\<lambda>messages schema mode params. liftA (ask_llm_sync post g messages schema mode params)),
      ms_generate_text_sync = (\<lambda>messages mode params. liftA (generate_text_sync post g messages mode params)),
      ms_stream_llm_sync = (\<lambda>messages mode params w. (stream_llm_sync open_stream g messages mode params, w))\<rparr>"

text \<open>The profiles a new gateway loads are a parameter; the module keeps the first gateway it made.\<close>

definition create_llm_service :: "AppSettings \<Rightarrow> ModelProfiles res \<Rightarrow> gateway res" where
  "create_llm_service s loaded =
     (if llm_backend s = ''llama_server'' then bind_res loaded (\<lambda>ps. Inr (new_gateway s ps))
      else Inl (mk_exn RuntimeError ''Unsupported LLM_BACKEND. Only llama_server is supported.''))"

definition get_worker_llm_service ::
  "AppSettings \<Rightarrow> ModelProfiles res \<Rightarrow> (gateway option, gateway) act" where
  "get_worker_llm_service s loaded cached =
     (case cached of
        Some g \<Rightarrow> (Inr g, cached)
      | None \<Rightarrow> (case create_llm_service s loaded of
            Inl e \<Rightarrow> (Inl e, None) | Inr g \<Rightarrow> (Inr g, Some g)))"

section \<open>Errors as the user sees them\<close>

fun class_name :: "exn_class \<Rightarrow> string" where
  "class_name ValueError = ''ValueError''"
| "class_name TypeError = ''TypeError''"
| "class_name KeyError = ''KeyError''"
| "class_name AttributeError = ''AttributeError''"
| "class_name RuntimeError = ''RuntimeError''"
| "class_name TimeoutError = ''TimeoutError''"
| "class_name FileNotFoundError = ''FileNotFoundError''"
| "class_name JSONDecodeError = ''JSONDecodeError''"
| "class_name ValidationError = ''ValidationError''"
| "class_name ModelProfileConfigurationError = ''ModelProfileConfigurationError''"
| "class_name UsernameAlreadyExistsError = ''UsernameAlreadyExistsError''"
| "class_name APIError = ''APIError''"
| "class_name LLMServiceError = ''LLMServiceError''"
| "class_name QueueSaturatedError = ''QueueSaturatedError''"
| "class_name QueueWaitTimeoutError = ''QueueWaitTimeoutError''"
| "class_name GenerationTimeoutError = ''GenerationTimeoutError''"
| "class_name StreamingTimeoutError = ''StreamingTimeoutError''"
| "class_name AuthenticationError = ''AuthenticationError''"
| "class_name AuthConfigurationError = ''AuthConfigurationError''"
| "class_name UnsupportedModeError = ''UnsupportedModeError''"
| "class_name HTTPException = ''HTTPException''"
| "class_name LlamaServerGatewayError = ''LlamaServerGatewayError''"
| "class_name LlamaServerUnavailableError = ''LlamaServerUnavailableError''"
| "class_name LlamaServerTimeoutError = ''LlamaServerTimeoutError''"
| "class_name LlamaServerMalformedResponseError = ''LlamaServerMalformedResponseError''"
| "class_name LlamaServerInterruptedError = ''LlamaServerInterruptedError''"
| "class_name LLMJobCancelledError = ''LLMJobCancelledError''"
| "class_name NonRetryableLLMJobError = ''NonRetryableLLMJobError''"
| "class_name BackendClientError = ''BackendClientError''"
| "class_name BackendUnavailableError = ''BackendUnavailableError''"
| "class_name BackendTimeoutError = ''BackendTimeoutError''"
| "class_name BackendHTTPError = ''BackendHTTPError''"
| "class_name BackendAuthenticationError = ''BackendAuthenticationError''"
| "class_name BackendUserAuthenticationError = ''BackendUserAuthenticationError''"
| "class_name BackendValidationError = ''BackendValidationError''"
| "class_name BackendConflictError = ''BackendConflictError''"
| "class_name BackendFeatureDisabledError = ''BackendFeatureDisabledError''"
| "class_name BackendAuthConfigurationError = ''BackendAuthConfigurationError''"
| "class_name BackendInvalidResponseError = ''BackendInvalidResponseError''"
| "class_name BackendStreamError = ''BackendStreamError''"
| "class_name (ForeignError n) = n"

definition safe_error_message :: "exn \<Rightarrow> string" where
  "safe_error_message e =
     (let name = lower (class_name (exn_cls e)); message = lower (exn_text e) in
      if contains ''unavailable'' name \<or> contains ''unavailable'' message
      then ''The external llama-server is unavailable.''
      else if contains ''interrupt'' name \<or> contains ''interrupt'' message
      then ''The model server interrupted generation.''
      else if contains ''timeout'' name then ''The language model job timed out.''
      else ''The language model worker hit an internal execution error.'')"

section \<open>The state of a worker\<close>

record 'w worker_env =
  we_store :: "'w job_store"
  we_utcnow :: "('w, rat) act"
  we_service :: "('w, 'w model_service) act"
  we_max_retries :: int

record 'w worker_state =
  ws_world :: 'w
  ws_call :: LLMCallJob
  ws_job :: "rq_job option"
  ws_sent :: "payload list"

type_synonym ('w, 'a) work = "('w worker_state, 'a) act"

definition on_store :: "('w, 'a) act \<Rightarrow> ('w, 'a) work" where
  "on_store m = zoomA ws_world (\<lambda>v s. s\<lparr>ws_world := v\<rparr>) m"

definition set_call :: "(LLMCallJob \<Rightarrow> LLMCallJob) \<Rightarrow> ('w, unit) work" where
  "set_call f = modifyA (\<lambda>s. s\<lparr>ws_call := f (ws_call s)\<rparr>)"

definition set_meta :: "(rq_meta \<Rightarrow> rq_meta) \<Rightarrow> ('w, unit) work" where
  "set_meta f = modifyA (\<lambda>s. s\<lparr>ws_job := map_option (\<lambda>j. j\<lparr>rq_meta := f (rq_meta j)\<rparr>) (ws_job s)\<rparr>)"

text \<open>\<^verbatim>\<open>if job is not None: set_job_payload(job, llm_call)\<close>.\<close>

definition save_call :: "'w worker_env \<Rightarrow> ('w, unit) work" where
  "save_call env s =
     (case ws_job s of
        None \<Rightarrow> (Inr (), s)
      | Some job \<Rightarrow>
          (case js_save_job_payload (we_store env) job (ws_call s) (ws_world s) of
             (Inl e, w) \<Rightarrow> (Inl e, s\<lparr>ws_world := w\<rparr>)
           | (Inr (job', call'), w) \<Rightarrow>
               (Inr (), s\<lparr>ws_world := w, ws_call := call', ws_job := Some job'\<rparr>)))"

definition serialize_call :: "'w worker_env \<Rightarrow> ('w, LLMCallJob) work" where
  "serialize_call env s =
     (case js_serialize_llm_call (we_store env) (ws_call s) (ws_world s) of
        (Inl e, w) \<Rightarrow> (Inl e, s\<lparr>ws_world := w\<rparr>)
      | (Inr call', w) \<Rightarrow> (Inr call', s\<lparr>ws_world := w, ws_call := call'\<rparr>))"

definition cancel_wanted :: "'w worker_env \<Rightarrow> ('w, bool) work" where
  "cancel_wanted env =
     bindA (getA ws_call) (\<lambda>call. on_store (js_is_cancel_requested (we_store env) (job_id call)))"

definition build_stream_event :: "LLMCallJob \<Rightarrow> payload \<Rightarrow> payload" where
  "build_stream_event call extra =
     dict_merge
       [(''job_id'', JStr (job_id call)), (''status'', JStr (status_text (job_status call))),
        (''cancel_requested'', JBool (cancel_requested call)),
        (''elapsed_seconds'', jfloat (elapsed_seconds call))]
       extra"

definition send_event :: "'w worker_env \<Rightarrow> payload \<Rightarrow> ('w, unit) work" where
  "send_event env extra =
     bindA (getA ws_call) (\<lambda>call.
     let event = build_stream_event call extra in
     bindA (on_store (js_append_stream_event (we_store env) (job_id call) event)) (\<lambda>_.
     modifyA (\<lambda>s. s\<lparr>ws_sent := ws_sent s @ [event]\<rparr>)))"

definition streaming :: "('w, bool) work" where
  "streaming = getA (\<lambda>s. call_type (ws_call s) = StreamingTextGeneration)"

definition when_streaming :: "('w, unit) work \<Rightarrow> ('w, unit) work" where
  "when_streaming m = bindA streaming (\<lambda>yes. if yes then m else retA ())"

section \<open>The handler\<close>

definition finalize_cancelled_job :: "'w worker_env \<Rightarrow> string \<Rightarrow> ('w, LLMCallJob) work" where
  "finalize_cancelled_job env message =
     bindA (set_call (\<lambda>c. c\<lparr>job_status := JCancelled\<rparr>)) (\<lambda>_.
     bindA (on_store (we_utcnow env)) (\<lambda>t.
     bindA (set_call (\<lambda>c. c\<lparr>job_completed_at := Some t, job_error := Some message\<rparr>)) (\<lambda>_.
     bindA (save_call env) (\<lambda>_.
     bindA (send_event env
       [(''message'', JStr message), (''cancelled'', JBool True), (''done'', JBool True)]) (\<lambda>_.
     serialize_call env)))))"

text \<open>The metadata of the job, when there is one, overrides the payload.\<close>

definition start_call :: "rq_job option \<Rightarrow> LLMCallJob \<Rightarrow> LLMCallJob" where
  "start_call job payload =
     (case job of
        None \<Rightarrow> payload
      | Some j \<Rightarrow>
          let m = rq_meta j;
              call = (case meta_llm_call m of Some c \<Rightarrow> c | None \<Rightarrow> payload) in
          call\<lparr>retry_count := (case meta_retry_count m of Some n \<Rightarrow> n | None \<Rightarrow> retry_count call),
               last_error := (case meta_last_error m of Some e \<Rightarrow> e | None \<Rightarrow> last_error call)\<rparr>)"

definition start_state :: "rq_job option \<Rightarrow> LLMCallJob \<Rightarrow> 'w \<Rightarrow> 'w worker_state" where
  "start_state job payload w =
     \<lparr>ws_world = w, ws_call = start_call job payload, ws_job = job, ws_sent = []\<rparr>"

definition begin_processing :: "'w worker_env \<Rightarrow> ('w, unit) work" where
  "begin_processing env =
     bindA (set_call (\<lambda>c. c\<lparr>job_status := JProcessing\<rparr>)) (\<lambda>_.
     bindA (on_store (we_utcnow env)) (\<lambda>t.
     bindA (set_call (\<lambda>c. c\<lparr>job_started_at := Some t\<rparr>)) (\<lambda>_.
     bindA (getA ws_call) (\<lambda>call.
     bindA (on_store (js_record_wait_time (we_store env) (max 0 (t - job_created_at call)))) (\<lambda>_.
     bindA (save_call env) (\<lambda>_.
     when_streaming (send_event env [])))))))"

text \<open>\<^verbatim>\<open>f(messages=..., mode=..., **parameters)\<close> raises when a parameter repeats a keyword.\<close>

definition check_keywords :: "string list \<Rightarrow> parameters \<Rightarrow> ('w, unit) act" where
  "check_keywords names params =
     (if \<exists>k\<in>set names. k \<in> fst ` set params then raiseA (mk_exn TypeError []) else retA ())"

text \<open>\<^verbatim>\<open>chunk["choices"][0].get("delta", {}).get("content")\<close>.\<close>

definition chunk_content :: "json \<Rightarrow> json res" where
  "chunk_content chunk =
     (case chunk of
        JObj kvs \<Rightarrow>
          (case map_of kvs ''choices'' of
             None \<Rightarrow> Inl (mk_exn KeyError ''choices'')
           | Some (JList []) \<Rightarrow> Inl (mk_exn (ForeignError ''IndexError'') [])
           | Some (JList (JObj c # _)) \<Rightarrow>
               (case (case map_of c ''delta'' of None \<Rightarrow> JObj [] | Some d \<Rightarrow> d) of
                  JObj d \<Rightarrow> Inr (jget d ''content'')
                | _ \<Rightarrow> Inl (mk_exn AttributeError []))
           | Some (JList _) \<Rightarrow> Inl (mk_exn AttributeError [])
           | Some (JObj _) \<Rightarrow> Inl (mk_exn KeyError ''0'')
           | Some (JStr []) \<Rightarrow> Inl (mk_exn (ForeignError ''IndexError'') [])
           | Some (JStr _) \<Rightarrow> Inl (mk_exn AttributeError [])
           | Some _ \<Rightarrow> Inl (mk_exn TypeError []))
      | _ \<Rightarrow> Inl (mk_exn TypeError []))"

definition cancelled_midway :: exn where
  "cancelled_midway = mk_exn LLMJobCancelledError ''LLM streaming job was cancelled during generation.''"

text \<open>The body of the \<^verbatim>\<open>for chunk in stream\<close> loop: the parts it adds.\<close>

definition take_chunk :: "'w worker_env \<Rightarrow> json \<Rightarrow> ('w, json list) work" where
  "take_chunk env chunk =
     bindA (liftA (chunk_content chunk)) (\<lambda>token.
     bindA (if truthy token then send_event env [(''token'', token)] else retA ()) (\<lambda>_.
     bindA (cancel_wanted env) (\<lambda>c.
     if c then bindA (set_call (\<lambda>c. c\<lparr>cancel_requested := True\<rparr>)) (\<lambda>_. raiseA cancelled_midway)
     else retA (if truthy token then [token] else []))))"

fun take_chunks :: "'w worker_env \<Rightarrow> json list \<Rightarrow> exn option \<Rightarrow> ('w, json list) work" where
  "take_chunks env [] err = (case err of None \<Rightarrow> retA [] | Some e \<Rightarrow> raiseA e)"
| "take_chunks env (c # cs) err =
     bindA (take_chunk env c) (\<lambda>p. bindA (take_chunks env cs err) (\<lambda>ps. retA (p @ ps)))"

text \<open>\<^verbatim>\<open>"".join(parts)\<close>, which raises for a part that is no text.\<close>

fun join_parts :: "json list \<Rightarrow> string res" where
  "join_parts [] = Inr []"
| "join_parts (JStr t # ps) = bind_res (join_parts ps) (\<lambda>rest. Inr (t @ rest))"
| "join_parts (_ # ps) = Inl (mk_exn TypeError [])"

definition invalid_response :: exn where
  "invalid_response = mk_exn NonRetryableLLMJobError
     ''The language model returned an invalid structured response.''"

definition call_model :: "'w worker_env \<Rightarrow> 'w model_service \<Rightarrow> ('w, unit) work" where
  "call_model env svc =
     bindA (getA ws_call) (\<lambda>call.
     case call_type call of
       StructuredJson \<Rightarrow>
         bindA (catchA
           (on_store (bindA (check_keywords [''messages'', ''schema'', ''mode''] (job_parameters call)) (\<lambda>_.
              ms_ask_llm_sync svc (job_messages call)
                (case response_schema call of Some j \<Rightarrow> if truthy j then j else JObj [] | None \<Rightarrow> JObj [])
                (job_mode call) (job_parameters call))))
           (\<lambda>e. if isinstance e ValueError \<or> isinstance e TypeError \<or> isinstance e KeyError
                then raiseA invalid_response else raiseA e)) (\<lambda>j.
         set_call (\<lambda>c. c\<lparr>job_result := Some j\<rparr>))
     | TextGeneration \<Rightarrow>
         bindA (on_store (bindA (check_keywords [''messages'', ''mode''] (job_parameters call)) (\<lambda>_.
           ms_generate_text_sync svc (job_messages call) (job_mode call) (job_parameters call)))) (\<lambda>t.
         set_call (\<lambda>c. c\<lparr>job_result := Some (JStr t)\<rparr>))
     | StreamingTextGeneration \<Rightarrow>
         bindA (set_call (\<lambda>c. c\<lparr>job_status := JStreaming\<rparr>)) (\<lambda>_.
         bindA (save_call env) (\<lambda>_.
         bindA (send_event env []) (\<lambda>_.
         bindA (on_store (check_keywords [''messages'', ''mode''] (job_parameters call))) (\<lambda>_.
         bindA (on_store (\<lambda>w. case ms_stream_llm_sync svc (job_messages call) (job_mode call)
             (job_parameters call) w of (chunks, w') \<Rightarrow> (Inr chunks, w'))) (\<lambda>(chunks, err).
         bindA (take_chunks env chunks err) (\<lambda>parts.
         bindA (liftA (join_parts parts)) (\<lambda>t.
         set_call (\<lambda>c. c\<lparr>job_result := Some (JStr t)\<rparr>)))))))))"

definition complete_job :: "'w worker_env \<Rightarrow> ('w, LLMCallJob) work" where
  "complete_job env =
     bindA (set_call (\<lambda>c. c\<lparr>job_status := JCompleted\<rparr>)) (\<lambda>_.
     bindA (on_store (we_utcnow env)) (\<lambda>t.
     bindA (set_call (\<lambda>c. c\<lparr>job_completed_at := Some t, last_error := None\<rparr>)) (\<lambda>_.
     bindA (save_call env) (\<lambda>_.
     bindA (getA ws_call) (\<lambda>call.
     bindA (on_store (js_record_completion_metrics (we_store env) call)) (\<lambda>_.
     bindA (when_streaming (send_event env [(''done'', JBool True)])) (\<lambda>_.
     serialize_call env)))))))"

text \<open>The body of the \<^verbatim>\<open>try\<close>.\<close>

definition attempt :: "'w worker_env \<Rightarrow> ('w, LLMCallJob) work" where
  "attempt env =
     bindA (on_store (we_service env)) (\<lambda>svc.
     bindA (call_model env svc) (\<lambda>_.
     bindA (cancel_wanted env) (\<lambda>c.
     if c then
       bindA (set_call (\<lambda>c. c\<lparr>cancel_requested := True\<rparr>)) (\<lambda>_.
       finalize_cancelled_job env ''LLM job was cancelled before the result was returned.'')
     else complete_job env)))"

definition fail_now :: "'w worker_env \<Rightarrow> exn \<Rightarrow> ('w, LLMCallJob) work" where
  "fail_now env e =
     bindA (set_call (\<lambda>c. c\<lparr>job_status := JFailed\<rparr>)) (\<lambda>_.
     bindA (on_store (we_utcnow env)) (\<lambda>t.
     bindA (set_call (\<lambda>c. c\<lparr>job_completed_at := Some t, last_error := Some (exn_text e),
       job_error := Some (exn_text e)\<rparr>)) (\<lambda>_.
     bindA (getA ws_call) (\<lambda>call.
     bindA (set_meta (\<lambda>m. m\<lparr>meta_retry_count := Some (retry_count call),
       meta_last_error := Some (last_error call)\<rparr>)) (\<lambda>_.
     bindA (save_call env) (\<lambda>_.
     bindA (when_streaming (send_event env
       [(''error'', JStr ''llm_service_error''), (''message'', JStr (exn_text e)), (''done'', JBool True)])) (\<lambda>_.
     serialize_call env)))))))"

definition retry_or_fail :: "'w worker_env \<Rightarrow> exn \<Rightarrow> ('w, LLMCallJob) work" where
  "retry_or_fail env e =
     bindA (set_call (\<lambda>c. c\<lparr>retry_count := retry_count c + 1, last_error := Some (safe_error_message e)\<rparr>)) (\<lambda>_.
     bindA (getA ws_call) (\<lambda>call.
     let should_retry = retry_count call \<le> we_max_retries env in
     bindA (if should_retry then retA None
            else bindA (on_store (we_utcnow env)) (\<lambda>t. retA (Some t))) (\<lambda>completed.
     bindA (set_call (\<lambda>c. c\<lparr>job_completed_at := completed,
       job_status := (if should_retry then JQueued else JFailed),
       job_error := (if should_retry then None else last_error c)\<rparr>)) (\<lambda>_.
     bindA (set_meta (\<lambda>m. m\<lparr>meta_retry_count := Some (retry_count call),
       meta_last_error := Some (last_error call)\<rparr>)) (\<lambda>_.
     bindA (save_call env) (\<lambda>_.
     bindA (when_streaming (send_event env
       [(''message'', if should_retry then JStr ''Retrying after a transient worker failure.''
                      else jstr (last_error call)),
        (''error'', if should_retry then JNull else JStr ''llm_service_error''),
        (''done'', JBool (\<not> should_retry))])) (\<lambda>_.
     raiseA e)))))))"

definition handle_error :: "'w worker_env \<Rightarrow> exn \<Rightarrow> ('w, LLMCallJob) work" where
  "handle_error env e =
     (if isinstance e LLMJobCancelledError then finalize_cancelled_job env (exn_text e)
      else if isinstance e NonRetryableLLMJobError then fail_now env e
      else retry_or_fail env e)"

definition process_call :: "'w worker_env \<Rightarrow> ('w, LLMCallJob) work" where
  "process_call env =
     bindA (cancel_wanted env) (\<lambda>c.
     if c then
       bindA (set_call (\<lambda>c. c\<lparr>cancel_requested := True\<rparr>)) (\<lambda>_.
       finalize_cancelled_job env ''LLM job was cancelled before processing started.'')
     else
       bindA (begin_processing env) (\<lambda>_.
       catchA (attempt env) (handle_error env)))"

definition process_llm_call ::
  "'w worker_env \<Rightarrow> rq_job option \<Rightarrow> LLMCallJob \<Rightarrow> 'w \<Rightarrow> LLMCallJob res \<times> 'w worker_state" where
  "process_llm_call env job payload w = process_call env (start_state job payload w)"

text \<open>A worker is made only for a concurrency of one; it is a \<^verbatim>\<open>SimpleWorker\<close> of the one queue.\<close>

definition create_worker :: "redis_config \<Rightarrow> string list res" where
  "create_worker c =
     (if LLM_WORKER_CONCURRENCY c \<noteq> 1
      then Inl (mk_exn RuntimeError
        ''LLM_WORKER_CONCURRENCY must remain 1 for the queue-backed LLM worker.'')
      else Inr [LLM_QUEUE_NAME c])"

end
