(* ===== verification/Worker_Guarantees.thy ===== *)
theory Worker_Guarantees
  imports Queue_Worker Queue_Guarantees
begin

text \<open>
  What the worker guarantees: a run that returns leaves its job in a terminal status and ends its event
  stream exactly once, with the last event; a cancelled job never reaches the model; a transient failure
  is retried a bounded number of times and then fails.
\<close>

section \<open>The contract of the store\<close>

definition private_error :: "exn \<Rightarrow> bool" where
  "private_error e \<longleftrightarrow> isinstance e LLMJobCancelledError \<or> isinstance e NonRetryableLLMJobError"

text \<open>Storing a call keeps it, and nothing the worker calls raises the worker's own two exceptions.\<close>

locale worker_contract =
  fixes env :: "'w worker_env"
  assumes save_core:
      "js_save_job_payload (we_store env) job call w = (Inr (job', call'), w') \<Longrightarrow>
         core_of call' = core_of call \<and> job' = job\<lparr>rq_meta := (rq_meta job)\<lparr>meta_llm_call := Some call'\<rparr>\<rparr>"
    and serialize_core:
      "js_serialize_llm_call (we_store env) call w = (Inr call', w') \<Longrightarrow> core_of call' = core_of call"
    and foreign:
      "js_save_job_payload (we_store env) job call w = (Inl e, w') \<Longrightarrow> \<not> private_error e"
      "js_serialize_llm_call (we_store env) call w = (Inl e, w') \<Longrightarrow> \<not> private_error e"
      "js_append_stream_event (we_store env) j p w = (Inl e, w') \<Longrightarrow> \<not> private_error e"
      "js_is_cancel_requested (we_store env) j w = (Inl e, w') \<Longrightarrow> \<not> private_error e"
      "js_record_completion_metrics (we_store env) call w = (Inl e, w') \<Longrightarrow> \<not> private_error e"
      "we_utcnow env w = (Inl e, w') \<Longrightarrow> \<not> private_error e"

section \<open>Code that only goes on\<close>

text \<open>A relation that every run of the code stays in, from the state before to the state after.\<close>

definition steps :: "('w \<Rightarrow> 'w \<Rightarrow> bool) \<Rightarrow> ('w, 'a) act \<Rightarrow> bool" where
  "steps R m \<longleftrightarrow> (\<forall>w. R w (snd (m w)))"

lemma stepsD: "steps R m \<Longrightarrow> m w = (r, w') \<Longrightarrow> R w w'"
  by (metis steps_def snd_conv)

named_theorems steps_rules \<open>what code does to the state\<close>

text \<open>\<open>going_on ct s s'\<close>: a running call of type \<open>ct\<close> still runs, and the events appended do not end a stream;
  there are none when the call does not stream.\<close>

definition going_on :: "call_type \<Rightarrow> 'w worker_state \<Rightarrow> 'w worker_state \<Rightarrow> bool" where
  "going_on ct s s' \<longleftrightarrow> (call_type (ws_call s) = ct \<longrightarrow> \<not> terminal (job_status (ws_call s)) \<longrightarrow>
     call_type (ws_call s') = ct \<and> \<not> terminal (job_status (ws_call s'))
     \<and> (\<exists>es. ws_sent s' = ws_sent s @ es \<and> (\<forall>e\<in>set es. \<not> ends_stream e)
            \<and> (ct \<noteq> StreamingTextGeneration \<longrightarrow> es = [])))"

abbreviation goes_on :: "call_type \<Rightarrow> ('w, 'a) work \<Rightarrow> bool" where
  "goes_on ct m \<equiv> steps (going_on ct) m"

lemma going_on_refl: "going_on ct s s"
  by (simp add: going_on_def)

lemma going_on_trans: "going_on ct s t \<Longrightarrow> going_on ct t u \<Longrightarrow> going_on ct s u"
  unfolding going_on_def by (auto 4 3)

lemma going_on_same:
  "ws_sent s' = ws_sent s \<Longrightarrow> call_type (ws_call s') = call_type (ws_call s) \<Longrightarrow>
     (\<not> terminal (job_status (ws_call s)) \<Longrightarrow> \<not> terminal (job_status (ws_call s'))) \<Longrightarrow> going_on ct s s'"
  by (auto simp: going_on_def)

lemma goes_on_basic [steps_rules]:
  "goes_on ct (retA x)" "goes_on ct (raiseA e)" "goes_on ct (liftA r)" "goes_on ct (getA f)"
  by (simp_all add: steps_def going_on_refl)

lemma goes_on_bindA [steps_rules]:
  "goes_on ct m \<Longrightarrow> (\<And>x. goes_on ct (k x)) \<Longrightarrow> goes_on ct (bindA m k)"
  unfolding steps_def bindA_def by (auto split: prod.split sum.split) (metis going_on_trans snd_conv)+

lemma goes_on_catchA [steps_rules]:
  "goes_on ct m \<Longrightarrow> (\<And>e. goes_on ct (h e)) \<Longrightarrow> goes_on ct (catchA m h)"
  unfolding steps_def catchA_def by (auto split: prod.split sum.split) (metis going_on_trans snd_conv)+

lemma goes_on_if [steps_rules]: "goes_on ct m \<Longrightarrow> goes_on ct k \<Longrightarrow> goes_on ct (if c then m else k)"
  by simp

text \<open>Reading the call of a known type.\<close>

lemma goes_on_call:
  "(\<And>call. call_type call = ct \<Longrightarrow> goes_on ct (k call)) \<Longrightarrow> goes_on ct (bindA (getA ws_call) k)"
  unfolding steps_def by (auto simp: going_on_def)

lemma goes_on_store [steps_rules]: "goes_on ct (on_store m)"
  unfolding steps_def on_store_def zoomA_def by (auto split: prod.split intro: going_on_same)

lemma goes_on_set_call [steps_rules]:
  "(\<And>c. call_type (f c) = call_type c) \<Longrightarrow>
     (\<And>c. \<not> terminal (job_status c) \<Longrightarrow> \<not> terminal (job_status (f c))) \<Longrightarrow> goes_on ct (set_call f)"
  unfolding steps_def set_call_def by (auto intro: going_on_same)

lemma not_ending:
  "\<not> terminal (job_status c) \<Longrightarrow> \<not> ends_stream (build_stream_event c [])"
  "\<not> terminal (job_status c) \<Longrightarrow> \<not> ends_stream (build_stream_event c [(''token'', t)])"
  by (cases "job_status c";
      simp add: ends_stream_def build_stream_event_def dict_merge_def jget_def status_text_def terminal_def)+

lemma goes_on_send:
  assumes "\<And>c. \<not> terminal (job_status c) \<Longrightarrow> \<not> ends_stream (build_stream_event c extra)"
    and "ct = StreamingTextGeneration"
  shows "goes_on ct (send_event env extra)"
  unfolding steps_def send_event_def Let_def on_store_def zoomA_def bindA_def
  using assms by (auto simp: going_on_def split: prod.split sum.split)

lemma core_result: "core_of c = core_of d \<Longrightarrow> job_result c = job_result d"
  by (cases c, cases d) (simp add: core_of_def)

lemma core_call_type: "core_of c = core_of d \<Longrightarrow> call_type c = call_type d \<and> job_status c = job_status d"
  using core_ofD(1,4) by blast

text \<open>\<open>begin_processing\<close> after the status and the time.\<close>

definition begin_tail :: "'w worker_env \<Rightarrow> rat \<Rightarrow> ('w, unit) work" where
  "begin_tail env t =
     bindA (set_call (\<lambda>c. c\<lparr>job_started_at := Some t\<rparr>)) (\<lambda>_.
     bindA (getA ws_call) (\<lambda>call.
     bindA (on_store (js_record_wait_time (we_store env) (max 0 (t - job_created_at call)))) (\<lambda>_.
     bindA (save_call env) (\<lambda>_.
     when_streaming (send_event env [])))))"

context worker_contract
begin

lemma goes_on_save [steps_rules]: "goes_on ct (save_call env)"
  unfolding steps_def save_call_def
  by (auto split: prod.split sum.split option.split intro!: going_on_same dest!: save_core[THEN conjunct1] core_call_type)

lemma goes_on_cancel_wanted [steps_rules]: "goes_on ct (cancel_wanted env)"
  unfolding cancel_wanted_def by (intro steps_rules)

lemma goes_on_take_chunk:
  "ct = StreamingTextGeneration \<Longrightarrow> goes_on ct (take_chunk env chunk)"
  unfolding take_chunk_def
  by (intro steps_rules goes_on_send not_ending goes_on_cancel_wanted) auto

lemma goes_on_take_chunks:
  "ct = StreamingTextGeneration \<Longrightarrow> goes_on ct (take_chunks env chunks err)"
proof (induction chunks)
  case Nil
  then show ?case by (cases err) (auto simp: steps_def going_on_refl)
next
  case (Cons c cs)
  then show ?case by (simp only: take_chunks.simps) (intro steps_rules goes_on_take_chunk; simp)
qed

lemma goes_on_call_model: "goes_on ct (call_model env svc)"
proof -
  have "goes_on ct (case x of (chunks, err) \<Rightarrow>
      bindA (take_chunks env chunks err) (\<lambda>parts.
      bindA (liftA (join_parts parts)) (\<lambda>t. set_call (\<lambda>c. c\<lparr>job_result := Some (JStr t)\<rparr>))))"
    if "ct = StreamingTextGeneration" for x
    using that by (cases x) (auto intro!: steps_rules goes_on_take_chunks)
  then show ?thesis
    unfolding call_model_def
    by (intro goes_on_call)
      (auto split: call_type.split simp: terminal_def
        intro!: steps_rules goes_on_save goes_on_send not_ending goes_on_take_chunks)
qed

lemma goes_on_begin_tail: "goes_on ct (begin_tail env t)"
proof -
  have "goes_on ct (when_streaming (send_event env []))"
    unfolding steps_def when_streaming_def streaming_def
  proof
    fix s :: "'w worker_state"
    show "going_on ct s (snd (bindA (getA (\<lambda>s. call_type (ws_call s) = StreamingTextGeneration))
        (\<lambda>yes. if yes then send_event env [] else retA ()) s))"
    proof (cases "call_type (ws_call s) = StreamingTextGeneration")
      case True
      have "goes_on StreamingTextGeneration (send_event env [])" by (intro goes_on_send not_ending) auto
      then have "going_on StreamingTextGeneration s (snd (send_event env [] s))" by (simp add: steps_def)
      then show ?thesis using True by (auto simp: going_on_def)
    qed (simp add: going_on_refl)
  qed
  then show ?thesis unfolding begin_tail_def by (intro steps_rules goes_on_save) auto
qed

end

section \<open>How a run ends\<close>

text \<open>\<open>ends_call m\<close>: when \<open>m\<close> returns, it returns the call in the state, in a terminal status; a call that
  streams or was cancelled has got one more event, which ends its stream.\<close>

definition ended :: "LLMCallJob \<Rightarrow> 'w worker_state \<Rightarrow> 'w worker_state \<Rightarrow> bool" where
  "ended r s s' \<longleftrightarrow> ws_call s' = r \<and> terminal (job_status r) \<and> call_type r = call_type (ws_call s) \<and>
     (if job_status r = JCancelled \<or> call_type r = StreamingTextGeneration
      then \<exists>e. ws_sent s' = ws_sent s @ [e] \<and> ends_stream e else ws_sent s' = ws_sent s)"

lemma on_store_Inr:
  "on_store m s = (Inr x, s') \<longleftrightarrow> (\<exists>w. m (ws_world s) = (Inr x, w) \<and> s' = s\<lparr>ws_world := w\<rparr>)"
  by (simp add: on_store_def zoomA_Inr)

lemma on_store_Inl:
  "on_store m s = (Inl e, s') \<longleftrightarrow> (\<exists>w. m (ws_world s) = (Inl e, w) \<and> s' = s\<lparr>ws_world := w\<rparr>)"
  by (simp add: on_store_def zoomA_Inl)

lemma set_call_run [simp]: "set_call f s = (Inr (), s\<lparr>ws_call := f (ws_call s)\<rparr>)"
  by (simp add: set_call_def)

lemma set_meta_run [simp]:
  "set_meta f s = (Inr (), s\<lparr>ws_job := map_option (\<lambda>j. j\<lparr>rq_meta := f (rq_meta j)\<rparr>) (ws_job s)\<rparr>)"
  by (simp add: set_meta_def)

lemma bind_set_call [simp]: "bindA (set_call f) k s = k () (s\<lparr>ws_call := f (ws_call s)\<rparr>)"
  by (simp add: set_call_def)

lemma bind_set_meta [simp]:
  "bindA (set_meta f) k s = k () (s\<lparr>ws_job := map_option (\<lambda>j. j\<lparr>rq_meta := f (rq_meta j)\<rparr>) (ws_job s)\<rparr>)"
  by (simp add: set_meta_def)

lemma send_event_Inr:
  "send_event env extra s = (Inr x, s') \<Longrightarrow>
     ws_call s' = ws_call s \<and> ws_job s' = ws_job s
     \<and> ws_sent s' = ws_sent s @ [build_stream_event (ws_call s) extra]"
  by (auto simp: send_event_def Let_def bindA_Inr on_store_Inr)

lemma when_streaming_Inr:
  assumes "when_streaming (send_event env extra) s = (Inr x, s')"
  shows "ws_call s' = ws_call s \<and> ws_job s' = ws_job s
    \<and> ws_sent s' = ws_sent s @ (if call_type (ws_call s) = StreamingTextGeneration
        then [build_stream_event (ws_call s) extra] else [])"
  using assms send_event_Inr[of env extra s x s']
  by (cases "call_type (ws_call s) = StreamingTextGeneration") (simp_all add: when_streaming_def streaming_def)

lemma ends_done: "map_of extra ''done'' = Some (JBool True) \<Longrightarrow> distinct (map fst extra) \<Longrightarrow>
    ends_stream (build_stream_event c extra)"
  by (simp add: ends_stream_def build_stream_event_def jget_def dict_merge_present)

context worker_contract
begin

lemma save_call_Inr:
  assumes "save_call env s = (Inr x, s')"
  shows "core_of (ws_call s') = core_of (ws_call s) \<and> ws_sent s' = ws_sent s
    \<and> ws_job s' = map_option (\<lambda>j. j\<lparr>rq_meta := (rq_meta j)\<lparr>meta_llm_call := Some (ws_call s')\<rparr>\<rparr>) (ws_job s)"
  using assms save_core by (auto simp: save_call_def split: option.splits prod.splits sum.splits)

lemma serialize_call_Inr:
  assumes "serialize_call env s = (Inr r, s')"
  shows "core_of r = core_of (ws_call s) \<and> ws_call s' = r \<and> ws_sent s' = ws_sent s"
  using assms serialize_core by (auto simp: serialize_call_def split: prod.splits sum.splits)

lemma finalize_ends:
  assumes "finalize_cancelled_job env msg s = (Inr r, s')"
  shows "ended r s s' \<and> job_status r = JCancelled \<and> cancel_requested r = cancel_requested (ws_call s)"
proof -
  obtain w t s2 s3 x y where
    sv: "save_call env (s\<lparr>ws_world := w, ws_call := (ws_call s)\<lparr>job_status := JCancelled,
        job_completed_at := Some t, job_error := Some msg\<rparr>\<rparr>) = (Inr x, s2)"
    and se: "send_event env [(''message'', JStr msg), (''cancelled'', JBool True), (''done'', JBool True)] s2
        = (Inr y, s3)"
    and sr: "serialize_call env s3 = (Inr r, s')"
    using assms by (auto simp: finalize_cancelled_job_def bindA_Inr on_store_Inr)
  have "ends_stream (build_stream_event (ws_call s2)
      [(''message'', JStr msg), (''cancelled'', JBool True), (''done'', JBool True)])"
    by (rule ends_done) simp_all
  moreover note save_call_Inr[OF sv] send_event_Inr[OF se] serialize_call_Inr[OF sr]
  ultimately show ?thesis
    using core_ofD(1,2,4)[of r "(ws_call s)\<lparr>job_status := JCancelled, job_completed_at := Some t,
        job_error := Some msg\<rparr>"] by (auto simp: ended_def terminal_def)
qed

lemma complete_ends:
  assumes "complete_job env s = (Inr r, s')"
  shows "ended r s s' \<and> job_status r = JCompleted"
proof -
  obtain w w2 t s2 s3 x y u where
    sv: "save_call env (s\<lparr>ws_world := w, ws_call := (ws_call s)\<lparr>job_status := JCompleted,
        job_completed_at := Some t, last_error := None\<rparr>\<rparr>) = (Inr x, s2)"
    and se: "when_streaming (send_event env [(''done'', JBool True)]) (s2\<lparr>ws_world := w2\<rparr>) = (Inr y, s3)"
    and sr: "serialize_call env s3 = (Inr r, s')"
    using assms by (auto simp: complete_job_def bindA_Inr on_store_Inr)
  have "ends_stream (build_stream_event (ws_call s2) [(''done'', JBool True)])"
    by (rule ends_done) simp_all
  moreover note save_call_Inr[OF sv] when_streaming_Inr[OF se] serialize_call_Inr[OF sr]
  moreover have "call_type (ws_call s2) = call_type (ws_call s)"
    using core_ofD(4)[of "ws_call s2"] save_call_Inr[OF sv] by fastforce
  ultimately show ?thesis
    using core_ofD(1,4)[of r "(ws_call s)\<lparr>job_status := JCompleted, job_completed_at := Some t,
        last_error := None\<rparr>"] by (auto simp: ended_def terminal_def)
qed

lemma complete_result:
  assumes "complete_job env s = (Inr r, s')"
  shows "job_result r = job_result (ws_call s)"
proof -
  obtain w w2 t s2 s3 x y where
    sv: "save_call env (s\<lparr>ws_world := w, ws_call := (ws_call s)\<lparr>job_status := JCompleted,
        job_completed_at := Some t, last_error := None\<rparr>\<rparr>) = (Inr x, s2)"
    and se: "when_streaming (send_event env [(''done'', JBool True)]) (s2\<lparr>ws_world := w2\<rparr>) = (Inr y, s3)"
    and sr: "serialize_call env s3 = (Inr r, s')"
    using assms by (auto simp: complete_job_def bindA_Inr on_store_Inr)
  then show ?thesis
    using core_result[of r "ws_call s3"] core_result[OF save_call_Inr[OF sv, THEN conjunct1]]
      when_streaming_Inr[OF se] serialize_call_Inr[OF sr] by simp
qed

lemma fail_now_ends:
  assumes "fail_now env e s = (Inr r, s')"
  shows "ended r s s' \<and> job_status r = JFailed"
proof -
  let ?extra = "[(''error'', JStr ''llm_service_error''), (''message'', JStr (exn_text e)), (''done'', JBool True)]"
  obtain w t j s2 s3 x y where
    sv: "save_call env (s\<lparr>ws_world := w, ws_call := (ws_call s)\<lparr>job_status := JFailed, job_completed_at := Some t,
        last_error := Some (exn_text e), job_error := Some (exn_text e)\<rparr>, ws_job := j\<rparr>) = (Inr x, s2)"
    and se: "when_streaming (send_event env ?extra) s2 = (Inr y, s3)"
    and sr: "serialize_call env s3 = (Inr r, s')"
    using assms by (auto simp: fail_now_def bindA_Inr on_store_Inr)
  have "ends_stream (build_stream_event (ws_call s2) ?extra)" by (rule ends_done) simp_all
  moreover note save_call_Inr[OF sv] when_streaming_Inr[OF se] serialize_call_Inr[OF sr]
  moreover have "call_type (ws_call s2) = call_type (ws_call s)"
    using core_ofD(4)[of "ws_call s2"] save_call_Inr[OF sv] by fastforce
  ultimately show ?thesis
    using core_ofD(1,4)[of r "(ws_call s)\<lparr>job_status := JFailed, job_completed_at := Some t,
        last_error := Some (exn_text e), job_error := Some (exn_text e)\<rparr>"] by (auto simp: ended_def terminal_def)
qed

end

lemma retry_or_fail_raises: "retry_or_fail env e s = (r, s') \<Longrightarrow> isl r"
  by (cases r) (auto simp: retry_or_fail_def bindA_Inr Let_def)

text \<open>Code that raises none of the two private exceptions.\<close>

definition foreign_only :: "('w, 'a) act \<Rightarrow> bool" where
  "foreign_only m \<longleftrightarrow> (\<forall>w e w'. m w = (Inl e, w') \<longrightarrow> \<not> private_error e)"

named_theorems foreign_rules \<open>code that raises no private exception\<close>

lemma foreign_basic [foreign_rules]:
  "foreign_only (retA x)" "foreign_only (getA f)" "foreign_only (set_call g)"
  by (simp_all add: foreign_only_def)

lemma foreign_bindA [foreign_rules]:
  "foreign_only m \<Longrightarrow> (\<And>x. foreign_only (k x)) \<Longrightarrow> foreign_only (bindA m k)"
  unfolding foreign_only_def bindA_Inl by blast

lemma foreign_if [foreign_rules]: "foreign_only m \<Longrightarrow> foreign_only k \<Longrightarrow> foreign_only (if c then m else k)"
  by simp

lemma foreign_store [foreign_rules]: "foreign_only m \<Longrightarrow> foreign_only (on_store m)"
  unfolding foreign_only_def on_store_Inl by blast

lemma foreign_send:
  "(\<And>j p. foreign_only (js_append_stream_event (we_store env) j p)) \<Longrightarrow> foreign_only (send_event env extra)"
  unfolding send_event_def Let_def by (intro foreign_rules) (simp_all add: foreign_only_def)

context worker_contract
begin

lemma foreign_ops [foreign_rules]:
  "foreign_only (js_append_stream_event (we_store env) j p)"
  "foreign_only (js_is_cancel_requested (we_store env) j)"
  "foreign_only (js_record_completion_metrics (we_store env) call)"
  "foreign_only (we_utcnow env)"
  unfolding foreign_only_def by (intro allI impI; erule foreign(3-6))+

lemma foreign_save [foreign_rules]: "foreign_only (save_call env)"
  unfolding foreign_only_def save_call_def
  using foreign(1) by (auto split: option.splits prod.splits sum.splits)

lemma foreign_serialize [foreign_rules]: "foreign_only (serialize_call env)"
  unfolding foreign_only_def serialize_call_def
  using foreign(2) by (auto split: prod.splits sum.splits)

lemma foreign_ends:
  "foreign_only (cancel_wanted env)" "foreign_only (finalize_cancelled_job env msg)"
  "foreign_only (complete_job env)"
  unfolding cancel_wanted_def finalize_cancelled_job_def complete_job_def when_streaming_def streaming_def
  by (intro foreign_rules foreign_send foreign_ops foreign_save foreign_serialize)+

lemma attempt_private:
  assumes "attempt env s = (Inl e, s')" "private_error e"
  shows "going_on ct s s'"
proof -
  let ?rest = "\<lambda>c. if c then
       bindA (set_call (\<lambda>c. c\<lparr>cancel_requested := True\<rparr>)) (\<lambda>_.
       finalize_cancelled_job env ''LLM job was cancelled before the result was returned.'')
     else complete_job env"
  have "foreign_only (bindA (cancel_wanted env) ?rest)" by (intro foreign_rules foreign_ends)
  then have no: "bindA (cancel_wanted env) ?rest s1 \<noteq> (Inl e, s')" for s1
    using assms(2) unfolding foreign_only_def by blast
  have svc: "goes_on ct (on_store (we_service env))" by (rule goes_on_store)
  consider "on_store (we_service env) s = (Inl e, s')"
    | svc s1 where "on_store (we_service env) s = (Inr svc, s1)" "call_model env svc s1 = (Inl e, s')"
    using assms(1) no unfolding attempt_def bindA_Inl by blast
  then show ?thesis
  proof cases
    case 1
    show ?thesis using stepsD[OF svc 1] .
  next
    case 2
    show ?thesis using going_on_trans[OF stepsD[OF svc 2(1)] stepsD[OF goes_on_call_model 2(2)]] .
  qed
qed

lemma attempt_Inr:
  assumes "attempt env s = (Inr r, s')"
  shows "\<exists>s1. going_on ct s s1 \<and> ended r s1 s'"
proof -
  obtain svc s1 x s2 c s3 where
    svc: "on_store (we_service env) s = (Inr svc, s1)"
    and m: "call_model env svc s1 = (Inr x, s2)"
    and c: "cancel_wanted env s2 = (Inr c, s3)"
    and rest: "(if c then
       bindA (set_call (\<lambda>c. c\<lparr>cancel_requested := True\<rparr>)) (\<lambda>_.
       finalize_cancelled_job env ''LLM job was cancelled before the result was returned.'')
     else complete_job env) s3 = (Inr r, s')"
    using assms unfolding attempt_def bindA_Inr by blast
  have on: "going_on ct s s3"
    by (rule going_on_trans[OF stepsD[OF goes_on_store svc]
          going_on_trans[OF stepsD[OF goes_on_call_model m] stepsD[OF goes_on_cancel_wanted c]]])
  show ?thesis
  proof (cases c)
    case True
    let ?s4 = "s3\<lparr>ws_call := (ws_call s3)\<lparr>cancel_requested := True\<rparr>\<rparr>"
    have "going_on ct s ?s4" by (rule going_on_trans[OF on]) (rule going_on_same, simp_all)
    moreover have "ended r ?s4 s'" using rest True by (auto dest: finalize_ends)
    ultimately show ?thesis by blast
  next
    case False
    then show ?thesis using rest on complete_ends by auto
  qed
qed

lemma handle_error_Inr:
  assumes "handle_error env e s = (Inr r, s')"
  shows "private_error e \<and> ended r s s'"
  using assms finalize_ends[of "exn_text e" s r s'] fail_now_ends[of e s r s'] retry_or_fail_raises[of env e s]
  by (auto simp: handle_error_def private_error_def split: if_splits) fastforce?

lemma begin_on:
  assumes "begin_processing env s = (Inr x, s')"
  shows "\<exists>s1. call_type (ws_call s1) = call_type (ws_call s) \<and> ws_sent s1 = ws_sent s
    \<and> \<not> terminal (job_status (ws_call s1)) \<and> going_on (call_type (ws_call s)) s1 s'"
proof -
  obtain t w where "begin_tail env t
      (s\<lparr>ws_call := (ws_call s)\<lparr>job_status := JProcessing\<rparr>, ws_world := w\<rparr>) = (Inr x, s')"
    using assms unfolding begin_processing_def begin_tail_def[symmetric] by (auto simp: bindA_Inr on_store_Inr)
  from stepsD[OF goes_on_begin_tail this] show ?thesis
    by (intro exI[of _ "s\<lparr>ws_call := (ws_call s)\<lparr>job_status := JProcessing\<rparr>, ws_world := w\<rparr>"])
      (simp add: terminal_def)
qed

lemma run_ends:
  assumes "process_llm_call env job payload w = (Inr r, s')"
  shows "ws_call s' = r \<and> terminal (job_status r)
    \<and> call_type r = call_type (start_call job payload)
    \<and> (if job_status r = JCancelled \<or> call_type r = StreamingTextGeneration
       then \<exists>front e. ws_sent s' = front @ [e] \<and> ends_stream e \<and> (\<forall>e\<in>set front. \<not> ends_stream e)
       else ws_sent s' = [])"
proof -
  let ?s0 = "start_state job payload w" and ?ct = "call_type (start_call job payload)"
  obtain c s1 where c: "cancel_wanted env ?s0 = (Inr c, s1)"
    and rest: "(if c then
       bindA (set_call (\<lambda>c. c\<lparr>cancel_requested := True\<rparr>)) (\<lambda>_.
       finalize_cancelled_job env ''LLM job was cancelled before processing started.'')
     else
       bindA (begin_processing env) (\<lambda>_. catchA (attempt env) (handle_error env))) s1 = (Inr r, s')"
    using assms unfolding process_llm_call_def process_call_def bindA_Inr by blast
  have s1: "ws_call s1 = start_call job payload" "ws_sent s1 = []"
    using c by (auto simp: cancel_wanted_def on_store_Inr start_state_def)
  show ?thesis
  proof (cases c)
    case True
    then have "ended r (s1\<lparr>ws_call := (ws_call s1)\<lparr>cancel_requested := True\<rparr>\<rparr>) s' \<and> job_status r = JCancelled"
      using rest by (auto dest: finalize_ends)
    then show ?thesis using s1 by (auto simp: ended_def)
  next
    case False
    then obtain x s2 where b: "begin_processing env s1 = (Inr x, s2)"
      and t: "catchA (attempt env) (handle_error env) s2 = (Inr r, s')"
      using rest by (auto simp: bindA_Inr)
    obtain s3 where s3: "call_type (ws_call s3) = ?ct" "ws_sent s3 = []" "\<not> terminal (job_status (ws_call s3))"
        "going_on ?ct s3 s2"
      using begin_on[OF b] s1 by auto
    have "\<exists>s4. going_on ?ct s2 s4 \<and> ended r s4 s'"
      using t attempt_Inr[of s2 r s' ?ct] attempt_private[of s2 _ _ ?ct] handle_error_Inr
      unfolding catchA_Inr by blast
    then obtain s4 where s4: "going_on ?ct s3 s4" "ended r s4 s'" using going_on_trans[OF s3(4)] by blast
    then obtain es where es: "call_type (ws_call s4) = ?ct" "ws_sent s4 = es" "\<forall>e\<in>set es. \<not> ends_stream e"
        "?ct \<noteq> StreamingTextGeneration \<longrightarrow> es = []"
      using s3 unfolding going_on_def by auto
    then show ?thesis using s4(2) unfolding ended_def by auto
  qed
qed

end

section \<open>Retries\<close>

text \<open>A store that serves a job and has no cancellation of it; \<open>fine\<close> is its invariant.\<close>

locale steady_job = worker_contract +
  fixes jid :: string and fine :: "'a \<Rightarrow> bool"
  assumes not_cancelled: "fine w \<Longrightarrow> \<exists>w'. js_is_cancel_requested (we_store env) jid w = (Inr False, w') \<and> fine w'"
    and can_save: "fine w \<Longrightarrow> rq_id job = jid \<Longrightarrow> \<not> cancel_requested call \<Longrightarrow>
      \<exists>job' call' w'. js_save_job_payload (we_store env) job call w = (Inr (job', call'), w') \<and> fine w'"
    and can_append: "fine w \<Longrightarrow>
      \<exists>i w'. js_append_stream_event (we_store env) jid p w = (Inr i, w') \<and> fine w'"
    and can_record: "fine w \<Longrightarrow> \<exists>w'. js_record_wait_time (we_store env) t w = (Inr (), w') \<and> fine w'"
    and can_time: "fine w \<Longrightarrow> \<exists>t w'. we_utcnow env w = (Inr t, w') \<and> fine w'"
    and can_measure: "fine w \<Longrightarrow>
      \<exists>w'. js_record_completion_metrics (we_store env) call w = (Inr (), w') \<and> fine w'"
    and can_serialize: "fine w \<Longrightarrow>
      \<exists>call' w'. js_serialize_llm_call (we_store env) call w = (Inr call', w') \<and> fine w'"

text \<open>A model service every call of which fails.\<close>

definition down_service :: "exn \<Rightarrow> 'w model_service" where
  "down_service e =
     \<lparr>ms_ask_llm_sync = (\<lambda>messages schema mode params. raiseA e),
      ms_generate_text_sync = (\<lambda>messages mode params. raiseA e),
      ms_stream_llm_sync = (\<lambda>messages mode params w. (([], Some e), w))\<rparr>"

definition transient :: "exn \<Rightarrow> bool" where
  "transient e \<longleftrightarrow> \<not> isinstance e ValueError \<and> \<not> isinstance e TypeError \<and> \<not> isinstance e KeyError
     \<and> \<not> private_error e"

lemma core_parameters: "core_of c = core_of d \<Longrightarrow> job_parameters c = job_parameters d"
  by (cases c, cases d) (simp add: core_of_def)

text \<open>\<open>retry_or_fail\<close> after the time it reads.\<close>

definition retry_tail ::
  "'w worker_env \<Rightarrow> exn \<Rightarrow> bool \<Rightarrow> int \<Rightarrow> string option \<Rightarrow> rat option \<Rightarrow> ('w, LLMCallJob) work" where
  "retry_tail env e again n msg completed =
     bindA (set_call (\<lambda>c. c\<lparr>job_completed_at := completed,
       job_status := (if again then JQueued else JFailed),
       job_error := (if again then None else last_error c)\<rparr>)) (\<lambda>_.
     bindA (set_meta (\<lambda>m. m\<lparr>meta_retry_count := Some n, meta_last_error := Some msg\<rparr>)) (\<lambda>_.
     bindA (save_call env) (\<lambda>_.
     bindA (when_streaming (send_event env
       [(''message'', if again then JStr ''Retrying after a transient worker failure.'' else jstr msg),
        (''error'', if again then JNull else JStr ''llm_service_error''),
        (''done'', JBool (\<not> again))])) (\<lambda>_.
     raiseA e))))"

lemma retry_split:
  "retry_or_fail env e =
     bindA (set_call (\<lambda>c. c\<lparr>retry_count := retry_count c + 1, last_error := Some (safe_error_message e)\<rparr>)) (\<lambda>_.
     bindA (getA ws_call) (\<lambda>call.
     bindA (if retry_count call \<le> we_max_retries env then retA None
            else bindA (on_store (we_utcnow env)) (\<lambda>t. retA (Some t)))
       (retry_tail env e (retry_count call \<le> we_max_retries env) (retry_count call) (last_error call))))"
  unfolding retry_or_fail_def retry_tail_def[abs_def] Let_def by (rule refl)

context steady_job
begin

text \<open>The state of a run whose call has failed \<open>n\<close> times.\<close>

definition ready :: "int \<Rightarrow> LLMCallJob \<Rightarrow> bool" where
  "ready n c \<longleftrightarrow> job_id c = jid \<and> retry_count c = n \<and> \<not> cancel_requested c \<and> job_parameters c = []"

definition at_work :: "int \<Rightarrow> call_type \<Rightarrow> 'a worker_state \<Rightarrow> bool" where
  "at_work n ct s \<longleftrightarrow> fine (ws_world s) \<and> ready n (ws_call s) \<and> call_type (ws_call s) = ct
     \<and> (\<exists>j. ws_job s = Some j \<and> rq_id j = jid)"

definition works :: "int \<Rightarrow> call_type \<Rightarrow> ('a, 'b) work \<Rightarrow> bool" where
  "works n ct m \<longleftrightarrow> (\<forall>s. at_work n ct s \<longrightarrow> (\<exists>x s'. m s = (Inr x, s') \<and> at_work n ct s'))"

definition breaks :: "exn \<Rightarrow> int \<Rightarrow> call_type \<Rightarrow> ('a, 'b) work \<Rightarrow> bool" where
  "breaks e n ct m \<longleftrightarrow> (\<forall>s. at_work n ct s \<longrightarrow> (\<exists>s'. m s = (Inl e, s') \<and> at_work n ct s'))"

lemma works_bindA: "works n ct m \<Longrightarrow> (\<And>x. works n ct (k x)) \<Longrightarrow> works n ct (bindA m k)"
  unfolding works_def by (metis bindA_run(1))

lemma breaks_bindA: "works n ct m \<Longrightarrow> (\<And>x. breaks e n ct (k x)) \<Longrightarrow> breaks e n ct (bindA m k)"
  unfolding works_def breaks_def by (metis bindA_run(1))

lemma breaks_first: "breaks e n ct m \<Longrightarrow> breaks e n ct (bindA m k)"
  unfolding breaks_def by (metis bindA_run(2))

lemma works_unit: "works n ct m \<Longrightarrow> at_work n ct s \<Longrightarrow> \<exists>s'. m s = (Inr (), s') \<and> at_work n ct s'"
  unfolding works_def by auto

lemma works_basic: "works n ct (retA x)" "works n ct (getA f)"
  by (auto simp: works_def)

lemma works_set_call:
  "(\<And>c. ready n c \<Longrightarrow> ready n (f c) \<and> call_type (f c) = call_type c) \<Longrightarrow> works n ct (set_call f)"
  by (auto simp: works_def at_work_def)

lemma works_time: "works n ct (on_store (we_utcnow env))"
  unfolding works_def at_work_def using can_time by (fastforce simp: on_store_Inr)

lemma works_record: "works n ct (on_store (js_record_wait_time (we_store env) t))"
  unfolding works_def at_work_def using can_record by (fastforce simp: on_store_Inr)

lemma ready_core: "core_of c = core_of d \<Longrightarrow> ready n d \<Longrightarrow> ready n c"
  by (auto simp: ready_def dest: core_ofD core_parameters)

lemma save_at_work:
  assumes "at_work n ct s"
  shows "\<exists>s'. save_call env s = (Inr (), s') \<and> at_work n ct s'"
proof -
  obtain j where j: "ws_job s = Some j" "rq_id j = jid" using assms by (auto simp: at_work_def)
  obtain job' call' w' where sv: "js_save_job_payload (we_store env) j (ws_call s) (ws_world s) = (Inr (job', call'), w')"
      "fine w'"
    using can_save[of "ws_world s" j "ws_call s"] assms j by (auto simp: at_work_def ready_def)
  let ?s' = "s\<lparr>ws_world := w', ws_call := call', ws_job := Some job'\<rparr>"
  have "save_call env s = (Inr (), ?s')" using j sv by (simp add: save_call_def)
  moreover have "at_work n ct ?s'"
    using save_core[OF sv(1)] sv(2) assms j ready_core[of call' "ws_call s" n] core_ofD(4)[of call' "ws_call s"]
    by (auto simp: at_work_def)
  ultimately show ?thesis by blast
qed

lemma works_save: "works n ct (save_call env)"
  using save_at_work unfolding works_def by blast

lemma works_send: "works n ct (send_event env extra)"
  unfolding works_def
proof (intro allI impI)
  fix s assume s: "at_work n ct s"
  then obtain i w' where "js_append_stream_event (we_store env) jid (build_stream_event (ws_call s) extra) (ws_world s)
      = (Inr i, w')" "fine w'"
    using can_append unfolding at_work_def by blast
  then show "\<exists>x s'. send_event env extra s = (Inr x, s') \<and> at_work n ct s'"
    using s by (auto simp: send_event_def Let_def bindA_run(1) on_store_def zoomA_def at_work_def ready_def
        bindA_def)
qed

lemma works_when: "works n ct (when_streaming (send_event env extra))"
  using works_send[of n ct extra] works_basic(1)[of n ct "()"]
  by (auto simp: works_def when_streaming_def streaming_def)

lemma works_cancel_wanted: "at_work n ct s \<Longrightarrow> \<exists>s'. cancel_wanted env s = (Inr False, s') \<and> at_work n ct s'"
  using not_cancelled[of "ws_world s"]
  by (auto simp: cancel_wanted_def on_store_def zoomA_def at_work_def ready_def)

lemma works_begin: "works n ct (begin_processing env)"
  unfolding begin_processing_def
  by (intro works_bindA works_basic works_set_call works_time works_record works_save works_when)
    (auto simp: ready_def)

lemma breaks_model:
  assumes "transient e"
  shows "breaks e n ct (call_model env (down_service e))"
  unfolding breaks_def
proof (intro allI impI)
  fix s assume s: "at_work n ct s"
  then have par: "job_parameters (ws_call s) = []" by (simp add: at_work_def ready_def)
  show "\<exists>s'. call_model env (down_service e) s = (Inl e, s') \<and> at_work n ct s'"
  proof (cases "call_type (ws_call s)")
    case StructuredJson
    then show ?thesis using s assms par
      by (auto simp: call_model_def down_service_def check_keywords_def on_store_def zoomA_def bindA_def
          catchA_def transient_def)
  next
    case TextGeneration
    then show ?thesis using s par
      by (auto simp: call_model_def down_service_def check_keywords_def on_store_def zoomA_def bindA_def)
  next
    case StreamingTextGeneration
    have tail: "breaks e n ct (bindA (on_store (check_keywords ks [])) (\<lambda>_.
         bindA (on_store (\<lambda>w. (Inr ([], Some e), w))) (\<lambda>(chunks, err).
         bindA (take_chunks env chunks err) k)))" for ks k
      by (auto simp: breaks_def check_keywords_def on_store_def zoomA_def bindA_def)
    have br: "breaks e n ct (bindA (set_call (\<lambda>c. c\<lparr>job_status := JStreaming\<rparr>)) (\<lambda>_.
         bindA (save_call env) (\<lambda>_.
         bindA (send_event env []) (\<lambda>_.
         bindA (on_store (check_keywords ks [])) (\<lambda>_.
         bindA (on_store (\<lambda>w. (Inr ([], Some e), w))) (\<lambda>(chunks, err).
         bindA (take_chunks env chunks err) k))))))" for ks k
      by (intro breaks_bindA[OF works_set_call] breaks_bindA[OF works_save] breaks_bindA[OF works_send] tail)
        (auto simp: ready_def)
    then show ?thesis
      using s par StreamingTextGeneration
      by (simp add: call_model_def down_service_def breaks_def) blast
  qed
qed

text \<open>A failed attempt, as the job has it afterwards.\<close>

definition after_failure :: "exn \<Rightarrow> int \<Rightarrow> rq_job \<Rightarrow> bool" where
  "after_failure e n j \<longleftrightarrow> rq_id j = jid \<and> meta_retry_count (rq_meta j) = Some n
     \<and> meta_last_error (rq_meta j) = Some (Some (safe_error_message e))
     \<and> (\<exists>c. meta_llm_call (rq_meta j) = Some c \<and> ready n c
          \<and> job_status c = (if n \<le> we_max_retries env then JQueued else JFailed)
          \<and> job_error c = (if n \<le> we_max_retries env then None else Some (safe_error_message e)))"

lemma retry_run:
  assumes "at_work n ct s"
  shows "\<exists>s' j. retry_or_fail env e s = (Inl e, s') \<and> fine (ws_world s') \<and> ws_job s' = Some j
    \<and> after_failure e (n + 1) j"
proof -
  let ?again = "n + 1 \<le> we_max_retries env"
  let ?s1 = "s\<lparr>ws_call := (ws_call s)\<lparr>retry_count := n + 1, last_error := Some (safe_error_message e)\<rparr>\<rparr>"
  have s1: "at_work (n + 1) ct ?s1" and n: "retry_count (ws_call s) = n"
    using assms by (auto simp: at_work_def ready_def)
  have "works (n + 1) ct (if ?again then retA None else bindA (on_store (we_utcnow env)) (\<lambda>t. retA (Some t)))"
    by (auto intro: works_basic works_bindA works_time)
  then obtain t s2 where t: "(if ?again then retA None else bindA (on_store (we_utcnow env)) (\<lambda>t. retA (Some t))) ?s1
      = (Inr t, s2)" "at_work (n + 1) ct s2" using s1 unfolding works_def by blast
  have same: "ws_call s2 = ws_call ?s1"
    using t(1) by (auto simp: bindA_Inr on_store_Inr split: if_splits)
  let ?s3 = "s2\<lparr>ws_call := (ws_call s2)\<lparr>job_completed_at := t, job_status := (if ?again then JQueued else JFailed),
       job_error := (if ?again then None else Some (safe_error_message e))\<rparr>,
     ws_job := map_option (\<lambda>j. j\<lparr>rq_meta := (rq_meta j)\<lparr>meta_retry_count := Some (n + 1),
       meta_last_error := Some (Some (safe_error_message e))\<rparr>\<rparr>) (ws_job s2)\<rparr>"
  have s3: "at_work (n + 1) ct ?s3" using t(2) by (auto simp: at_work_def ready_def)
  then obtain s4 where sv: "save_call env ?s3 = (Inr (), s4)" "at_work (n + 1) ct s4"
    using save_at_work by blast
  obtain s5 where se: "when_streaming (send_event env
       [(''message'', if ?again then JStr ''Retrying after a transient worker failure.''
                      else jstr (Some (safe_error_message e))),
        (''error'', if ?again then JNull else JStr ''llm_service_error''),
        (''done'', JBool (\<not> ?again))]) s4 = (Inr (), s5)" "at_work (n + 1) ct s5"
    using works_unit[OF works_when sv(2)] by blast
  have run: "retry_or_fail env e s = (Inl e, s5)"
  proof -
    have "retry_tail env e ?again (n + 1) (Some (safe_error_message e)) t s2 = (Inl e, s5)"
      using sv(1) se(1) same by (cases ?again) (simp_all add: retry_tail_def bindA_def)
    moreover have "retry_or_fail env e s
      = bindA (if ?again then retA None else bindA (on_store (we_utcnow env)) (\<lambda>t. retA (Some t)))
          (retry_tail env e ?again (n + 1) (Some (safe_error_message e))) ?s1"
      using n by (simp add: retry_split)
    moreover note t(1)
    ultimately show ?thesis by (metis bindA_run(1))
  qed
  have five: "ws_call s5 = ws_call s4" "ws_job s5 = ws_job s4" using when_streaming_Inr[OF se(1)] by auto
  note saved = save_call_Inr[OF sv(1)]
  obtain j where j: "ws_job s2 = Some j" "rq_id j = jid" using t(2) by (auto simp: at_work_def)
  have "after_failure e (n + 1) (the (ws_job s4))"
    using saved j sv(2) core_ofD(1,5)[OF saved[THEN conjunct1]]
    by (auto simp: after_failure_def at_work_def)
  then show ?thesis using run five saved j se(2) by (auto simp: at_work_def)
qed

text \<open>A whole run on a job whose model service is down.\<close>

lemma down_run:
  assumes "we_service env = retA (down_service e)" "transient e" "fine w" "rq_id j = jid"
    and "ready n (start_call (Some j) payload)"
  shows "\<exists>s' j'. process_llm_call env (Some j) payload w = (Inl e, s') \<and> fine (ws_world s')
    \<and> ws_job s' = Some j' \<and> after_failure e (n + 1) j'"
proof -
  let ?s = "start_state (Some j) payload w" and ?ct = "call_type (start_call (Some j) payload)"
  have s: "at_work n ?ct ?s" using assms(3-) by (simp add: at_work_def start_state_def)
  obtain s1 where c: "cancel_wanted env ?s = (Inr False, s1)" "at_work n ?ct s1"
    using works_cancel_wanted[OF s] by blast
  obtain s2 where b: "begin_processing env s1 = (Inr (), s2)" "at_work n ?ct s2"
    using works_unit[OF works_begin c(2)] by blast
  obtain s3 where m: "call_model env (down_service e) s2 = (Inl e, s3)" "at_work n ?ct s3"
    using breaks_model[OF assms(2)] b(2) unfolding breaks_def by blast
  have "attempt env s2 = (Inl e, s3)"
    using m(1) by (simp add: attempt_def assms(1) on_store_def zoomA_def bindA_def)
  then have "process_llm_call env (Some j) payload w = handle_error env e s3"
    by (simp add: process_llm_call_def process_call_def bindA_def catchA_def c(1) b(1))
  also have "\<dots> = retry_or_fail env e s3" using assms(2)
    by (simp add: handle_error_def transient_def private_error_def)
  finally show ?thesis using retry_run[OF m(2), of e] by simp
qed

end

text \<open>The tokens among the events appended.\<close>

definition event_token :: "payload \<Rightarrow> string option" where
  "event_token e = (case map_of e ''token'' of Some (JStr t) \<Rightarrow> Some t | _ \<Rightarrow> None)"

definition tokens_sent :: "'w worker_state \<Rightarrow> string list" where
  "tokens_sent s = List.map_filter event_token (ws_sent s)"

lemma event_token_build:
  "''token'' \<notin> fst ` set extra \<Longrightarrow> event_token (build_stream_event c extra) = None"
  "event_token (build_stream_event c [(''token'', JStr t)]) = Some t"
  by (simp_all add: event_token_def build_stream_event_def dict_merge_absent)
    (simp add: dict_merge_def)

lemma tokens_sent_same: "ws_sent s' = ws_sent s \<Longrightarrow> tokens_sent s' = tokens_sent s"
  by (simp add: tokens_sent_def)

lemma keeps_tokens_store [keeps_rules]: "keeps tokens_sent (on_store m)"
  unfolding on_store_def by (intro keeps_rules) (simp add: tokens_sent_def)

lemma keeps_tokens_set [keeps_rules]: "keeps tokens_sent (set_call f)" "keeps tokens_sent (set_meta g)"
  unfolding set_call_def set_meta_def by (intro keeps_rules, simp add: tokens_sent_def)+

lemma keeps_tokens_save [keeps_rules]: "keeps tokens_sent (save_call env)"
  by (auto simp: keeps_def save_call_def tokens_sent_def split: option.split prod.split sum.split)

lemma keeps_tokens_serialize [keeps_rules]: "keeps tokens_sent (serialize_call env)"
  by (auto simp: keeps_def serialize_call_def tokens_sent_def split: prod.split sum.split)

lemma keeps_tokens_cancel [keeps_rules]: "keeps tokens_sent (cancel_wanted env)"
  unfolding cancel_wanted_def by (intro keeps_rules)

lemma keeps_tokens_send: "''token'' \<notin> fst ` set extra \<Longrightarrow> keeps tokens_sent (send_event env extra)"
  by (auto simp: keeps_def send_event_def Let_def bindA_def on_store_def zoomA_def tokens_sent_def
      List.map_filter_def event_token_build split: prod.split sum.split)

lemma keeps_tokens_when: "''token'' \<notin> fst ` set extra \<Longrightarrow> keeps tokens_sent (when_streaming (send_event env extra))"
  unfolding when_streaming_def streaming_def by (intro keeps_rules keeps_tokens_send)

lemma keeps_tokens_begin: "keeps tokens_sent (begin_processing env)"
  unfolding begin_processing_def by (intro keeps_rules keeps_tokens_when) auto

lemma keeps_tokens_complete: "keeps tokens_sent (complete_job env)"
  unfolding complete_job_def by (intro keeps_rules keeps_tokens_when) auto

lemma join_texts: "join_parts (map JStr ts) = Inr (concat ts)"
  by (induction ts) auto

context steady_job
begin

lemma works_complete: "works n ct (complete_job env)"
proof -
  have m: "works n ct (on_store (js_record_completion_metrics (we_store env) call))" for call
    unfolding works_def at_work_def using can_measure by (fastforce simp: on_store_Inr)
  have r: "works n ct (serialize_call env)"
    unfolding works_def
  proof (intro allI impI)
    fix s assume s: "at_work n ct s"
    then obtain call' w' where sr: "js_serialize_llm_call (we_store env) (ws_call s) (ws_world s) = (Inr call', w')"
        "fine w'" using can_serialize unfolding at_work_def by blast
    then show "\<exists>x s'. serialize_call env s = (Inr x, s') \<and> at_work n ct s'"
      using s ready_core[OF serialize_core[OF sr(1)]] core_ofD(4)[OF serialize_core[OF sr(1)]]
      by (auto simp: serialize_call_def at_work_def)
  qed
  show ?thesis
    unfolding complete_job_def
    by (intro works_bindA works_basic works_set_call works_time works_save works_when m r)
      (auto simp: ready_def)
qed

lemma take_tokens:
  assumes "at_work n ct s" "\<forall>t\<in>set ts. t \<noteq> []"
  shows "\<exists>s'. take_chunks env (map content_chunk ts) None s = (Inr (map JStr ts), s')
    \<and> at_work n ct s' \<and> tokens_sent s' = tokens_sent s @ ts"
  using assms
proof (induction ts arbitrary: s)
  case Nil
  then show ?case by simp
next
  case (Cons t ts)
  have ch: "chunk_content (content_chunk t) = Inr (JStr t)"
    by (simp add: chunk_content_def content_chunk_def jget_def)
  obtain s1 where s1: "send_event env [(''token'', JStr t)] s = (Inr (), s1)" "at_work n ct s1"
    using works_unit[OF works_send Cons.prems(1)] by blast
  obtain s2 where s2: "cancel_wanted env s1 = (Inr False, s2)" "at_work n ct s2"
    using works_cancel_wanted[OF s1(2)] by blast
  have "tokens_sent s1 = tokens_sent s @ [t]"
    using send_event_Inr[OF s1(1)] by (simp add: tokens_sent_def List.map_filter_def event_token_build)
  then have tok: "tokens_sent s2 = tokens_sent s @ [t]"
    using keepsD[OF keeps_tokens_cancel s2(1)] by simp
  have one: "take_chunk env (content_chunk t) s = (Inr [JStr t], s2)"
    using s1(1) s2(1) Cons.prems(2) ch by (simp add: take_chunk_def bindA_def)
  obtain s3 where "take_chunks env (map content_chunk ts) None s2 = (Inr (map JStr ts), s3)"
      "at_work n ct s3" "tokens_sent s3 = tokens_sent s2 @ ts"
    using Cons.IH[OF s2(2)] Cons.prems(2) by auto
  then show ?case using one tok by (simp add: bindA_def)
qed

lemma answered_model:
  assumes "at_work n StreamingTextGeneration s" "\<forall>t\<in>set ts. t \<noteq> []"
    and answer: "\<And>messages mode w. ms_stream_llm_sync svc messages mode [] w = ((map content_chunk ts, None), w)"
  shows "\<exists>s'. call_model env svc s = (Inr (), s') \<and> at_work n StreamingTextGeneration s'
    \<and> tokens_sent s' = tokens_sent s @ ts \<and> job_result (ws_call s') = Some (JStr (concat ts))"
proof -
  let ?s1 = "s\<lparr>ws_call := (ws_call s)\<lparr>job_status := JStreaming\<rparr>\<rparr>"
  have par: "job_parameters (ws_call s) = []" "call_type (ws_call s) = StreamingTextGeneration"
    using assms(1) by (auto simp: at_work_def ready_def)
  have "at_work n StreamingTextGeneration ?s1" using assms(1) by (simp add: at_work_def ready_def)
  then obtain s2 where s2: "save_call env ?s1 = (Inr (), s2)" "at_work n StreamingTextGeneration s2"
    using save_at_work by blast
  obtain s3 where s3: "send_event env [] s2 = (Inr (), s3)" "at_work n StreamingTextGeneration s3"
    using works_unit[OF works_send s2(2)] by blast
  obtain s4 where s4: "take_chunks env (map content_chunk ts) None s3 = (Inr (map JStr ts), s4)"
      "at_work n StreamingTextGeneration s4" "tokens_sent s4 = tokens_sent s3 @ ts"
    using take_tokens[OF s3(2) assms(2)] by blast
  have "tokens_sent s3 = tokens_sent s"
    using keepsD[OF keeps_tokens_save s2(1)] keepsD[OF keeps_tokens_send s3(1)]
    by (simp add: tokens_sent_def)
  moreover have "call_model env svc s = (Inr (), s4\<lparr>ws_call := (ws_call s4)\<lparr>job_result := Some (JStr (concat ts))\<rparr>\<rparr>)"
    using par s2(1) s3(1) s4(1)
    by (simp add: call_model_def check_keywords_def on_store_def zoomA_def bindA_def answer join_texts)
  ultimately show ?thesis using s4 by (simp add: at_work_def ready_def tokens_sent_def)
qed

lemma answered_run:
  assumes "we_service env = retA svc" "fine w" "rq_id j = jid"
    and "ready n (start_call (Some j) payload)"
    and "call_type (start_call (Some j) payload) = StreamingTextGeneration" "\<forall>t\<in>set ts. t \<noteq> []"
    and answer: "\<And>messages mode w. ms_stream_llm_sync svc messages mode [] w = ((map content_chunk ts, None), w)"
  shows "\<exists>r s'. process_llm_call env (Some j) payload w = (Inr r, s') \<and> job_status r = JCompleted
    \<and> job_result r = Some (JStr (concat ts)) \<and> tokens_sent s' = ts"
proof -
  let ?s = "start_state (Some j) payload w" and ?ct = StreamingTextGeneration
  have s: "at_work n ?ct ?s" using assms(2-5) by (simp add: at_work_def start_state_def)
  obtain s1 where c: "cancel_wanted env ?s = (Inr False, s1)" "at_work n ?ct s1"
    using works_cancel_wanted[OF s] by blast
  obtain s2 where b: "begin_processing env s1 = (Inr (), s2)" "at_work n ?ct s2"
    using works_unit[OF works_begin c(2)] by blast
  obtain s3 where m: "call_model env svc s2 = (Inr (), s3)" "at_work n ?ct s3"
      "tokens_sent s3 = tokens_sent s2 @ ts" "job_result (ws_call s3) = Some (JStr (concat ts))"
    using answered_model[OF b(2) assms(6) answer] by blast
  obtain s4 where c4: "cancel_wanted env s3 = (Inr False, s4)" "at_work n ?ct s4"
    using works_cancel_wanted[OF m(2)] by blast
  obtain r s' where f: "complete_job env s4 = (Inr r, s')"
    using works_complete c4(2) unfolding works_def by blast
  have run: "process_llm_call env (Some j) payload w = (Inr r, s')"
    by (simp add: process_llm_call_def process_call_def bindA_def catchA_def c(1) b(1) attempt_def
        assms(1) on_store_def zoomA_def m(1) c4(1) f)
  have "ws_call s4 = ws_call s3" using c4(1) by (auto simp: cancel_wanted_def on_store_Inr)
  then have "job_result r = Some (JStr (concat ts))" using complete_result[OF f] m(4) by simp
  moreover have "tokens_sent s' = ts"
    using keepsD[OF keeps_tokens_complete f] keepsD[OF keeps_tokens_cancel c4(1)]
      keepsD[OF keeps_tokens_begin b(1)] keepsD[OF keeps_tokens_cancel c(1)] m(3)
    by (simp add: tokens_sent_def start_state_def List.map_filter_def)
  ultimately show ?thesis using run complete_ends[OF f] by blast
qed

end

text \<open>The runs of a job that RQ starts again after each failure, on the job and the world they leave.\<close>

fun rerun :: "'w worker_env \<Rightarrow> LLMCallJob \<Rightarrow> nat \<Rightarrow> rq_job \<Rightarrow> 'w \<Rightarrow> rq_job \<times> 'w" where
  "rerun env payload 0 j w = (j, w)"
| "rerun env payload (Suc n) j w =
     (let s = snd (process_llm_call env (Some j) payload w) in
      rerun env payload n (case ws_job s of Some j' \<Rightarrow> j' | None \<Rightarrow> j) (ws_world s))"

context steady_job
begin

lemma after_failure_ready:
  "after_failure e n j \<Longrightarrow> rq_id j = jid \<and> ready n (start_call (Some j) payload)"
  by (auto simp: after_failure_def start_call_def ready_def Let_def)

lemma down_reruns:
  assumes "we_service env = retA (down_service e)" "transient e" "fine w" "rq_id j = jid"
    and "ready n (start_call (Some j) payload)"
  shows "after_failure e (n + int (Suc k)) (fst (rerun env payload (Suc k) j w))"
  using assms(3-)
proof (induction k arbitrary: n j w)
  case (0 n j w)
  from down_run[OF assms(1,2) 0] show ?case by auto
next
  case (Suc k n j w)
  from down_run[OF assms(1,2) Suc.prems] obtain s' j' where
    r: "process_llm_call env (Some j) payload w = (Inl e, s')" "fine (ws_world s')"
      "ws_job s' = Some j'" "after_failure e (n + 1) j'" by blast
  have "after_failure e (n + 1 + int (Suc k)) (fst (rerun env payload (Suc k) j' (ws_world s')))"
    using Suc.IH[OF r(2)] after_failure_ready[OF r(4), of payload] by blast
  moreover have "rerun env payload (Suc (Suc k)) j w = rerun env payload (Suc k) j' (ws_world s')"
    using r by (subst rerun.simps(2)) (simp del: rerun.simps)
  ultimately show ?case by (simp add: algebra_simps del: rerun.simps)
qed

end

section \<open>The worker over Redis\<close>

definition redis_worker ::
  "(rat \<Rightarrow> string) \<Rightarrow> AppSettings \<Rightarrow> redis_config \<Rightarrow> 'w backend \<Rightarrow> ('w, 'w model_service) act \<Rightarrow> 'w worker_env" where
  "redis_worker fr s c b svc =
     \<lparr>we_store = redis_job_store fr s (rq_queue_client s b) b, we_utcnow = clock_now b,
      we_service = svc, we_max_retries = LLM_JOB_MAX_RETRIES c\<rparr>"

lemma worker_ops [simp]:
  "we_store (redis_worker fr s c b svc) = redis_job_store fr s (rq_queue_client s b) b"
  "we_utcnow (redis_worker fr s c b svc) = clock_now b"
  "we_service (redis_worker fr s c b svc) = svc"
  "we_max_retries (redis_worker fr s c b svc) = LLM_JOB_MAX_RETRIES c"
  by (simp_all add: redis_worker_def)

text \<open>A backend raises only exceptions of its own libraries.\<close>

locale library_errors =
  fixes b :: "'w backend"
  assumes library [foreign_rules]:
    "foreign_only (rq_fetch b j)" "foreign_only (rq_get_position b j)" "foreign_only (rq_save_meta b job)"
    "foreign_only (redis_xadd b c raw)" "foreign_only (redis_expire b c t)"
    "foreign_only (redis_hincr b h f x)" "foreign_only (clock_now b)"

lemma foreign_catchA [foreign_rules]: "(\<And>e. foreign_only (h e)) \<Longrightarrow> foreign_only (catchA m h)"
  unfolding foreign_only_def catchA_Inl by blast

lemma foreign_option [foreign_rules]:
  "foreign_only m \<Longrightarrow> (\<And>x. foreign_only (k x)) \<Longrightarrow> foreign_only (case v of None \<Rightarrow> m | Some x \<Rightarrow> k x)"
  by (cases v) auto

lemma foreign_raise: "\<not> private_error e \<Longrightarrow> foreign_only (raiseA e)"
  by (simp add: foreign_only_def)

lemma library_classes:
  "\<not> private_error (mk_exn RuntimeError m)" "\<not> private_error (mk_exn (ForeignError n) m)"
  by (simp_all add: private_error_def)

context library_errors
begin

lemma foreign_elapsed: "foreign_only (compute_elapsed_seconds b call)"
  unfolding compute_elapsed_seconds_def Let_def by (intro foreign_rules library)

lemma foreign_store_serialize: "foreign_only (serialize_llm_call b call)"
  unfolding serialize_llm_call_def by (intro foreign_rules foreign_elapsed)

lemma foreign_store_save: "foreign_only (save_job_payload b job call)"
  unfolding save_job_payload_def Let_def by (intro foreign_rules foreign_store_serialize library)

lemma foreign_store_append: "foreign_only (append_stream_event fr s b j p)"
  unfolding append_stream_event_def Let_def by (intro foreign_rules library)

lemma foreign_store_metrics: "foreign_only (record_completion_metrics b call)"
  unfolding record_completion_metrics_def
  by (cases "job_started_at call"; cases "job_completed_at call") (auto intro!: foreign_rules library)

lemma foreign_store_cancel: "foreign_only (is_cancel_requested s (rq_queue_client s b) b j)"
  unfolding is_cancel_requested_def get_job_result_def client_ops Let_def
  by (intro foreign_rules foreign_raise library library_classes foreign_elapsed)

end

lemma save_core_redis:
  "save_job_payload b job call w = (Inr (job', call'), w') \<Longrightarrow>
     core_of call' = core_of call \<and> job' = job\<lparr>rq_meta := (rq_meta job)\<lparr>meta_llm_call := Some call'\<rparr>\<rparr>"
  by (auto simp: save_job_payload_def serialize_llm_call_def bindA_Inr Let_def)

sublocale library_errors \<subseteq> worker: worker_contract "redis_worker fr s c b svc"
proof
  fix job call w job' call' w'
  assume "js_save_job_payload (we_store (redis_worker fr s c b svc)) job call w = (Inr (job', call'), w')"
  then show "core_of call' = core_of call \<and> job' = job\<lparr>rq_meta := (rq_meta job)\<lparr>meta_llm_call := Some call'\<rparr>\<rparr>"
    by (simp add: save_core_redis)
next
  fix call w call' w'
  assume "js_serialize_llm_call (we_store (redis_worker fr s c b svc)) call w = (Inr call', w')"
  then show "core_of call' = core_of call" by (auto simp: serialize_llm_call_def bindA_Inr)
qed (use foreign_store_save foreign_store_serialize foreign_store_append foreign_store_metrics
       foreign_store_cancel library(7) in \<open>simp only: worker_ops store_ops foreign_only_def; blast\<close>)+

interpretation mem_errors: library_errors mem_backend
  by unfold_locales
    (auto simp: mem_backend_def foreign_only_def of_entry_def no_such_job_def library_classes split: option.splits)

text \<open>In memory: a stored call that nobody cancelled.\<close>

definition waiting_in :: "string \<Rightarrow> mem_world \<Rightarrow> bool" where
  "waiting_in j w \<longleftrightarrow> (\<exists>e c. mem_jobs w j = Some e \<and> je_result e = None
     \<and> meta_llm_call (je_meta e) = Some c \<and> \<not> cancel_requested c)"

lemma mem_ops:
  "rq_fetch mem_backend j = of_entry (\<lambda>e. \<lparr>rq_id = j, rq_meta = je_meta e, rq_result = je_result e\<rparr>) j"
  "rq_save_meta mem_backend job = modifyA (\<lambda>w. w\<lparr>mem_jobs := (mem_jobs w)(rq_id job :=
         map_option (\<lambda>e. e\<lparr>je_meta := rq_meta job\<rparr>) (mem_jobs w (rq_id job)))\<rparr>)"
  "rq_get_position mem_backend j = getA (mem_position j)"
  "clock_now mem_backend = getA mem_clock"
  "redis_xadd mem_backend c raw w = (Inr (str_nat (Suc (length (mem_log w c)))), mem_append c raw w)"
  "redis_expire mem_backend c t = retA ()"
  by (simp_all add: mem_backend_def fun_eq_iff)

lemma mem_elapsed: "\<exists>t. compute_elapsed_seconds mem_backend call w = (Inr t, w)"
  by (cases "job_completed_at call") (simp_all add: compute_elapsed_seconds_def mem_ops Let_def bindA_def)

lemma mem_not_cancelled:
  assumes "waiting_in j w"
  shows "is_cancel_requested s (rq_queue_client s mem_backend) mem_backend j w = (Inr False, w)"
proof -
  obtain e c where e: "mem_jobs w j = Some e" "je_result e = None" "meta_llm_call (je_meta e) = Some c"
      "\<not> cancel_requested c" using assms by (auto simp: waiting_in_def)
  have el: "\<exists>t. compute_elapsed_seconds mem_backend call w = (Inr t, w)" for call by (rule mem_elapsed)
  show ?thesis
    using e el[of "c\<lparr>stream_channel := Some (stream_channel_of s j)\<rparr>"] el[of c]
      el[of "c\<lparr>stream_channel := Some (stream_channel_of s j), queue_position := mem_position j w\<rparr>"]
      el[of "c\<lparr>queue_position := mem_position j w\<rparr>"]
    by (auto simp: is_cancel_requested_def get_job_result_def mem_ops of_entry_def bindA_def catchA_def Let_def)
qed

lemma mem_save:
  assumes "waiting_in j w" "rq_id job = j" "\<not> cancel_requested call"
  shows "\<exists>job' call' w'. save_job_payload mem_backend job call w = (Inr (job', call'), w') \<and> waiting_in j w'"
proof -
  obtain t where "compute_elapsed_seconds mem_backend call w = (Inr t, w)" using mem_elapsed by blast
  then show ?thesis using assms
    by (auto simp: save_job_payload_def serialize_llm_call_def bindA_def mem_ops Let_def waiting_in_def)
qed

interpretation mem_steady: steady_job "redis_worker fr s c mem_backend svc" jid "waiting_in jid"
  for fr s c svc jid
proof
  fix w assume "waiting_in jid w"
  then show "\<exists>w'. js_is_cancel_requested (we_store (redis_worker fr s c mem_backend svc)) jid w = (Inr False, w')
      \<and> waiting_in jid w'" by (simp add: mem_not_cancelled)
next
  fix w and job :: rq_job and call :: LLMCallJob assume "waiting_in jid w" "rq_id job = jid" "\<not> cancel_requested call"
  then show "\<exists>job' call' w'. js_save_job_payload (we_store (redis_worker fr s c mem_backend svc)) job call w
      = (Inr (job', call'), w') \<and> waiting_in jid w'" by (simp add: mem_save)
next
  fix w p assume "waiting_in jid w"
  then show "\<exists>i w'. js_append_stream_event (we_store (redis_worker fr s c mem_backend svc)) jid p w
      = (Inr i, w') \<and> waiting_in jid w'"
    by (auto simp: append_stream_event_def mem_ops bindA_def Let_def waiting_in_def mem_append_def)
next
  fix w t assume "waiting_in jid w"
  then show "\<exists>w'. js_record_wait_time (we_store (redis_worker fr s c mem_backend svc)) t w
      = (Inr (), w') \<and> waiting_in jid w'"
    by (auto simp: record_wait_time_def mem_backend_def bindA_def waiting_in_def)
next
  fix w assume "waiting_in jid w"
  then show "\<exists>t w'. we_utcnow (redis_worker fr s c mem_backend svc) w = (Inr t, w') \<and> waiting_in jid w'"
    by (simp add: mem_ops)
next
  fix w and call :: LLMCallJob assume "waiting_in jid w"
  then show "\<exists>w'. js_record_completion_metrics (we_store (redis_worker fr s c mem_backend svc)) call w
      = (Inr (), w') \<and> waiting_in jid w'"
    by (auto simp: record_completion_metrics_def mem_backend_def bindA_def waiting_in_def split: option.splits)
next
  fix w and call :: LLMCallJob assume "waiting_in jid w"
  moreover obtain t where "compute_elapsed_seconds mem_backend call w = (Inr t, w)" using mem_elapsed by blast
  ultimately show "\<exists>call' w'. js_serialize_llm_call (we_store (redis_worker fr s c mem_backend svc)) call w
      = (Inr call', w') \<and> waiting_in jid w'"
    by (simp add: serialize_llm_call_def bindA_def)
qed

section \<open>Properties\<close>

text \<open>C1. A run of a job that returns leaves the call in a terminal status, and returns that call.  When the
  job streams, or was cancelled, the last event it appended ends the stream and no earlier one does, so a
  reader sees everything; otherwise it appended nothing.\<close>

theorem finished_run_ends_stream_once:
  assumes "worker_contract env" and "process_llm_call env job payload w = (Inr r, s')"
  shows "ws_call s' = r \<and> terminal (job_status r)
    \<and> call_type r = call_type (start_call job payload)
    \<and> (if job_status r = JCancelled \<or> call_type r = StreamingTextGeneration
       then \<exists>front e. ws_sent s' = front @ [e] \<and> ends_stream e \<and> (\<forall>e\<in>set front. \<not> ends_stream e)
       else ws_sent s' = [])"
  using worker_contract.run_ends[OF assms] .

definition talking_service :: "'w model_service" where
  "talking_service = (down_service (mk_exn RuntimeError []))
     \<lparr>ms_stream_llm_sync := (\<lambda>messages mode params w. ((map content_chunk [''Ho'', ''la''], None), w))\<rparr>"

definition job_world :: mem_world where
  "job_world = empty_world\<lparr>mem_jobs := (\<lambda>j. None)(''j'' \<mapsto>
     \<lparr>je_status = ''started'', je_meta = no_meta\<lparr>meta_llm_call := Some Queue_Guarantees.sample_call\<rparr>,
      je_result = None\<rparr>)\<rparr>"

definition sample_job :: rq_job where
  "sample_job = \<lparr>rq_id = ''j'', rq_meta = no_meta\<lparr>meta_llm_call := Some Queue_Guarantees.sample_call\<rparr>,
     rq_result = None\<rparr>"

definition default_redis :: redis_config where
  "default_redis = projr (load_redis_config (\<lambda>_. None))"

definition mem_worker :: "mem_world model_service \<Rightarrow> mem_world worker_env" where
  "mem_worker svc = redis_worker (\<lambda>_. ''0.0'') default_settings default_redis mem_backend (retA svc)"

lemma mem_worker_steady: "steady_job (mem_worker svc) ''j'' (waiting_in ''j'')"
  unfolding mem_worker_def by (rule mem_steady.steady_job_axioms)

lemma sample_facts:
  "waiting_in ''j'' job_world" "start_call (Some sample_job) Queue_Guarantees.sample_call = Queue_Guarantees.sample_call"
  "rq_id sample_job = ''j''" "we_service (mem_worker svc) = retA svc"
  by (simp_all add: waiting_in_def job_world_def start_call_def sample_job_def no_meta_def mem_worker_def
      Queue_Guarantees.sample_call_def)

lemma sample_fields:
  "job_id Queue_Guarantees.sample_call = ''j''" "retry_count Queue_Guarantees.sample_call = 0"
  "\<not> cancel_requested Queue_Guarantees.sample_call" "job_parameters Queue_Guarantees.sample_call = []"
  "call_type Queue_Guarantees.sample_call = StreamingTextGeneration"
  by (simp_all add: Queue_Guarantees.sample_call_def)

lemma talking_answers:
  "ms_stream_llm_sync talking_service messages mode params w = ((map content_chunk [''Ho'', ''la''], None), w)"
  by (simp add: talking_service_def)

lemma sample_run:
  "\<exists>r s'. process_llm_call (mem_worker talking_service) (Some sample_job) Queue_Guarantees.sample_call job_world
      = (Inr r, s')"
proof -
  have "steady_job.ready ''j'' 0 (start_call (Some sample_job) Queue_Guarantees.sample_call)"
    by (simp add: steady_job.ready_def[OF mem_worker_steady] sample_facts sample_fields)
  from steady_job.answered_run[OF mem_worker_steady sample_facts(4,1,3) this _ _ talking_answers]
  show ?thesis by (simp add: sample_facts sample_fields) blast
qed

theorem finished_run_ends_stream_once_witness:
  "\<exists>r s' front e. process_llm_call (mem_worker talking_service) (Some sample_job) Queue_Guarantees.sample_call job_world
      = (Inr r, s') \<and> ws_sent s' = front @ [e] \<and> ends_stream e \<and> (\<forall>e\<in>set front. \<not> ends_stream e)"
proof -
  obtain r s' where run: "process_llm_call (mem_worker talking_service) (Some sample_job)
      Queue_Guarantees.sample_call job_world = (Inr r, s')" using sample_run by blast
  have "worker_contract (mem_worker talking_service)"
    unfolding mem_worker_def by (rule mem_errors.worker.worker_contract_axioms)
  moreover have "call_type (start_call (Some sample_job) Queue_Guarantees.sample_call) = StreamingTextGeneration"
    by (simp add: sample_facts sample_fields)
  ultimately show ?thesis using finished_run_ends_stream_once[OF _ run] run by auto
qed

text \<open>C7. A streaming job that nobody cancels and whose model service answers completes with the whole answer
  as its result, and its events carry the tokens of the answer, in order and each once.\<close>

theorem streamed_answer_is_complete:
  assumes "steady_job env jid fine" and "we_service env = retA svc" "fine w" "rq_id j = jid"
    and "start_call (Some j) payload = c" "job_id c = jid" "\<not> cancel_requested c" "job_parameters c = []"
    and "call_type c = StreamingTextGeneration" "\<forall>t\<in>set ts. t \<noteq> []"
    and "\<And>messages mode w. ms_stream_llm_sync svc messages mode [] w = ((map content_chunk ts, None), w)"
  shows "\<exists>r s'. process_llm_call env (Some j) payload w = (Inr r, s') \<and> job_status r = JCompleted
    \<and> job_result r = Some (JStr (concat ts)) \<and> tokens_sent s' = ts"
proof -
  have "steady_job.ready jid (retry_count c) (start_call (Some j) payload)"
    using assms(5-8) by (simp add: steady_job.ready_def[OF assms(1)])
  from steady_job.answered_run[OF assms(1-4) this _ assms(10,11)] assms(5,9) show ?thesis by simp
qed

theorem streamed_answer_is_complete_witness:
  "\<exists>r s'. process_llm_call (mem_worker talking_service) (Some sample_job) Queue_Guarantees.sample_call job_world
      = (Inr r, s') \<and> job_result r = Some (JStr ''Hola'') \<and> tokens_sent s' = [''Ho'', ''la'']"
proof -
  from streamed_answer_is_complete[OF mem_worker_steady sample_facts(4,1,3,2) _ _ _ _ _ talking_answers]
  show ?thesis by (simp add: sample_fields) blast
qed



lemma same_store:
  "save_call (env\<lparr>we_service := svc\<rparr>) = save_call env"
  "send_event (env\<lparr>we_service := svc\<rparr>) extra = send_event env extra"
  "serialize_call (env\<lparr>we_service := svc\<rparr>) = serialize_call env"
  by (auto simp: save_call_def send_event_def serialize_call_def fun_eq_iff split: option.split)

text \<open>C32. A job whose cancellation was requested before it started never reaches the model service, whichever
  that is, and returns as cancelled.\<close>

theorem cancelled_job_skips_model:
  assumes "worker_contract env"
    and "js_is_cancel_requested (we_store env) (job_id (start_call job payload)) w = (Inr True, w1)"
  shows "process_llm_call (env\<lparr>we_service := svc\<rparr>) job payload w = process_llm_call env job payload w
    \<and> (\<forall>r s'. process_llm_call env job payload w = (Inr r, s') \<longrightarrow>
         job_status r = JCancelled \<and> cancel_requested r)"
proof -
  let ?s = "(start_state job payload w)\<lparr>ws_world := w1, ws_call := (start_call job payload)\<lparr>cancel_requested := True\<rparr>\<rparr>"
  have run: "process_llm_call env' job payload w
      = finalize_cancelled_job env' ''LLM job was cancelled before processing started.'' ?s"
    if "we_store env' = we_store env" for env'
    using assms(2) that by (simp add: process_llm_call_def process_call_def cancel_wanted_def bindA_def on_store_def
        zoomA_def start_state_def)
  have "finalize_cancelled_job (env\<lparr>we_service := svc\<rparr>) = finalize_cancelled_job env"
    by (rule ext) (simp add: finalize_cancelled_job_def same_store)
  then have same: "process_llm_call (env\<lparr>we_service := svc\<rparr>) job payload w = process_llm_call env job payload w"
    using run[of env] run[of "env\<lparr>we_service := svc\<rparr>"] by simp
  have "job_status r = JCancelled \<and> cancel_requested r"
    if "process_llm_call env job payload w = (Inr r, s')" for r s'
    using that run[of env] worker_contract.finalize_ends[OF assms(1), of _ ?s r s'] by simp
  then show ?thesis using same by blast
qed

definition cancelled_world :: mem_world where
  "cancelled_world = empty_world\<lparr>mem_jobs := (\<lambda>j. None)(''j'' \<mapsto>
     \<lparr>je_status = ''started'', je_meta = no_meta\<lparr>meta_llm_call :=
        Some (Queue_Guarantees.sample_call\<lparr>cancel_requested := True\<rparr>)\<rparr>, je_result = None\<rparr>)\<rparr>"

theorem cancelled_job_skips_model_witness:
  "\<exists>r s'. process_llm_call (mem_worker talking_service) (Some sample_job) Queue_Guarantees.sample_call cancelled_world
      = (Inr r, s') \<and> job_status r = JCancelled \<and> cancel_requested r"
proof -
  let ?run = "process_llm_call (mem_worker talking_service) (Some sample_job) Queue_Guarantees.sample_call cancelled_world"
  let ?asked = "js_is_cancel_requested (we_store (mem_worker talking_service))
     (job_id (start_call (Some sample_job) Queue_Guarantees.sample_call)) cancelled_world"
  have ok: "\<not> isl (fst ?run)" "\<not> isl (fst ?asked)" "projr (fst ?asked)" by code_simp+
  then obtain r s' w1 where run: "?run = (Inr r, s')" and asked: "?asked = (Inr True, w1)"
    by (metis prod.collapse sum.collapse(2))
  have "worker_contract (mem_worker talking_service)"
    unfolding mem_worker_def by (rule mem_errors.worker.worker_contract_axioms)
  from cancelled_job_skips_model[OF this asked] run show ?thesis by blast
qed

section \<open>What the worker does not do\<close>

text \<open>No safe message contains \<^verbatim>\<open>timeout\<close>, the word the gateway looks for.\<close>

lemma safe_message_no_timeout: "\<not> contains ''timeout'' (lower (safe_error_message e))"
proof -
  have "safe_error_message e \<in> {''The external llama-server is unavailable.'',
      ''The model server interrupted generation.'', ''The language model job timed out.'',
      ''The language model worker hit an internal execution error.''}"
    by (simp add: safe_error_message_def Let_def)
  moreover have "\<forall>m\<in>{''The external llama-server is unavailable.'',
      ''The model server interrupted generation.'', ''The language model job timed out.'',
      ''The language model worker hit an internal execution error.''}. \<not> contains ''timeout'' (lower m)"
    by code_simp
  ultimately show ?thesis by blast
qed

text \<open>A malformed structured answer of the model server is a transient failure: it is retried.\<close>

lemma malformed_answer_is_transient: "transient (malformed m)"
  by (simp add: transient_def malformed_def private_error_def)

text \<open>\<^verbatim>\<open>enqueue_llm_call\<close> hands the job to RQ before it stores the call in the job's metadata: a worker that
  takes the job in between finds no call and raises, before it has written anything.\<close>

lemma worker_before_metadata:
  assumes "mem_jobs w (job_id payload) = Some \<lparr>je_status = st, je_meta = no_meta, je_result = None\<rparr>"
  shows "\<exists>e. process_llm_call (mem_worker svc) (Some \<lparr>rq_id = job_id payload, rq_meta = no_meta, rq_result = None\<rparr>)
      payload w = (Inl e, start_state (Some \<lparr>rq_id = job_id payload, rq_meta = no_meta, rq_result = None\<rparr>) payload w)
    \<and> exn_cls e = RuntimeError"
  using assms
  by (simp add: process_llm_call_def process_call_def cancel_wanted_def on_store_def zoomA_def bindA_def mem_worker_def
      is_cancel_requested_def get_job_result_def mem_ops of_entry_def start_state_def start_call_def no_meta_def Let_def)

end
