(* ===== verification/Queued_Gateway.thy ===== *)
theory Queued_Gateway
  imports Agent_Service Queue_Streams Worker_Guarantees
begin

text \<open>
  The gateways of the agent's port: the queue behind it (\<^verbatim>\<open>app/infrastructure/llm/queued_gateway.py\<close> and
  its subclass in \<^verbatim>\<open>app/infrastructure/redis/queued_gateway.py\<close>), and the model server itself.  Both
  satisfy the contract \<open>llm_port\<close> the agent relies on.  The last section follows a request through the
  queue, the worker and back.
\<close>

section \<open>Jobs of the gateway\<close>

text \<open>The job a request becomes; its key (\<^verbatim>\<open>uuid4\<close>) is a parameter, its time the clock's.\<close>

definition new_job ::
  "string \<Rightarrow> call_type \<Rightarrow> string \<Rightarrow> string \<Rightarrow> string option \<Rightarrow> json option \<Rightarrow> rat \<Rightarrow> LLMCallJob" where
  "new_job jid ct sys prompt m schema now =
     \<lparr>job_id = jid, call_type = ct, job_prompt = Some prompt, job_messages = chat_messages sys prompt,
      job_mode = m, job_parameters = [], response_schema = schema, job_created_at = now,
      job_started_at = None, job_completed_at = None, job_status = JQueued, cancel_requested = False,
      queue_position = None, elapsed_seconds = None, stream_channel = None, retry_count = 0,
      last_error = None, job_result = None, job_error = None\<rparr>"

definition submit ::
  "'w LLMQueueService \<Rightarrow> string \<Rightarrow> call_type \<Rightarrow> string \<Rightarrow> string \<Rightarrow> string option \<Rightarrow> json option
     \<Rightarrow> ('w, rq_job \<times> LLMCallJob) act" where
  "submit v jid ct sys prompt m schema =
     bindA (qs_utcnow v) (\<lambda>now. enqueue_llm_call v (new_job jid ct sys prompt m schema now))"

section \<open>Asking\<close>

definition llm_service_error :: "string \<Rightarrow> exn" where
  "llm_service_error msg = api_error LLMServiceError (Some msg) None"

text \<open>What a job that ended means for the caller.\<close>

definition answer_of :: "LLMCallJob \<Rightarrow> json res" where
  "answer_of call =
     (if job_status call \<noteq> JCompleted then
        if job_status call = JCancelled then Inl (llm_service_error ''The language model request was cancelled.'')
        else if (case last_error call of None \<Rightarrow> False | Some e \<Rightarrow> e \<noteq> [] \<and> contains ''timeout'' (lower e))
        then Inl (api_error GenerationTimeoutError None None)
        else Inl (llm_service_error ''The language model failed while generating a response.'')
      else case job_result call of
        Some (JObj d) \<Rightarrow> Inr (JObj d)
      | _ \<Rightarrow> Inl (llm_service_error ''The language model returned an invalid response.''))"

text \<open>Waiting for the job; \<^const>\<open>None\<close> means it still waits.\<close>

definition collect :: "nat \<Rightarrow> 'w LLMQueueService \<Rightarrow> string \<Rightarrow> 'w \<Rightarrow> json res option \<times> 'w" where
  "collect fuel v jid w =
     (case wait_for_job_result fuel v jid w of
        (None, w') \<Rightarrow> (None, w')
      | (Some (Inl e), w') \<Rightarrow>
          (Some (Inl (if isinstance e TimeoutError then api_error QueueWaitTimeoutError None None else e)), w')
      | (Some (Inr call), w') \<Rightarrow> (Some (answer_of call), w'))"

definition queued_ask ::
  "nat \<Rightarrow> 'w LLMQueueService \<Rightarrow> string \<Rightarrow> string \<Rightarrow> string \<Rightarrow> json \<Rightarrow> string option \<Rightarrow> 'w
     \<Rightarrow> json res option \<times> 'w" where
  "queued_ask fuel v jid sys prompt schema m w =
     (case submit v jid StructuredJson sys prompt m (Some schema) w of
        (Inl e, w') \<Rightarrow> (Some (Inl e), w')
      | (Inr _, w') \<Rightarrow> collect fuel v jid w')"

section \<open>Streaming\<close>

definition queued_stream ::
  "nat \<Rightarrow> 'w LLMQueueService \<Rightarrow> string \<Rightarrow> string \<Rightarrow> string \<Rightarrow> string option \<Rightarrow> 'w
     \<Rightarrow> (payload list \<times> ending option) \<times> 'w" where
  "queued_stream fuel v jid sys prompt m w =
     (case submit v jid StreamingTextGeneration sys prompt m None w of
        (Inl e, w') \<Rightarrow> (([], Some (Failed e)), w')
      | (Inr _, w') \<Rightarrow>
          (case js_stream_llm_events (qs_store v) fuel jid (llm_stream_timeout_seconds (qs_settings v)) w' of
             ((ys, Some (Failed e)), w'') \<Rightarrow>
               ((ys, Some (Failed (if isinstance e TimeoutError
                                   then api_error StreamingTimeoutError None None else e))), w'')
           | r \<Rightarrow> r))"

definition cancel_job :: "'w LLMQueueService \<Rightarrow> string \<Rightarrow> ('w, LLMCallJob) act" where
  "cancel_job v jid = cancel_llm_call v jid"

section \<open>The service without a queue of its own\<close>

text \<open>\<^verbatim>\<open>QueuedLLMService()\<close>: built without a service it goes through the functions of the queue module.\<close>

definition compat_submit ::
  "'w queue_module \<Rightarrow> string \<Rightarrow> call_type \<Rightarrow> string \<Rightarrow> string \<Rightarrow> string option \<Rightarrow> json option
     \<Rightarrow> ('w, rq_job \<times> LLMCallJob) act" where
  "compat_submit m jid ct sys prompt md schema =
     bindA (liftA (qm_settings m)) (\<lambda>s.
     bindA (clock_now (qm_connect m (redis_url s))) (\<lambda>now.
     module_enqueue_llm_call m (new_job jid ct sys prompt md schema now) None))"

definition service_ask ::
  "'w queue_module \<Rightarrow> 'w LLMQueueService option \<Rightarrow> nat \<Rightarrow> string \<Rightarrow> string \<Rightarrow> string \<Rightarrow> json \<Rightarrow> string option \<Rightarrow> 'w
     \<Rightarrow> json res option \<times> 'w" where
  "service_ask m svc fuel jid sys prompt schema md w =
     (case svc of
        Some v \<Rightarrow> queued_ask fuel v jid sys prompt schema md w
      | None \<Rightarrow>
          (case compat_submit m jid StructuredJson sys prompt md (Some schema) w of
             (Inl e, w') \<Rightarrow> (Some (Inl e), w')
           | (Inr _, w') \<Rightarrow>
               (case module_wait_for_job_result m fuel jid None None w' of
                  (None, w'') \<Rightarrow> (None, w'')
                | (Some (Inl e), w'') \<Rightarrow>
                    (Some (Inl (if isinstance e TimeoutError then api_error QueueWaitTimeoutError None None
                                else e)), w'')
                | (Some (Inr call), w'') \<Rightarrow> (Some (answer_of call), w''))))"

definition service_stream ::
  "'w queue_module \<Rightarrow> 'w LLMQueueService option \<Rightarrow> nat \<Rightarrow> string \<Rightarrow> string \<Rightarrow> string \<Rightarrow> string option \<Rightarrow> 'w
     \<Rightarrow> (payload list \<times> ending option) \<times> 'w" where
  "service_stream m svc fuel jid sys prompt md w =
     (case svc of
        Some v \<Rightarrow> queued_stream fuel v jid sys prompt md w
      | None \<Rightarrow>
          (case compat_submit m jid StreamingTextGeneration sys prompt md None w of
             (Inl e, w') \<Rightarrow> (([], Some (Failed e)), w')
           | (Inr _, w') \<Rightarrow>
               (case module_stream_llm_events m fuel jid None w' of
                  ((ys, Some (Failed e)), w'') \<Rightarrow>
                    ((ys, Some (Failed (if isinstance e TimeoutError
                                        then api_error StreamingTimeoutError None None else e))), w'')
                | r \<Rightarrow> r)))"

definition service_cancel ::
  "'w queue_module \<Rightarrow> 'w LLMQueueService option \<Rightarrow> string \<Rightarrow> ('w, LLMCallJob) act" where
  "service_cancel m svc jid =
     (case svc of Some v \<Rightarrow> cancel_job v jid | None \<Rightarrow> module_cancel_llm_call m jid None)"

section \<open>The gateways behind the port\<close>

text \<open>The queued gateway with a fixed key and fuel; a call that ran out of fuel shows as an exception of its
  own, which the bounds below exclude.\<close>

definition out_of_fuel :: exn where
  "out_of_fuel = mk_exn (ForeignError ''OutOfFuel'') []"

definition queued_gateway :: "nat \<Rightarrow> 'w LLMQueueService \<Rightarrow> string \<Rightarrow> 'w llm_gateway" where
  "queued_gateway fuel v jid =
     \<lparr>gw_ask = (\<lambda>sys prompt schema m w.
        case queued_ask fuel v jid sys prompt schema m w of
          (None, w') \<Rightarrow> (Inl out_of_fuel, w') | (Some r, w') \<Rightarrow> (r, w')),
      gw_stream = (\<lambda>sys prompt m w.
        case queued_stream fuel v jid sys prompt m w of
          ((ys, e), w') \<Rightarrow>
            ((map DictItem ys, case e of None \<Rightarrow> Failed out_of_fuel | Some x \<Rightarrow> x), w')),
      gw_cancel = Some (\<lambda>job. bindA (cancel_job v job) (\<lambda>_. retA ()))\<rparr>"

definition llama_gateway :: "post_fun \<Rightarrow> stream_fun \<Rightarrow> gateway \<Rightarrow> 'w llm_gateway" where
  "llama_gateway post open_stream g =
     \<lparr>gw_ask = (\<lambda>sys prompt schema m. liftA (ask_llm post g sys prompt schema m)),
      gw_stream = (\<lambda>sys prompt m w.
        case stream_llm open_stream g sys prompt m of
          (ts, e) \<Rightarrow> ((map TokenItem ts, case e of None \<Rightarrow> Finished | Some x \<Rightarrow> Failed x), w)),
      gw_cancel = None\<rparr>"

interpretation llama: llm_port "llama_gateway post open_stream g" for post open_stream g
  by unfold_locales (auto simp: llama_gateway_def split: prod.splits)

text \<open>Every event the reader yields was a JSON object, so its keys are distinct.\<close>

lemma decode_distinct: "decode_record r = Inr (i, p) \<Longrightarrow> distinct (map fst p)"
  by (auto simp: decode_record_def distinct_delete dest: json_loads_distinct
      split: prod.splits option.splits json.splits)

lemma set_upto_end: "set (upto_end ys) \<subseteq> set ys"
  by (induction ys) auto

lemma poll_distinct:
  "poll_stream n s b jid timeout deadline i w = ((ys, e), w') \<Longrightarrow> y \<in> set ys \<Longrightarrow> distinct (map fst y)"
proof (induction n s b jid timeout deadline i w arbitrary: ys e w' rule: poll_stream.induct)
  case (2 n s b jid timeout deadline i w)
  let ?round = "bindA (redis_xread b (stream_channel_of s jid) i) (\<lambda>recs.
           bindA (liftA (map_res decode_record recs)) (\<lambda>events.
           bindA (loop_time b) (\<lambda>t. retA (events, t)))) w"
  show ?case
  proof (cases ?round)
    case (Pair r w1)
    show ?thesis
    proof (cases r)
      case (Inl x)
      then show ?thesis using 2 Pair by simp
    next
      case (Inr et)
      obtain events t where et: "et = (events, t)" by (cases et)
      obtain recs where "map_res decode_record recs = Inr events"
        using Pair Inr et by (auto simp: bindA_Inr)
      then have dist: "distinct (map fst p)" if "(k, p) \<in> set events" for k p
        using that by (auto simp: map_res_Inr list_all2_conv_all_nth in_set_conv_nth dest!: decode_distinct)
      show ?thesis
      proof (cases "events = []")
        case True
        then show ?thesis using 2 Pair Inr et by (auto split: if_splits)
      next
        case False
        obtain zs stopped l where y: "yield_events i events = (zs, stopped, l)" using prod_cases3 by blast
        have zs: "\<forall>z\<in>set zs. distinct (map fst z)"
          using yield_events_eq[OF y] set_upto_end[of "map snd events"] dist by fastforce
        show ?thesis
        proof (cases stopped)
          case True
          then show ?thesis using 2 Pair Inr et False y zs by auto
        next
          case nostop: False
          obtain us f w2 where p: "poll_stream n s b jid timeout (t + of_int timeout) l w1 = ((us, f), w2)"
            by (metis prod.collapse)
          have "ys = zs @ us" using 2(3) Pair Inr et False y nostop p by simp
          moreover have "y \<in> set us \<Longrightarrow> distinct (map fst y)"
            using "2.IH"(2)[OF Pair[symmetric] Inr et[symmetric] False y[symmetric] refl nostop p] by blast
          ultimately show ?thesis using 2(4) zs by auto
        qed
      qed
    qed
  qed
qed simp

interpretation queued: llm_port "queued_gateway fuel (redis_service fr s b) jid" for fuel fr s b jid
proof
  fix sys prompt m w items e w' d
  assume "gw_stream (queued_gateway fuel (redis_service fr s b) jid) sys prompt m w = ((items, e), w')"
    and "DictItem d \<in> set items"
  then obtain w1 ys x w2 where "stream_llm_events s b fuel jid (llm_stream_timeout_seconds s) w1 = ((ys, x), w2)"
      "d \<in> set ys"
    by (auto simp: queued_gateway_def queued_stream_def split: prod.splits sum.splits option.splits ending.splits)
  then show "distinct (map fst d)"
    by (auto simp: stream_llm_events_def dest: poll_distinct split: prod.splits sum.splits)
qed

section \<open>A request through the queue\<close>

text \<open>The part of a call that describes the request; the worker never changes it.\<close>

definition request_of :: "LLMCallJob \<Rightarrow> (string \<times> string) list list \<times> json option \<times> string option" where
  "request_of c = (job_messages c, response_schema c, job_mode c)"

lemma core_request: "core_of c = core_of d \<Longrightarrow> request_of c = request_of d"
  by (cases c, cases d) (simp add: core_of_def request_of_def)

lemma core_answer: "core_of c = core_of d \<Longrightarrow> answer_of c = answer_of d"
  by (cases c, cases d) (simp add: core_of_def answer_of_def)

lemma start_call_facts:
  assumes "meta_llm_call (rq_meta j) = Some c"
  shows "request_of (start_call (Some j) payload) = request_of c"
    and "call_type (start_call (Some j) payload) = call_type c"
    and "job_id (start_call (Some j) payload) = job_id c"
    and "cancel_requested (start_call (Some j) payload) = cancel_requested c"
    and "job_parameters (start_call (Some j) payload) = job_parameters c"
  using assms by (simp_all add: start_call_def request_of_def Let_def)

abbreviation request_in :: "'w worker_state \<Rightarrow> (string \<times> string) list list \<times> json option \<times> string option" where
  "request_in s \<equiv> request_of (ws_call s)"

lemma keeps_request_store [keeps_rules]: "keeps request_in (on_store m)"
  unfolding on_store_def by (intro keeps_rules) simp

lemma keeps_request_set:
  "(\<And>c. request_of (f c) = request_of c) \<Longrightarrow> keeps request_in (set_call f)"
  unfolding set_call_def by (intro keeps_rules) simp

lemma keeps_request_send [keeps_rules]: "keeps request_in (send_event env extra)"
  unfolding send_event_def Let_def by (intro keeps_rules) simp

lemma keeps_request_when [keeps_rules]: "keeps request_in m \<Longrightarrow> keeps request_in (when_streaming m)"
  unfolding when_streaming_def streaming_def by (intro keeps_rules) (simp add: keeps_basic)

context worker_contract
begin

lemma keeps_request_save: "keeps request_in (save_call env)"
proof -
  have "request_in (snd (save_call env s)) = request_in s" for s
    by (auto simp: save_call_def split: option.split prod.split sum.split dest!: save_core core_request)
  then show ?thesis by (simp add: keeps_def)
qed

lemma keeps_request_begin: "keeps request_in (begin_processing env)"
  unfolding begin_processing_def
  by (intro keeps_rules keeps_request_save keeps_request_set) (simp_all add: request_of_def)

end

text \<open>A run of a structured job.\<close>

context steady_job
begin

lemma asked_model:
  assumes s: "at_work n StructuredJson s" and "request_in s = (messages, schema, m)"
    and answer: "\<And>w. ms_ask_llm_sync svc messages
        (case schema of Some j \<Rightarrow> if truthy j then j else JObj [] | None \<Rightarrow> JObj []) m [] w = (Inr answer, w)"
  shows "call_model env svc s = (Inr (), s\<lparr>ws_call := (ws_call s)\<lparr>job_result := Some answer\<rparr>\<rparr>)"
    and "at_work n StructuredJson (s\<lparr>ws_call := (ws_call s)\<lparr>job_result := Some answer\<rparr>\<rparr>)"
proof -
  have f: "job_parameters (ws_call s) = []" "call_type (ws_call s) = StructuredJson"
      "job_messages (ws_call s) = messages" "response_schema (ws_call s) = schema" "job_mode (ws_call s) = m"
    using assms(1,2) by (auto simp: at_work_def ready_def request_of_def)
  show "call_model env svc s = (Inr (), s\<lparr>ws_call := (ws_call s)\<lparr>job_result := Some answer\<rparr>\<rparr>)"
    using f answer by (simp add: call_model_def check_keywords_def on_store_def zoomA_def bindA_def catchA_def)
  show "at_work n StructuredJson (s\<lparr>ws_call := (ws_call s)\<lparr>job_result := Some answer\<rparr>\<rparr>)"
    using s by (simp add: at_work_def ready_def)
qed

lemma asked_run:
  assumes "we_service env = retA svc" "fine w" "rq_id j = jid" "meta_llm_call (rq_meta j) = Some c"
    and c: "job_id c = jid" "\<not> cancel_requested c" "job_parameters c = []" "call_type c = StructuredJson"
      "request_of c = (messages, schema, m)"
    and answer: "\<And>w. ms_ask_llm_sync svc messages
        (case schema of Some j \<Rightarrow> if truthy j then j else JObj [] | None \<Rightarrow> JObj []) m [] w = (Inr answer, w)"
  shows "\<exists>r s'. process_llm_call env (Some j) payload w = (Inr r, s') \<and> job_status r = JCompleted
    \<and> job_result r = Some answer"
proof -
  let ?s = "start_state (Some j) payload w" and ?ct = StructuredJson
  define n where "n = retry_count (start_call (Some j) payload)"
  have s: "at_work n ?ct ?s"
    using assms(2,3) c start_call_facts[OF assms(4), of payload]
    by (simp add: at_work_def start_state_def ready_def n_def)
  obtain s1 where c1: "cancel_wanted env ?s = (Inr False, s1)" "at_work n ?ct s1"
    using works_cancel_wanted[OF s] by blast
  obtain s2 where b: "begin_processing env s1 = (Inr (), s2)" "at_work n ?ct s2"
    using works_unit[OF works_begin c1(2)] by blast
  have "ws_call s1 = ws_call ?s" using c1(1) by (auto simp: cancel_wanted_def on_store_Inr)
  then have req: "request_in s2 = (messages, schema, m)"
    using keepsD[OF keeps_request_begin b(1)] start_call_facts(1)[OF assms(4), of payload] c(5)
    by (simp add: start_state_def)
  let ?s3 = "s2\<lparr>ws_call := (ws_call s2)\<lparr>job_result := Some answer\<rparr>\<rparr>"
  note m = asked_model[OF b(2) req answer]
  obtain s4 where c4: "cancel_wanted env ?s3 = (Inr False, s4)" "at_work n ?ct s4"
    using works_cancel_wanted[OF m(2)] by blast
  obtain r s' where f: "complete_job env s4 = (Inr r, s')"
    using works_complete c4(2) unfolding works_def by blast
  have run: "process_llm_call env (Some j) payload w = (Inr r, s')"
    by (simp add: process_llm_call_def process_call_def bindA_def catchA_def c1(1) b(1) attempt_def
        assms(1) on_store_def zoomA_def m(1) c4(1) f)
  have "ws_call s4 = ws_call ?s3" using c4(1) by (auto simp: cancel_wanted_def on_store_Inr)
  then have "job_result r = Some answer" using complete_result[OF f] by simp
  then show ?thesis using run complete_ends[OF f] by blast
qed

end

text \<open>Collecting a job that RQ has finished with a result.\<close>

context rq_server
begin

lemma collected_answer:
  assumes e: "v_jobs (view w) jid = Some e" "je_status e = ''finished''" "je_result e = Some r"
    and "terminal (job_status r)"
    and wait: "wait_for_job_result fuel (redis_service fr s b) jid w = (Some (Inr c), w')"
  shows "core_of c = core_of r"
proof -
  obtain t w1 where t: "loop_time b w = (Inr t, w1)"
      and loop: "wait_loop fuel (redis_service fr s b) jid
        (t + of_int (llm_queue_wait_timeout_seconds s)) w1 = (Some (Inr c), w')"
    using wait by (auto simp: wait_for_job_result_def split: prod.splits sum.splits)
  have v1: "view w1 = view w" using keepsD[OF reads(13) t] .
  obtain n where n: "fuel = Suc n" using loop by (cases fuel) auto
  let ?d = "t + of_int (llm_queue_wait_timeout_seconds s)"
  obtain y w2 where round: "wait_round (redis_service fr s b) jid ?d w1 = (Inr y, w2)"
    using loop n by (auto split: prod.splits sum.splits)
  obtain call w3 where call: "get_job_status (redis_service fr s b) jid w1 = (Inr call, w3)"
    using round by (auto simp: wait_round_def bindA_Inr)
  from service_status[OF call] obtain c0 e0 where
    c0: "stored (view w1) jid = Some c0" "v_jobs (view w1) jid = Some e0"
      "core_of call = core_of (c0\<lparr>job_status := reported_status (job_status c0) (je_status e0)\<rparr>)"
      "view w3 = view w1" by blast
  have c0r: "c0 = r" "e0 = e" using c0(1,2) e v1 by (simp_all add: stored_def)
  have "reported_status (job_status r) ''finished'' = job_status r"
    by (simp add: reported_status_def waiting_status_def started_status_def canceled_status_def failed_status_def)
  then have "job_status call = job_status r"
    using core_ofD(1)[OF c0(3)] c0r e(2) by simp
  then obtain result where res: "js_get_job_result (redis_job_store fr s (rq_queue_client s b) b) jid w3
      = (Inr result, w2)" "y = Some result"
    using round call assms(4) by (auto simp: wait_round_def bindA_def split: prod.splits sum.splits)
  have "c = result" using loop n round res(2) by simp
  moreover have "core_of result = core_of r"
    using ports.get_job_result[OF res(1)] c0 c0r v1 by auto
  ultimately show ?thesis by simp
qed

end


definition asking_service :: "'w model_service" where
  "asking_service = (down_service (mk_exn RuntimeError []))
     \<lparr>ms_ask_llm_sync := (\<lambda>messages schema mode params. retA (JObj [(''term'', JStr ''hola'')]))\<rparr>"

text \<open>RQ keeps the value a job function returned.\<close>

definition mem_finish :: "string \<Rightarrow> LLMCallJob \<Rightarrow> mem_world \<Rightarrow> mem_world" where
  "mem_finish jid r w = w\<lparr>mem_jobs := (mem_jobs w)(jid \<mapsto>
     \<lparr>je_status = ''finished'', je_meta = no_meta, je_result = Some r\<rparr>)\<rparr>"

lemma case_run: "(case x of (Inr a, w) \<Rightarrow> P a w | _ \<Rightarrow> False) \<Longrightarrow> \<exists>a w. x = (Inr a, w) \<and> P a w"
  by (auto split: prod.splits sum.splits)

lemma asking_answers:
  "ms_ask_llm_sync asking_service messages schema m params w = (Inr (JObj [(''term'', JStr ''hola'')]), w)"
  by (simp add: asking_service_def)


end
