(* ===== verification/Python_Values.thy ===== *)
theory Python_Values
  imports App_Config Conversation
begin

text \<open>
  The conversions of decoded JSON values the interface layers use: \<^verbatim>\<open>str\<close>, \<^verbatim>\<open>repr\<close>, \<^verbatim>\<open>int\<close> and the
  lookup of a key.
\<close>

text \<open>\<^verbatim>\<open>str(value)\<close> and \<^verbatim>\<open>int(value)\<close> of a decoded value; the text of a float is a parameter.\<close>

fun py_repr :: "(rat \<Rightarrow> string) \<Rightarrow> json \<Rightarrow> string" where
  "py_repr fr JNull = ''None''"
| "py_repr fr (JBool b) = (if b then ''True'' else ''False'')"
| "py_repr fr (JInt i) = str_int i"
| "py_repr fr (JFloat (Fin r)) = fr r"
| "py_repr fr (JFloat PosInf) = ''inf''"
| "py_repr fr (JFloat NegInf) = ''-inf''"
| "py_repr fr (JFloat NaN) = ''nan''"
| "py_repr fr (JStr s) = repr_str s"
| "py_repr fr (JList xs) = ''['' @ join '', '' (map (py_repr fr) xs) @ '']''"
| "py_repr fr (JObj kvs) =
     ''{'' @ join '', '' (map (\<lambda>kv. repr_str (fst kv) @ '': '' @ py_repr fr (snd kv)) kvs) @ ''}''"

definition py_str :: "(rat \<Rightarrow> string) \<Rightarrow> json \<Rightarrow> string" where
  "py_str fr v = (case v of JStr s \<Rightarrow> s | _ \<Rightarrow> py_repr fr v)"

definition py_int_of :: "json \<Rightarrow> int res" where
  "py_int_of v = (case v of
     JInt i \<Rightarrow> Inr i
   | JBool b \<Rightarrow> Inr (if b then 1 else 0)
   | JFloat (Fin r) \<Rightarrow> Inr (if 0 \<le> r then \<lfloor>r\<rfloor> else \<lceil>r\<rceil>)
   | JFloat NaN \<Rightarrow> Inl (mk_exn ValueError [])
   | JFloat _ \<Rightarrow> Inl (mk_exn (ForeignError ''OverflowError'') [])
   | JStr s \<Rightarrow> to_int s
   | _ \<Rightarrow> Inl (mk_exn TypeError []))"

text \<open>\<^verbatim>\<open>data[key]\<close>, and the optional text fields.\<close>

definition item :: "(string \<times> json) list \<Rightarrow> string \<Rightarrow> json res" where
  "item d k = (case map_of d k of None \<Rightarrow> Inl (mk_exn KeyError k) | Some v \<Rightarrow> Inr v)"

end
