(* ===== verification/Webui_Client.thy ===== *)
theory Webui_Client
  imports App_Config Json_Text Python_Values
begin

text \<open>
  The web UI's client of the HTTP API (\<^verbatim>\<open>webui/client.py\<close>): its configuration, the five calls, the
  classification of failures and the reader of server-sent events.  The HTTP library is a parameter:
  an open client turns a request into a failure or a reply.  Logging is left out.
\<close>

section \<open>Errors\<close>

text \<open>\<^verbatim>\<open>BackendHTTPError\<close> and its subclasses carry the status and the error code.\<close>

definition backend_http_error :: "exn_class \<Rightarrow> string \<Rightarrow> int \<Rightarrow> string \<Rightarrow> exn" where
  "backend_http_error c msg status code = Exn c msg (BackendInfo status code)"

definition error_status :: "exn \<Rightarrow> int" where
  "error_status e = (case exn_extra e of BackendInfo s _ \<Rightarrow> s | _ \<Rightarrow> 0)"

definition error_code :: "exn \<Rightarrow> string" where
  "error_code e = (case exn_extra e of BackendInfo _ c \<Rightarrow> c | _ \<Rightarrow> [])"

text \<open>The class attribute \<^verbatim>\<open>category\<close>.\<close>

fun category :: "exn_class \<Rightarrow> string" where
  "category BackendUnavailableError = ''backend_unavailable''"
| "category BackendTimeoutError = ''backend_timeout''"
| "category BackendHTTPError = ''backend_http_error''"
| "category BackendAuthenticationError = ''backend_authentication''"
| "category BackendUserAuthenticationError = ''backend_user_authentication''"
| "category BackendValidationError = ''backend_validation''"
| "category BackendConflictError = ''backend_conflict''"
| "category BackendFeatureDisabledError = ''backend_feature_disabled''"
| "category BackendAuthConfigurationError = ''backend_auth_configuration''"
| "category BackendInvalidResponseError = ''backend_invalid_response''"
| "category BackendStreamError = ''backend_stream_error''"
| "category _ = ''backend_error''"

section \<open>Configuration\<close>

record BackendConfig =
  bc_base_url :: string
  bc_timeout_seconds :: pyfloat
  bc_streaming_enabled :: bool
  bc_api_key :: string

definition strip_slashes :: "string \<Rightarrow> string" where
  "strip_slashes s = rev (dropWhile (\<lambda>c. c = CHR ''/'') (rev s))"

definition backend_config :: "env \<Rightarrow> BackendConfig" where
  "backend_config env =
     \<lparr>bc_base_url = strip_slashes (getenv env ''FASTAPI_BASE_URL'' ''http://localhost:8000''),
      bc_timeout_seconds =
        (case to_float (getenv env ''WEBUI_REQUEST_TIMEOUT_SECONDS'' ''120.0'') of
           Inl _ \<Rightarrow> Fin 120 | Inr f \<Rightarrow> f),
      bc_streaming_enabled = parse_bool (getenv env ''WEBUI_STREAMING_ENABLED'' ''true'') True,
      bc_api_key = strip (getenv env ''FASTAPI_API_KEY'' [])\<rparr>"

section \<open>The HTTP library\<close>

text \<open>A call fails with a timeout, with another \<^verbatim>\<open>RequestError\<close> and its text, or outside that family.\<close>

datatype call_error = CallTimeout | CallRequest string | CallForeign exn

record web_reply =
  wr_status :: int
  wr_body :: string

text \<open>A streamed reply: its status, what reading its body as a whole gives, and its lines with the
  failure that ends them, if any.\<close>

record web_stream =
  ws_status :: int
  ws_body :: "call_error + string"
  ws_lines :: "string list"
  ws_end :: "call_error option"

record 'w web_client =
  wc_get :: "string \<Rightarrow> 'w \<Rightarrow> (call_error + web_reply) \<times> 'w"
  wc_post :: "string \<Rightarrow> (string \<times> json) list \<Rightarrow> (string \<times> string) list \<Rightarrow> 'w
                \<Rightarrow> (call_error + web_reply) \<times> 'w"
  wc_stream :: "string \<Rightarrow> (string \<times> json) list \<Rightarrow> (string \<times> string) list \<Rightarrow> 'w
                \<Rightarrow> (call_error + web_stream) \<times> 'w"

text \<open>\<^verbatim>\<open>FastAPIClient\<close>: its configuration, and the library's \<^verbatim>\<open>AsyncClient(base_url, timeout)\<close>.\<close>

record 'w fastapi_client =
  fc_config :: BackendConfig
  fc_open :: "string \<Rightarrow> pyfloat \<Rightarrow> 'w web_client"

definition client_of :: "'w fastapi_client \<Rightarrow> 'w web_client" where
  "client_of c = fc_open c (bc_base_url (fc_config c)) (bc_timeout_seconds (fc_config c))"

definition auth_headers :: "'w fastapi_client \<Rightarrow> (string \<times> string) list res" where
  "auth_headers c =
     (if bc_api_key (fc_config c) = []
      then Inl (mk_exn BackendAuthConfigurationError ''The Web UI is missing the backend API key.'')
      else Inr [(''X-API-Key'', bc_api_key (fc_config c))])"

definition build_chat_payload :: "string \<Rightarrow> string option \<Rightarrow> (string \<times> json) list" where
  "build_chat_payload msg m =
     [(''message'', JStr msg), (''metadata'', JObj [(''client'', JStr ''chainlit-webui'')])]
     @ (case m of None \<Rightarrow> [] | Some x \<Rightarrow> [(''mode'', JStr x)])"

section \<open>Reading a reply\<close>

definition format_backend_error :: "web_reply \<Rightarrow> string \<times> string" where
  "format_backend_error r =
     (let fallback = ''Backend request failed with HTTP '' @ str_int (wr_status r) @ ''.'' in
      case json_loads (wr_body r) of
        Some (JObj d) \<Rightarrow>
          (case (jget d ''message'', jget d ''error'') of
             (JStr m, JStr e) \<Rightarrow> (m @ '' ('' @ e @ '')'', e)
           | (JStr m, _) \<Rightarrow> (m, [])
           | _ \<Rightarrow> (fallback, []))
      | _ \<Rightarrow> (fallback, []))"

definition format_request_error :: "string \<Rightarrow> string" where
  "format_request_error msg =
     (if strip msg \<noteq> [] then ''Could not connect to the FastAPI backend: '' @ strip msg
      else ''Could not connect to the FastAPI backend.'')"

text \<open>\<^verbatim>\<open>raise_for_status\<close> raises for every status but the two hundreds.\<close>

definition is_success :: "int \<Rightarrow> bool" where
  "is_success status \<longleftrightarrow> 200 \<le> status \<and> status \<le> 299"

definition raise_for_error :: "int list \<Rightarrow> web_reply \<Rightarrow> unit res" where
  "raise_for_error invalid_user r =
     (if is_success (wr_status r) then Inr ()
      else case format_backend_error r of (msg, code) \<Rightarrow>
        if wr_status r \<in> set invalid_user \<and> code = ''invalid_credentials''
        then Inl (backend_http_error BackendUserAuthenticationError ''Invalid username or password.''
                    (wr_status r) code)
        else if wr_status r = 401
        then Inl (backend_http_error BackendAuthenticationError
                    ''The Web UI could not authenticate with the backend.'' (wr_status r) code)
        else Inl (backend_http_error BackendHTTPError msg (wr_status r) code))"

definition json_response :: "int list \<Rightarrow> web_reply \<Rightarrow> (string \<times> json) list res" where
  "json_response invalid_user r =
     bind_res (raise_for_error invalid_user r) (\<lambda>_.
     case json_loads (wr_body r) of
       None \<Rightarrow> Inl (mk_exn BackendInvalidResponseError ''Backend returned an invalid JSON response.'')
     | Some (JObj d) \<Rightarrow> Inr d
     | Some _ \<Rightarrow> Inl (mk_exn BackendInvalidResponseError ''Backend returned an unexpected response shape.''))"

text \<open>The two \<^verbatim>\<open>except\<close> clauses around every call.\<close>

definition call_exn :: "string \<Rightarrow> call_error \<Rightarrow> exn" where
  "call_exn timeout_text e = (case e of
     CallTimeout \<Rightarrow> mk_exn BackendTimeoutError timeout_text
   | CallRequest msg \<Rightarrow> mk_exn BackendUnavailableError (format_request_error msg)
   | CallForeign x \<Rightarrow> x)"

definition or_call_exn :: "string \<Rightarrow> ('w \<Rightarrow> (call_error + 'a) \<times> 'w) \<Rightarrow> ('w, 'a) act" where
  "or_call_exn timeout_text call w =
     (case call w of (Inl e, w') \<Rightarrow> (Inl (call_exn timeout_text e), w') | (Inr r, w') \<Rightarrow> (Inr r, w'))"

definition post_call ::
  "'w fastapi_client \<Rightarrow> string \<Rightarrow> string \<Rightarrow> (string \<times> json) list \<Rightarrow> ('w, web_reply) act" where
  "post_call c timeout_text path payload =
     bindA (liftA (auth_headers c)) (\<lambda>headers.
     or_call_exn timeout_text (wc_post (client_of c) path payload headers))"

section \<open>Converting fields\<close>

definition str_item :: "(rat \<Rightarrow> string) \<Rightarrow> (string \<times> json) list \<Rightarrow> string \<Rightarrow> string res" where
  "str_item fr d k = bind_res (item d k) (\<lambda>v. Inr (py_str fr v))"

definition opt_str :: "(rat \<Rightarrow> string) \<Rightarrow> (string \<times> json) list \<Rightarrow> string \<Rightarrow> string option" where
  "opt_str fr d k = (if jget d k = JNull then None else Some (py_str fr (jget d k)))"

section \<open>The calls\<close>

definition health :: "'w fastapi_client \<Rightarrow> ('w, (string \<times> json) list) act" where
  "health c =
     bindA (or_call_exn ''The FastAPI backend did not respond before the request timed out.''
              (wc_get (client_of c) ''/health''))
       (\<lambda>r. liftA (json_response [] r))"

record AuthenticatedBackendUser =
  abu_user_id :: int
  abu_username :: string
  abu_display_name :: "string option"
  abu_role :: string
  abu_is_admin :: bool
  abu_preferred_language :: "string option"
  abu_ui_theme :: "string option"

definition user_of_reply :: "(rat \<Rightarrow> string) \<Rightarrow> (string \<times> json) list \<Rightarrow> AuthenticatedBackendUser res" where
  "user_of_reply fr d =
     bind_res (item d ''user_id'') (\<lambda>v. bind_res (py_int_of v) (\<lambda>uid.
     bind_res (str_item fr d ''username'') (\<lambda>name.
     bind_res (str_item fr d ''role'') (\<lambda>role.
     bind_res (item d ''is_admin'') (\<lambda>admin.
     Inr \<lparr>abu_user_id = uid, abu_username = name, abu_display_name = opt_str fr d ''display_name'',
       abu_role = role, abu_is_admin = truthy admin,
       abu_preferred_language = opt_str fr d ''preferred_language'',
       abu_ui_theme = opt_str fr d ''ui_theme''\<rparr>)))))"

definition authenticate_user ::
  "(rat \<Rightarrow> string) \<Rightarrow> 'w fastapi_client \<Rightarrow> string \<Rightarrow> string \<Rightarrow> ('w, AuthenticatedBackendUser) act" where
  "authenticate_user fr c username password =
     bindA (post_call c ''The FastAPI backend timed out while authenticating the user.''
              ''/api/internal/auth/login'' [(''username'', JStr username), (''password'', JStr password)])
       (\<lambda>r. bindA (liftA (json_response [403] r)) (\<lambda>d. liftA (user_of_reply fr d)))"

record BackendSignupResult =
  bsr_success :: bool
  bsr_message :: string
  bsr_user_id :: "int option"
  bsr_username :: "string option"
  bsr_created_at :: "string option"

definition signup_payload ::
  "string \<Rightarrow> string \<Rightarrow> string option \<Rightarrow> string option \<Rightarrow> string option \<Rightarrow> (string \<times> json) list" where
  "signup_payload username password confirm display lang =
     [(''username'', JStr username), (''password'', JStr password), (''confirm_password'', jstr confirm)]
     @ (case display of None \<Rightarrow> [] | Some x \<Rightarrow> [(''display_name'', JStr x)])
     @ (case lang of None \<Rightarrow> [] | Some x \<Rightarrow> [(''preferred_language'', JStr x)])"

text \<open>The \<^verbatim>\<open>except BackendHTTPError\<close> clause of the sign-up.\<close>

definition signup_error :: "exn \<Rightarrow> exn" where
  "signup_error e =
     (if \<not> isinstance e BackendHTTPError then e
      else if error_status e \<in> {403, 404} \<and> error_code e = ''signup_disabled''
      then backend_http_error BackendFeatureDisabledError ''Account sign-up is not available right now.''
             (error_status e) (error_code e)
      else if error_status e = 409 \<and> error_code e = ''username_unavailable''
      then backend_http_error BackendConflictError ''That username is unavailable.''
             (error_status e) (error_code e)
      else if error_status e \<in> {400, 422} \<and> error_code e \<in> {''invalid_signup'', ''validation_error''}
      then backend_http_error BackendValidationError (exn_text e) (error_status e) (error_code e)
      else e)"

definition signup_result :: "(rat \<Rightarrow> string) \<Rightarrow> (string \<times> json) list \<Rightarrow> BackendSignupResult res" where
  "signup_result fr d =
     bind_res (str_item fr d ''message'') (\<lambda>msg.
     bind_res (if jget d ''user_id'' = JNull then Inr None
               else bind_res (py_int_of (jget d ''user_id'')) (\<lambda>i. Inr (Some i))) (\<lambda>uid.
     Inr \<lparr>bsr_success = truthy (case map_of d ''success'' of None \<Rightarrow> JBool False | Some v \<Rightarrow> v),
       bsr_message = msg, bsr_user_id = uid, bsr_username = opt_str fr d ''username'',
       bsr_created_at = opt_str fr d ''created_at''\<rparr>))"

definition signup_user ::
  "(rat \<Rightarrow> string) \<Rightarrow> 'w fastapi_client \<Rightarrow> string \<Rightarrow> string \<Rightarrow> string option \<Rightarrow> string option
     \<Rightarrow> string option \<Rightarrow> ('w, BackendSignupResult) act" where
  "signup_user fr c username password confirm display lang =
     bindA (post_call c ''The FastAPI backend timed out while creating the account.''
              ''/api/auth/signup'' (signup_payload username password confirm display lang))
       (\<lambda>r. bindA (catchA (liftA (json_response [] r)) (\<lambda>e. raiseA (signup_error e)))
              (\<lambda>d. liftA (signup_result fr d)))"

definition chat_full_call ::
  "'w fastapi_client \<Rightarrow> string \<Rightarrow> string option \<Rightarrow> ('w, (string \<times> json) list) act" where
  "chat_full_call c msg m =
     bindA (post_call c ''The FastAPI backend timed out while generating a response.''
              ''/api/chat'' (build_chat_payload msg m))
       (\<lambda>r. liftA (json_response [] r))"

section \<open>Streaming\<close>

text \<open>One line: nothing, an event, or an error.\<close>

definition parse_sse_line :: "string \<Rightarrow> (string \<times> json) list option res" where
  "parse_sse_line line =
     (if \<not> prefix ''data:'' line then Inr None
      else let raw = strip (drop 5 line) in
        if raw = [] then Inr None
        else case json_loads raw of
          None \<Rightarrow> Inl (mk_exn BackendStreamError ''Backend returned an invalid streaming event.'')
        | Some (JObj d) \<Rightarrow> Inr (Some d)
        | Some _ \<Rightarrow> Inl (mk_exn BackendStreamError ''Backend returned an unexpected streaming event.''))"

definition stream_timeout_text :: string where
  "stream_timeout_text = ''The FastAPI backend timed out while streaming a response.''"

fun read_events :: "string list \<Rightarrow> call_error option \<Rightarrow> (string \<times> json) list list \<times> ending" where
  "read_events [] e = ([], case e of None \<Rightarrow> Finished | Some x \<Rightarrow> Failed (call_exn stream_timeout_text x))"
| "read_events (l # ls) e =
     (case parse_sse_line l of
        Inl x \<Rightarrow> ([], Failed x)
      | Inr None \<Rightarrow> read_events ls e
      | Inr (Some d) \<Rightarrow> (case read_events ls e of (ds, x) \<Rightarrow> (d # ds, x)))"

text \<open>What is checked before the lines are read.  A status outside the error range that still is no
  success has no body read for it: the library then raises \<^verbatim>\<open>ResponseNotRead\<close>.\<close>

definition check_stream :: "web_stream \<Rightarrow> unit res" where
  "check_stream s =
     (if 400 \<le> ws_status s \<and> ws_status s \<le> 599 then
        (case ws_body s of
           Inl x \<Rightarrow> Inl (call_exn stream_timeout_text x)
         | Inr b \<Rightarrow> raise_for_error [] \<lparr>wr_status = ws_status s, wr_body = b\<rparr>)
      else if is_success (ws_status s) then Inr ()
      else Inl (mk_exn (ForeignError ''ResponseNotRead'') []))"

definition chat_stream_call ::
  "'w fastapi_client \<Rightarrow> string \<Rightarrow> string option \<Rightarrow> 'w \<Rightarrow> ((string \<times> json) list list \<times> ending) \<times> 'w" where
  "chat_stream_call c msg m w =
     (case auth_headers c of
        Inl e \<Rightarrow> (([], Failed e), w)
      | Inr headers \<Rightarrow>
          (case or_call_exn stream_timeout_text
                  (wc_stream (client_of c) ''/api/chat/stream''
                     (build_chat_payload msg m @ [(''stream'', JBool True)]) headers) w of
             (Inl e, w') \<Rightarrow> (([], Failed e), w')
           | (Inr s, w') \<Rightarrow>
               (case check_stream s of
                  Inl e \<Rightarrow> (([], Failed e), w')
                | Inr _ \<Rightarrow> (read_events (ws_lines s) (ws_end s), w'))))"

section \<open>Texts for the user\<close>

definition ui_error :: "string \<Rightarrow> string \<Rightarrow> string" where
  "ui_error title body = ''**'' @ title @ ''**'' @ [CHR 0x0A, CHR 0x0A] @ body"

definition format_ui_error :: "exn \<Rightarrow> string" where
  "format_ui_error e =
     (if isinstance e BackendUnavailableError then
        ui_error ''Service unavailable''
          ''The language service is not reachable right now. Start the local service, then try again.''
      else if isinstance e BackendTimeoutError then
        ui_error ''Service timeout''
          ''The language service took too long to answer. It may still be loading or working on your request. Try again in a moment.''
      else if isinstance e BackendHTTPError then
        (if isinstance e BackendAuthenticationError then
           ui_error ''Backend authentication failed''
             ''The Web UI could not authenticate with the backend. Check that the Web UI and FastAPI backend use the same API key.''
         else if error_code e = ''unsupported_mode'' then
           ui_error ''Unsupported mode''
             ''This response mode is not available for that request. Try Auto or choose a different mode.''
         else
           ui_error ''Request failed''
             ''The language service could not complete the request. Try again, or choose a different response mode.'')
      else if isinstance e BackendInvalidResponseError then
        ui_error ''Response could not be displayed''
          ''The language service answered in a format this chat could not display. Try again.''
      else if isinstance e BackendStreamError then
        ui_error ''Streaming error''
          ''The response was interrupted while it was being displayed. Try again, or choose a full-response mode.''
      else if isinstance e BackendAuthConfigurationError then
        ui_error ''Backend authentication is not configured''
          ''The Web UI is missing the backend API key. Configure it on the server and try again.''
      else ui_error ''Request failed'' ''The chat could not complete the request. Try again.'')"

section \<open>Reading events back\<close>

lemma parse_sse_data:
  assumes "printable fr (JObj e)"
  shows "parse_sse_line (''data: '' @ dumps fr (JObj e)) = Inr (Some e)"
proof -
  have braced: "dumps fr (JObj e) = CHR ''{'' # dumps_members fr e @ ''}''" by simp
  have "strip (CHR '' '' # dumps fr (JObj e)) = dumps fr (JObj e)"
    by (simp only: braced strip_space_braced)
  then show ?thesis
    using json_loads_dumps[OF assms] by (simp add: parse_sse_line_def Let_def del: dumps.simps) (simp add: braced)
qed

lemma parse_sse_blank: "parse_sse_line [] = Inr None"
  by (simp add: parse_sse_line_def)

lemma read_events_sse:
  assumes "\<forall>e\<in>set events. printable fr (JObj e)"
  shows "read_events (concat (map (\<lambda>e. [''data: '' @ dumps fr (JObj e), []]) events)) None = (events, Finished)"
  using assms
proof (induction events)
  case (Cons e events)
  then show ?case
    using parse_sse_data[of fr e] by (simp add: parse_sse_blank del: dumps.simps)
qed simp

end
