(* ===== verification/Webui_Auth.thy ===== *)
theory Webui_Auth
  imports Webui_Client
begin

text \<open>
  Signing in to the web UI: its settings (\<^verbatim>\<open>webui/config.py\<close>), the two stores of failed attempts
  (\<^verbatim>\<open>webui/auth_rate_limit.py\<close>) and the sign-in callback (\<^verbatim>\<open>webui/auth.py\<close>).  The protocol
  \<^verbatim>\<open>AuthAttemptStore\<close> is the locale \<open>attempt_store\<close>; both stores satisfy it, the one in memory over
  every clock that does not run backwards, the other over every Redis with the laws of \<open>expiring_keys\<close>.
\<close>

section \<open>Settings\<close>

record WebUISettings =
  ui_auth_enabled :: bool
  ui_auth_max_failed_attempts :: int
  ui_auth_lockout_seconds :: int
  ui_auth_rate_limit_window_seconds :: int
  ui_auth_min_password_length :: int
  ui_auth_require_strong_password :: bool
  ui_signup_enabled :: bool
  ui_signup_require_admin_approval :: bool
  ui_chainlit_history_enabled :: bool
  ui_database_scheme :: string
  ui_database_host :: string
  ui_database_port :: int
  ui_database_name :: string
  ui_database_user :: string
  ui_database_password :: string
  ui_database_url :: string
  ui_chainlit_database_url :: string
  ui_redis_url :: string
  ui_chainlit_auth_secret :: "string option"
  ui_chainlit_cookie_samesite :: string
  ui_session_cookie_samesite :: string
  ui_session_cookie_secure :: bool

definition webui_settings :: "(url_parts \<Rightarrow> string) \<Rightarrow> env \<Rightarrow> WebUISettings res" where
  "webui_settings render env =
     (let samesite = (let s = lower (strip (getenv env ''SESSION_COOKIE_SAMESITE''
                                 (getenv env ''CHAINLIT_COOKIE_SAMESITE'' ''lax'')))
                      in if s \<in> {''lax'', ''strict'', ''none''} then s else ''lax'');
          scheme = getenv env ''DATABASE_SCHEME'' ''postgresql+asyncpg'';
          host = getenv env ''DATABASE_HOST'' ''127.0.0.1'';
          name = getenv env ''DATABASE_NAME'' ''language_agent'';
          user = getenv env ''DATABASE_USER'' ''language_agent'';
          password = getenv env ''DATABASE_PASSWORD'' ''change-me''
      in
      bind_res (env_int env ''DATABASE_PORT'' ''5432'') (\<lambda>port.
      bind_res (env_int env ''AUTH_MAX_FAILED_ATTEMPTS'' ''5'') (\<lambda>max_failed.
      bind_res (env_int env ''AUTH_LOCKOUT_SECONDS'' ''300'') (\<lambda>lockout.
      bind_res (env_int env ''AUTH_RATE_LIMIT_WINDOW_SECONDS'' ''300'') (\<lambda>window.
      bind_res (env_int env ''AUTH_MIN_PASSWORD_LENGTH'' ''12'') (\<lambda>min_pw.
      Inr \<lparr>ui_auth_enabled = env_bool env ''AUTH_ENABLED'' ''true'' True,
        ui_auth_max_failed_attempts = max_failed,
        ui_auth_lockout_seconds = lockout,
        ui_auth_rate_limit_window_seconds = window,
        ui_auth_min_password_length = min_pw,
        ui_auth_require_strong_password = env_bool env ''AUTH_REQUIRE_STRONG_PASSWORD'' ''true'' True,
        ui_signup_enabled = env_bool env ''SIGNUP_ENABLED'' ''true'' True,
        ui_signup_require_admin_approval = env_bool env ''SIGNUP_REQUIRE_ADMIN_APPROVAL'' ''false'' False,
        ui_chainlit_history_enabled = env_bool env ''CHAINLIT_HISTORY_ENABLED'' ''true'' True,
        ui_database_scheme = scheme,
        ui_database_host = host,
        ui_database_port = port,
        ui_database_name = name,
        ui_database_user = user,
        ui_database_password = password,
        ui_database_url = build_database_url render scheme (Some host) (Some port) name (Some user) (Some password),
        ui_chainlit_database_url =
          build_chainlit_database_url render scheme (Some host) (Some port) name (Some user) (Some password),
        ui_redis_url = getenv env ''REDIS_URL'' ''redis://127.0.0.1:6379/0'',
        ui_chainlit_auth_secret = env ''CHAINLIT_AUTH_SECRET'',
        ui_chainlit_cookie_samesite = samesite,
        ui_session_cookie_samesite = samesite,
        ui_session_cookie_secure =
          env_bool env ''SESSION_COOKIE_SECURE'' (if samesite = ''none'' then ''true'' else ''false'')
            (samesite = ''none'')\<rparr>))))))"

definition validate_for_auth :: "WebUISettings \<Rightarrow> unit res" where
  "validate_for_auth s =
     (if \<not> ui_auth_enabled s then Inr ()
      else if ui_chainlit_auth_secret s = None \<or> ui_chainlit_auth_secret s = Some []
      then Inl (mk_exn RuntimeError
        ''CHAINLIT_AUTH_SECRET must be configured when Chainlit password auth is enabled.'')
      else if ui_session_cookie_samesite s = ''none'' \<and> \<not> ui_session_cookie_secure s
      then Inl (mk_exn RuntimeError
        ''SESSION_COOKIE_SECURE must be true when SESSION_COOKIE_SAMESITE=none.'')
      else Inr ())"

section \<open>Stores of failed attempts\<close>

record AuthRateLimitSettings =
  max_failed_attempts :: int
  lockout_seconds :: int
  rate_limit_window_seconds :: int

definition build_auth_rate_limit_settings :: "WebUISettings \<Rightarrow> AuthRateLimitSettings" where
  "build_auth_rate_limit_settings s =
     \<lparr>max_failed_attempts = max 1 (ui_auth_max_failed_attempts s),
      lockout_seconds = max 1 (ui_auth_lockout_seconds s),
      rate_limit_window_seconds = max 1 (ui_auth_rate_limit_window_seconds s)\<rparr>"

text \<open>The protocol \<^verbatim>\<open>AuthAttemptStore\<close>.\<close>

record 'w attempt_store =
  as_is_locked :: "string \<Rightarrow> ('w, bool) act"
  as_record_failure :: "string \<Rightarrow> ('w, int) act"
  as_clear :: "string \<Rightarrow> ('w, unit) act"

subsection \<open>In memory\<close>

text \<open>The three dictionaries, beside the state of the clock \<^verbatim>\<open>now\<close>.\<close>

record attempt_table =
  failure_counts :: "string \<Rightarrow> int option"
  failure_expires_at :: "string \<Rightarrow> rat option"
  locked_until :: "string \<Rightarrow> rat option"

definition get0 :: "('k \<Rightarrow> 'v::zero option) \<Rightarrow> 'k \<Rightarrow> 'v" where
  "get0 m k = (case m k of None \<Rightarrow> 0 | Some v \<Rightarrow> v)"

definition read_clock :: "('c, rat) act \<Rightarrow> ('t \<times> 'c, rat) act" where
  "read_clock clock = zoomA snd (\<lambda>c w. (fst w, c)) clock"

definition on_table :: "(attempt_table \<Rightarrow> attempt_table) \<Rightarrow> (attempt_table \<times> 'c, unit) act" where
  "on_table f = modifyA (\<lambda>w. (f (fst w), snd w))"

definition purge_table :: "string \<Rightarrow> rat \<Rightarrow> attempt_table \<Rightarrow> attempt_table" where
  "purge_table u now t =
     (let t = (if get0 (failure_expires_at t) u \<le> now
               then t\<lparr>failure_counts := (failure_counts t)(u := None),
                      failure_expires_at := (failure_expires_at t)(u := None)\<rparr> else t)
      in if get0 (locked_until t) u \<le> now then t\<lparr>locked_until := (locked_until t)(u := None)\<rparr> else t)"

definition purge_expired :: "('c, rat) act \<Rightarrow> string \<Rightarrow> (attempt_table \<times> 'c, unit) act" where
  "purge_expired clock u = bindA (read_clock clock) (\<lambda>now. on_table (purge_table u now))"

definition memory_is_locked :: "('c, rat) act \<Rightarrow> string \<Rightarrow> (attempt_table \<times> 'c, bool) act" where
  "memory_is_locked clock u =
     bindA (purge_expired clock u) (\<lambda>_.
     bindA (getA (\<lambda>w. get0 (locked_until (fst w)) u)) (\<lambda>until.
     bindA (read_clock clock) (\<lambda>now. retA (until > now))))"

definition count_failure :: "AuthRateLimitSettings \<Rightarrow> string \<Rightarrow> rat \<Rightarrow> attempt_table \<Rightarrow> attempt_table" where
  "count_failure limits u now t =
     (let t = (if get0 (failure_expires_at t) u \<le> now
               then t\<lparr>failure_counts := (failure_counts t)(u \<mapsto> 0),
                      failure_expires_at := (failure_expires_at t)
                        (u \<mapsto> now + of_int (rate_limit_window_seconds limits))\<rparr> else t);
          failures = get0 (failure_counts t) u + 1;
          t = t\<lparr>failure_counts := (failure_counts t)(u \<mapsto> failures)\<rparr>
      in if failures \<ge> max_failed_attempts limits
         then t\<lparr>locked_until := (locked_until t)(u \<mapsto> now + of_int (lockout_seconds limits))\<rparr> else t)"

definition memory_record_failure ::
  "AuthRateLimitSettings \<Rightarrow> ('c, rat) act \<Rightarrow> string \<Rightarrow> (attempt_table \<times> 'c, int) act" where
  "memory_record_failure limits clock u =
     bindA (purge_expired clock u) (\<lambda>_.
     bindA (read_clock clock) (\<lambda>now.
     bindA (on_table (count_failure limits u now)) (\<lambda>_.
     getA (\<lambda>w. get0 (failure_counts (fst w)) u))))"

definition memory_clear :: "string \<Rightarrow> (attempt_table \<times> 'c, unit) act" where
  "memory_clear u =
     on_table (\<lambda>t. t\<lparr>failure_counts := (failure_counts t)(u := None),
       failure_expires_at := (failure_expires_at t)(u := None),
       locked_until := (locked_until t)(u := None)\<rparr>)"

definition memory_store ::
  "AuthRateLimitSettings \<Rightarrow> ('c, rat) act \<Rightarrow> (attempt_table \<times> 'c) attempt_store" where
  "memory_store limits clock =
     \<lparr>as_is_locked = memory_is_locked clock, as_record_failure = memory_record_failure limits clock,
      as_clear = memory_clear\<rparr>"

subsection \<open>In Redis\<close>

text \<open>What the store calls of Redis.\<close>

record 'w redis_keys =
  rk_exists :: "string \<Rightarrow> ('w, bool) act"
  rk_incr :: "string \<Rightarrow> ('w, int) act"
  rk_expire :: "string \<Rightarrow> int \<Rightarrow> ('w, unit) act"
  rk_set_ex :: "string \<Rightarrow> string \<Rightarrow> int \<Rightarrow> ('w, unit) act"
  rk_delete :: "string list \<Rightarrow> ('w, unit) act"

definition counter_key :: "string \<Rightarrow> string" where
  "counter_key u = ''auth:failures:'' @ u"

definition lockout_key :: "string \<Rightarrow> string" where
  "lockout_key u = ''auth:lockout:'' @ u"

definition redis_record_failure ::
  "AuthRateLimitSettings \<Rightarrow> 'w redis_keys \<Rightarrow> string \<Rightarrow> ('w, int) act" where
  "redis_record_failure limits r u =
     bindA (rk_incr r (counter_key u)) (\<lambda>failures.
     bindA (if failures = 1 then rk_expire r (counter_key u) (rate_limit_window_seconds limits) else retA ()) (\<lambda>_.
     bindA (if failures \<ge> max_failed_attempts limits
            then rk_set_ex r (lockout_key u) ''1'' (lockout_seconds limits) else retA ()) (\<lambda>_.
     retA failures)))"

definition redis_store :: "AuthRateLimitSettings \<Rightarrow> 'w redis_keys \<Rightarrow> 'w attempt_store" where
  "redis_store limits r =
     \<lparr>as_is_locked = (\<lambda>u. rk_exists r (lockout_key u)),
      as_record_failure = redis_record_failure limits r,
      as_clear = (\<lambda>u. rk_delete r [counter_key u, lockout_key u])\<rparr>"

subsection \<open>The store of the process\<close>

text \<open>\<^verbatim>\<open>get_auth_attempt_store\<close> caches its one result; closing builds it if need be, closes its
  connection and empties the cache.\<close>

datatype store_choice =
    RedisStore string AuthRateLimitSettings
  | MemoryStore AuthRateLimitSettings

definition choose_store :: "WebUISettings \<Rightarrow> store_choice" where
  "choose_store s =
     (let limits = build_auth_rate_limit_settings s in
      if ui_redis_url s \<noteq> [] then RedisStore (ui_redis_url s) limits else MemoryStore limits)"

definition get_auth_attempt_store :: "WebUISettings res \<Rightarrow> (store_choice option, store_choice) act" where
  "get_auth_attempt_store sttngs cache =
     (case cache of
        Some c \<Rightarrow> (Inr c, cache)
      | None \<Rightarrow>
          (case sttngs of
             Inl e \<Rightarrow> (Inl e, cache) | Inr s \<Rightarrow> (Inr (choose_store s), Some (choose_store s))))"

definition close_auth_attempt_store :: "WebUISettings res \<Rightarrow> (store_choice option, string option) act" where
  "close_auth_attempt_store sttngs =
     bindA (get_auth_attempt_store sttngs) (\<lambda>c.
     bindA (modifyA (\<lambda>_. None)) (\<lambda>_.
     retA (case c of RedisStore url _ \<Rightarrow> Some url | MemoryStore _ \<Rightarrow> None)))"

section \<open>The sign-in callback\<close>

text \<open>The outcome of an attempt, as the callback logs it.\<close>

datatype signin_outcome =
    LockedOut
  | Rejected bool
  | BackendFailed string
  | Accepted AuthenticatedBackendUser

text \<open>The \<^verbatim>\<open>try\<close> around the backend call: the user it returns, or \<^const>\<open>None\<close> for refused credentials, or the
  outcome of another failure.\<close>

definition ask_backend ::
  "('w, AuthenticatedBackendUser) act \<Rightarrow> ('w, signin_outcome option + AuthenticatedBackendUser) act" where
  "ask_backend login =
     catchA (bindA login (\<lambda>u. retA (Inr u)))
       (\<lambda>e. if isinstance e BackendUserAuthenticationError then retA (Inl None)
            else if isinstance e BackendClientError then retA (Inl (Some (BackendFailed (category (exn_cls e)))))
            else raiseA e)"

definition attempt_signin ::
  "WebUISettings res \<Rightarrow> 'w attempt_store \<Rightarrow> (string \<Rightarrow> string \<Rightarrow> ('w, AuthenticatedBackendUser) act)
     \<Rightarrow> string \<Rightarrow> string \<Rightarrow> ('w, signin_outcome) act" where
  "attempt_signin sttngs st login uname password =
     (let u = strip uname in
      bindA (as_is_locked st u) (\<lambda>locked.
      if locked then retA LockedOut
      else bindA (ask_backend (login u password)) (\<lambda>answer.
        case answer of
          Inl None \<Rightarrow>
            bindA (as_record_failure st u) (\<lambda>failures.
            bindA (liftA sttngs) (\<lambda>s. retA (Rejected (failures \<ge> ui_auth_max_failed_attempts s))))
        | Inl (Some outcome) \<Rightarrow> retA outcome
        | Inr user \<Rightarrow> bindA (as_clear st u) (\<lambda>_. retA (Accepted user)))))"

record chainlit_user =
  cu_identifier :: string
  cu_display_name :: string
  cu_metadata :: "(string \<times> json) list"

definition to_chainlit_user :: "AuthenticatedBackendUser \<Rightarrow> chainlit_user" where
  "to_chainlit_user u =
     (let shown = (case abu_display_name u of None \<Rightarrow> abu_username u
                   | Some d \<Rightarrow> if d = [] then abu_username u else d) in
      \<lparr>cu_identifier = abu_username u, cu_display_name = shown,
       cu_metadata =
         [(''user_id'', JStr (str_int (abu_user_id u))), (''username'', JStr (abu_username u)),
          (''display_name'', JStr shown), (''role'', JStr (abu_role u)), (''is_admin'', JBool (abu_is_admin u)),
          (''preferred_language'', jstr (abu_preferred_language u)), (''ui_theme'', jstr (abu_ui_theme u))]\<rparr>)"

definition signin_user ::
  "WebUISettings res \<Rightarrow> 'w attempt_store \<Rightarrow> (string \<Rightarrow> string \<Rightarrow> ('w, AuthenticatedBackendUser) act)
     \<Rightarrow> string \<Rightarrow> string \<Rightarrow> ('w, chainlit_user option) act" where
  "signin_user sttngs st login uname password =
     bindA (attempt_signin sttngs st login uname password) (\<lambda>outcome.
     retA (case outcome of Accepted u \<Rightarrow> Some (to_chainlit_user u) | _ \<Rightarrow> None))"

end
