(* ===== verification/Signin_Guarantees.thy ===== *)
theory Signin_Guarantees
  imports Webui_Auth
begin

text \<open>
  What the stores of failed attempts promise, and what the sign-in callback makes of it: within the
  counting window a user's password can be guessed only as often as the settings allow.
\<close>

section \<open>The contract of a store\<close>

text \<open>A store is seen as two functions of its state, a user and a time: whether the user is locked then, and
  how many failures count then.  The view of another state agrees from now on.\<close>

definition same_view ::
  "('w \<Rightarrow> string \<Rightarrow> rat \<Rightarrow> bool) \<Rightarrow> ('w \<Rightarrow> string \<Rightarrow> rat \<Rightarrow> int) \<Rightarrow> rat \<Rightarrow> 'w \<Rightarrow> 'w \<Rightarrow> string \<Rightarrow> bool" where
  "same_view lck cnt from w w' v \<longleftrightarrow>
     (\<forall>s\<ge>from. lck w' v s = lck w v s \<and> cnt w' v s = cnt w v s)"

lemma same_viewD:
  "same_view lck cnt t w w' v \<Longrightarrow> t \<le> s \<Longrightarrow> lck w' v s = lck w v s"
  "same_view lck cnt t w w' v \<Longrightarrow> t \<le> s \<Longrightarrow> cnt w' v s = cnt w v s"
  by (simp_all add: same_view_def)

lemma same_view_refl [simp]: "same_view lck cnt t w w v"
  by (simp add: same_view_def)

locale attempt_store =
  fixes st :: "'w attempt_store" and limits :: AuthRateLimitSettings
    and time :: "'w \<Rightarrow> rat" and ok :: "'w \<Rightarrow> bool"
    and lck :: "'w \<Rightarrow> string \<Rightarrow> rat \<Rightarrow> bool" and cnt :: "'w \<Rightarrow> string \<Rightarrow> rat \<Rightarrow> int"
  assumes check:
    "ok w \<Longrightarrow> as_is_locked st u w = (rb, w') \<Longrightarrow>
       \<exists>t. rb = Inr (lck w u t) \<and> time w \<le> t \<and> t \<le> time w' \<and> ok w'
         \<and> (\<forall>v. same_view lck cnt (time w') w w' v)"
  and failure:
    "ok w \<Longrightarrow> as_record_failure st u w = (rn, w') \<Longrightarrow>
       \<exists>t. rn = Inr (cnt w u t + 1) \<and> time w \<le> t \<and> t \<le> time w' \<and> ok w'
         \<and> (\<forall>v. v \<noteq> u \<longrightarrow> same_view lck cnt (time w') w w' v)
         \<and> (cnt w u t + 1 < max_failed_attempts limits \<longrightarrow> (\<forall>s\<ge>time w'. lck w' u s = lck w u s))
         \<and> (max_failed_attempts limits \<le> cnt w u t + 1 \<longrightarrow>
              (\<forall>s\<ge>time w'. s < time w + of_int (lockout_seconds limits) \<longrightarrow> lck w' u s))
         \<and> (0 < cnt w u t \<longrightarrow>
              (\<forall>s\<ge>time w'. cnt w' u s = (if 0 < cnt w u s then cnt w u t + 1 else 0)))
         \<and> (cnt w u t = 0 \<longrightarrow>
              (\<forall>s\<ge>time w'. s < time w + of_int (rate_limit_window_seconds limits) \<longrightarrow> cnt w' u s = 1))"
  and cleared:
    "ok w \<Longrightarrow> as_clear st u w = (r, w') \<Longrightarrow>
       r = Inr () \<and> time w \<le> time w' \<and> ok w'
         \<and> (\<forall>v. v \<noteq> u \<longrightarrow> same_view lck cnt (time w') w w' v)
         \<and> (\<forall>s\<ge>time w'. \<not> lck w' u s \<and> cnt w' u s = 0)"

section \<open>Guessing\<close>

text \<open>What happens to a sign-in page: attempts, and everything else that lets time pass.\<close>

datatype 'w signin_event = SignIn string string | Meanwhile "'w \<Rightarrow> 'w"

fun signins ::
  "WebUISettings res \<Rightarrow> 'w attempt_store \<Rightarrow> (string \<Rightarrow> string \<Rightarrow> ('w, AuthenticatedBackendUser) act)
     \<Rightarrow> 'w signin_event list \<Rightarrow> 'w \<Rightarrow> (string \<times> signin_outcome res) list \<times> 'w" where
  "signins sttngs st login [] w = ([], w)"
| "signins sttngs st login (SignIn name password # es) w =
     (case attempt_signin sttngs st login name password w of
        (r, w') \<Rightarrow> (case signins sttngs st login es w' of (os, w'') \<Rightarrow> ((strip name, r) # os, w'')))"
| "signins sttngs st login (Meanwhile f # es) w = signins sttngs st login es (f w)"

definition is_accepted :: "string \<Rightarrow> string \<times> signin_outcome res \<Rightarrow> bool" where
  "is_accepted u o' \<longleftrightarrow> fst o' = u \<and> (case snd o' of Inr (Accepted _) \<Rightarrow> True | _ \<Rightarrow> False)"

definition is_rejected :: "string \<Rightarrow> string \<times> signin_outcome res \<Rightarrow> bool" where
  "is_rejected u o' \<longleftrightarrow> fst o' = u \<and> (case snd o' of Inr (Rejected _) \<Rightarrow> True | _ \<Rightarrow> False)"

definition is_lockout :: "string \<Rightarrow> string \<times> signin_outcome res \<Rightarrow> bool" where
  "is_lockout u o' \<longleftrightarrow> o' = (u, Inr LockedOut)"

definition wrong_guesses :: "string \<Rightarrow> (string \<times> signin_outcome res) list \<Rightarrow> nat" where
  "wrong_guesses u os = length (filter (is_rejected u) os)"

definition quiet ::
  "('w \<Rightarrow> rat) \<Rightarrow> ('w \<Rightarrow> bool) \<Rightarrow> ('w \<Rightarrow> string \<Rightarrow> rat \<Rightarrow> bool) \<Rightarrow> ('w \<Rightarrow> string \<Rightarrow> rat \<Rightarrow> int)
     \<Rightarrow> 'w \<Rightarrow> 'w \<Rightarrow> bool" where
  "quiet time ok lck cnt w w' \<longleftrightarrow>
     (ok w \<longrightarrow> ok w') \<and> time w \<le> time w' \<and> (\<forall>v. same_view lck cnt (time w') w w' v)"

text \<open>How the outcome of one attempt comes about.\<close>

lemma attempt_signin_cases:
  assumes "attempt_signin (Inr cfg) st login name password w = (r, w')"
  obtains (check_failed) e where "as_is_locked st (strip name) w = (Inl e, w')" "r = Inl e"
  | (locked) "as_is_locked st (strip name) w = (Inr True, w')" "r = Inr LockedOut"
  | (other) w1 where "as_is_locked st (strip name) w = (Inr False, w1)" "w' = snd (login (strip name) password w1)"
      "\<forall>b. r \<noteq> Inr (Rejected b)" "r \<noteq> Inr LockedOut"
  | (rejected) w1 x w2 n where "as_is_locked st (strip name) w = (Inr False, w1)"
      "login (strip name) password w1 = (x, w2)" "as_record_failure st (strip name) w2 = (Inr n, w')"
      "r = Inr (Rejected (n \<ge> ui_auth_max_failed_attempts cfg))"
  | (failed) w1 x w2 e where "as_is_locked st (strip name) w = (Inr False, w1)"
      "login (strip name) password w1 = (x, w2)" "as_record_failure st (strip name) w2 = (Inl e, w')" "r = Inl e"
  | (accepted) w1 x w2 user where "as_is_locked st (strip name) w = (Inr False, w1)"
      "login (strip name) password w1 = (x, w2)" "as_clear st (strip name) w2 = (Inr (), w')"
      "r = Inr (Accepted user)"
  | (unclear) w1 x w2 e where "as_is_locked st (strip name) w = (Inr False, w1)"
      "login (strip name) password w1 = (x, w2)" "as_clear st (strip name) w2 = (Inl e, w')" "r = Inl e"
proof -
  obtain c w1 where c: "as_is_locked st (strip name) w = (c, w1)" by (cases "as_is_locked st (strip name) w")
  show ?thesis
  proof (cases c)
    case (Inl e)
    then show ?thesis using assms c by (intro check_failed) (auto simp: attempt_signin_def Let_def bindA_def)
  next
    case (Inr b)
    obtain x w2 where x: "login (strip name) password w1 = (x, w2)" by (cases "login (strip name) password w1")
    note run = assms c Inr x
    note defs = attempt_signin_def Let_def bindA_def catchA_def ask_backend_def
    show ?thesis
    proof (cases b)
      case True
      then show ?thesis using run by (intro locked) (auto simp: defs)
    next
      case False
      show ?thesis
      proof (cases x)
        case (Inr user)
        obtain y w3 where "as_clear st (strip name) w2 = (y, w3)" by (cases "as_clear st (strip name) w2")
        then show ?thesis using run False Inr
          by (cases y) (auto simp: defs intro: accepted unclear)
      next
        case (Inl e)
        obtain y w3 where y: "as_record_failure st (strip name) w2 = (y, w3)"
          by (cases "as_record_failure st (strip name) w2")
        show ?thesis
        proof (cases "isinstance e BackendUserAuthenticationError")
          case True
          then show ?thesis using run False Inl y by (cases y) (auto simp: defs intro: rejected failed)
        next
          case other': False
          then show ?thesis using run False Inl
            by (intro other) (auto simp: defs split: if_splits)
        qed
      qed
    qed
  qed
qed

locale signin_guard = attempt_store +
  fixes login :: "string \<Rightarrow> string \<Rightarrow> ('a, AuthenticatedBackendUser) act"
  assumes login_quiet: "login v p w = (x, w') \<Longrightarrow> quiet time ok lck cnt w w'"
    and limits_positive: "0 < max_failed_attempts limits"
begin

text \<open>The state after some wrong guesses for a user, up to a deadline.\<close>

definition guessed :: "string \<Rightarrow> rat \<Rightarrow> nat \<Rightarrow> 'a \<Rightarrow> bool" where
  "guessed u deadline n w \<longleftrightarrow> ok w \<and> int n \<le> max_failed_attempts limits
     \<and> (\<forall>s\<ge>time w. s < deadline \<longrightarrow> cnt w u s = int n)
     \<and> (\<forall>s\<ge>time w. s < deadline \<longrightarrow> lck w u s = (int n = max_failed_attempts limits))"

lemma guessed_same:
  assumes "guessed u T n w" "ok w'" "time w \<le> time w'" "same_view lck cnt (time w') w w' u"
  shows "guessed u T n w'"
  using assms by (auto simp: guessed_def same_view_def)

lemma guessed_quiet: "guessed u T n w \<Longrightarrow> quiet time ok lck cnt w w' \<Longrightarrow> guessed u T n w'"
  by (rule guessed_same) (auto simp: quiet_def guessed_def)

lemma checked:
  assumes "guessed u T n w" "as_is_locked st v w = (r, w1)"
  shows "guessed u T n w1 \<and> (\<exists>t. r = Inr (lck w v t) \<and> time w \<le> t \<and> t \<le> time w1)"
  using assms(1) check[OF _ assms(2)] by (auto simp: guessed_def same_view_def)

lemma one_more_guess:
  assumes g: "guessed u T n w" and n: "int n < max_failed_attempts limits"
    and r: "as_record_failure st u w = (r, w')" and t: "time w' < T"
    and T: "T \<le> time w + of_int (lockout_seconds limits)"
           "T \<le> time w + of_int (rate_limit_window_seconds limits)"
  shows "guessed u T (Suc n) w'"
proof -
  have ok: "ok w" and count: "\<And>s. time w \<le> s \<Longrightarrow> s < T \<Longrightarrow> cnt w u s = int n"
    using g by (auto simp: guessed_def)
  obtain t where t': "time w \<le> t" "t \<le> time w'" "ok w'"
    and lock: "max_failed_attempts limits \<le> cnt w u t + 1 \<Longrightarrow>
              \<forall>s\<ge>time w'. s < time w + of_int (lockout_seconds limits) \<longrightarrow> lck w' u s"
    and early: "cnt w u t + 1 < max_failed_attempts limits \<Longrightarrow> \<forall>s\<ge>time w'. lck w' u s = lck w u s"
    and more: "0 < cnt w u t \<Longrightarrow>
              \<forall>s\<ge>time w'. cnt w' u s = (if 0 < cnt w u s then cnt w u t + 1 else 0)"
    and first: "cnt w u t = 0 \<Longrightarrow>
              \<forall>s\<ge>time w'. s < time w + of_int (rate_limit_window_seconds limits) \<longrightarrow> cnt w' u s = 1"
    using failure[OF ok r] by blast
  have n_t: "cnt w u t = int n" using count t' \<open>time w' < T\<close> by simp
  have "cnt w' u s = int (Suc n)" if "time w' \<le> s" "s < T" for s
  proof (cases n)
    case 0
    then show ?thesis using first n_t that T by auto
  next
    case (Suc m)
    have "cnt w u s = int n" using count that t' by simp
    then show ?thesis using more n_t that Suc by auto
  qed
  moreover have "lck w' u s = (int (Suc n) = max_failed_attempts limits)" if "time w' \<le> s" "s < T" for s
  proof (cases "int (Suc n) = max_failed_attempts limits")
    case True
    then show ?thesis using lock n_t that T by auto
  next
    case False
    have "\<not> lck w u s" using g n that t' by (auto simp: guessed_def)
    then show ?thesis using False early n n_t that by auto
  qed
  ultimately show ?thesis using t' n by (auto simp: guessed_def)
qed

text \<open>One attempt: time passes, and a wrong guess is one more.\<close>

lemma attempt_step:
  assumes g: "guessed u T n w" and a: "attempt_signin (Inr cfg) st login name password w = (r, w')"
    and fresh: "\<not> is_accepted u (strip name, r)"
    and T: "time w' < T" "T \<le> time w + of_int (lockout_seconds limits)"
           "T \<le> time w + of_int (rate_limit_window_seconds limits)"
  shows "guessed u T (n + (if is_rejected u (strip name, r) then 1 else 0)) w' \<and> time w \<le> time w'
    \<and> (is_lockout u (strip name, r) \<longrightarrow> int n = max_failed_attempts limits)"
  using a
proof (cases rule: attempt_signin_cases)
  case (check_failed e)
  then show ?thesis using checked[OF g] by (auto simp: is_rejected_def)
next
  case locked
  obtain t where t: "lck w (strip name) t" "time w \<le> t" "t \<le> time w'"
    using checked[OF g locked(1)] by auto
  have "int n = max_failed_attempts limits" if "strip name = u"
    using g t T(1) that by (auto simp: guessed_def)
  then show ?thesis using locked checked[OF g locked(1)] by (auto simp: is_rejected_def is_lockout_def)
next
  case (other w1)
  have g1: "guessed u T n w1" "time w \<le> time w1" using checked[OF g other(1)] by auto
  have "quiet time ok lck cnt w1 w'"
    using login_quiet[of "strip name" password w1] other(2) by (metis surjective_pairing)
  then show ?thesis using g1 guessed_quiet other(3,4)
    by (auto simp: is_rejected_def is_lockout_def quiet_def split: sum.splits signin_outcome.splits)
next
  case (rejected w1 x w2 k)
  have g1: "guessed u T n w1" and t1: "time w \<le> time w1" using checked[OF g rejected(1)] by auto
  obtain t where t: "\<not> lck w (strip name) t" "time w \<le> t" "t \<le> time w1"
    using checked[OF g rejected(1)] by auto
  have q: "quiet time ok lck cnt w1 w2" by (rule login_quiet[OF rejected(2)])
  have g2: "guessed u T n w2" by (rule guessed_quiet[OF g1 q])
  have t2: "time w1 \<le> time w2" using q by (simp add: quiet_def)
  have ok2: "ok w2" using g2 by (simp add: guessed_def)
  have t3: "time w2 \<le> time w'" and ok': "ok w'"
    and others: "u \<noteq> strip name \<Longrightarrow> same_view lck cnt (time w') w2 w' u"
    using failure[OF ok2 rejected(3)] by auto
  show ?thesis
  proof (cases "strip name = u")
    case True
    have "int n < max_failed_attempts limits"
      using g t T t1 t2 t3 True by (auto simp: guessed_def)
    then have "guessed u T (Suc n) w'"
      using one_more_guess[OF g2 _ _ T(1)] rejected(3) True T t1 t2 by auto
    then show ?thesis using True rejected(4) t1 t2 t3 by (simp add: is_rejected_def is_lockout_def)
  next
    case False
    then have "guessed u T n w'" using guessed_same[OF g2 ok' t3] others by auto
    then show ?thesis using False t1 t2 t3 by (simp add: is_rejected_def is_lockout_def)
  qed
next
  case (failed w1 x w2 e)
  have "guessed u T n w2"
    using checked[OF g failed(1)] guessed_quiet login_quiet[OF failed(2)] by blast
  then have "ok w2" by (simp add: guessed_def)
  from failure[OF this failed(3)] show ?thesis by auto
next
  case (accepted w1 x w2 user)
  have g2: "guessed u T n w2" and q: "quiet time ok lck cnt w1 w2"
    using checked[OF g accepted(1)] guessed_quiet login_quiet[OF accepted(2)] by blast+
  have "ok w2" using g2 by (simp add: guessed_def)
  from cleared[OF this accepted(3)] have t3: "time w2 \<le> time w'" and "ok w'"
    and others: "u \<noteq> strip name \<Longrightarrow> same_view lck cnt (time w') w2 w' u" by auto
  moreover have "u \<noteq> strip name" using fresh accepted(4) by (auto simp: is_accepted_def)
  ultimately show ?thesis
    using guessed_same[OF g2 _ t3 others] checked[OF g accepted(1)] q
    by (auto simp: is_rejected_def is_lockout_def accepted(4) quiet_def)
next
  case (unclear w1 x w2 e)
  have "guessed u T n w2"
    using checked[OF g unclear(1)] guessed_quiet login_quiet[OF unclear(2)] by blast
  then have "ok w2" by (simp add: guessed_def)
  from cleared[OF this unclear(3)] show ?thesis by auto
qed

lemma attempt_time:
  assumes "ok w" "attempt_signin (Inr cfg) st login name password w = (r, w')"
  shows "ok w' \<and> time w \<le> time w'"
proof -
  have c: "ok w1 \<and> time w \<le> time w1" if "as_is_locked st v w = (x, w1)" for v x w1
    using check[OF assms(1) that] by auto
  have l: "ok w2 \<and> time w1 \<le> time w2" if "login v p w1 = (x, w2)" "ok w1" for v p x w1 w2
    using login_quiet[OF that(1)] that(2) by (simp add: quiet_def)
  from assms(2) show ?thesis
  proof (cases rule: attempt_signin_cases)
    case (other w1)
    then show ?thesis using c[OF other(1)] l[of "strip name" password w1 _ w'] by (metis order_trans prod.collapse)
  next
    case (rejected w1 x w2 k)
    then show ?thesis using c[OF rejected(1)] l[OF rejected(2)] failure[of w2 "strip name" "Inr k" w'] by auto
  next
    case (failed w1 x w2 e)
    then show ?thesis using c[OF failed(1)] l[OF failed(2)] failure[of w2 "strip name" "Inl e" w'] by auto
  next
    case (accepted w1 x w2 user)
    then show ?thesis using c[OF accepted(1)] l[OF accepted(2)] cleared[of w2 "strip name" "Inr ()" w'] by auto
  next
    case (unclear w1 x w2 e)
    then show ?thesis using c[OF unclear(1)] l[OF unclear(2)] cleared[of w2 "strip name" "Inl e" w'] by auto
  qed (auto dest: c)
qed

definition only_quiet :: "'a signin_event list \<Rightarrow> bool" where
  "only_quiet es \<longleftrightarrow> (\<forall>f w. Meanwhile f \<in> set es \<longrightarrow> quiet time ok lck cnt w (f w))"

lemma signins_time:
  "ok w \<Longrightarrow> only_quiet es \<Longrightarrow> signins (Inr cfg) st login es w = (os, w') \<Longrightarrow> ok w' \<and> time w \<le> time w'"
proof (induction es arbitrary: w os)
  case (Cons e es)
  have es: "only_quiet es" using Cons.prems(2) by (simp add: only_quiet_def)
  show ?case
  proof (cases e)
    case (SignIn name password)
    obtain r w1 where a: "attempt_signin (Inr cfg) st login name password w = (r, w1)"
      by (cases "attempt_signin (Inr cfg) st login name password w")
    then show ?thesis
      using Cons.IH[OF _ es] attempt_time[OF Cons.prems(1) a] Cons.prems(3) SignIn
      by (fastforce split: prod.splits)
  next
    case (Meanwhile f)
    then have "quiet time ok lck cnt w (f w)" using Cons.prems(2) by (auto simp: only_quiet_def)
    then show ?thesis
      using Cons.IH[OF _ es, of "f w"] Cons.prems Meanwhile by (fastforce simp: quiet_def)
  qed
qed auto

lemma signins_guessed:
  assumes "guessed u T n w" "only_quiet es" "signins (Inr cfg) st login es w = (os, w')"
    and "\<not> list_ex (is_accepted u) os"
    and "time w' < T" "T \<le> time w + of_int (lockout_seconds limits)"
        "T \<le> time w + of_int (rate_limit_window_seconds limits)"
  shows "guessed u T (n + wrong_guesses u os) w'
    \<and> (list_ex (is_lockout u) os \<longrightarrow> int (n + wrong_guesses u os) = max_failed_attempts limits)"
  using assms
proof (induction es arbitrary: n w os)
  case (Cons e es)
  have es: "only_quiet es" using Cons.prems(2) by (simp add: only_quiet_def)
  show ?case
  proof (cases e)
    case (SignIn name password)
    obtain r w1 where a: "attempt_signin (Inr cfg) st login name password w = (r, w1)"
      by (cases "attempt_signin (Inr cfg) st login name password w")
    obtain os' where run: "signins (Inr cfg) st login es w1 = (os', w')" and os: "os = (strip name, r) # os'"
      using Cons.prems(3) SignIn a by (auto split: prod.splits)
    have ok: "ok w1 \<and> time w \<le> time w1"
      using attempt_time[OF _ a] Cons.prems(1) by (simp add: guessed_def)
    then have later: "time w1 \<le> time w'" using signins_time[OF _ es run] by blast
    have one: "guessed u T (n + (if is_rejected u (strip name, r) then 1 else 0)) w1
        \<and> (is_lockout u (strip name, r) \<longrightarrow> int n = max_failed_attempts limits)"
      using attempt_step[OF Cons.prems(1) a] Cons.prems(4-7) later os by simp
    have "guessed u T (n + wrong_guesses u os) w'
        \<and> (list_ex (is_lockout u) os' \<longrightarrow> int (n + wrong_guesses u os) = max_failed_attempts limits)"
      using Cons.IH[OF conjunct1[OF one] es run] Cons.prems(4-7) ok os
      by (cases "is_rejected u (strip name, r)") (auto simp: wrong_guesses_def algebra_simps)
    then show ?thesis using one os by (auto simp: guessed_def)
  next
    case (Meanwhile f)
    then have q: "quiet time ok lck cnt w (f w)" using Cons.prems(2) by (auto simp: only_quiet_def)
    show ?thesis
      using Cons.IH[OF guessed_quiet[OF Cons.prems(1) q] es] Cons.prems(3-7) q Meanwhile
      by (simp add: quiet_def)
  qed
qed (simp add: wrong_guesses_def)

text \<open>From a state where nothing counts against the user, no more wrong guesses than allowed come through
  before the deadline.\<close>

lemma guesses_bounded:
  assumes "ok w" "\<forall>s\<ge>time w. cnt w u s = 0 \<and> \<not> lck w u s" "only_quiet es"
    and "signins (Inr cfg) st login es w = (os, w')" "\<not> list_ex (is_accepted u) os"
    and "time w' < time w + of_int (min (lockout_seconds limits) (rate_limit_window_seconds limits))"
  shows "int (wrong_guesses u os) \<le> max_failed_attempts limits
    \<and> (list_ex (is_lockout u) os \<longrightarrow> int (wrong_guesses u os) = max_failed_attempts limits)"
proof -
  let ?T = "time w + of_int (min (lockout_seconds limits) (rate_limit_window_seconds limits))"
  have "guessed u ?T 0 w" using assms(1,2) limits_positive by (auto simp: guessed_def)
  from signins_guessed[OF this assms(3-6)] show ?thesis by (simp add: guessed_def min_def)
qed

end

section \<open>The store in memory\<close>

text \<open>A clock does not run backwards and starts at zero.\<close>

locale ticking =
  fixes clock :: "('c, rat) act" and ctime :: "'c \<Rightarrow> rat"
  assumes tick: "\<exists>t c'. clock c = (Inr t, c') \<and> ctime c \<le> t \<and> t \<le> ctime c'"
    and never_negative: "0 \<le> ctime c"

definition table_lock :: "attempt_table \<times> 'c \<Rightarrow> string \<Rightarrow> rat \<Rightarrow> bool" where
  "table_lock w u s = (s < get0 (locked_until (fst w)) u)"

definition table_count :: "attempt_table \<times> 'c \<Rightarrow> string \<Rightarrow> rat \<Rightarrow> int" where
  "table_count w u s = (if s < get0 (failure_expires_at (fst w)) u then get0 (failure_counts (fst w)) u else 0)"

definition table_ok :: "attempt_table \<times> 'c \<Rightarrow> bool" where
  "table_ok w \<longleftrightarrow> (\<forall>u e. failure_expires_at (fst w) u = Some e \<longrightarrow>
     (\<exists>n>0. failure_counts (fst w) u = Some n))"

lemma purge_view:
  assumes "0 \<le> now" "now \<le> s"
  shows "table_lock (purge_table u now t, c) v s = table_lock (t, d) v s"
    and "table_count (purge_table u now t, c) v s = table_count (t, d) v s"
  using assms by (auto simp: table_lock_def table_count_def purge_table_def Let_def get0_def
      split: option.splits)

lemma purge_ok: "table_ok (t, d) \<Longrightarrow> table_ok (purge_table u now t, c)"
  by (auto simp: table_ok_def purge_table_def Let_def split: if_splits)

lemma count_failure_other:
  "v \<noteq> u \<Longrightarrow> table_lock (count_failure limits u now t, c) v s = table_lock (t, d) v s"
  "v \<noteq> u \<Longrightarrow> table_count (count_failure limits u now t, c) v s = table_count (t, d) v s"
  by (simp_all add: table_lock_def table_count_def count_failure_def Let_def get0_def)

lemma count_failure_user:
  "get0 (failure_counts (count_failure limits u now t)) u = table_count (t, c) u now + 1"
  "table_count (count_failure limits u now t, c) u s =
     (if now < get0 (failure_expires_at t) u
      then if s < get0 (failure_expires_at t) u then table_count (t, c) u now + 1 else 0
      else if s < now + of_int (rate_limit_window_seconds limits) then 1 else 0)"
  "table_lock (count_failure limits u now t, c) u s =
     (if max_failed_attempts limits \<le> table_count (t, c) u now + 1
      then s < now + of_int (lockout_seconds limits) else table_lock (t, c) u s)"
  by (auto simp: table_lock_def table_count_def count_failure_def Let_def get0_def
      split: option.splits)

lemma count_failure_ok: "table_ok (t, d) \<Longrightarrow> table_ok (count_failure limits u now t, c)"
  unfolding table_ok_def count_failure_def Let_def get0_def
  by (auto split: option.splits if_splits)

lemma clear_view:
  "memory_clear u (t, c) = (Inr (), t', c') \<Longrightarrow> v \<noteq> u \<Longrightarrow> table_lock (t', c') v s = table_lock (t, c) v s"
  "memory_clear u (t, c) = (Inr (), t', c') \<Longrightarrow> v \<noteq> u \<Longrightarrow> table_count (t', c') v s = table_count (t, c) v s"
  "memory_clear u (t, c) = (Inr (), t', c') \<Longrightarrow> 0 \<le> s \<Longrightarrow> \<not> table_lock (t', c') u s \<and> table_count (t', c') u s = 0"
  "memory_clear u (t, c) = (Inr (), t', c') \<Longrightarrow> table_ok (t, c) \<Longrightarrow> table_ok (t', c')"
  by (auto simp: memory_clear_def on_table_def table_lock_def table_count_def table_ok_def get0_def
      split: if_splits)

text \<open>One operation of the store is some purging at a time, then the operation at a later time.\<close>

context ticking
begin

lemma read_clock_run:
  "\<exists>t c'. read_clock clock (x, c) = (Inr t, x, c') \<and> ctime c \<le> t \<and> t \<le> ctime c'"
  using tick[of c] by (auto simp: read_clock_def zoomA_def)

lemma purge_run:
  "\<exists>now c'. purge_expired clock u (t, c) = (Inr (), purge_table u now t, c')
     \<and> ctime c \<le> now \<and> now \<le> ctime c'"
proof -
  obtain now c' where k: "read_clock clock (t, c) = (Inr now, t, c')" "ctime c \<le> now" "now \<le> ctime c'"
    using read_clock_run[of t c] by (elim exE conjE)
  then have "purge_expired clock u (t, c) = (Inr (), purge_table u now t, c')"
    by (simp add: purge_expired_def on_table_def bindA_def)
  then show ?thesis using k by (intro exI conjI)
qed

lemma memory_check:
  assumes "table_ok w" "memory_is_locked clock u w = (r, w')"
  shows "\<exists>t. r = Inr (table_lock w u t) \<and> ctime (snd w) \<le> t \<and> t \<le> ctime (snd w') \<and> table_ok w'
    \<and> (\<forall>v. same_view table_lock table_count (ctime (snd w')) w w' v)"
proof -
  obtain t c where w: "w = (t, c)" by (cases w)
  obtain now c1 where p: "purge_expired clock u (t, c) = (Inr (), purge_table u now t, c1)"
    and n: "ctime c \<le> now" "now \<le> ctime c1" using purge_run[of u t c] by (elim exE conjE)
  obtain now2 c2 where k: "read_clock clock (purge_table u now t, c1) = (Inr now2, purge_table u now t, c2)"
    and n2: "ctime c1 \<le> now2" "now2 \<le> ctime c2"
    using read_clock_run[of "purge_table u now t" c1] by (elim exE conjE)
  have r: "r = Inr (table_lock (purge_table u now t, c) u now2)" and w': "w' = (purge_table u now t, c2)"
    using assms(2) p k by (auto simp: w memory_is_locked_def bindA_def table_lock_def)
  have now: "0 \<le> now" using never_negative[of c] n by linarith
  have "table_lock (purge_table u now t, c) u now2 = table_lock w u now2"
    unfolding w by (rule purge_view(1)[OF now]) (use n n2 in linarith)
  moreover have "same_view table_lock table_count (ctime (snd w')) w w' v" for v
    unfolding same_view_def
  proof (intro allI impI)
    fix s assume "ctime (snd w') \<le> s"
    then have "now \<le> s" using n n2 by (simp add: w')
    from purge_view[OF now this, of u t c2 v c]
    show "table_lock w' v s = table_lock w v s \<and> table_count w' v s = table_count w v s"
      by (simp add: w w')
  qed
  moreover have "table_ok w'" using purge_ok assms(1) by (simp add: w w')
  ultimately show ?thesis using n n2 by (intro exI[of _ now2]) (simp add: w w' r)
qed

lemma memory_failure:
  assumes "table_ok w" "memory_record_failure limits clock u w = (r, w')"
  shows "\<exists>t. r = Inr (table_count w u t + 1) \<and> ctime (snd w) \<le> t \<and> t \<le> ctime (snd w') \<and> table_ok w'
    \<and> (\<forall>v. v \<noteq> u \<longrightarrow> same_view table_lock table_count (ctime (snd w')) w w' v)
    \<and> (\<forall>s\<ge>ctime (snd w'). table_count w' u s =
         (if t < get0 (failure_expires_at (fst w)) u
          then if s < get0 (failure_expires_at (fst w)) u then table_count w u t + 1 else 0
          else if s < t + of_int (rate_limit_window_seconds limits) then 1 else 0))
    \<and> (\<forall>s\<ge>ctime (snd w'). table_lock w' u s =
         (if max_failed_attempts limits \<le> table_count w u t + 1
          then s < t + of_int (lockout_seconds limits) else table_lock w u s))"
proof -
  obtain t c where w: "w = (t, c)" by (cases w)
  obtain now c1 where p: "purge_expired clock u (t, c) = (Inr (), purge_table u now t, c1)"
    and n: "ctime c \<le> now" "now \<le> ctime c1" using purge_run[of u t c] by (elim exE conjE)
  let ?p = "purge_table u now t"
  obtain now2 c2 where k: "read_clock clock (?p, c1) = (Inr now2, ?p, c2)"
    and n2: "ctime c1 \<le> now2" "now2 \<le> ctime c2"
    using read_clock_run[of "purge_table u now t" c1] by (elim exE conjE)
  have r: "r = Inr (get0 (failure_counts (count_failure limits u now2 ?p)) u)"
    and w': "w' = (count_failure limits u now2 ?p, c2)"
    using assms(2) p k by (auto simp: w memory_record_failure_def bindA_def on_table_def)
  have now: "0 \<le> now" using never_negative[of c] n by linarith
  have live: "(s < get0 (failure_expires_at ?p) u) = (s < get0 (failure_expires_at t) u)" if "now \<le> s" for s
    using that now by (auto simp: purge_table_def Let_def get0_def split: option.splits)
  have cnt: "table_count (?p, c2) v s = table_count w v s" "table_lock (?p, c2) v s = table_lock w v s"
    if "now \<le> s" for v s
    using purge_view[OF now that] by (simp_all add: w)
  show ?thesis
  proof (intro exI[of _ now2] conjI allI impI)
    show "r = Inr (table_count w u now2 + 1)"
      using count_failure_user(1)[of limits u now2 ?p c2] cnt(1)[of now2 u] n n2 r by simp
    show "ctime (snd w) \<le> now2" "now2 \<le> ctime (snd w')" using n n2 by (simp_all add: w w')
    show "table_ok w'" 
      unfolding w' by (rule count_failure_ok[OF purge_ok[OF assms(1)[unfolded w], of u now c]])
    show "same_view table_lock table_count (ctime (snd w')) w w' v" if "v \<noteq> u" for v
      unfolding same_view_def
    proof (intro allI impI)
      fix s assume "ctime (snd w') \<le> s"
      then have "now \<le> s" using n n2 by (simp add: w')
      from count_failure_other[OF that, of limits now2 ?p c2 s c2] cnt[OF this, of v]
      show "table_lock w' v s = table_lock w v s \<and> table_count w' v s = table_count w v s"
        by (simp add: w')
    qed
    fix s assume "ctime (snd w') \<le> s"
    then have s: "now \<le> s" "now \<le> now2" using n n2 by (simp_all add: w')
    show "table_count w' u s =
         (if now2 < get0 (failure_expires_at (fst w)) u
          then if s < get0 (failure_expires_at (fst w)) u then table_count w u now2 + 1 else 0
          else if s < now2 + of_int (rate_limit_window_seconds limits) then 1 else 0)"
      using count_failure_user(2)[of limits u now2 ?p c2 s] live[OF s(1)] live[OF s(2)] cnt(1)[OF s(2)]
      by (simp add: w' w)
    show "table_lock w' u s =
         (if max_failed_attempts limits \<le> table_count w u now2 + 1
          then s < now2 + of_int (lockout_seconds limits) else table_lock w u s)"
      using count_failure_user(3)[of limits u now2 ?p c2 s] cnt(1)[OF s(2)] cnt(2)[OF s(1)]
      by (simp add: w')
  qed
qed

end

locale memory_attempts = ticking clock ctime
  for clock :: "('c, rat) act" and ctime +
  fixes limits :: AuthRateLimitSettings

sublocale memory_attempts \<subseteq> attempt_store "memory_store limits clock" limits "\<lambda>w. ctime (snd w)"
    table_ok table_lock table_count
proof
  fix w :: "attempt_table \<times> 'c" and u w' and rb :: "bool res"
  assume "table_ok w" "as_is_locked (memory_store limits clock) u w = (rb, w')"
  then show "\<exists>t. rb = Inr (table_lock w u t) \<and> ctime (snd w) \<le> t \<and> t \<le> ctime (snd w') \<and> table_ok w'
      \<and> (\<forall>v. same_view table_lock table_count (ctime (snd w')) w w' v)"
    by (intro memory_check) (simp_all add: memory_store_def)
next
  fix w :: "attempt_table \<times> 'c" and u w' and rn :: "int res"
  assume ok: "table_ok w" and run: "as_record_failure (memory_store limits clock) u w = (rn, w')"
  have live: "(t < get0 (failure_expires_at (fst w)) u) = (0 < table_count w u t)" if "0 \<le> t" for t
    using ok that by (auto simp: table_ok_def table_count_def get0_def split: option.splits)
  obtain t where t: "rn = Inr (table_count w u t + 1)" "ctime (snd w) \<le> t" "t \<le> ctime (snd w')" "table_ok w'"
      "\<forall>v. v \<noteq> u \<longrightarrow> same_view table_lock table_count (ctime (snd w')) w w' v"
    and c: "\<And>s. ctime (snd w') \<le> s \<Longrightarrow> table_count w' u s =
         (if t < get0 (failure_expires_at (fst w)) u
          then if s < get0 (failure_expires_at (fst w)) u then table_count w u t + 1 else 0
          else if s < t + of_int (rate_limit_window_seconds limits) then 1 else 0)"
    and l: "\<And>s. ctime (snd w') \<le> s \<Longrightarrow> table_lock w' u s =
         (if max_failed_attempts limits \<le> table_count w u t + 1
          then s < t + of_int (lockout_seconds limits) else table_lock w u s)"
    using memory_failure[OF ok, of limits u rn w'] run by (auto simp: memory_store_def)
  have pos: "0 \<le> ctime (snd w)" "0 \<le> ctime (snd w')" by (rule never_negative)+
  show "\<exists>t. rn = Inr (table_count w u t + 1) \<and> ctime (snd w) \<le> t \<and> t \<le> ctime (snd w') \<and> table_ok w'
      \<and> (\<forall>v. v \<noteq> u \<longrightarrow> same_view table_lock table_count (ctime (snd w')) w w' v)
      \<and> (table_count w u t + 1 < max_failed_attempts limits \<longrightarrow>
           (\<forall>s\<ge>ctime (snd w'). table_lock w' u s = table_lock w u s))
      \<and> (max_failed_attempts limits \<le> table_count w u t + 1 \<longrightarrow>
           (\<forall>s\<ge>ctime (snd w'). s < ctime (snd w) + of_int (lockout_seconds limits) \<longrightarrow> table_lock w' u s))
      \<and> (0 < table_count w u t \<longrightarrow>
           (\<forall>s\<ge>ctime (snd w'). table_count w' u s = (if 0 < table_count w u s then table_count w u t + 1 else 0)))
      \<and> (table_count w u t = 0 \<longrightarrow>
           (\<forall>s\<ge>ctime (snd w'). s < ctime (snd w) + of_int (rate_limit_window_seconds limits) \<longrightarrow>
              table_count w' u s = 1))"
    using t pos
    by (intro exI[of _ t] conjI) (auto simp: c l live)
next
  fix w :: "attempt_table \<times> 'c" and u w' and ru :: "unit res"
  assume ok: "table_ok w" and run: "as_clear (memory_store limits clock) u w = (ru, w')"
  obtain t c t' c' where w: "w = (t, c)" "w' = (t', c')" by (cases w, cases w') auto
  have r: "ru = Inr ()" "memory_clear u (t, c) = (Inr (), t', c')" "c' = c"
    using run by (auto simp: w memory_store_def memory_clear_def on_table_def)
  show "ru = Inr () \<and> ctime (snd w) \<le> ctime (snd w') \<and> table_ok w'
      \<and> (\<forall>v. v \<noteq> u \<longrightarrow> same_view table_lock table_count (ctime (snd w')) w w' v)
      \<and> (\<forall>s\<ge>ctime (snd w'). \<not> table_lock w' u s \<and> table_count w' u s = 0)"
    using clear_view[OF r(2)] ok r never_negative[of c] by (auto simp: w same_view_def)
qed

context memory_attempts
begin

lemma memory_contract:
  "attempt_store (memory_store limits clock) limits (\<lambda>w. ctime (snd w)) table_ok table_lock table_count"
  by unfold_locales

end

section \<open>The store in Redis\<close>

text \<open>The documented behaviour of the five commands, on a server that answers: an entry is a value with the
  time it expires at, if any, and counts as absent from then on.\<close>

type_synonym key_entry = "(int \<times> rat option) option"

definition live :: "key_entry \<Rightarrow> rat \<Rightarrow> bool" where
  "live e t = (case e of None \<Rightarrow> False | Some (_, None) \<Rightarrow> True | Some (_, Some x) \<Rightarrow> t < x)"

definition incremented :: "key_entry \<Rightarrow> rat \<Rightarrow> int \<times> rat option" where
  "incremented e t = (if live e t then (fst (the e) + 1, snd (the e)) else (1, None))"

locale expiring_keys =
  fixes r :: "'w redis_keys" and rtime :: "'w \<Rightarrow> rat" and entry :: "'w \<Rightarrow> string \<Rightarrow> key_entry"
  assumes exists_law: "\<exists>t w'. rk_exists r k w = (Inr (live (entry w k) t), w')
      \<and> rtime w \<le> t \<and> t \<le> rtime w' \<and> entry w' = entry w"
    and incr_law: "\<exists>t w'. rk_incr r k w = (Inr (fst (incremented (entry w k) t)), w')
      \<and> rtime w \<le> t \<and> t \<le> rtime w' \<and> entry w' = (entry w)(k \<mapsto> incremented (entry w k) t)"
    and expire_law: "\<exists>t w'. rk_expire r k n w = (Inr (), w') \<and> rtime w \<le> t \<and> t \<le> rtime w'
      \<and> entry w' = (if live (entry w k) t
                    then (entry w)(k \<mapsto> (fst (the (entry w k)), Some (t + of_int n))) else entry w)"
    and set_law: "\<exists>t w' i. rk_set_ex r k v n w = (Inr (), w') \<and> rtime w \<le> t \<and> t \<le> rtime w'
      \<and> entry w' = (entry w)(k \<mapsto> (i, Some (t + of_int n)))"
    and delete_law: "\<exists>w'. rk_delete r ks w = (Inr (), w') \<and> rtime w \<le> rtime w'
      \<and> entry w' = (\<lambda>k. if k \<in> set ks then None else entry w k)"
begin

definition key_lock :: "'w \<Rightarrow> string \<Rightarrow> rat \<Rightarrow> bool" where
  "key_lock w u s = live (entry w (lockout_key u)) s"

definition key_count :: "'w \<Rightarrow> string \<Rightarrow> rat \<Rightarrow> int" where
  "key_count w u s = (if live (entry w (counter_key u)) s then fst (the (entry w (counter_key u))) else 0)"

definition key_ok :: "'w \<Rightarrow> bool" where
  "key_ok w \<longleftrightarrow> (\<forall>u n x. entry w (counter_key u) = Some (n, x) \<longrightarrow> 0 < n)"

end

lemma store_keys [simp]:
  "counter_key u \<noteq> lockout_key v" "lockout_key v \<noteq> counter_key u"
  "counter_key u = counter_key v \<longleftrightarrow> u = v" "lockout_key u = lockout_key v \<longleftrightarrow> u = v"
  by (simp_all add: counter_key_def lockout_key_def)

context expiring_keys
begin

text \<open>The failure of a user is counted at one time; the rest of the call runs later.\<close>

lemma redis_failure_run:
  obtains t t2 t3 w' i where "rtime w \<le> t" "t \<le> t2" "t2 \<le> t3" "t3 \<le> rtime w'"
    and "redis_record_failure limits r u w = (Inr (fst (incremented (entry w (counter_key u)) t)), w')"
    and "entry w' =
      (let n = fst (incremented (entry w (counter_key u)) t); x = snd (incremented (entry w (counter_key u)) t);
           e = (entry w)(counter_key u \<mapsto>
             (n, if n = 1 \<and> live (Some (n, x)) t2 then Some (t2 + of_int (rate_limit_window_seconds limits)) else x))
       in if max_failed_attempts limits \<le> n
          then e(lockout_key u \<mapsto> (i, Some (t3 + of_int (lockout_seconds limits)))) else e)"
proof -
  let ?k = "counter_key u"
  obtain t w1 where i: "rk_incr r ?k w = (Inr (fst (incremented (entry w ?k) t)), w1)"
      "rtime w \<le> t" "t \<le> rtime w1" "entry w1 = (entry w)(?k \<mapsto> incremented (entry w ?k) t)"
    using incr_law[of ?k w] by (elim exE conjE)
  let ?n = "fst (incremented (entry w ?k) t)" and ?x = "snd (incremented (entry w ?k) t)"
  obtain t2 w2 where e: "(if ?n = 1 then rk_expire r ?k (rate_limit_window_seconds limits) else retA ()) w1 = (Inr (), w2)"
      "rtime w1 \<le> t2" "t2 \<le> rtime w2"
      "entry w2 = (entry w)(?k \<mapsto>
         (?n, if ?n = 1 \<and> live (Some (?n, ?x)) t2 then Some (t2 + of_int (rate_limit_window_seconds limits)) else ?x))"
  proof (cases "?n = 1")
    case True
    obtain t2 w2 where "rk_expire r ?k (rate_limit_window_seconds limits) w1 = (Inr (), w2)"
        "rtime w1 \<le> t2" "t2 \<le> rtime w2"
        "entry w2 = (if live (entry w1 ?k) t2
           then (entry w1)(?k \<mapsto> (fst (the (entry w1 ?k)), Some (t2 + of_int (rate_limit_window_seconds limits))))
           else entry w1)"
      using expire_law[of ?k "rate_limit_window_seconds limits" w1] by (elim exE conjE)
    moreover have "incremented (entry w ?k) t = (1, ?x)" using True by (metis prod.collapse)
    ultimately show ?thesis using that[of w2 t2] True i(4) by (auto split: if_splits)
  next
    case False
    moreover have "incremented (entry w ?k) t = (?n, ?x)" by simp
    ultimately show ?thesis using that[of w1 "rtime w1"] i(4) by (simp add: retA_def)
  qed
  obtain t3 w3 j where l: "(if max_failed_attempts limits \<le> ?n
        then rk_set_ex r (lockout_key u) ''1'' (lockout_seconds limits) else retA ()) w2 = (Inr (), w3)"
      "rtime w2 \<le> t3" "t3 \<le> rtime w3"
      "entry w3 = (if max_failed_attempts limits \<le> ?n
         then (entry w2)(lockout_key u \<mapsto> (j, Some (t3 + of_int (lockout_seconds limits)))) else entry w2)"
  proof (cases "max_failed_attempts limits \<le> ?n")
    case True
    obtain t3 w3 j where "rk_set_ex r (lockout_key u) ''1'' (lockout_seconds limits) w2 = (Inr (), w3)"
        "rtime w2 \<le> t3" "t3 \<le> rtime w3"
        "entry w3 = (entry w2)(lockout_key u \<mapsto> (j, Some (t3 + of_int (lockout_seconds limits))))"
      using set_law[of "lockout_key u" "''1''" "lockout_seconds limits" w2] by (elim exE conjE)
    then show ?thesis using that[of w3 t3 j] True by simp
  next
    case False
    then show ?thesis using that[of w2 "rtime w2"] by (simp add: retA_def)
  qed
  have "redis_record_failure limits r u w = (Inr ?n, w3)"
    using i(1) e(1) l(1) by (simp add: redis_record_failure_def bindA_def)
  moreover have "t \<le> t2" "t2 \<le> t3" using i e l by linarith+
  ultimately show ?thesis using that[of t t2 t3 w3 j] i(2) l(3,4) e(4) by (simp add: Let_def)
qed

lemma redis_failure_view:
  assumes ok: "key_ok w" and run: "redis_record_failure limits r u w = (x, w')"
  shows "\<exists>t. x = Inr (key_count w u t + 1) \<and> rtime w \<le> t \<and> t \<le> rtime w' \<and> key_ok w'
    \<and> (\<forall>v. v \<noteq> u \<longrightarrow> same_view key_lock key_count (rtime w') w w' v)
    \<and> (key_count w u t + 1 < max_failed_attempts limits \<longrightarrow>
         (\<forall>s\<ge>rtime w'. key_lock w' u s = key_lock w u s))
    \<and> (max_failed_attempts limits \<le> key_count w u t + 1 \<longrightarrow>
         (\<forall>s\<ge>rtime w'. s < rtime w + of_int (lockout_seconds limits) \<longrightarrow> key_lock w' u s))
    \<and> (0 < key_count w u t \<longrightarrow>
         (\<forall>s\<ge>rtime w'. key_count w' u s = (if 0 < key_count w u s then key_count w u t + 1 else 0)))
    \<and> (key_count w u t = 0 \<longrightarrow>
         (\<forall>s\<ge>rtime w'. s < rtime w + of_int (rate_limit_window_seconds limits) \<longrightarrow> key_count w' u s = 1))"
proof -
  let ?k = "counter_key u"
  obtain t t2 t3 w2 i where t: "rtime w \<le> t" "t \<le> t2" "t2 \<le> t3" "t3 \<le> rtime w2"
    and r: "redis_record_failure limits r u w = (Inr (fst (incremented (entry w ?k) t)), w2)"
    and e: "entry w2 =
      (let n = fst (incremented (entry w ?k) t); x = snd (incremented (entry w ?k) t);
           e = (entry w)(?k \<mapsto>
             (n, if n = 1 \<and> live (Some (n, x)) t2 then Some (t2 + of_int (rate_limit_window_seconds limits)) else x))
       in if max_failed_attempts limits \<le> n
          then e(lockout_key u \<mapsto> (i, Some (t3 + of_int (lockout_seconds limits)))) else e)"
    by (rule redis_failure_run)
  have w2: "w2 = w'" and x: "x = Inr (fst (incremented (entry w ?k) t))" using run r by auto
  have n: "fst (incremented (entry w ?k) t) = key_count w u t + 1"
    by (simp add: incremented_def key_count_def)
  have pos: "live (entry w ?k) s \<longleftrightarrow> 0 < key_count w u s" for s
    using ok by (auto simp: key_ok_def key_count_def live_def split: option.splits)
  have counts: "0 \<le> key_count w u t" using pos[of t] by (auto simp: key_count_def)
  have ok': "key_ok w'"
    using ok counts n by (auto simp: key_ok_def e[unfolded w2] Let_def)
  have other: "entry w' (counter_key v) = entry w (counter_key v) \<and> entry w' (lockout_key v) = entry w (lockout_key v)"
    if "v \<noteq> u" for v
    using that by (simp add: e[unfolded w2] Let_def)
  have lock: "entry w' (lockout_key u) = (if max_failed_attempts limits \<le> key_count w u t + 1
      then Some (i, Some (t3 + of_int (lockout_seconds limits))) else entry w (lockout_key u))"
    by (simp add: e[unfolded w2] Let_def n)
  have again: "entry w' ?k = Some (key_count w u t + 1, snd (the (entry w ?k)))" if "0 < key_count w u t"
    using that pos[of t] counts by (simp add: e[unfolded w2] Let_def n) (simp add: incremented_def)
  have first: "entry w' ?k = Some (1, Some (t2 + of_int (rate_limit_window_seconds limits)))" if "key_count w u t = 0"
    using that pos[of t] by (simp add: e[unfolded w2] Let_def n) (simp add: incremented_def live_def)
  show ?thesis
  proof (intro exI[of _ t] conjI allI impI)
    show "x = Inr (key_count w u t + 1)" "rtime w \<le> t" "t \<le> rtime w'" "key_ok w'"
      using x n t w2 ok' by simp_all
    show "same_view key_lock key_count (rtime w') w w' v" if "v \<noteq> u" for v
      using other[OF that] by (simp add: same_view_def key_lock_def key_count_def)
    fix s assume s: "rtime w' \<le> s"
    show "key_lock w' u s = key_lock w u s" if "key_count w u t + 1 < max_failed_attempts limits"
      using that by (simp add: key_lock_def lock)
    show "key_lock w' u s" if "max_failed_attempts limits \<le> key_count w u t + 1"
        "s < rtime w + of_int (lockout_seconds limits)"
      using that t by (simp add: key_lock_def lock live_def)
    show "key_count w' u s = (if 0 < key_count w u s then key_count w u t + 1 else 0)" if c: "0 < key_count w u t"
    proof -
      obtain m y where "entry w ?k = Some (m, y)" using c
        by (auto simp: key_count_def live_def split: option.splits if_splits)
      then have "live (entry w' ?k) s = live (entry w ?k) s"
        using again[OF c] by (simp add: live_def split: option.split)
      then show ?thesis using again[OF c] pos[of s] by (simp add: key_count_def[of w'])
    qed
    show "key_count w' u s = 1" if "key_count w u t = 0" "s < rtime w + of_int (rate_limit_window_seconds limits)"
      using that t first by (simp add: key_count_def[of w'] live_def)
  qed
qed

end

locale redis_attempts = expiring_keys r rtime entry
  for r :: "'w redis_keys" and rtime and entry +
  fixes limits :: AuthRateLimitSettings

sublocale redis_attempts \<subseteq> attempt_store "redis_store limits r" limits rtime key_ok key_lock key_count
proof
  fix w :: 'w and u w' and rb :: "bool res"
  assume ok: "key_ok w" and run: "as_is_locked (redis_store limits r) u w = (rb, w')"
  obtain t w1 where "rk_exists r (lockout_key u) w = (Inr (live (entry w (lockout_key u)) t), w1)"
      "rtime w \<le> t" "t \<le> rtime w1" "entry w1 = entry w"
    using exists_law[of "lockout_key u" w] by (elim exE conjE)
  then show "\<exists>t. rb = Inr (key_lock w u t) \<and> rtime w \<le> t \<and> t \<le> rtime w' \<and> key_ok w'
      \<and> (\<forall>v. same_view key_lock key_count (rtime w') w w' v)"
    using ok run
    by (intro exI[of _ t]) (auto simp: redis_store_def key_lock_def key_count_def key_ok_def same_view_def)
next
  fix w :: 'w and u w' and rn :: "int res"
  assume "key_ok w" "as_record_failure (redis_store limits r) u w = (rn, w')"
  then show "\<exists>t. rn = Inr (key_count w u t + 1) \<and> rtime w \<le> t \<and> t \<le> rtime w' \<and> key_ok w'
      \<and> (\<forall>v. v \<noteq> u \<longrightarrow> same_view key_lock key_count (rtime w') w w' v)
      \<and> (key_count w u t + 1 < max_failed_attempts limits \<longrightarrow>
           (\<forall>s\<ge>rtime w'. key_lock w' u s = key_lock w u s))
      \<and> (max_failed_attempts limits \<le> key_count w u t + 1 \<longrightarrow>
           (\<forall>s\<ge>rtime w'. s < rtime w + of_int (lockout_seconds limits) \<longrightarrow> key_lock w' u s))
      \<and> (0 < key_count w u t \<longrightarrow>
           (\<forall>s\<ge>rtime w'. key_count w' u s = (if 0 < key_count w u s then key_count w u t + 1 else 0)))
      \<and> (key_count w u t = 0 \<longrightarrow>
           (\<forall>s\<ge>rtime w'. s < rtime w + of_int (rate_limit_window_seconds limits) \<longrightarrow> key_count w' u s = 1))"
    by (intro redis_failure_view) (simp_all add: redis_store_def)
next
  fix w :: 'w and u w' and ru :: "unit res"
  assume ok: "key_ok w" and run: "as_clear (redis_store limits r) u w = (ru, w')"
  obtain w1 where "rk_delete r [counter_key u, lockout_key u] w = (Inr (), w1)" "rtime w \<le> rtime w1"
      "entry w1 = (\<lambda>k. if k \<in> set [counter_key u, lockout_key u] then None else entry w k)"
    using delete_law[of "[counter_key u, lockout_key u]" w] by (elim exE conjE)
  then show "ru = Inr () \<and> rtime w \<le> rtime w' \<and> key_ok w'
      \<and> (\<forall>v. v \<noteq> u \<longrightarrow> same_view key_lock key_count (rtime w') w w' v)
      \<and> (\<forall>s\<ge>rtime w'. \<not> key_lock w' u s \<and> key_count w' u s = 0)"
    using ok run
    by (auto simp: redis_store_def key_lock_def key_count_def key_ok_def same_view_def live_def)
qed

context redis_attempts
begin

lemma redis_contract: "attempt_store (redis_store limits r) limits rtime key_ok key_lock key_count"
  by unfold_locales

end

section \<open>Guessing is bounded\<close>

text \<open>The callback of the web UI over each store: the backend call runs on the world beside the table, or
  on the world that holds the Redis server.\<close>

definition beside_table :: "('c, 'a) act \<Rightarrow> (attempt_table \<times> 'c, 'a) act" where
  "beside_table = zoomA snd (\<lambda>c w. (fst w, c))"

definition empty_table :: attempt_table where
  "empty_table = \<lparr>failure_counts = Map.empty, failure_expires_at = Map.empty, locked_until = Map.empty\<rparr>"

lemma empty_table_view [simp]:
  "0 \<le> s \<Longrightarrow> \<not> table_lock (empty_table, c) u s" "table_count (empty_table, c) u s = 0" "table_ok (empty_table, c)"
  by (simp_all add: empty_table_def table_lock_def table_count_def table_ok_def get0_def)

lemma quiet_beside:
  assumes "fst w' = fst w" "ctime (snd w) \<le> ctime (snd w')"
  shows "quiet (\<lambda>w. ctime (snd w)) table_ok table_lock table_count w w'"
  using assms by (simp add: quiet_def same_view_def table_lock_def table_count_def table_ok_def)

lemma limits_at_least_one: "0 < max_failed_attempts (build_auth_rate_limit_settings cfg)"
  by (simp add: build_auth_rate_limit_settings_def)

lemma memory_guard:
  assumes "ticking clock ctime" and "\<And>v p c. ctime c \<le> ctime (snd (login v p c))"
  shows "signin_guard (memory_store (build_auth_rate_limit_settings cfg) clock)
    (build_auth_rate_limit_settings cfg) (\<lambda>w. ctime (snd w)) table_ok table_lock table_count
    (\<lambda>v p. beside_table (login v p))"
proof (rule signin_guard.intro)
  show "attempt_store (memory_store (build_auth_rate_limit_settings cfg) clock)
      (build_auth_rate_limit_settings cfg) (\<lambda>w. ctime (snd w)) table_ok table_lock table_count"
    by (rule memory_attempts.memory_contract[OF memory_attempts.intro[OF assms(1)]])
  show "signin_guard_axioms (build_auth_rate_limit_settings cfg) (\<lambda>w. ctime (snd w)) table_ok table_lock
      table_count (\<lambda>v p. beside_table (login v p))"
  proof
    fix v p x and w w' :: "attempt_table \<times> 'a"
    assume "beside_table (login v p) w = (x, w')"
    then show "quiet (\<lambda>w. ctime (snd w)) table_ok table_lock table_count w w'"
      using assms(2)[of "snd w" v p]
      by (intro quiet_beside) (auto simp: beside_table_def zoomA_def split: prod.splits)
  qed (rule limits_at_least_one)
qed

text \<open>A page with the store in memory, from its start.\<close>

definition memory_page ::
  "WebUISettings \<Rightarrow> (rat \<Rightarrow> string) \<Rightarrow> 'c fastapi_client \<Rightarrow> ('c, rat) act
     \<Rightarrow> (attempt_table \<times> 'c) signin_event list \<Rightarrow> 'c
     \<Rightarrow> (string \<times> signin_outcome res) list \<times> attempt_table \<times> 'c" where
  "memory_page cfg fr client clock es c =
     signins (Inr cfg) (memory_store (build_auth_rate_limit_settings cfg) clock)
       (\<lambda>v p. beside_table (authenticate_user fr client v p)) es (empty_table, c)"


text \<open>The same over Redis, for a user no key counts against.\<close>

definition redis_page ::
  "WebUISettings \<Rightarrow> 'w redis_keys \<Rightarrow> (rat \<Rightarrow> string) \<Rightarrow> 'w fastapi_client \<Rightarrow> 'w signin_event list \<Rightarrow> 'w
     \<Rightarrow> (string \<times> signin_outcome res) list \<times> 'w" where
  "redis_page cfg r fr client es w =
     signins (Inr cfg) (redis_store (build_auth_rate_limit_settings cfg) r) (authenticate_user fr client) es w"

context expiring_keys
begin

lemma same_entries_quiet:
  "entry w' = entry w \<Longrightarrow> rtime w \<le> rtime w' \<Longrightarrow> quiet rtime key_ok key_lock key_count w w'"
  by (simp add: quiet_def same_view_def key_lock_def key_count_def key_ok_def)

lemma redis_guard:
  assumes "\<And>v p w x w'. login v p w = (x, w') \<Longrightarrow> entry w' = entry w \<and> rtime w \<le> rtime w'"
  shows "signin_guard (redis_store (build_auth_rate_limit_settings cfg) r)
    (build_auth_rate_limit_settings cfg) rtime key_ok key_lock key_count login"
proof (rule signin_guard.intro)
  show "attempt_store (redis_store (build_auth_rate_limit_settings cfg) r)
      (build_auth_rate_limit_settings cfg) rtime key_ok key_lock key_count"
    by (rule redis_attempts.redis_contract[OF redis_attempts.intro[OF expiring_keys_axioms]])
  show "signin_guard_axioms (build_auth_rate_limit_settings cfg) rtime key_ok key_lock key_count login"
    by unfold_locales (auto intro: same_entries_quiet limits_at_least_one dest: assms)
qed

lemma guessing_is_bounded_in_redis:
  assumes "key_ok w" "entry w (counter_key u) = None" "entry w (lockout_key u) = None"
    and backend: "\<And>v p w x w'. authenticate_user fr client v p w = (x, w') \<Longrightarrow> entry w' = entry w \<and> rtime w \<le> rtime w'"
    and others: "\<And>f w. Meanwhile f \<in> set es \<Longrightarrow> entry (f w) = entry w \<and> rtime w \<le> rtime (f w)"
    and refused: "\<not> list_ex (is_accepted u) (fst (redis_page cfg r fr client es w))"
    and soon: "rtime (snd (redis_page cfg r fr client es w))
      < rtime w + of_int (min (max 1 (ui_auth_lockout_seconds cfg)) (max 1 (ui_auth_rate_limit_window_seconds cfg)))"
  shows "int (wrong_guesses u (fst (redis_page cfg r fr client es w))) \<le> max 1 (ui_auth_max_failed_attempts cfg)"
proof -
  have guard: "signin_guard (redis_store (build_auth_rate_limit_settings cfg) r)
      (build_auth_rate_limit_settings cfg) rtime key_ok key_lock key_count (authenticate_user fr client)"
    by (rule redis_guard) (rule backend)
  have "signin_guard.only_quiet rtime key_ok key_lock key_count es"
    unfolding signin_guard.only_quiet_def[OF guard] using others by (blast intro: same_entries_quiet)
  moreover have "key_count w u s = 0 \<and> \<not> key_lock w u s" for s
    using assms(2,3) by (simp add: key_count_def key_lock_def live_def)
  ultimately show ?thesis
    using signin_guard.guesses_bounded[OF guard, of w u es cfg
        "fst (redis_page cfg r fr client es w)" "snd (redis_page cfg r fr client es w)"] assms(1) refused soon
    by (simp add: redis_page_def build_auth_rate_limit_settings_def)
qed

end

section \<open>Worlds\<close>

text \<open>A clock that moves one second with every reading, and a backend that refuses every password.\<close>

definition second_hand :: "(nat, rat) act" where
  "second_hand c = (Inr (of_nat c), Suc c)"

interpretation seconds: ticking second_hand of_nat
  by unfold_locales (simp_all add: second_hand_def)

interpretation minutes: memory_attempts second_hand of_nat limits for limits
  by unfold_locales

definition refusing_backend :: "'w web_client" where
  "refusing_backend =
     \<lparr>wc_get = (\<lambda>_ w. (Inl CallTimeout, w)),
      wc_post = (\<lambda>_ _ _ w. (Inr \<lparr>wr_status = 403,
        wr_body = dumps (\<lambda>_. []) (JObj [(''error'', JStr ''invalid_credentials''), (''message'', JStr ''No.'')])\<rparr>, w)),
      wc_stream = (\<lambda>_ _ _ w. (Inl CallTimeout, w))\<rparr>"

definition refused_client :: "'w fastapi_client" where
  "refused_client =
     \<lparr>fc_config = \<lparr>bc_base_url = ''http://localhost:8000'', bc_timeout_seconds = Fin 120,
        bc_streaming_enabled = True, bc_api_key = ''key''\<rparr>,
      fc_open = (\<lambda>_ _. refusing_backend)\<rparr>"

definition two_tries :: WebUISettings where
  "two_tries =
     (case webui_settings (\<lambda>_. []) [''AUTH_MAX_FAILED_ATTEMPTS'' \<mapsto> ''2''] of Inr s \<Rightarrow> s)"

text \<open>Three guesses of one password, the last after a pause.\<close>

definition three_guesses :: "(attempt_table \<times> nat) signin_event list" where
  "three_guesses =
     [SignIn ''ann'' ''a'', SignIn '' ann'' ''b'', Meanwhile (\<lambda>w. (fst w, snd w + 60)), SignIn ''ann'' ''c'']"

lemma refused_login:
  "authenticate_user fr refused_client v p w
     = (Inl (backend_http_error BackendUserAuthenticationError ''Invalid username or password.'' 403
          ''invalid_credentials''), w)"
proof -
  have body: "json_loads (dumps (\<lambda>_. []) (JObj [(''error'', JStr ''invalid_credentials''), (''message'', JStr ''No.'')]))
      = Some (JObj [(''error'', JStr ''invalid_credentials''), (''message'', JStr ''No.'')])"
    by (rule json_loads_dumps) simp
  show ?thesis
    by (simp add: authenticate_user_def post_call_def auth_headers_def refused_client_def or_call_exn_def
        client_of_def refusing_backend_def json_response_def raise_for_error_def is_success_def
        format_backend_error_def body jget_def bindA_def del: dumps.simps)
qed

lemma two_tries_fields:
  "ui_auth_max_failed_attempts two_tries = 2" "ui_auth_lockout_seconds two_tries = 300"
  "ui_auth_rate_limit_window_seconds two_tries = 300"
  by code_simp+

lemma three_guesses_run:
  "fst (memory_page two_tries fr refused_client second_hand three_guesses 0)
     = [(''ann'', Inr (Rejected False)), (''ann'', Inr (Rejected True)), (''ann'', Inr LockedOut)]"
  "snd (snd (memory_page two_tries fr refused_client second_hand three_guesses 0)) < 100"
proof -
  have names: "strip ''ann'' = ''ann''" "strip '' ann'' = ''ann''" by code_simp+
  note run = memory_page_def three_guesses_def attempt_signin_def beside_table_def zoomA_def refused_login
    memory_store_def memory_is_locked_def memory_record_failure_def purge_expired_def read_clock_def on_table_def
    second_hand_def bindA_def catchA_def ask_backend_def isinstance_def backend_http_error_def
    build_auth_rate_limit_settings_def two_tries_fields purge_table_def count_failure_def get0_def
    empty_table_def Let_def names
  show "fst (memory_page two_tries fr refused_client second_hand three_guesses 0)
     = [(''ann'', Inr (Rejected False)), (''ann'', Inr (Rejected True)), (''ann'', Inr LockedOut)]"
    and "snd (snd (memory_page two_tries fr refused_client second_hand three_guesses 0)) < 100"
    by (simp_all add: run)
qed


text \<open>A Redis server in memory, each command of which takes a second.\<close>

record redis_world =
  rw_time :: nat
  rw_entry :: "string \<Rightarrow> key_entry"

definition redis_tick :: "(redis_world \<Rightarrow> string \<Rightarrow> key_entry) \<Rightarrow> redis_world \<Rightarrow> redis_world" where
  "redis_tick f w = \<lparr>rw_time = Suc (rw_time w), rw_entry = f w\<rparr>"

definition mem_redis :: "redis_world redis_keys" where
  "mem_redis =
     \<lparr>rk_exists = (\<lambda>k w. (Inr (live (rw_entry w k) (of_nat (rw_time w))), redis_tick rw_entry w)),
      rk_incr = (\<lambda>k w. (Inr (fst (incremented (rw_entry w k) (of_nat (rw_time w)))),
        redis_tick (\<lambda>w. (rw_entry w)(k \<mapsto> incremented (rw_entry w k) (of_nat (rw_time w)))) w)),
      rk_expire = (\<lambda>k n w. (Inr (), redis_tick (\<lambda>w. if live (rw_entry w k) (of_nat (rw_time w))
        then (rw_entry w)(k \<mapsto> (fst (the (rw_entry w k)), Some (of_nat (rw_time w) + of_int n)))
        else rw_entry w) w)),
      rk_set_ex = (\<lambda>k v n w. (Inr (), redis_tick (\<lambda>w. (rw_entry w)
        (k \<mapsto> (1, Some (of_nat (rw_time w) + of_int n)))) w)),
      rk_delete = (\<lambda>ks w. (Inr (), redis_tick (\<lambda>w k. if k \<in> set ks then None else rw_entry w k) w))\<rparr>"

interpretation redis_keys_mem: expiring_keys mem_redis "\<lambda>w. of_nat (rw_time w)" rw_entry
proof
  fix w :: redis_world and k v :: string and n :: int and ks :: "string list"
  let ?t = "rat_of_nat (rw_time w)"
  show "\<exists>t w'. rk_exists mem_redis k w = (Inr (live (rw_entry w k) t), w')
      \<and> ?t \<le> t \<and> t \<le> of_nat (rw_time w') \<and> rw_entry w' = rw_entry w"
    by (intro exI[of _ ?t]) (simp add: mem_redis_def redis_tick_def)
  show "\<exists>t w'. rk_incr mem_redis k w = (Inr (fst (incremented (rw_entry w k) t)), w')
      \<and> ?t \<le> t \<and> t \<le> of_nat (rw_time w') \<and> rw_entry w' = (rw_entry w)(k \<mapsto> incremented (rw_entry w k) t)"
    by (intro exI[of _ ?t]) (simp add: mem_redis_def redis_tick_def)
  show "\<exists>t w'. rk_expire mem_redis k n w = (Inr (), w') \<and> ?t \<le> t \<and> t \<le> of_nat (rw_time w')
      \<and> rw_entry w' = (if live (rw_entry w k) t
           then (rw_entry w)(k \<mapsto> (fst (the (rw_entry w k)), Some (t + of_int n))) else rw_entry w)"
    by (intro exI[of _ ?t]) (simp add: mem_redis_def redis_tick_def)
  show "\<exists>t w' i. rk_set_ex mem_redis k v n w = (Inr (), w') \<and> ?t \<le> t \<and> t \<le> of_nat (rw_time w')
      \<and> rw_entry w' = (rw_entry w)(k \<mapsto> (i, Some (t + of_int n)))"
    by (intro exI[of _ ?t]) (auto simp: mem_redis_def redis_tick_def)
  show "\<exists>w'. rk_delete mem_redis ks w = (Inr (), w') \<and> ?t \<le> of_nat (rw_time w')
      \<and> rw_entry w' = (\<lambda>k. if k \<in> set ks then None else rw_entry w k)"
    by (simp add: mem_redis_def redis_tick_def)
qed

interpretation redis_attempts_mem: redis_attempts mem_redis "\<lambda>w. of_nat (rw_time w)" rw_entry limits for limits
  by unfold_locales

interpretation refused_guard: signin_guard "memory_store (build_auth_rate_limit_settings cfg) second_hand"
    "build_auth_rate_limit_settings cfg" "\<lambda>w. of_nat (snd w)" table_ok table_lock table_count
    "\<lambda>v p. beside_table (authenticate_user fr refused_client v p)" for cfg fr
  by (rule memory_guard[OF seconds.ticking_axioms]) (simp add: refused_login)

end
