(* ===== verification/Webui_Render.thy ===== *)
theory Webui_Render
  imports Python_Values
begin

text \<open>
  How the web UI renders a full reply (\<^verbatim>\<open>webui/renderer.py\<close>) and which mode a starter selects
  (\<^verbatim>\<open>webui/modes.py\<close>).  A reply is the decoded JSON object of the HTTP API.
\<close>

section \<open>Rendering\<close>

definition string_value :: "json \<Rightarrow> string" where
  "string_value v = (case v of JStr s \<Rightarrow> strip s | _ \<Rightarrow> [])"

text \<open>\<^verbatim>\<open>a or b\<close> on decoded values.\<close>

definition or_else :: "json \<Rightarrow> json \<Rightarrow> json" where
  "or_else a b = (if truthy a then a else b)"

definition bold :: "string \<Rightarrow> string" where
  "bold s = ''**'' @ s @ ''**''"

definition append_list :: "string list \<Rightarrow> string \<Rightarrow> json \<Rightarrow> bool \<Rightarrow> string list" where
  "append_list lines title v inline =
     (case v of
        JList xs \<Rightarrow>
          (let items = filter (\<lambda>i. i \<noteq> []) (map string_value xs) in
           if items = [] then lines
           else if inline then lines @ [[], bold (title @ '':'') @ '' '' @ join '', '' items]
           else lines @ [[], bold (title @ '':'')] @ map (\<lambda>i. ''- '' @ i) items)
      | _ \<Rightarrow> lines)"

definition rendered :: "string list \<Rightarrow> string" where
  "rendered lines = strip (join [CHR 0x0A] lines)"

definition reply_text :: "(string \<times> json) list \<Rightarrow> (string \<times> json) list \<Rightarrow> string" where
  "reply_text d r = string_value (or_else (jget d ''response'') (jget r ''response''))"

definition render_definition :: "(string \<times> json) list \<Rightarrow> (string \<times> json) list \<Rightarrow> string" where
  "render_definition d r =
     (let field = (\<lambda>k. string_value (jget d k));
          term' = field ''term''; part = field ''part_of_speech''; lang = field ''language'';
          pron = field ''pronunciation''; meaning = field ''meaning''; response = reply_text d r;
          title = (if term' \<noteq> [] then term' else ''Definition'')
                  @ (if part \<noteq> [] then '' ('' @ part @ '')'' else []);
          details = (if lang \<noteq> [] \<and> lang \<noteq> ''unknown'' then [''Language: '' @ lang] else [])
                    @ (if pron \<noteq> [] then [''Pronunciation: '' @ pron] else []);
          lines = [bold title] @ (if details \<noteq> [] then [join '' | '' details] else [])
                  @ (if meaning \<noteq> [] then [[], meaning]
                     else if response \<noteq> [] then [[], response] else []);
          lines = append_list lines ''Examples'' (jget d ''examples'') False;
          lines = append_list lines ''Synonyms'' (jget d ''synonyms'') True;
          lines = append_list lines ''Antonyms'' (jget d ''antonyms'') True;
          etymology = field ''etymology'';
          lines = lines @ (if etymology \<noteq> [] then [[], ''**Etymology:** '' @ etymology] else []);
          lines = lines @ (if response \<noteq> [] \<and> response \<notin> set lines \<and> response \<noteq> meaning
                           then [[], response] else [])
      in rendered lines)"

definition render_translation :: "(string \<times> json) list \<Rightarrow> (string \<times> json) list \<Rightarrow> string" where
  "render_translation d r =
     (let translated = string_value (jget d ''translated_text''); response = reply_text d r;
          source = string_value (jget d ''source_language''); target = string_value (jget d ''target_language'');
          lines = (if translated \<noteq> [] then [translated] else if response \<noteq> [] then [response] else []);
          name = (\<lambda>l. if l \<noteq> [] then l else ''unknown'');
          lines = lines @ (if source \<noteq> [] \<or> target \<noteq> []
                           then [[], [CHR 0x60] @ name source @ [CHR 0x60] @ '' -> ''
                                     @ [CHR 0x60] @ name target @ [CHR 0x60]] else [])
      in rendered lines)"

definition render_learning :: "(string \<times> json) list \<Rightarrow> (string \<times> json) list \<Rightarrow> string" where
  "render_learning d r =
     (let response = reply_text d r;
          lines = (if response \<noteq> [] then [response] else []);
          point = string_value (jget d ''teaching_point'');
          lines = lines @ (if point \<noteq> [] \<and> point \<noteq> response
                           then [[], ''**Teaching point:** '' @ point] else []);
          lines = append_list lines ''Examples'' (jget d ''examples'') False;
          lines = append_list lines ''Corrections'' (jget d ''corrections'') False;
          lines = append_list lines ''Exercises'' (jget d ''exercises'') False;
          step = string_value (jget d ''next_suggested_step'');
          lines = lines @ (if step \<noteq> [] then [[], ''**Next step:** '' @ step] else [])
      in rendered lines)"

definition render_chat_response :: "(string \<times> json) list \<Rightarrow> string" where
  "render_chat_response r =
     (let plain = (case jget r ''response'' of JStr s \<Rightarrow> if strip s \<noteq> [] then s else [] | _ \<Rightarrow> []) in
      case jget r ''data'' of
        JObj d \<Rightarrow>
          (let m = or_else (jget d ''mode'') (jget r ''mode'') in
           if m = JStr ''definition'' then render_definition d r
           else if m = JStr ''translation'' then render_translation d r
           else if m = JStr ''learning'' then render_learning d r
           else plain)
      | _ \<Rightarrow> plain)"

section \<open>Starters\<close>

definition STARTER_MODES :: "string list" where
  "STARTER_MODES = [''translation'', ''definition'', ''learning'']"

definition STARTER_MESSAGE_MODES :: "(string \<times> string) list" where
  "STARTER_MESSAGE_MODES =
     [(''Translate this sentence to isiXhosa: Good morning, how are you?'', ''translation''),
      (''Define recursion in simple terms.'', ''definition''),
      (''Teach me three useful French greetings.'', ''learning'')]"

text \<open>The command of a message, when it is a text.\<close>

definition starter_mode_for_values :: "string option \<Rightarrow> string \<Rightarrow> string option" where
  "starter_mode_for_values command content =
     (case command of
        Some c \<Rightarrow> if c \<in> set STARTER_MODES then Some c else map_of STARTER_MESSAGE_MODES (strip content)
      | None \<Rightarrow> map_of STARTER_MESSAGE_MODES (strip content))"

section \<open>Lemmas\<close>

lemma append_list_more: "\<exists>ys. append_list lines title v inline = lines @ ys"
  by (auto simp: append_list_def Let_def split: json.split)

lemma set_append_list: "set lines \<subseteq> set (append_list lines title v inline)"
  using append_list_more[of lines title v inline] by auto

end
