(* ===== verification/Webui_Chat.thy ===== *)
theory Webui_Chat
  imports Webui_Client Webui_Render Webui_Auth
begin

text \<open>
  The chat of the web UI (\<^verbatim>\<open>webui/ui_app.py\<close>): mode selection, the endpoints of the landing page, and the
  handlers that send a message and show the reply, whole or streamed.  The framework's messages are a
  parameter: a message object has a content the code sets, and the framework shows, updates and removes it
  and appends streamed tokens to it.  Logging is left out.
\<close>

section \<open>Modes\<close>

definition MODE_OPTIONS :: "(string \<times> string) list" where
  "MODE_OPTIONS =
     [(''auto'', ''Auto''), (''translation'', ''Translation''), (''definition'', ''Definition''),
      (''learning'', ''Learning''), (''general'', ''General'')]"

definition MODE_DESCRIPTIONS :: "(string \<times> string) list" where
  "MODE_DESCRIPTIONS =
     [(''auto'', ''Let the language service choose translation, definition, learning, or general.''),
      (''translation'', ''Translate text and show the answer as it is generated.''),
      (''definition'', ''Define a term and render structured meaning, examples, and related words.''),
      (''learning'', ''Ask for language-learning help with live feedback.''),
      (''general'', ''Ask a general language-agent question with a full response.'')]"

definition STREAMING_MODES :: "string list" where
  "STREAMING_MODES = [''translation'', ''definition'', ''learning'']"

definition STREAM_STATUS_MESSAGES :: "(string \<times> string) list" where
  "STREAM_STATUS_MESSAGES =
     [(''queued'', ''Your request is queued and waiting for the model worker.''),
      (''processing'', ''The worker is preparing your response with llama-server.''),
      (''streaming'', ''The worker is streaming your response from llama-server.''),
      (''cancelled'', ''This response was cancelled before completion.'')]"

definition STREAM_FLUSH_CHAR_LIMIT :: nat where "STREAM_FLUSH_CHAR_LIMIT = 96"

text \<open>The session value of the mode, if any.\<close>

definition selected_mode_of :: "string option \<Rightarrow> string" where
  "selected_mode_of stored =
     (case stored of
        None \<Rightarrow> ''auto''
      | Some m \<Rightarrow> if m \<in> fst ` set MODE_OPTIONS then m else ''auto'')"

definition label_of :: "string \<Rightarrow> string" where
  "label_of m = (case map_of MODE_OPTIONS m of None \<Rightarrow> ''Auto'' | Some l \<Rightarrow> l)"

definition api_mode_value :: "string \<Rightarrow> string option" where
  "api_mode_value m = (if m = ''auto'' then None else Some m)"

definition normalize_mode_value :: "(rat \<Rightarrow> string) \<Rightarrow> json \<Rightarrow> string" where
  "normalize_mode_value fr v =
     (let m = strip (if truthy v then py_str fr v else ''auto'') in
      if m \<in> fst ` set MODE_OPTIONS then m
      else case map_of (map (\<lambda>(k, l). (casefold l, k)) MODE_OPTIONS) (casefold m) of
        None \<Rightarrow> ''auto'' | Some k \<Rightarrow> k)"

definition should_stream :: "env \<Rightarrow> string option \<Rightarrow> bool" where
  "should_stream env m \<longleftrightarrow>
     bc_streaming_enabled (backend_config env) \<and> (\<exists>x \<in> set STREAMING_MODES. m = Some x)"

section \<open>Messages\<close>

record ui_action =
  act_name :: string
  act_label :: string
  act_payload :: "(string \<times> string) list"

record ui_message =
  msg_id :: string
  msg_text :: string
  msg_author :: string
  msg_metadata :: "(string \<times> json) list"
  msg_actions :: "ui_action list"

text \<open>What the code calls of the framework, over its world: a fresh key for a new message; showing, updating
  and removing a message; streaming a token into it; the settings panel with its initial label; a question
  with actions, which may go unanswered; and taking an action away.\<close>

record 'u chat_ui =
  cm_new_id :: "'u \<Rightarrow> string \<times> 'u"
  cm_send :: "ui_message \<Rightarrow> 'u \<Rightarrow> 'u"
  cm_update :: "ui_message \<Rightarrow> 'u \<Rightarrow> 'u"
  cm_remove :: "ui_message \<Rightarrow> 'u \<Rightarrow> 'u"
  cm_stream_token :: "string \<Rightarrow> ui_message \<Rightarrow> 'u \<Rightarrow> ui_message \<times> 'u"
  cm_settings :: "string \<Rightarrow> 'u \<Rightarrow> 'u"
  cm_ask :: "ui_message \<Rightarrow> 'u \<Rightarrow> (string \<times> json) list option \<times> 'u"
  cm_remove_action :: "ui_action \<Rightarrow> 'u \<Rightarrow> 'u"

record ('w, 'u) chat_env =
  ce_env :: env
  ce_open :: "string \<Rightarrow> pyfloat \<Rightarrow> 'w web_client"
  ce_float_repr :: "rat \<Rightarrow> string"
  ce_ui :: "'u chat_ui"

record ('w, 'u) chat_state =
  cs_user :: "chainlit_user option"
  cs_profile :: "(string \<times> json) list"
  cs_mode :: "string option"
  cs_last_message :: string
  cs_net :: 'w
  cs_ui :: 'u

definition backend_client :: "('w, 'u) chat_env \<Rightarrow> 'w fastapi_client" where
  "backend_client ce = \<lparr>fc_config = backend_config (ce_env ce), fc_open = ce_open ce\<rparr>"

definition new_message :: "'u chat_ui \<Rightarrow> string \<Rightarrow> string \<Rightarrow> 'u \<Rightarrow> ui_message \<times> 'u" where
  "new_message ui content author u =
     (case cm_new_id ui u of (i, u') \<Rightarrow>
        (\<lparr>msg_id = i, msg_text = content, msg_author = author, msg_metadata = [], msg_actions = []\<rparr>, u'))"

definition say :: "'u chat_ui \<Rightarrow> string \<Rightarrow> string \<Rightarrow> 'u \<Rightarrow> 'u" where
  "say ui content author u = (case new_message ui content author u of (m, u') \<Rightarrow> cm_send ui m u')"

definition on_ui :: "('u \<Rightarrow> 'u) \<Rightarrow> ('w, 'u) chat_state \<Rightarrow> ('w, 'u) chat_state" where
  "on_ui f s = s\<lparr>cs_ui := f (cs_ui s)\<rparr>"

definition get_selected_mode :: "('w, 'u) chat_state \<Rightarrow> string" where
  "get_selected_mode s = selected_mode_of (cs_mode s)"

definition response_actions :: "string \<Rightarrow> string \<Rightarrow> ui_action list" where
  "response_actions user_text selected_mode =
     [\<lparr>act_name = ''retry_response'', act_label = ''Retry'',
       act_payload = [(''message'', user_text), (''mode'', selected_mode)]\<rparr>,
      \<lparr>act_name = ''feedback_good'', act_label = ''Helpful'',
       act_payload = [(''message'', user_text), (''rating'', ''positive'')]\<rparr>,
      \<lparr>act_name = ''feedback_needs_category'', act_label = ''Needs improvement'',
       act_payload = [(''message'', user_text), (''rating'', ''negative'')]\<rparr>]"

definition mode_actions :: "ui_action list" where
  "mode_actions =
     map (\<lambda>(m, l). \<lparr>act_name = ''set_mode'', act_label = l, act_payload = [(''mode'', m)]\<rparr>) MODE_OPTIONS"

definition send_mode_settings :: "'u chat_ui \<Rightarrow> string \<Rightarrow> 'u \<Rightarrow> 'u" where
  "send_mode_settings ui initial = cm_settings ui (label_of initial)"

section \<open>Streaming a reply\<close>

definition count_fences :: "string \<Rightarrow> nat" where
  "count_fences s = (length (replace_sub [CHR 0x60, CHR 0x60, CHR 0x60] ''xxxx'' s) - length s)"

definition has_unclosed_markdown_fence :: "string \<Rightarrow> bool" where
  "has_unclosed_markdown_fence s \<longleftrightarrow> count_fences s mod 2 = 1"

definition ends_with :: "string \<Rightarrow> string \<Rightarrow> bool" where
  "ends_with t s \<longleftrightarrow> suffix t s"

definition should_flush_stream_buffer :: "string \<Rightarrow> string \<Rightarrow> bool" where
  "should_flush_stream_buffer token_buffer streamed_text =
     (if STREAM_FLUSH_CHAR_LIMIT \<le> length token_buffer then True
      else if ends_with [CHR 0x0A, CHR 0x0A] token_buffer \<or> ends_with ''. '' token_buffer
              \<or> ends_with ''? '' token_buffer \<or> ends_with ''! '' token_buffer
      then \<not> has_unclosed_markdown_fence streamed_text
      else False)"

text \<open>The local variables of \<^verbatim>\<open>stream_backend_response\<close>.\<close>

record stream_view =
  sv_response :: ui_message
  sv_status :: ui_message
  sv_text :: string
  sv_buffer :: string
  sv_received :: bool
  sv_started :: bool
  sv_mode :: "string option"
  sv_done :: bool
  sv_latest :: string

type_synonym 'u streaming = "stream_view \<times> 'u"

definition start_response :: "'u chat_ui \<Rightarrow> 'u streaming \<Rightarrow> 'u streaming" where
  "start_response ui x =
     (case x of (v, u) \<Rightarrow>
        if sv_started v then (v, u)
        else (v\<lparr>sv_started := True\<rparr>, cm_send ui (sv_response v) (cm_remove ui (sv_status v) u)))"

definition stream_out :: "'u chat_ui \<Rightarrow> string \<Rightarrow> 'u streaming \<Rightarrow> 'u streaming" where
  "stream_out ui t x =
     (case x of (v, u) \<Rightarrow>
        (case cm_stream_token ui t (sv_response v) u of (m, u') \<Rightarrow> (v\<lparr>sv_response := m\<rparr>, u')))"

definition flush_rest :: "'u chat_ui \<Rightarrow> 'u streaming \<Rightarrow> 'u streaming" where
  "flush_rest ui x =
     (if sv_buffer (fst x) = [] then x else stream_out ui (sv_buffer (fst x)) (start_response ui x))"

definition with_note :: "string \<Rightarrow> string \<Rightarrow> string" where
  "with_note streamed note =
     (if streamed \<noteq> [] then streamed @ [CHR 0x0A, CHR 0x0A] @ note else note)"

text \<open>The reply ends early: what is buffered is shown, then the text with the note.\<close>

definition stop_with :: "'u chat_ui \<Rightarrow> ui_action list \<Rightarrow> string \<Rightarrow> 'u streaming \<Rightarrow> 'u" where
  "stop_with ui actions note x =
     (case flush_rest ui x of (v, u) \<Rightarrow>
        let content = with_note (sv_text v) note in
        if sv_started v
        then cm_update ui ((sv_response v)\<lparr>msg_text := content, msg_actions := actions\<rparr>) u
        else cm_update ui ((sv_status v)\<lparr>msg_text := content, msg_actions := actions\<rparr>) u)"

text \<open>A status event updates the status message until the first token has come.\<close>

definition take_status :: "'u chat_ui \<Rightarrow> json \<Rightarrow> 'u streaming \<Rightarrow> 'u streaming" where
  "take_status ui status x =
     (case (x, status) of
        ((v, u), JStr s) \<Rightarrow>
          (let v = v\<lparr>sv_latest := s\<rparr> in
           case map_of STREAM_STATUS_MESSAGES s of
             Some note \<Rightarrow>
               if sv_received v then (v, u)
               else (let m = (sv_status v)\<lparr>msg_text := note\<rparr> in (v\<lparr>sv_status := m\<rparr>, cm_update ui m u))
           | None \<Rightarrow> (v, u))
      | _ \<Rightarrow> x)"

definition take_token :: "'u chat_ui \<Rightarrow> string \<Rightarrow> 'u streaming \<Rightarrow> 'u streaming" where
  "take_token ui t x =
     (if t = [] then x
      else case start_response ui ((fst x)\<lparr>sv_received := True\<rparr>, snd x) of (v, u) \<Rightarrow>
        let v = v\<lparr>sv_text := sv_text v @ t, sv_buffer := sv_buffer v @ t\<rparr> in
        if should_flush_stream_buffer (sv_buffer v) (sv_text v)
        then (case stream_out ui (sv_buffer v) (v, u) of (v', u') \<Rightarrow> (v'\<lparr>sv_buffer := []\<rparr>, u'))
        else (v, u))"

definition cancelled_note :: string where
  "cancelled_note = ''This response was cancelled before completion.''"

definition event_mode :: "(rat \<Rightarrow> string) \<Rightarrow> string option \<Rightarrow> (string \<times> json) list \<Rightarrow> string" where
  "event_mode fr m ev =
     (case map_of ev ''mode'' of
        None \<Rightarrow> (case m of None \<Rightarrow> [] | Some x \<Rightarrow> x) | Some v \<Rightarrow> py_str fr v)"

text \<open>The note an event stops the reply with, if it does.\<close>

definition stop_note :: "(string \<times> json) list \<Rightarrow> string option" where
  "stop_note ev =
     (if jget ev ''cancelled'' = JBool True \<or> jget ev ''status'' = JStr ''cancelled'' then Some cancelled_note
      else if truthy (jget ev ''error'')
      then (case jget ev ''message'' of JStr m \<Rightarrow> Some m | _ \<Rightarrow> None)
      else None)"

text \<open>The loop over the events; \<^const>\<open>Inl\<close> is a return from inside it.\<close>

fun show_events ::
  "'u chat_ui \<Rightarrow> (rat \<Rightarrow> string) \<Rightarrow> ui_action list \<Rightarrow> (string \<times> json) list list \<Rightarrow> 'u streaming
     \<Rightarrow> 'u + 'u streaming" where
  "show_events ui fr actions [] x = Inr x"
| "show_events ui fr actions (ev # evs) x =
     (if sv_done (fst x) then show_events ui fr actions evs x
      else let x = ((fst x)\<lparr>sv_mode := Some (event_mode fr (sv_mode (fst x)) ev)\<rparr>, snd x);
               x = take_status ui (jget ev ''status'') x in
        case stop_note ev of
          Some note \<Rightarrow> Inl (stop_with ui actions note x)
        | None \<Rightarrow>
            (case take_token ui (case jget ev ''token'' of JStr t \<Rightarrow> t | _ \<Rightarrow> []) x of (v, u) \<Rightarrow>
               show_events ui fr actions evs
                 (if jget ev ''done'' = JBool True then v\<lparr>sv_done := True\<rparr> else v, u)))"

definition interrupted_note :: string where
  "interrupted_note = ''The response was interrupted before it completed. The partial answer above is all that was received.''"

definition incomplete_note :: string where
  "incomplete_note = ''The response ended before the completion signal arrived. The partial answer above is all that was received.''"

text \<open>The handler of \<^verbatim>\<open>BackendClientError\<close>; here the text is followed by the note in any case.\<close>

definition show_interruption :: "'u chat_ui \<Rightarrow> ui_action list \<Rightarrow> 'u streaming \<Rightarrow> 'u" where
  "show_interruption ui actions x =
     (if sv_received (fst x) then
        (case (if sv_buffer (fst x) = [] then x else stream_out ui (sv_buffer (fst x)) x) of (v, u) \<Rightarrow>
           cm_update ui ((sv_response v)\<lparr>msg_text := sv_text v @ [CHR 0x0A, CHR 0x0A] @ interrupted_note,
             msg_actions := actions\<rparr>) u)
      else
        cm_update ui ((sv_status (fst x))\<lparr>
          msg_text := format_ui_error (mk_exn BackendStreamError
            (case map_of STREAM_STATUS_MESSAGES (sv_latest (fst x)) of
               None \<Rightarrow> ''The response stream was interrupted.'' | Some m \<Rightarrow> m)),
          msg_actions := actions\<rparr>) (snd x))"

definition finish_reply :: "'u chat_ui \<Rightarrow> ui_action list \<Rightarrow> 'u streaming \<Rightarrow> 'u" where
  "finish_reply ui actions x =
     (case (if sv_buffer (fst x) = [] then x else stream_out ui (sv_buffer (fst x)) x) of (v, u) \<Rightarrow>
        if \<not> sv_done v
        then cm_update ui ((sv_response v)\<lparr>msg_text := sv_text v @ [CHR 0x0A, CHR 0x0A] @ incomplete_note,
               msg_actions := actions\<rparr>) u
        else cm_update ui ((sv_response v)\<lparr>
               msg_metadata := [(''mode'', jstr (sv_mode v)), (''response_type'', JStr ''stream'')],
               msg_actions := actions\<rparr>) u)"

section \<open>Sending a message\<close>

definition send_full_backend_response ::
  "('w, 'u) chat_env \<Rightarrow> ui_message \<Rightarrow> string \<Rightarrow> string option \<Rightarrow> (('w, 'u) chat_state, unit) act" where
  "send_full_backend_response ce response user_text api_mode =
     bindA (zoomA cs_net (\<lambda>n s. s\<lparr>cs_net := n\<rparr>) (chat_full_call (backend_client ce) user_text api_mode)) (\<lambda>r.
     let assistant_text = render_chat_response r in
     if assistant_text = [] then
       raiseA (mk_exn BackendInvalidResponseError ''Backend response did not include assistant text.'')
     else modifyA (\<lambda>s. on_ui (cm_update (ce_ui ce) (response\<lparr>msg_text := assistant_text,
            msg_metadata := [(''mode'', jget r ''mode''), (''response_type'', JStr ''full'')],
            msg_actions := response_actions user_text (get_selected_mode s)\<rparr>)) s))"

definition new_view :: "ui_message \<Rightarrow> ui_message \<Rightarrow> string option \<Rightarrow> stream_view" where
  "new_view response status api_mode =
     \<lparr>sv_response = response, sv_status = status, sv_text = [], sv_buffer = [], sv_received = False,
      sv_started = False, sv_mode = api_mode, sv_done = False, sv_latest = ''queued''\<rparr>"

definition stream_backend_response ::
  "('w, 'u) chat_env \<Rightarrow> ui_message \<Rightarrow> string \<Rightarrow> string option \<Rightarrow> (('w, 'u) chat_state, unit) act" where
  "stream_backend_response ce status user_text api_mode s =
     (let ui = ce_ui ce; actions = response_actions user_text (get_selected_mode s) in
      case new_message ui [] [] (cs_ui s) of (response, u) \<Rightarrow>
      (case chat_stream_call (backend_client ce) user_text api_mode (cs_net s) of ((events, ending), net) \<Rightarrow>
        let s' = s\<lparr>cs_net := net\<rparr> in
        (case show_events ui (ce_float_repr ce) actions events (new_view response status api_mode, u) of
           Inl u' \<Rightarrow> (Inr (), s'\<lparr>cs_ui := u'\<rparr>)
         | Inr (v, u') \<Rightarrow>
             (case ending of
                Failed e \<Rightarrow>
                  if isinstance e BackendClientError
                  then (Inr (), s'\<lparr>cs_ui := show_interruption ui actions (v, u')\<rparr>)
                  else (Inl e, s'\<lparr>cs_ui := u'\<rparr>)
              | _ \<Rightarrow>
                  if sv_text v = []
                  then send_full_backend_response ce (sv_status v) user_text api_mode (s'\<lparr>cs_ui := u'\<rparr>)
                  else (Inr (), s'\<lparr>cs_ui := finish_reply ui actions (v, u')\<rparr>)))))"

definition sending_text :: "string \<Rightarrow> string \<Rightarrow> string" where
  "sending_text url label =
     ''Sending request to '' @ [CHR 0x60] @ url @ [CHR 0x60] @ '' using **'' @ label @ ''** mode...''"

definition handle_user_text ::
  "('w, 'u) chat_env \<Rightarrow> string \<Rightarrow> string option \<Rightarrow> bool \<Rightarrow> (('w, 'u) chat_state, unit) act" where
  "handle_user_text ce user_text starter_mode echo_user s =
     (let ui = ce_ui ce;
          s = (if echo_user then on_ui (say ui user_text ''You'') s else s);
          s = (case starter_mode of
                 Some m \<Rightarrow> if m = [] then s else on_ui (send_mode_settings ui m) (s\<lparr>cs_mode := Some m\<rparr>)
               | None \<Rightarrow> s);
          s = s\<lparr>cs_last_message := user_text\<rparr>;
          selected_mode = get_selected_mode s;
          api_mode = api_mode_value selected_mode
      in
      case new_message ui (sending_text (bc_base_url (backend_config (ce_env ce))) (label_of selected_mode)) []
             (cs_ui s) of (status, u) \<Rightarrow>
        let s = s\<lparr>cs_ui := cm_send ui status u\<rparr> in
        catchA
          (if should_stream (ce_env ce) api_mode
           then stream_backend_response ce status user_text api_mode
           else send_full_backend_response ce status user_text api_mode)
          (\<lambda>e. if isinstance e BackendClientError
               then modifyA (on_ui (cm_update ui (status\<lparr>msg_text := format_ui_error e,
                      msg_actions := response_actions user_text selected_mode\<rparr>)))
               else raiseA e) s)"

section \<open>The profile of the session\<close>

text \<open>\<^verbatim>\<open>webui/persistence.py\<close>: the keys the signed-in user and a resumed thread put into the session.\<close>

definition SESSION_PROFILE_KEYS :: "string list" where
  "SESSION_PROFILE_KEYS =
     [''user_id'', ''username'', ''display_name'', ''preferred_language'', ''ui_theme'', ''role'', ''is_admin'']"

definition meta_or :: "(string \<times> json) list \<Rightarrow> string \<Rightarrow> json \<Rightarrow> json" where
  "meta_or d k v = (case map_of d k of None \<Rightarrow> v | Some x \<Rightarrow> x)"

definition session_profile :: "(rat \<Rightarrow> string) \<Rightarrow> chainlit_user option \<Rightarrow> (string \<times> json) list" where
  "session_profile fr user =
     (case user of
        None \<Rightarrow> []
      | Some u \<Rightarrow>
          (let d = cu_metadata u; str = (\<lambda>v. JStr (py_str fr v)) in
           [(''user_id'', str (meta_or d ''user_id'' (JStr []))),
            (''username'', str (meta_or d ''username'' (JStr (cu_identifier u)))),
            (''display_name'', str (meta_or d ''display_name''
               (JStr (if cu_display_name u \<noteq> [] then cu_display_name u else cu_identifier u)))),
            (''preferred_language'', jget d ''preferred_language''), (''ui_theme'', jget d ''ui_theme''),
            (''role'', str (meta_or d ''role'' (JStr ''user''))),
            (''is_admin'', JBool (truthy (meta_or d ''is_admin'' (JBool False))))]))"

definition apply_user_profile_to_session ::
  "(rat \<Rightarrow> string) \<Rightarrow> ('w, 'u) chat_state \<Rightarrow> ('w, 'u) chat_state" where
  "apply_user_profile_to_session fr s =
     s\<lparr>cs_profile := dict_merge (cs_profile s) (session_profile fr (cs_user s))\<rparr>"

definition restored_profile :: "(string \<times> json) list \<Rightarrow> (string \<times> json) list" where
  "restored_profile thread =
     (case jget thread ''metadata'' of
        JObj d \<Rightarrow> [(k, jget d k). k \<leftarrow> SESSION_PROFILE_KEYS, k \<in> fst ` set d]
      | _ \<Rightarrow> [])"

definition restore_profile_from_thread ::
  "(string \<times> json) list \<Rightarrow> ('w, 'u) chat_state \<Rightarrow> ('w, 'u) chat_state" where
  "restore_profile_from_thread thread s =
     s\<lparr>cs_profile := dict_merge (cs_profile s) (restored_profile thread)\<rparr>"

definition thread_belongs_to_user ::
  "(rat \<Rightarrow> string) \<Rightarrow> (string \<times> json) list option \<Rightarrow> chainlit_user option \<Rightarrow> bool" where
  "thread_belongs_to_user fr thread user =
     (case (thread, user) of
        (Some t, Some u) \<Rightarrow> py_str fr (or_else (jget t ''userIdentifier'') (JStr [])) = cu_identifier u
      | _ \<Rightarrow> False)"

definition current_user_id :: "(rat \<Rightarrow> string) \<Rightarrow> ('w, 'u) chat_state \<Rightarrow> string" where
  "current_user_id fr s =
     (case cs_user s of
        None \<Rightarrow> ''unknown'' | Some u \<Rightarrow> py_str fr (meta_or (cu_metadata u) ''user_id'' (JStr ''unknown'')))"

definition current_user_identifier :: "('w, 'u) chat_state \<Rightarrow> string" where
  "current_user_identifier s = (case cs_user s of None \<Rightarrow> ''anonymous'' | Some u \<Rightarrow> cu_identifier u)"

section \<open>Handlers\<close>

definition on_chat_start :: "('w, 'u) chat_env \<Rightarrow> ('w, 'u) chat_state \<Rightarrow> ('w, 'u) chat_state" where
  "on_chat_start ce s =
     on_ui (send_mode_settings (ce_ui ce) ''auto'')
       ((apply_user_profile_to_session (ce_float_repr ce) s)\<lparr>cs_mode := Some ''auto'', cs_last_message := []\<rparr>)"

definition on_chat_resume ::
  "('w, 'u) chat_env \<Rightarrow> (string \<times> json) list \<Rightarrow> ('w, 'u) chat_state \<Rightarrow> ('w, 'u) chat_state" where
  "on_chat_resume ce thread s =
     (if \<not> thread_belongs_to_user (ce_float_repr ce) (Some thread) (cs_user s) then s
      else let s = restore_profile_from_thread thread (apply_user_profile_to_session (ce_float_repr ce) s) in
        on_ui (send_mode_settings (ce_ui ce) (get_selected_mode s)) s)"

definition on_settings_update ::
  "('w, 'u) chat_env \<Rightarrow> (string \<times> json) list \<Rightarrow> ('w, 'u) chat_state \<Rightarrow> ('w, 'u) chat_state" where
  "on_settings_update ce settings s =
     (let m = normalize_mode_value (ce_float_repr ce)
                (case map_of settings ''selected_mode'' of None \<Rightarrow> JStr ''auto'' | Some v \<Rightarrow> v) in
      on_ui (say (ce_ui ce) (''Response mode set to **'' @ label_of m
               @ ''**. Future messages in this chat will use this mode selection.'') [])
        (s\<lparr>cs_mode := Some m\<rparr>))"

definition payload_item :: "ui_action \<Rightarrow> string \<Rightarrow> string \<Rightarrow> string" where
  "payload_item a k d = (case map_of (act_payload a) k of None \<Rightarrow> d | Some v \<Rightarrow> v)"

definition on_set_mode ::
  "('w, 'u) chat_env \<Rightarrow> ui_action \<Rightarrow> ('w, 'u) chat_state \<Rightarrow> ('w, 'u) chat_state" where
  "on_set_mode ce a s =
     (let ui = ce_ui ce; m = normalize_mode_value (ce_float_repr ce) (JStr (payload_item a ''mode'' ''auto'')) in
      on_ui (\<lambda>u. say ui (''Response mode set to **'' @ label_of m @ ''**.'') []
               (send_mode_settings ui m (cm_remove_action ui a u)))
        (s\<lparr>cs_mode := Some m\<rparr>))"

definition on_retry_response ::
  "('w, 'u) chat_env \<Rightarrow> ui_action \<Rightarrow> (('w, 'u) chat_state, unit) act" where
  "on_retry_response ce a s =
     (let ui = ce_ui ce; user_text = strip (payload_item a ''message'' []);
          m = normalize_mode_value (ce_float_repr ce) (JStr (payload_item a ''mode'' (get_selected_mode s))) in
      if user_text = [] then (Inr (), on_ui (cm_remove_action ui a) s)
      else handle_user_text ce user_text None True
             (on_ui (\<lambda>u. send_mode_settings ui m (cm_remove_action ui a u)) (s\<lparr>cs_mode := Some m\<rparr>)))"

definition on_feedback_good ::
  "('w, 'u) chat_env \<Rightarrow> ui_action \<Rightarrow> ('w, 'u) chat_state \<Rightarrow> ('w, 'u) chat_state" where
  "on_feedback_good ce a =
     on_ui (\<lambda>u. say (ce_ui ce) ''Thanks for the feedback.'' ''Feedback'' (cm_remove_action (ce_ui ce) a u))"

definition feedback_actions :: "string \<Rightarrow> ui_action list" where
  "feedback_actions user_text =
     map (\<lambda>(c, l). \<lparr>act_name = ''feedback_category'', act_label = l,
            act_payload = [(''category'', c), (''message'', user_text)]\<rparr>)
       [(''not_relevant'', ''Not relevant''), (''incorrect'', ''Incorrect''), (''offensive'', ''Offensive'')]"

definition on_feedback_needs_category ::
  "('w, 'u) chat_env \<Rightarrow> ui_action \<Rightarrow> ('w, 'u) chat_state \<Rightarrow> ('w, 'u) chat_state" where
  "on_feedback_needs_category ce a s =
     (let ui = ce_ui ce; user_text = strip (payload_item a ''message'' []) in
      case new_message ui ''What should be improved?'' ''Feedback'' (cs_ui s) of (m, u) \<Rightarrow>
      (case cm_ask ui (m\<lparr>msg_actions := feedback_actions user_text\<rparr>) u of
         (None, u') \<Rightarrow> s\<lparr>cs_ui := u'\<rparr>
       | (Some res, u') \<Rightarrow>
           if res = [] then s\<lparr>cs_ui := u'\<rparr>
           else s\<lparr>cs_ui := say ui ''Thanks. I logged that feedback.'' ''Feedback'' u'\<rparr>))"

definition on_message ::
  "('w, 'u) chat_env \<Rightarrow> string option \<Rightarrow> string \<Rightarrow> (('w, 'u) chat_state, unit) act" where
  "on_message ce command content s =
     (if strip content = []
      then (Inr (), on_ui (say (ce_ui ce) ''Please enter a message before sending.'' ''Input validation'') s)
      else handle_user_text ce (strip content) (starter_mode_for_values command content) False s)"

end
