(* ===== verification/Chat_Guarantees.thy ===== *)
theory Chat_Guarantees
  imports Webui_Chat
begin

text \<open>
  What a reader of the chat sees of a streamed reply: the tokens, in order, each once, and a note when the
  reply did not end as it should.  The framework's messages are the locale \<open>chat_messages\<close>.
\<close>

section \<open>The framework's messages\<close>

text \<open>The screen maps the key of each shown message to its text.  The documented behaviour: a new key is
  not in use; sending and updating show the content; removing takes the message away; a streamed token is
  appended to the content and to what is shown.\<close>

locale chat_messages =
  fixes ui :: "'u chat_ui" and screen :: "'u \<Rightarrow> string \<Rightarrow> string option"
  assumes fresh: "cm_new_id ui u = (i, u') \<Longrightarrow> screen u i = None \<and> screen u' = screen u"
    and sent: "screen (cm_send ui m u) = (screen u)(msg_id m \<mapsto> msg_text m)"
    and updated: "screen (cm_update ui m u) = (screen u)(msg_id m \<mapsto> msg_text m)"
    and removed: "screen (cm_remove ui m u) = (screen u)(msg_id m := None)"
    and streamed: "cm_stream_token ui t m u = (m', u') \<Longrightarrow> screen u (msg_id m) = Some x \<Longrightarrow>
       m' = m\<lparr>msg_text := msg_text m @ t\<rparr> \<and> screen u' = (screen u)(msg_id m \<mapsto> x @ t)"

section \<open>What a stream of events amounts to\<close>

definition event_token :: "(string \<times> json) list \<Rightarrow> string" where
  "event_token ev = (case jget ev ''token'' of JStr t \<Rightarrow> t | _ \<Rightarrow> [])"

text \<open>The text of the tokens up to the event that ends the reply, and the note that ends it early.\<close>

fun reply_text_of :: "(string \<times> json) list list \<Rightarrow> string" where
  "reply_text_of [] = []"
| "reply_text_of (ev # evs) =
     (if stop_note ev \<noteq> None then []
      else event_token ev @ (if jget ev ''done'' = JBool True then [] else reply_text_of evs))"

fun stopped_by :: "(string \<times> json) list list \<Rightarrow> string option" where
  "stopped_by [] = None"
| "stopped_by (ev # evs) =
     (case stop_note ev of
        Some n \<Rightarrow> Some n
      | None \<Rightarrow> if jget ev ''done'' = JBool True then None else stopped_by evs)"

fun done_seen :: "(string \<times> json) list list \<Rightarrow> bool" where
  "done_seen [] = False"
| "done_seen (ev # evs) =
     (stop_note ev = None \<and> (jget ev ''done'' = JBool True \<or> done_seen evs))"

definition blank_line :: string where
  "blank_line = [CHR 0x0A, CHR 0x0A]"

text \<open>The note under the text: why it stopped, that the connection failed, or that no completion came.\<close>

definition note_under :: "(string \<times> json) list list \<Rightarrow> ending \<Rightarrow> string" where
  "note_under events ending =
     (case stopped_by events of
        Some n \<Rightarrow> blank_line @ n
      | None \<Rightarrow>
          (case ending of
             Failed e \<Rightarrow> blank_line @ interrupted_note
           | _ \<Rightarrow> if done_seen events then [] else blank_line @ incomplete_note))"

section \<open>The loop\<close>

context chat_messages
begin

text \<open>The reply on the screen, for a response and a status message with different keys, while every other
  message stays as it was.\<close>

definition in_view :: "string \<Rightarrow> string \<Rightarrow> (string \<Rightarrow> string option) \<Rightarrow> 'u streaming \<Rightarrow> bool" where
  "in_view rid sid base x \<longleftrightarrow>
     rid \<noteq> sid \<and> msg_id (sv_response (fst x)) = rid \<and> msg_id (sv_status (fst x)) = sid
     \<and> sv_received (fst x) = sv_started (fst x) \<and> sv_started (fst x) = (sv_text (fst x) \<noteq> [])
     \<and> sv_text (fst x) = msg_text (sv_response (fst x)) @ sv_buffer (fst x)
     \<and> (\<forall>k. k \<noteq> rid \<longrightarrow> k \<noteq> sid \<longrightarrow> screen (snd x) k = base k)
     \<and> (if sv_started (fst x)
        then screen (snd x) rid = Some (msg_text (sv_response (fst x))) \<and> screen (snd x) sid = None
        else screen (snd x) rid = None \<and> screen (snd x) sid \<noteq> None)"

lemma stream_out_run:
  assumes "screen u (msg_id (sv_response v)) = Some x"
  shows "\<exists>u'. stream_out ui t (v, u)
      = (v\<lparr>sv_response := (sv_response v)\<lparr>msg_text := msg_text (sv_response v) @ t\<rparr>\<rparr>, u')
    \<and> screen u' = (screen u)(msg_id (sv_response v) \<mapsto> x @ t)"
proof -
  obtain m u' where "cm_stream_token ui t (sv_response v) u = (m, u')" by fastforce
  then show ?thesis using streamed[OF _ assms] by (auto simp: stream_out_def)
qed

lemma take_status_view:
  assumes "in_view rid sid base x"
  shows "in_view rid sid base (take_status ui j x)" and "sv_text (fst (take_status ui j x)) = sv_text (fst x)"
    and "sv_done (fst (take_status ui j x)) = sv_done (fst x)"
  using assms
  by (auto simp: take_status_def in_view_def updated Let_def split: prod.split json.split option.split)

lemma take_token_view:
  assumes v: "in_view rid sid base x"
  shows "in_view rid sid base (take_token ui t x)" and "sv_text (fst (take_token ui t x)) = sv_text (fst x) @ t"
    and "sv_done (fst (take_token ui t x)) = sv_done (fst x)"
proof -
  have "in_view rid sid base (take_token ui t x) \<and> sv_text (fst (take_token ui t x)) = sv_text (fst x) @ t
    \<and> sv_done (fst (take_token ui t x)) = sv_done (fst x)" if "t \<noteq> []"
  proof -
    obtain w u where w: "start_response ui ((fst x)\<lparr>sv_received := True\<rparr>, snd x) = (w, u)" by fastforce
    have w': "w = (fst x)\<lparr>sv_received := True, sv_started := True\<rparr>"
      and scr: "screen u rid = Some (msg_text (sv_response (fst x)))" "screen u sid = None"
        "\<forall>k. k \<noteq> rid \<longrightarrow> k \<noteq> sid \<longrightarrow> screen u k = base k"
      using w v by (auto simp: start_response_def in_view_def sent removed split: if_splits)
    let ?w = "w\<lparr>sv_text := sv_text w @ t, sv_buffer := sv_buffer w @ t\<rparr>"
    have "screen u (msg_id (sv_response ?w)) = Some (msg_text (sv_response ?w))"
      using scr v by (simp add: w' in_view_def)
    from stream_out_run[OF this, of "sv_buffer ?w"] obtain u' where
      "stream_out ui (sv_buffer ?w) (?w, u)
        = (?w\<lparr>sv_response := (sv_response ?w)\<lparr>msg_text := msg_text (sv_response ?w) @ sv_buffer ?w\<rparr>\<rparr>, u')"
      "screen u' = (screen u)(msg_id (sv_response ?w) \<mapsto> msg_text (sv_response ?w) @ sv_buffer ?w)"
      by blast
    then show ?thesis
      using that v scr by (auto simp: take_token_def w w' Let_def in_view_def)
  qed
  moreover have "take_token ui [] x = x" by (simp add: take_token_def)
  ultimately show "in_view rid sid base (take_token ui t x)"
    "sv_text (fst (take_token ui t x)) = sv_text (fst x) @ t"
    "sv_done (fst (take_token ui t x)) = sv_done (fst x)"
    using v by (cases "t = []"; simp)+
qed

lemma in_view_done:
  "in_view rid sid base x \<Longrightarrow> in_view rid sid base ((fst x)\<lparr>sv_done := b\<rparr>, snd x)"
  by (simp add: in_view_def)

text \<open>Ending early shows all of the text and the note.\<close>

definition shows_note :: "string \<Rightarrow> string \<Rightarrow> (string \<Rightarrow> string option) \<Rightarrow> string \<Rightarrow> string \<Rightarrow> 'u \<Rightarrow> bool" where
  "shows_note rid sid base t note u \<longleftrightarrow>
     (if t \<noteq> [] then screen u rid = Some (t @ blank_line @ note) \<and> screen u sid = None
      else screen u rid = None \<and> screen u sid = Some note)
     \<and> (\<forall>k. k \<noteq> rid \<longrightarrow> k \<noteq> sid \<longrightarrow> screen u k = base k)"

lemma flush_view:
  assumes v: "in_view rid sid base x"
  shows "\<exists>u. (if sv_buffer (fst x) = [] then x else stream_out ui (sv_buffer (fst x)) x)
      = ((fst x)\<lparr>sv_response := (sv_response (fst x))\<lparr>msg_text := sv_text (fst x)\<rparr>\<rparr>, u)
    \<and> (\<forall>k. k \<noteq> rid \<longrightarrow> screen u k = screen (snd x) k)
    \<and> screen u rid = (if sv_started (fst x) then Some (sv_text (fst x)) else None)"
proof (cases "sv_buffer (fst x) = []")
  case True
  then show ?thesis using v by (intro exI[of _ "snd x"]) (simp add: in_view_def prod_eq_iff)
next
  case False
  then have s: "screen (snd x) (msg_id (sv_response (fst x))) = Some (msg_text (sv_response (fst x)))"
    using v by (auto simp: in_view_def split: if_splits)
  from stream_out_run[OF this, of "sv_buffer (fst x)"] show ?thesis
    using False v by (auto simp: in_view_def split: if_splits)
qed

lemma stop_view:
  assumes v: "in_view rid sid base x"
  shows "shows_note rid sid base (sv_text (fst x)) note (stop_with ui actions note x)"
proof -
  have "start_response ui x = x" if "sv_buffer (fst x) \<noteq> []"
    using v that by (cases x) (auto simp: start_response_def in_view_def)
  then have "flush_rest ui x = (if sv_buffer (fst x) = [] then x else stream_out ui (sv_buffer (fst x)) x)"
    by (simp add: flush_rest_def)
  moreover obtain u where "(if sv_buffer (fst x) = [] then x else stream_out ui (sv_buffer (fst x)) x)
      = ((fst x)\<lparr>sv_response := (sv_response (fst x))\<lparr>msg_text := sv_text (fst x)\<rparr>\<rparr>, u)"
    "\<forall>k. k \<noteq> rid \<longrightarrow> screen u k = screen (snd x) k"
    "screen u rid = (if sv_started (fst x) then Some (sv_text (fst x)) else None)"
    using flush_view[OF v] by blast
  ultimately show ?thesis
    using v by (auto simp: stop_with_def shows_note_def updated with_note_def blank_line_def in_view_def Let_def
        split: if_splits)
qed

lemma show_events_view:
  assumes "in_view rid sid base x" "\<not> sv_done (fst x)"
  shows "case stopped_by evs of
      Some n \<Rightarrow> \<exists>u. show_events ui fr actions evs x = Inl u
        \<and> shows_note rid sid base (sv_text (fst x) @ reply_text_of evs) n u
    | None \<Rightarrow> \<exists>y. show_events ui fr actions evs x = Inr y \<and> in_view rid sid base y
        \<and> sv_text (fst y) = sv_text (fst x) @ reply_text_of evs \<and> sv_done (fst y) = done_seen evs"
  using assms
proof (induction evs arbitrary: x)
  case (Cons ev evs)
  let ?x = "take_status ui (jget ev ''status'')
    ((fst x)\<lparr>sv_mode := Some (event_mode fr (sv_mode (fst x)) ev)\<rparr>, snd x)"
  have x: "in_view rid sid base ?x" "sv_text (fst ?x) = sv_text (fst x)" "\<not> sv_done (fst ?x)"
    using take_status_view[of rid sid base "((fst x)\<lparr>sv_mode := Some (event_mode fr (sv_mode (fst x)) ev)\<rparr>, snd x)"]
      Cons.prems by (simp_all add: in_view_def)
  show ?case
  proof (cases "stop_note ev")
    case (Some n)
    then show ?thesis using stop_view[OF x(1), of n actions] x(2) Cons.prems(2) by (simp add: Let_def)
  next
    case None
    let ?y = "take_token ui (event_token ev) ?x"
    have y: "in_view rid sid base ?y" "sv_text (fst ?y) = sv_text (fst x) @ event_token ev" "\<not> sv_done (fst ?y)"
      using take_token_view[OF x(1), of "event_token ev"] x by simp_all
    have step: "show_events ui fr actions (ev # evs) x
        = show_events ui fr actions evs
            (if jget ev ''done'' = JBool True then (fst ?y)\<lparr>sv_done := True\<rparr> else fst ?y, snd ?y)"
      using None Cons.prems(2) by (simp add: Let_def event_token_def split: prod.split)
    show ?thesis
    proof (cases "jget ev ''done'' = JBool True")
      case True
      have "show_events ui fr actions es z = Inr z" if "sv_done (fst z)" for es and z :: "'u streaming"
        using that by (induction es) auto
      then have "show_events ui fr actions (ev # evs) x = Inr ((fst ?y)\<lparr>sv_done := True\<rparr>, snd ?y)"
        using True by (simp add: step del: show_events.simps)
      then show ?thesis using True y None in_view_done[OF y(1), of True]
        by (simp del: show_events.simps)
    next
      case False
      then show ?thesis using Cons.IH[OF y(1,3)] y(2) None
        by (simp add: step del: show_events.simps split: option.splits)
    qed
  qed
qed simp

lemma interruption_view:
  assumes "in_view rid sid base x" "sv_text (fst x) \<noteq> []"
  shows "shows_note rid sid base (sv_text (fst x)) interrupted_note (show_interruption ui actions x)"
proof -
  obtain u where "(if sv_buffer (fst x) = [] then x else stream_out ui (sv_buffer (fst x)) x)
      = ((fst x)\<lparr>sv_response := (sv_response (fst x))\<lparr>msg_text := sv_text (fst x)\<rparr>\<rparr>, u)"
    "\<forall>k. k \<noteq> rid \<longrightarrow> screen u k = screen (snd x) k"
    using flush_view[OF assms(1)] by blast
  then show ?thesis
    using assms by (auto simp: show_interruption_def shows_note_def updated blank_line_def in_view_def)
qed

lemma finish_view:
  assumes "in_view rid sid base x" "sv_text (fst x) \<noteq> []"
  shows "screen (finish_reply ui actions x) rid
      = Some (sv_text (fst x) @ (if sv_done (fst x) then [] else blank_line @ incomplete_note))"
    and "screen (finish_reply ui actions x) sid = None"
    and "\<forall>k. k \<noteq> rid \<longrightarrow> k \<noteq> sid \<longrightarrow> screen (finish_reply ui actions x) k = base k"
proof -
  obtain u where "(if sv_buffer (fst x) = [] then x else stream_out ui (sv_buffer (fst x)) x)
      = ((fst x)\<lparr>sv_response := (sv_response (fst x))\<lparr>msg_text := sv_text (fst x)\<rparr>\<rparr>, u)"
    "\<forall>k. k \<noteq> rid \<longrightarrow> screen u k = screen (snd x) k"
    using flush_view[OF assms(1)] by blast
  then show "screen (finish_reply ui actions x) rid
      = Some (sv_text (fst x) @ (if sv_done (fst x) then [] else blank_line @ incomplete_note))"
    and "screen (finish_reply ui actions x) sid = None"
    and "\<forall>k. k \<noteq> rid \<longrightarrow> k \<noteq> sid \<longrightarrow> screen (finish_reply ui actions x) k = base k"
    using assms by (auto simp: finish_reply_def updated blank_line_def in_view_def)
qed

end

section \<open>The reply on the screen\<close>

text \<open>C4. The reader sees the whole reply.  When at least one token arrives, a streamed reply ends with the
  status message gone and the response message showing the tokens received, in order, each once, followed
  by nothing when the reply completed and by exactly one note when it was cancelled, failed, broke off or
  never completed; no other message changes.\<close>

theorem reader_sees_the_reply:
  assumes ui: "chat_messages (ce_ui ce) screen"
    and call: "chat_stream_call (backend_client ce) user_text api_mode (cs_net s) = ((events, ending), net)"
    and known: "\<And>e. ending = Failed e \<Longrightarrow> isinstance e BackendClientError"
    and shown: "screen (cs_ui s) (msg_id status) = Some t"
    and some: "reply_text_of events \<noteq> []"
  shows "\<exists>s'. stream_backend_response ce status user_text api_mode s = (Inr (), s')
    \<and> screen (cs_ui s') = (screen (cs_ui s))
        (msg_id status := None, fst (cm_new_id (ce_ui ce) (cs_ui s)) \<mapsto> reply_text_of events @ note_under events ending)"
proof -
  obtain rid u where i: "cm_new_id (ce_ui ce) (cs_ui s) = (rid, u)" by fastforce
  have f: "screen (cs_ui s) rid = None" "screen u = screen (cs_ui s)"
    using chat_messages.fresh[OF ui i] by auto
  let ?m = "\<lparr>msg_id = rid, msg_text = [], msg_author = [], msg_metadata = [], msg_actions = []\<rparr>"
  let ?x = "(new_view ?m status api_mode, u)"
  let ?a = "response_actions user_text (get_selected_mode s)"
  have v: "chat_messages.in_view screen rid (msg_id status) (screen (cs_ui s)) ?x"
    using f shown by (auto simp: chat_messages.in_view_def[OF ui] new_view_def)
  note events' = chat_messages.show_events_view[OF ui v, where evs = events and fr = "ce_float_repr ce" and actions = ?a]
  have m: "new_message (ce_ui ce) [] [] (cs_ui s) = (?m, u)" by (simp add: new_message_def i)
  have eq: "screen w = (screen (cs_ui s))(msg_id status := None, rid \<mapsto> r)"
    if "screen w rid = Some r" "screen w (msg_id status) = None"
      "\<forall>k. k \<noteq> rid \<longrightarrow> k \<noteq> msg_id status \<longrightarrow> screen w k = screen (cs_ui s) k" for w r
    using that by (auto simp: fun_eq_iff)
  show ?thesis
  proof (cases "stopped_by events")
    case (Some n)
    then obtain w where "show_events (ce_ui ce) (ce_float_repr ce) ?a events ?x = Inl w"
      and "chat_messages.shows_note screen rid (msg_id status) (screen (cs_ui s)) (reply_text_of events) n w"
      using events' by (auto simp: new_view_def)
    then show ?thesis
      using some eq[of w "reply_text_of events @ note_under events ending"] Some
      by (simp add: stream_backend_response_def m call i chat_messages.shows_note_def[OF ui] note_under_def)
  next
    case None
    then obtain y where run: "show_events (ce_ui ce) (ce_float_repr ce) ?a events ?x = Inr y"
      and y: "chat_messages.in_view screen rid (msg_id status) (screen (cs_ui s)) y"
        "sv_text (fst y) = reply_text_of events" "sv_done (fst y) = done_seen events"
      using events' by (auto simp: new_view_def)
    have t: "sv_text (fst y) \<noteq> []" using some y by simp
    show ?thesis
    proof (cases "\<exists>e. ending = Failed e")
      case True
      then obtain e where e: "ending = Failed e" "isinstance e BackendClientError" using known by blast
      let ?w = "show_interruption (ce_ui ce) ?a y"
      have "screen ?w = (screen (cs_ui s))
          (msg_id status := None, rid \<mapsto> reply_text_of events @ note_under events ending)"
        using chat_messages.interruption_view[OF ui y(1) t, of ?a] some None y(2) e
        by (intro eq) (simp_all add: chat_messages.shows_note_def[OF ui] note_under_def)
      then show ?thesis
        using run e by (simp add: stream_backend_response_def m call i split: prod.split)
    next
      case False
      let ?w = "finish_reply (ce_ui ce) ?a y"
      have "screen ?w = (screen (cs_ui s))
          (msg_id status := None, rid \<mapsto> reply_text_of events @ note_under events ending)"
        using chat_messages.finish_view[OF ui y(1) t, of ?a] False None y
        by (intro eq) (simp_all add: note_under_def split: ending.split)
      then show ?thesis
        using run False t
        by (cases ending; cases y) (simp_all add: stream_backend_response_def m call i Let_def)
    qed
  qed
qed


section \<open>A page\<close>

text \<open>Messages in memory: the texts by key; a new key is longer than all in use.\<close>

definition page_ui :: "(string \<times> string) list chat_ui" where
  "page_ui =
     \<lparr>cm_new_id = (\<lambda>u. (''m'' @ concat (map fst u), u)),
      cm_send = (\<lambda>m u. AList.update (msg_id m) (msg_text m) u),
      cm_update = (\<lambda>m u. AList.update (msg_id m) (msg_text m) u),
      cm_remove = (\<lambda>m u. AList.delete (msg_id m) u),
      cm_stream_token = (\<lambda>t m u. (m\<lparr>msg_text := msg_text m @ t\<rparr>,
        AList.update (msg_id m) ((case map_of u (msg_id m) of None \<Rightarrow> [] | Some x \<Rightarrow> x) @ t) u)),
      cm_settings = (\<lambda>_ u. u), cm_ask = (\<lambda>_ u. (None, u)), cm_remove_action = (\<lambda>_ u. u)\<rparr>"

lemma new_key_unused: "map_of u (CHR ''m'' # concat (map fst u)) = None"
proof -
  have "length k \<le> length (concat (map fst u))" if "(k, v) \<in> set u" for k v
    using that by (induction u) auto
  then show ?thesis unfolding map_of_eq_None_iff by fastforce
qed

interpretation page: chat_messages page_ui map_of
  by unfold_locales (auto simp: page_ui_def new_key_unused update_conv' delete_conv')

text \<open>A backend that streams a greeting, and a chat that asks for it.\<close>

definition greeting_events :: "(string \<times> json) list list" where
  "greeting_events =
     [[(''mode'', JStr ''translation''), (''token'', JStr ''Mo'')],
      [(''mode'', JStr ''translation''), (''token'', JStr ''lo. '')],
      [(''mode'', JStr ''translation''), (''done'', JBool True)]]"

definition greeting_backend :: "unit web_client" where
  "greeting_backend =
     \<lparr>wc_get = (\<lambda>_ w. (Inl CallTimeout, w)), wc_post = (\<lambda>_ _ _ w. (Inl CallTimeout, w)),
      wc_stream = (\<lambda>_ _ _ w. (Inr \<lparr>ws_status = 200, ws_body = Inr [],
        ws_lines = concat (map (\<lambda>e. [''data: '' @ dumps (\<lambda>_. []) (JObj e), []]) greeting_events),
        ws_end = None\<rparr>, w))\<rparr>"

definition greeting_env :: "(unit, (string \<times> string) list) chat_env" where
  "greeting_env = \<lparr>ce_env = [''FASTAPI_API_KEY'' \<mapsto> ''key''], ce_open = (\<lambda>_ _. greeting_backend),
     ce_float_repr = (\<lambda>_. []), ce_ui = page_ui\<rparr>"

definition greeting_state :: "(unit, (string \<times> string) list) chat_state" where
  "greeting_state = \<lparr>cs_user = None, cs_profile = [], cs_mode = Some ''translation'', cs_last_message = [],
     cs_net = (), cs_ui = [(''s'', ''Sending'')]\<rparr>"

definition greeting_status :: ui_message where
  "greeting_status = \<lparr>msg_id = ''s'', msg_text = ''Sending'', msg_author = [], msg_metadata = [], msg_actions = []\<rparr>"

lemma greeting_call:
  "chat_stream_call (backend_client greeting_env) ''Hello'' (Some ''translation'') ()
     = ((greeting_events, Finished), ())"
proof -
  have "auth_headers (backend_client greeting_env) = Inr [(''X-API-Key'', ''key'')]"
    by (simp add: auth_headers_def backend_client_def greeting_env_def backend_config_def) code_simp
  moreover have "read_events (concat (map (\<lambda>e. [''data: '' @ dumps (\<lambda>_. []) (JObj e), []]) greeting_events)) None
      = (greeting_events, Finished)"
    by (rule read_events_sse) (simp add: greeting_events_def)
  ultimately show ?thesis
    by (simp add: chat_stream_call_def or_call_exn_def client_of_def backend_client_def greeting_env_def
        greeting_backend_def check_stream_def is_success_def del: dumps.simps)
qed

theorem reader_sees_the_reply_witness:
  "\<exists>s'. stream_backend_response greeting_env greeting_status ''Hello'' (Some ''translation'') greeting_state
      = (Inr (), s')
    \<and> map_of (cs_ui s') = [''ms'' \<mapsto> ''Molo. '']"
proof -
  have "reply_text_of greeting_events = ''Molo. ''" "note_under greeting_events Finished = []"
    by code_simp+
  moreover have "fst (cm_new_id page_ui (cs_ui greeting_state)) = ''ms''"
    by (simp add: page_ui_def greeting_state_def)
  moreover have "(map_of (cs_ui greeting_state))(msg_id greeting_status := None) = Map.empty"
    by (simp add: greeting_state_def greeting_status_def fun_eq_iff)
  ultimately show ?thesis
    using reader_sees_the_reply[of greeting_env map_of "''Hello''" "Some ''translation''" greeting_state
        greeting_events Finished "()" greeting_status "''Sending''"] page.chat_messages_axioms greeting_call
    by (simp add: greeting_env_def greeting_state_def greeting_status_def)
qed

end
