(* ===== verification/Api_Layer.thy ===== *)
theory Api_Layer
  imports User_Accounts Agent_Service Queue_Service Python_Values
begin

text \<open>
  The HTTP API (\<^verbatim>\<open>app/interfaces/api\<close>): the key check in front of every route, the request and response
  models, the routes, and the handlers that turn an exception into a response.

  The web framework is a parameter where it decides: the error list of a refused body and the text of a
  time.  Its documented order is written out in \<open>guarded\<close>: a body that is no JSON is refused first, then
  the router's dependency (the key) is checked, then the dependencies of the route, then the body is
  validated.
\<close>

section \<open>The API key\<close>

record AuthConfig =
  ac_enabled :: bool
  ac_api_key :: "string option"

definition auth_config :: "env \<Rightarrow> AuthConfig" where
  "auth_config env =
     \<lparr>ac_enabled = parse_bool (getenv env ''AUTH_ENABLED'' ''true'') True,
      ac_api_key = env ''FASTAPI_API_KEY''\<rparr>"

text \<open>The status, error code and message of the API's own exceptions.\<close>

definition http_status_of :: "exn_class \<Rightarrow> int" where
  "http_status_of c = (case c of
     AuthenticationError \<Rightarrow> 401 | AuthConfigurationError \<Rightarrow> 500 | UnsupportedModeError \<Rightarrow> 400
   | _ \<Rightarrow> api_status c)"

definition http_code_of :: "exn_class \<Rightarrow> string" where
  "http_code_of c = (case c of
     AuthenticationError \<Rightarrow> ''authentication_failed''
   | AuthConfigurationError \<Rightarrow> ''auth_configuration_error''
   | UnsupportedModeError \<Rightarrow> ''unsupported_mode''
   | _ \<Rightarrow> api_code c)"

definition unsupported_mode :: "string \<Rightarrow> exn" where
  "unsupported_mode m =
     mk_exn UnsupportedModeError (''Mode '' @ [CHR 0x27] @ m @ [CHR 0x27] @ '' is not supported for this operation.'')"

definition authentication_error :: exn where
  "authentication_error = mk_exn AuthenticationError ''A valid API key is required.''"

definition auth_configuration_error :: exn where
  "auth_configuration_error =
     mk_exn AuthConfigurationError ''API authentication is not configured correctly.''"

text \<open>\<^verbatim>\<open>secrets.compare_digest\<close> of two texts raises \<^verbatim>\<open>TypeError\<close> unless both are ASCII.\<close>

definition ascii :: "string \<Rightarrow> bool" where
  "ascii s \<longleftrightarrow> list_all (\<lambda>c. (of_char c :: nat) < 128) s"

definition compare_digest :: "string \<Rightarrow> string \<Rightarrow> bool res" where
  "compare_digest a b =
     (if ascii a \<and> ascii b then Inr (a = b) else Inl (mk_exn TypeError []))"

definition validate_api_key :: "string option \<Rightarrow> AuthConfig \<Rightarrow> unit res" where
  "validate_api_key provided config =
     (if \<not> ac_enabled config then Inr ()
      else let expected = (case ac_api_key config of None \<Rightarrow> [] | Some k \<Rightarrow> k) in
        if expected = [] then Inl auth_configuration_error
        else case provided of
          None \<Rightarrow> Inl authentication_error
        | Some p \<Rightarrow>
            if p = [] then Inl authentication_error
            else bind_res (compare_digest p expected) (\<lambda>same.
              if same then Inr () else Inl authentication_error))"

section \<open>Error responses\<close>

record api_response =
  resp_status :: int
  resp_body :: json
  resp_headers :: "(string \<times> string) list"

definition error_response ::
  "int \<Rightarrow> string \<Rightarrow> string \<Rightarrow> (string \<times> json) list option \<Rightarrow> (string \<times> string) list \<Rightarrow> api_response" where
  "error_response status error message details headers =
     \<lparr>resp_status = status,
      resp_body = JObj [(''error'', JStr error), (''message'', JStr message),
        (''details'', case details of None \<Rightarrow> JNull | Some d \<Rightarrow> JObj d)],
      resp_headers = headers\<rparr>"

text \<open>No exception of the sources carries details.\<close>

definition api_error_handler :: "exn \<Rightarrow> api_response" where
  "api_error_handler e =
     error_response (http_status_of (exn_cls e)) (http_code_of (exn_cls e)) (exn_text e) None
       (case exn_extra e of Headers h \<Rightarrow> h | _ \<Rightarrow> [])"

definition http_exception :: "int \<Rightarrow> json \<Rightarrow> exn" where
  "http_exception status detail = Exn HTTPException [] (HttpDetail status detail)"

definition http_exception_handler :: "(rat \<Rightarrow> string) \<Rightarrow> int \<Rightarrow> json \<Rightarrow> api_response" where
  "http_exception_handler fr status detail =
     (case detail of
        JObj d \<Rightarrow>
          error_response status
            (case map_of d ''error'' of None \<Rightarrow> ''http_error'' | Some v \<Rightarrow> py_str fr v)
            (case map_of d ''message'' of None \<Rightarrow> ''HTTP request failed.'' | Some v \<Rightarrow> py_str fr v)
            (case jget d ''details'' of JObj x \<Rightarrow> Some x | _ \<Rightarrow> None) []
      | JStr m \<Rightarrow> error_response status ''http_error'' m None []
      | _ \<Rightarrow> error_response status ''http_error'' ''HTTP request failed.'' None [])"

text \<open>A refused enumeration value of the field \<^verbatim>\<open>mode\<close> is a 400, every other refusal a 422.\<close>

definition mode_error :: "json \<Rightarrow> bool" where
  "mode_error err = (case err of
     JObj d \<Rightarrow>
       (case (jget d ''loc'', jget d ''type'') of
          (JList loc, JStr t) \<Rightarrow> loc \<noteq> [] \<and> last loc = JStr ''mode'' \<and> contains ''enum'' t
        | _ \<Rightarrow> False)
   | _ \<Rightarrow> False)"

definition validation_status_code :: "json list \<Rightarrow> int" where
  "validation_status_code errs = (if list_ex mode_error errs then 400 else 422)"

definition validation_error :: "json list \<Rightarrow> exn" where
  "validation_error errs = Exn (ForeignError ''RequestValidationError'') [] (ValidationErrors errs)"

definition validation_exception_handler :: "json list \<Rightarrow> api_response" where
  "validation_exception_handler errs =
     error_response (validation_status_code errs) ''validation_error'' ''Request validation failed.''
       (Some [(''errors'', JList errs)]) []"

definition unexpected_exception_handler :: api_response where
  "unexpected_exception_handler =
     error_response 500 ''internal_error'' ''An unexpected internal error occurred.'' None []"

text \<open>The handlers as \<^verbatim>\<open>create_app\<close> registers them; the classes do not overlap.\<close>

definition exception_response :: "(rat \<Rightarrow> string) \<Rightarrow> exn \<Rightarrow> api_response" where
  "exception_response fr e =
     (if isinstance e APIError then api_error_handler e
      else case exn_extra e of
        HttpDetail status detail \<Rightarrow>
          if exn_cls e = HTTPException then http_exception_handler fr status detail
          else unexpected_exception_handler
      | ValidationErrors errs \<Rightarrow>
          if exn_cls e = ForeignError ''RequestValidationError'' then validation_exception_handler errs
          else unexpected_exception_handler
      | _ \<Rightarrow> unexpected_exception_handler)"

section \<open>Request models\<close>

text \<open>\<^verbatim>\<open>extra="forbid"\<close> and \<^verbatim>\<open>Field(min_length=1)\<close>.\<close>

definition only_keys :: "string list \<Rightarrow> (string \<times> json) list \<Rightarrow> unit res" where
  "only_keys ks d = (if list_all (\<lambda>kv. fst kv \<in> set ks) d then Inr () else Inl invalid)"

definition as_text1 :: "json \<Rightarrow> string option" where
  "as_text1 j = (case j of JStr s \<Rightarrow> if s = [] then None else Some s | _ \<Rightarrow> None)"

definition as_opt_mode :: "json \<Rightarrow> mode option option" where
  "as_opt_mode j = (case j of JNull \<Rightarrow> Some None | _ \<Rightarrow> map_option Some (as_mode j))"

text \<open>\<^verbatim>\<open>RequestMetadata\<close> keeps extra fields; the application reads only its two own.\<close>

definition as_opt_metadata :: "json \<Rightarrow> RequestMetadata option option" where
  "as_opt_metadata j = (case j of
     JNull \<Rightarrow> Some None
   | JObj d \<Rightarrow>
       (case (field as_opt_str (Some None) d ''session_id'', field as_opt_str (Some None) d ''client'') of
          (Inr s, Inr c) \<Rightarrow> Some (Some \<lparr>meta_session_id = s, meta_client = c\<rparr>)
        | _ \<Rightarrow> None)
   | _ \<Rightarrow> None)"

definition chat_command_of :: "string list \<Rightarrow> json \<Rightarrow> ChatCommand res" where
  "chat_command_of extra body =
     bind_res (kwargs body) (\<lambda>d.
     bind_res (only_keys ([''message'', ''mode'', ''metadata''] @ extra) d) (\<lambda>_.
     bind_res (field as_text1 None d ''message'') (\<lambda>m.
     bind_res (field as_opt_mode (Some None) d ''mode'') (\<lambda>md.
     bind_res (field as_opt_metadata (Some None) d ''metadata'') (\<lambda>meta.
     Inr \<lparr>message_text = m, requested_mode = map_option mode_text md, cmd_metadata = meta\<rparr>)))))"

definition ChatRequest_of :: "json \<Rightarrow> ChatCommand res" where
  "ChatRequest_of = chat_command_of []"

definition as_true :: "json \<Rightarrow> bool option" where
  "as_true j = (if j = JBool True then Some True else None)"

definition StreamChatRequest_of :: "json \<Rightarrow> ChatCommand res" where
  "StreamChatRequest_of body =
     bind_res (chat_command_of [''stream''] body) (\<lambda>cmd.
     bind_res (kwargs body) (\<lambda>d.
     bind_res (field as_true (Some True) d ''stream'') (\<lambda>_. Inr cmd)))"

definition UserPasswordLoginRequest_of :: "json \<Rightarrow> (string \<times> string) res" where
  "UserPasswordLoginRequest_of body =
     bind_res (kwargs body) (\<lambda>d.
     bind_res (only_keys [''username'', ''password''] d) (\<lambda>_.
     bind_res (field as_text1 None d ''username'') (\<lambda>u.
     bind_res (field as_text1 None d ''password'') (\<lambda>p.
     Inr (u, p)))))"

definition UserSignupRequest_of :: "json \<Rightarrow> UserSignupCommand res" where
  "UserSignupRequest_of body =
     bind_res (kwargs body) (\<lambda>d.
     bind_res (only_keys [''username'', ''password'', ''confirm_password'', ''display_name'',
                          ''preferred_language''] d) (\<lambda>_.
     bind_res (field as_text1 None d ''username'') (\<lambda>u.
     bind_res (field as_text1 None d ''password'') (\<lambda>p.
     bind_res (field as_opt_str (Some None) d ''confirm_password'') (\<lambda>c.
     bind_res (field as_opt_str (Some None) d ''display_name'') (\<lambda>n.
     bind_res (field as_opt_str (Some None) d ''preferred_language'') (\<lambda>l.
     Inr \<lparr>cmd_username = u, cmd_password = p, cmd_confirm_password = c, cmd_display_name = n,
       cmd_preferred_language = l\<rparr>)))))))"

section \<open>Response models\<close>

text \<open>\<^verbatim>\<open>TranslationResponse | DefinitionResponse | LearningResponse\<close>: the literal \<^verbatim>\<open>mode\<close> tells them apart.\<close>

definition ModeResponsePayload_of :: "json \<Rightarrow> (string \<times> json) list res" where
  "ModeResponsePayload_of d =
     (case TranslationResponse_of d of
        Inr r \<Rightarrow> Inr (response_data r)
      | Inl _ \<Rightarrow>
          (case DefinitionResponse_of d of
             Inr r \<Rightarrow> Inr (response_data r)
           | Inl _ \<Rightarrow>
               (case LearningResponse_of d of Inr r \<Rightarrow> Inr (response_data r) | Inl e \<Rightarrow> Inl invalid)))"

definition chat_response_from_result :: "ChatResult \<Rightarrow> json res" where
  "chat_response_from_result r =
     bind_res (case mode_of_text (result_mode r) of
                 None \<Rightarrow> Inl (mk_exn ValueError (result_mode r)) | Some m \<Rightarrow> Inr m) (\<lambda>m.
     bind_res (case result_data r of
                 None \<Rightarrow> Inr JNull
               | Some d \<Rightarrow> bind_res (ModeResponsePayload_of (JObj d)) (\<lambda>x. Inr (JObj x))) (\<lambda>payload.
     Inr (JObj [(''mode'', JStr (mode_text m)), (''response'', JStr (result_response r)),
       (''intent'', case result_intent r of None \<Rightarrow> JNull | Some i \<Rightarrow> JObj (dump_intent i)),
       (''data'', payload), (''metadata'', JObj [(''session_id'', jstr (result_session_id r))])])))"

definition authenticated_user_response_from_profile :: "UserProfile \<Rightarrow> json" where
  "authenticated_user_response_from_profile u =
     JObj [(''user_id'', JInt (user_id u)), (''username'', JStr (username u)),
       (''display_name'', jstr (display_name u)), (''role'', JStr (role u)),
       (''is_admin'', JBool (is_admin u)), (''preferred_language'', jstr (preferred_language u)),
       (''ui_theme'', jstr (ui_theme u))]"

definition user_signup_response_from_profile :: "(int \<Rightarrow> string) \<Rightarrow> UserProfile \<Rightarrow> string \<Rightarrow> json" where
  "user_signup_response_from_profile fmt u message =
     JObj [(''success'', JBool True), (''message'', JStr message), (''user_id'', JInt (user_id u)),
       (''username'', JStr (username u)), (''created_at'', JStr (fmt (created_at u)))]"

definition call_type_text :: "call_type \<Rightarrow> string" where
  "call_type_text c = (case c of
     StructuredJson \<Rightarrow> ''structured_json'' | TextGeneration \<Rightarrow> ''text_generation''
   | StreamingTextGeneration \<Rightarrow> ''streaming_text_generation'')"

definition from_job :: "(rat \<Rightarrow> string) \<Rightarrow> LLMCallJob \<Rightarrow> json" where
  "from_job fmt j =
     JObj [(''job_id'', JStr (job_id j)), (''call_type'', JStr (call_type_text (call_type j))),
       (''mode'', jstr (job_mode j)), (''created_at'', JStr (fmt (job_created_at j))),
       (''started_at'', jstr (map_option fmt (job_started_at j))),
       (''completed_at'', jstr (map_option fmt (job_completed_at j))),
       (''status'', JStr (status_text (job_status j))),
       (''cancel_requested'', JBool (cancel_requested j)), (''queue_position'', jint (queue_position j)),
       (''elapsed_seconds'', jfloat (elapsed_seconds j)), (''retry_count'', JInt (retry_count j)),
       (''last_error'', jstr (last_error j))]"

definition queue_status_response :: "QueueStatusSnapshot \<Rightarrow> json" where
  "queue_status_response q =
     JObj [(''queue'', JObj
       [(''redis_connected'', JBool (redis_connected q)), (''queue_depth'', JInt (queue_depth q)),
        (''active_job_count'', JInt (active_job_count q)), (''failed_job_count'', JInt (failed_job_count q)),
        (''worker_count'', JInt (worker_count q)),
        (''worker_heartbeat_age_seconds'', jfloat (worker_heartbeat_age_seconds q)),
        (''average_wait_time_seconds'', jfloat (average_wait_time_seconds q)),
        (''estimated_wait_time_seconds'', jfloat (estimated_wait_time_seconds q))])]"

section \<open>The application\<close>

text \<open>What the routes depend on.  A dependency that cannot be built is the exception it raises.\<close>

record 'w api_app =
  aa_env :: env
  aa_settings :: "AppSettings res"
  aa_agent :: "'w agent_env res"
  aa_queue :: "'w LLMQueueService res"
  aa_users :: "'w user_repo res"
  aa_crypto :: crypto
  aa_salt :: string
  aa_float_repr :: "rat \<Rightarrow> string"
  aa_iso :: "rat \<Rightarrow> string"
  aa_iso_micros :: "int \<Rightarrow> string"
  aa_body_errors :: "string \<Rightarrow> json list"

definition get_agent_service :: "'w api_app \<Rightarrow> 'w agent_env res" where
  "get_agent_service app =
     (case aa_agent app of
        Inl e \<Rightarrow> Inl (api_error LLMServiceError (Some (exn_text e)) None)
      | Inr env \<Rightarrow> Inr env)"

definition validated :: "'w api_app \<Rightarrow> string \<Rightarrow> 'r res \<Rightarrow> 'r res" where
  "validated app text parsed =
     (case parsed of Inl _ \<Rightarrow> Inl (validation_error (aa_body_errors app text)) | Inr r \<Rightarrow> Inr r)"

text \<open>An empty body is no body at all: it passes the first step and fails the validation.\<close>

definition read_body :: "'w api_app \<Rightarrow> string \<Rightarrow> json res" where
  "read_body app text =
     (if text = [] then Inr JNull
      else case json_loads text of
        None \<Rightarrow> Inl (validation_error (aa_body_errors app text))
      | Some j \<Rightarrow> Inr j)"

definition require_api_key :: "'w api_app \<Rightarrow> string option \<Rightarrow> unit res" where
  "require_api_key app key = validate_api_key key (auth_config (aa_env app))"

definition guarded ::
  "'w api_app \<Rightarrow> string option \<Rightarrow> string \<Rightarrow> (json \<Rightarrow> ('s, 'a) act) \<Rightarrow> ('s, 'a) act" where
  "guarded app key text route =
     bindA (liftA (read_body app text)) (\<lambda>body.
     bindA (liftA (require_api_key app key)) (\<lambda>_. route body))"

section \<open>The routes\<close>

definition internal_user_login :: "'w api_app \<Rightarrow> string \<Rightarrow> json \<Rightarrow> ('w agent_state, json) act" where
  "internal_user_login app text body =
     bindA (liftA (aa_users app)) (\<lambda>repo.
     bindA (liftA (validated app text (UserPasswordLoginRequest_of body))) (\<lambda>(uname, password).
     bindA (on_world (authenticate_password_user (aa_crypto app) (aa_settings app) repo uname password))
       (\<lambda>user. case user of
          None \<Rightarrow> raiseA (http_exception 403
            (JObj [(''error'', JStr ''invalid_credentials''),
                   (''message'', JStr ''Invalid username or password.'')]))
        | Some u \<Rightarrow> retA (authenticated_user_response_from_profile u))))"

definition signup_message :: "AppSettings \<Rightarrow> string" where
  "signup_message s =
     (if signup_require_admin_approval s
      then ''Account created. Please wait for approval before signing in.''
      else ''Account created. Please sign in.'')"

text \<open>The \<^verbatim>\<open>except\<close> clauses around the sign-up.\<close>

definition signup_failure :: "exn \<Rightarrow> exn" where
  "signup_failure e =
     (if isinstance e UsernameAlreadyExistsError then
        http_exception 409 (JObj [(''error'', JStr ''username_unavailable''),
          (''message'', JStr ''That username is unavailable.'')])
      else if isinstance e ValueError then
        http_exception 400 (JObj [(''error'', JStr ''invalid_signup''), (''message'', JStr (exn_text e))])
      else e)"

definition user_signup :: "'w api_app \<Rightarrow> string \<Rightarrow> json \<Rightarrow> ('w agent_state, json) act" where
  "user_signup app text body =
     bindA (liftA (aa_settings app)) (\<lambda>s.
     bindA (liftA (aa_users app)) (\<lambda>repo.
     bindA (liftA (validated app text (UserSignupRequest_of body))) (\<lambda>cmd.
     if \<not> signup_enabled s then
       raiseA (http_exception 404 (JObj [(''error'', JStr ''signup_disabled''),
         (''message'', JStr ''Account sign-up is not available right now.'')]))
     else
       bindA (catchA
           (on_world (signup_user (aa_crypto app) (aa_settings app) (aa_salt app) repo cmd
              (auth_require_strong_password s) (auth_min_password_length s) (signup_default_role s)
              (signup_require_admin_approval s)))
           (\<lambda>e. raiseA (signup_failure e)))
         (\<lambda>u. retA (user_signup_response_from_profile (aa_iso_micros app) u (signup_message s))))))"

definition chat_full_route :: "'w api_app \<Rightarrow> string \<Rightarrow> json \<Rightarrow> ('w agent_state, json) act" where
  "chat_full_route app text body =
     bindA (liftA (get_agent_service app)) (\<lambda>env.
     bindA (liftA (validated app text (ChatRequest_of body))) (\<lambda>cmd.
     bindA (chat_full env cmd) (\<lambda>r. liftA (chat_response_from_result r))))"

text \<open>The generator of a stream runs after its response has started.\<close>

definition chat_stream_route ::
  "'w api_app \<Rightarrow> string \<Rightarrow> json \<Rightarrow> ('w agent_state, 'w event_stream \<times> (rat \<Rightarrow> string)) act" where
  "chat_stream_route app text body =
     bindA (liftA (get_agent_service app)) (\<lambda>env.
     bindA (liftA (validated app text (StreamChatRequest_of body))) (\<lambda>cmd.
     bindA (chat_stream env cmd) (\<lambda>plan. retA (run_plan env cmd plan, env_float_repr env))))"

definition job_not_found :: exn where
  "job_not_found = http_exception 404 (JStr ''LLM job not found.'')"

definition llm_job_status :: "'w api_app \<Rightarrow> string \<Rightarrow> ('w agent_state, json) act" where
  "llm_job_status app jid =
     bindA (catchA
         (bindA (liftA (aa_queue app)) (\<lambda>v. on_world (get_job_status v jid)))
         (\<lambda>_. raiseA job_not_found))
       (\<lambda>j. retA (from_job (aa_iso app) j))"

definition cancel_llm_job :: "'w api_app \<Rightarrow> string \<Rightarrow> ('w agent_state, json) act" where
  "cancel_llm_job app jid =
     bindA (liftA (aa_queue app)) (\<lambda>v.
     bindA (catchA (on_world (cancel_llm_call v jid)) (\<lambda>_. raiseA job_not_found))
       (\<lambda>j. retA (from_job (aa_iso app) j)))"

definition queue_status :: "'w api_app \<Rightarrow> ('w agent_state, json) act" where
  "queue_status app =
     bindA (liftA (aa_queue app)) (\<lambda>v.
     bindA (on_world (get_queue_status_sync v)) (\<lambda>q. retA (queue_status_response q)))"

section \<open>Serving a request\<close>

datatype api_call =
    HealthCall | RootCall | LoginCall | SignupCall | ChatCall | StreamCall
  | JobStatusCall string | CancelCall string | QueueStatusCall

text \<open>The paths of the decorators.\<close>

definition route_of :: "string \<Rightarrow> string \<Rightarrow> api_call option" where
  "route_of verb path =
     (let parts = split_on CHR ''/'' path in
      if verb = ''GET'' \<and> path = ''/health'' then Some HealthCall
      else if verb = ''GET'' \<and> path = ''/'' then Some RootCall
      else if verb = ''POST'' \<and> path = ''/api/internal/auth/login'' then Some LoginCall
      else if verb = ''POST'' \<and> path = ''/api/auth/signup'' then Some SignupCall
      else if verb = ''POST'' \<and> path = ''/api/chat'' then Some ChatCall
      else if verb = ''POST'' \<and> path = ''/api/chat/stream'' then Some StreamCall
      else if verb = ''GET'' \<and> path = ''/api/queue/status'' then Some QueueStatusCall
      else case parts of
        [a, b, c, d, jid] \<Rightarrow>
          if verb = ''GET'' \<and> [a, b, c, d] = [[], ''api'', ''llm'', ''jobs''] \<and> jid \<noteq> []
          then Some (JobStatusCall jid) else None
      | [a, b, c, d, jid, f] \<Rightarrow>
          if verb = ''POST'' \<and> [a, b, c, d, f] = [[], ''api'', ''llm'', ''jobs'', ''cancel''] \<and> jid \<noteq> []
          then Some (CancelCall jid) else None
      | _ \<Rightarrow> None)"

datatype http_answer =
    JsonAnswer api_response
  | StreamAnswer "string list" gen_end

definition json_answer :: "'w api_app \<Rightarrow> ('s, json) act \<Rightarrow> 's \<Rightarrow> http_answer \<times> 's" where
  "json_answer app m s =
     (case m s of
        (Inl e, s') \<Rightarrow> (JsonAnswer (exception_response (aa_float_repr app) e), s')
      | (Inr j, s') \<Rightarrow> (JsonAnswer \<lparr>resp_status = 200, resp_body = j, resp_headers = []\<rparr>, s'))"

definition stream_answer ::
  "'w api_app \<Rightarrow> ('w agent_state, 'w event_stream \<times> (rat \<Rightarrow> string)) act \<Rightarrow> 'w agent_state
     \<Rightarrow> http_answer \<times> 'w agent_state" where
  "stream_answer app m s =
     (case m s of
        (Inl e, s') \<Rightarrow> (JsonAnswer (exception_response (aa_float_repr app) e), s')
      | (Inr (generator, fr), s') \<Rightarrow>
          (case generator s' of ((events, e), s'') \<Rightarrow> (StreamAnswer (map (sse_data fr) events) e, s'')))"

definition SERVICE_NAME :: string where "SERVICE_NAME = ''local-language-agent''"
definition SERVICE_VERSION :: string where "SERVICE_VERSION = ''0.1.0''"

definition health_body :: json where
  "health_body = JObj [(''status'', JStr ''ok'')]"

definition root_body :: json where
  "root_body = JObj [(''service'', JStr SERVICE_NAME), (''version'', JStr SERVICE_VERSION),
     (''status'', JStr ''ok'')]"

definition serve ::
  "'w api_app \<Rightarrow> api_call \<Rightarrow> string option \<Rightarrow> string \<Rightarrow> 'w agent_state \<Rightarrow> http_answer \<times> 'w agent_state" where
  "serve app call key text s =
     (case call of
        HealthCall \<Rightarrow> json_answer app (retA health_body) s
      | RootCall \<Rightarrow> json_answer app (retA root_body) s
      | LoginCall \<Rightarrow> json_answer app (guarded app key text (internal_user_login app text)) s
      | SignupCall \<Rightarrow> json_answer app (guarded app key text (user_signup app text)) s
      | ChatCall \<Rightarrow> json_answer app (guarded app key text (chat_full_route app text)) s
      | StreamCall \<Rightarrow> stream_answer app (guarded app key text (chat_stream_route app text)) s
      | JobStatusCall jid \<Rightarrow> json_answer app (guarded app key [] (\<lambda>_. llm_job_status app jid)) s
      | CancelCall jid \<Rightarrow> json_answer app (guarded app key [] (\<lambda>_. cancel_llm_job app jid)) s
      | QueueStatusCall \<Rightarrow> json_answer app (guarded app key [] (\<lambda>_. queue_status app)) s)"

section \<open>Cross-origin settings\<close>

definition cors_config :: "env \<Rightarrow> string list" where
  "cors_config env = parse_csv_env (getenv env ''CORS_ALLOWED_ORIGINS'' [])"

text \<open>The middleware \<^verbatim>\<open>create_app\<close> adds, if any: its origins, methods and headers.\<close>

definition cors_middleware :: "env \<Rightarrow> (string list \<times> bool \<times> string list \<times> string list) option" where
  "cors_middleware env =
     (if cors_config env = [] then None
      else Some (cors_config env, False, [''GET'', ''POST'', ''OPTIONS''],
             [''Content-Type'', ''Accept'', ''X-API-Key'']))"

end
