(* ===== verification/Webui_Pages.thy ===== *)
theory Webui_Pages
  imports Webui_Chat
begin

text \<open>
  The endpoints of the web UI beside the chat (\<^verbatim>\<open>webui/ui_app.py\<close>): the sign-up form, the status of the
  backend, the settings of the login page, and the order of the routes; and the login page itself
  (\<^verbatim>\<open>webui/login_page.py\<close>), whose templates are parameters.
\<close>

section \<open>Login page\<close>

definition login_config :: "WebUISettings \<Rightarrow> (string \<times> json) list" where
  "login_config s =
     [(''signupEnabled'', JBool (ui_signup_enabled s)),
      (''minPasswordLength'', JInt (ui_auth_min_password_length s)),
      (''requireAdminApproval'', JBool (ui_signup_require_admin_approval s))]"

definition render_login_page :: "(string \<Rightarrow> string) \<Rightarrow> WebUISettings \<Rightarrow> string" where
  "render_login_page read_template s =
     (let min_length = str_int (ui_auth_min_password_length s);
          panel = (if ui_signup_enabled s
                   then replace_sub ''__MIN_PASSWORD_LENGTH__'' min_length (read_template ''signup_panel.html'')
                   else [])
      in replace_sub ''__MIN_PASSWORD_LENGTH__'' min_length
           (replace_sub ''__SIGNUP_PANEL__'' panel (read_template ''login.html'')))"

section \<open>Sign-up\<close>

text \<open>A JSON response of the UI: its status and its content.\<close>

type_synonym ui_response = "int \<times> (string \<times> json) list"

definition signup_refusal :: "int \<Rightarrow> string \<Rightarrow> string \<Rightarrow> ui_response" where
  "signup_refusal status message error =
     (status, [(''success'', JBool False), (''message'', JStr message), (''error'', JStr error)])"

definition signup_disabled_response :: ui_response where
  "signup_disabled_response =
     signup_refusal 404 ''Account sign-up is not available right now.'' ''signup_disabled''"

text \<open>The \<^verbatim>\<open>except\<close> clauses, in their order.\<close>

definition signup_error_response :: "exn \<Rightarrow> ui_response res" where
  "signup_error_response e =
     (if isinstance e BackendFeatureDisabledError then Inr signup_disabled_response
      else if isinstance e BackendConflictError
      then Inr (signup_refusal 409 ''That username is unavailable.'' ''username_unavailable'')
      else if isinstance e BackendValidationError
      then Inr (signup_refusal 400 (exn_text e)
             (if error_code e \<noteq> [] then error_code e else ''invalid_signup''))
      else if isinstance e BackendClientError
      then Inr (signup_refusal 502 ''Account sign-up is unavailable right now. Please try again shortly.''
             ''signup_unavailable'')
      else Inl e)"

definition signup_success :: "BackendSignupResult \<Rightarrow> ui_response" where
  "signup_success r =
     (201, [(''success'', JBool (bsr_success r)), (''message'', JStr (bsr_message r)),
            (''username'', jstr (bsr_username r)), (''user_id'', jint (bsr_user_id r)),
            (''created_at'', jstr (bsr_created_at r))])"

text \<open>\<^verbatim>\<open>str(payload.get(key, ""))\<close>, and the same for an optional field.\<close>

definition form_text :: "(rat \<Rightarrow> string) \<Rightarrow> (string \<times> json) list \<Rightarrow> string \<Rightarrow> string" where
  "form_text fr d k = (case map_of d k of None \<Rightarrow> [] | Some v \<Rightarrow> py_str fr v)"

definition auth_signup ::
  "(rat \<Rightarrow> string) \<Rightarrow> WebUISettings res \<Rightarrow> 'w fastapi_client \<Rightarrow> string \<Rightarrow> ('w, ui_response) act" where
  "auth_signup fr sttngs c request_body =
     bindA (liftA sttngs) (\<lambda>s.
     if \<not> ui_signup_enabled s then retA signup_disabled_response
     else case json_loads request_body of
       None \<Rightarrow> raiseA (mk_exn JSONDecodeError [])
     | Some (JObj d) \<Rightarrow>
         catchA
           (bindA (signup_user fr c (strip (form_text fr d ''username'')) (form_text fr d ''password'')
                     (opt_str fr d ''confirm_password'') (opt_str fr d ''display_name'')
                     (opt_str fr d ''preferred_language''))
              (\<lambda>r. retA (signup_success r)))
           (\<lambda>e. liftA (signup_error_response e))
     | Some _ \<Rightarrow> raiseA (mk_exn AttributeError []))"

section \<open>Status of the backend\<close>

definition BACKEND_STATUS_ATTEMPTS :: nat where "BACKEND_STATUS_ATTEMPTS = 3"

definition status_report :: "string \<Rightarrow> bool \<Rightarrow> (string \<times> json) list" where
  "status_report url online =
     [(''status'', JStr (if online then ''online'' else ''offline'')), (''target'', JStr url),
      (''message'', JStr (if online then ''Online'' else ''Offline''))]"

text \<open>The loop, with the number of attempts left; a pause separates two attempts.\<close>

fun status_loop ::
  "nat \<Rightarrow> (rat \<Rightarrow> string) \<Rightarrow> ('w, unit) act \<Rightarrow> 'w fastapi_client \<Rightarrow> ('w, (string \<times> json) list) act" where
  "status_loop 0 fr pause c = retA (status_report (bc_base_url (fc_config c)) False)"
| "status_loop (Suc n) fr pause c =
     bindA (catchA (bindA (health c) (\<lambda>d. retA (Some d)))
              (\<lambda>e. if isinstance e BackendClientError
                   then bindA (if n \<noteq> 0 then pause else retA ()) (\<lambda>_. retA None) else raiseA e))
       (\<lambda>answer. case answer of
          None \<Rightarrow> status_loop n fr pause c
        | Some d \<Rightarrow>
            retA (status_report (bc_base_url (fc_config c))
              ((case map_of d ''status'' of None \<Rightarrow> ''unknown'' | Some v \<Rightarrow> py_str fr v) = ''ok'')))"

definition backend_status ::
  "(rat \<Rightarrow> string) \<Rightarrow> ('w, unit) act \<Rightarrow> 'w fastapi_client \<Rightarrow> ('w, (string \<times> json) list) act" where
  "backend_status = status_loop BACKEND_STATUS_ATTEMPTS"

section \<open>Order of the routes\<close>

text \<open>A route is its path and its handler; the first route whose path fits serves a request.\<close>

definition managed_paths :: "string list" where
  "managed_paths = [''/login'', ''/webui/backend-status'', ''/webui/auth/config'', ''/webui/auth/signup'']"

definition catch_all :: string where "catch_all = ''/{full_path:path}''"

definition pop_at :: "nat \<Rightarrow> 'a list \<Rightarrow> 'a list" where
  "pop_at i xs = take i xs @ drop (Suc i) xs"

definition insert_at :: "nat \<Rightarrow> 'a \<Rightarrow> 'a list \<Rightarrow> 'a list" where
  "insert_at i x xs = take i xs @ x # drop i xs"

definition managed_routes :: "(string \<times> 'h) list \<Rightarrow> (nat \<times> string \<times> 'h) list" where
  "managed_routes rs = filter (\<lambda>(i, r). fst r \<in> set managed_paths) (enumerate 0 rs)"

definition catch_all_index :: "(string \<times> 'h) list \<Rightarrow> nat option" where
  "catch_all_index rs = map_option fst (find (\<lambda>(i, r). fst r = catch_all) (enumerate 0 rs))"

definition prioritize_webui_routes :: "(string \<times> 'h) list \<Rightarrow> (string \<times> 'h) list" where
  "prioritize_webui_routes rs =
     (let ms = managed_routes rs in
      case catch_all_index rs of
        None \<Rightarrow> rs
      | Some c \<Rightarrow>
          if ms = [] then rs
          else let kept = fold (\<lambda>(i, r) xs. if c < i then pop_at i xs else xs) (rev ms) rs in
            fst (fold (\<lambda>(i, r) (xs, k). (insert_at k r xs, Suc k)) ms (kept, c)))"

section \<open>The application\<close>

text \<open>The starters of a new chat: label, message and icon.\<close>

definition set_starters :: "(string \<times> string \<times> string) list" where
  "set_starters =
     [(''Translate'', ''Translate this sentence to isiXhosa: Good morning, how are you?'', ''/public/languages.svg''),
      (''Define'', ''Define recursion in simple terms.'', ''/public/book-open.svg''),
      (''Learn'', ''Teach me three useful French greetings.'', ''/public/graduation-cap.svg'')]"

text \<open>The middleware in front of the framework: it answers the login page itself and hands on every other
  request.\<close>

definition custom_login_page_middleware ::
  "(string \<Rightarrow> string) \<Rightarrow> WebUISettings res \<Rightarrow> (string \<Rightarrow> string \<Rightarrow> ('w, string) act)
     \<Rightarrow> string \<Rightarrow> string \<Rightarrow> ('w, string) act" where
  "custom_login_page_middleware read_template sttngs call_next verb path =
     (if verb = ''GET'' \<and> path = ''/login''
      then liftA (map_sum id (render_login_page read_template) sttngs)
      else call_next verb path)"

text \<open>The address of the history database, when the history is kept.\<close>

definition chainlit_data_layer :: "WebUISettings res \<Rightarrow> string option res" where
  "chainlit_data_layer sttngs =
     bind_res sttngs (\<lambda>s.
     Inr (if ui_chainlit_history_enabled s then Some (ui_chainlit_database_url s) else None))"

text \<open>The user interface starts only with settings that are fit for signing in.\<close>

definition on_app_startup :: "WebUISettings res \<Rightarrow> unit res" where
  "on_app_startup sttngs = bind_res sttngs validate_for_auth"

text \<open>At the end the history and the store of attempts are closed, in this order; \<open>close_layer\<close> is the
  framework's.\<close>

definition on_app_shutdown ::
  "WebUISettings res \<Rightarrow> (store_choice option, unit) act \<Rightarrow> (store_choice option, string option) act" where
  "on_app_shutdown sttngs close_layer =
     bindA (liftA sttngs) (\<lambda>s.
     bindA (if ui_chainlit_history_enabled s then close_layer else retA ()) (\<lambda>_.
     close_auth_attempt_store sttngs))"

end
