(* ===== verification/Web_System.thy ===== *)
theory Web_System
  imports Api_Layer Webui_Pages
begin

text \<open>
  The web UI, the HTTP API and the agent put together: the client's HTTP library is the API itself, reached
  over a transport that renders JSON bodies as text.  What the API answers is what the client reads, for
  streams, errors and the sign-up.
\<close>

section \<open>Transport\<close>

text \<open>How the two libraries write a JSON body.\<close>

record transport =
  tr_request :: "json \<Rightarrow> string"
  tr_response :: "json \<Rightarrow> string"

text \<open>A value without floats that a Python program can hold.\<close>

fun plain_json :: "json \<Rightarrow> bool" where
  "plain_json (JFloat f) = False"
| "plain_json (JList xs) = (\<forall>x\<in>set xs. plain_json x)"
| "plain_json (JObj kvs) = (distinct (map fst kvs) \<and> (\<forall>kv\<in>set kvs. plain_json (snd kv)))"
| "plain_json _ = True"

text \<open>The documented behaviour of both: the text of a value reads back as the value.\<close>

locale json_transport =
  fixes tr :: transport
  assumes request_text: "plain_json j \<Longrightarrow> tr_request tr j \<noteq> [] \<and> json_loads (tr_request tr j) = Some j"
    and response_text: "plain_json j \<Longrightarrow> json_loads (tr_response tr j) = Some j"

lemma plain_printable: "plain_json j \<Longrightarrow> printable fr j"
  by (induction j rule: plain_json.induct) auto

definition python_json :: "(rat \<Rightarrow> string) \<Rightarrow> transport" where
  "python_json fr = \<lparr>tr_request = dumps fr, tr_response = dumps fr\<rparr>"

interpretation python_json: json_transport "python_json fr" for fr
proof
  fix j assume "plain_json j"
  then have "json_loads (dumps fr j) = Some j" by (intro json_loads_dumps plain_printable)
  moreover have "json_loads [] = None" by code_simp
  ultimately show "tr_request (python_json fr) j \<noteq> [] \<and> json_loads (tr_request (python_json fr) j) = Some j"
    and "json_loads (tr_response (python_json fr) j) = Some j"
    by (auto simp: python_json_def)
qed

section \<open>The client over the API\<close>

definition web_reply_of :: "transport \<Rightarrow> api_response \<Rightarrow> web_reply" where
  "web_reply_of tr r = \<lparr>wr_status = resp_status r, wr_body = tr_response tr (resp_body r)\<rparr>"

definition not_found :: api_response where
  "not_found = \<lparr>resp_status = 404, resp_body = JObj [(''detail'', JStr ''Not Found'')], resp_headers = []\<rparr>"

definition api_answer ::
  "'w api_app \<Rightarrow> string \<Rightarrow> string \<Rightarrow> string option \<Rightarrow> string \<Rightarrow> 'w agent_state
     \<Rightarrow> http_answer \<times> 'w agent_state" where
  "api_answer app verb path key text s =
     (case route_of verb path of None \<Rightarrow> (JsonAnswer not_found, s) | Some call \<Rightarrow> serve app call key text s)"

text \<open>A reply read as a whole, and one read line by line.\<close>

definition whole_reply :: "transport \<Rightarrow> http_answer \<Rightarrow> call_error + web_reply" where
  "whole_reply tr a = (case a of
     JsonAnswer r \<Rightarrow> Inr (web_reply_of tr r)
   | StreamAnswer texts _ \<Rightarrow> Inr \<lparr>wr_status = 200, wr_body = concat texts\<rparr>)"

definition line_reply :: "transport \<Rightarrow> http_answer \<Rightarrow> call_error + web_stream" where
  "line_reply tr a = (case a of
     JsonAnswer r \<Rightarrow> Inr \<lparr>ws_status = resp_status r, ws_body = Inr (tr_response tr (resp_body r)),
       ws_lines = splitlines (tr_response tr (resp_body r)), ws_end = None\<rparr>
   | StreamAnswer texts e \<Rightarrow> Inr \<lparr>ws_status = 200, ws_body = Inr (concat texts),
       ws_lines = splitlines (concat texts),
       ws_end = (case e of Exhausted \<Rightarrow> None | CancelRaised \<Rightarrow> Some (CallRequest []))\<rparr>)"

definition api_client :: "transport \<Rightarrow> 'w api_app \<Rightarrow> ('w agent_state) web_client" where
  "api_client tr app =
     \<lparr>wc_get = (\<lambda>path s. case api_answer app ''GET'' path None [] s of (a, s') \<Rightarrow> (whole_reply tr a, s')),
      wc_post = (\<lambda>path payload headers s.
        case api_answer app ''POST'' path (map_of headers ''X-API-Key'') (tr_request tr (JObj payload)) s of
          (a, s') \<Rightarrow> (whole_reply tr a, s')),
      wc_stream = (\<lambda>path payload headers s.
        case api_answer app ''POST'' path (map_of headers ''X-API-Key'') (tr_request tr (JObj payload)) s of
          (a, s') \<Rightarrow> (line_reply tr a, s'))\<rparr>"

section \<open>Server-sent events\<close>

definition safe_char :: "char \<Rightarrow> bool" where
  "safe_char c \<longleftrightarrow> 32 \<le> (of_char c :: nat) \<and> (of_char c :: nat) \<le> 126"

lemma safe_no_break: "safe_char c \<Longrightarrow> \<not> is_break c"
  by (auto simp: safe_char_def is_break_def Let_def)

lemma safe_digit: "is_digit c \<Longrightarrow> safe_char c"
  by (auto simp: is_digit_def safe_char_def Let_def)

lemma safe_str_int: "list_all safe_char (str_int i)"
proof -
  have "list_all safe_char (str_nat n)" for n
    using str_nat_digits[of n] by (simp add: list_all_iff safe_digit)
  moreover have "safe_char (CHR ''-'')" by (simp add: safe_char_def)
  ultimately show ?thesis by (simp add: str_int_def)
qed

lemma safe_hex: "d < 16 \<Longrightarrow> safe_char (hex_char d)"
  by (simp add: hex_char_def safe_char_def)

lemma safe_esc: "list_all safe_char (esc_char c)"
proof -
  have "of_char c mod 256 < (256 :: nat)" by simp
  then have "of_char c div 16 < (16 :: nat)" by (simp only: of_char_mod_256)
  moreover have "of_char c mod 16 < (16 :: nat)" by simp
  ultimately show ?thesis
    by (simp add: esc_char_def Let_def safe_hex) (simp add: safe_char_def)
qed

lemma safe_string: "list_all safe_char (dumps_string s)"
proof -
  have "list_all safe_char (concat (map esc_char s))" using safe_esc by (simp add: list_all_iff)
  then show ?thesis by (simp add: dumps_string_def) (simp add: safe_char_def)
qed

lemma safe_dumps:
  assumes "\<forall>r. list_all safe_char (fr r)"
  shows "list_all safe_char (dumps fr j)" and "list_all safe_char (dumps_items fr xs)"
    and "list_all safe_char (dumps_members fr kvs)"
  using assms
  by (induction fr j and fr xs and fr kvs rule: dumps_dumps_items_dumps_members.induct)
    (simp_all add: safe_str_int safe_string, simp_all add: safe_char_def)


text \<open>The lines of the texts of a stream: each event is a line with its data and an empty line.\<close>

lemma splitlines_from_line:
  "\<forall>c\<in>set l. \<not> is_break c \<Longrightarrow> splitlines_from cur (l @ CHR 0x0A # rest) = (cur @ l) # splitlines_from [] rest"
proof (induction l arbitrary: cur)
  case Nil
  have "after_break CHR 0x0A rest = rest" by (simp add: after_break_def)
  then show ?case by (simp add: is_break_def)
qed simp

lemma splitlines_sse:
  assumes "\<forall>r. list_all safe_char (fr r)"
  shows "splitlines (concat (map (sse_data fr) events))
    = concat (map (\<lambda>e. [''data: '' @ dumps fr (JObj e), []]) events)"
proof (induction events)
  case (Cons e events)
  have "list_all safe_char (''data: '' @ dumps fr (JObj e))"
    using safe_dumps(1)[OF assms, of "JObj e"] by (simp del: dumps.simps) (simp add: safe_char_def)
  then have l: "\<forall>c\<in>set (''data: '' @ dumps fr (JObj e)). \<not> is_break c"
    by (auto simp: list_all_iff simp del: dumps.simps dest: safe_no_break)
  have "splitlines (concat (map (sse_data fr) (e # events)))
      = splitlines_from [] ((''data: '' @ dumps fr (JObj e)) @ CHR 0x0A # ([] @ CHR 0x0A # concat (map (sse_data fr) events)))"
    by (simp add: splitlines_def sse_data_def del: dumps.simps)
  also have "\<dots> = ([] @ (''data: '' @ dumps fr (JObj e)))
      # splitlines_from [] ([] @ CHR 0x0A # concat (map (sse_data fr) events))"
    by (rule splitlines_from_line[OF l])
  also have "splitlines_from [] ([] @ CHR 0x0A # concat (map (sse_data fr) events))
      = ([] @ []) # splitlines_from [] (concat (map (sse_data fr) events))"
    by (rule splitlines_from_line) simp
  finally show ?case using Cons by (simp add: splitlines_def del: dumps.simps splitlines_from.simps)
qed (simp add: splitlines_def)

lemma stream_reads_back:
  assumes "\<forall>r. list_all safe_char (fr r)" "\<forall>e\<in>set events. printable fr (JObj e)"
  shows "read_events (splitlines (concat (map (sse_data fr) events))) None = (events, Finished)"
  by (simp only: splitlines_sse[OF assms(1)] read_events_sse[OF assms(2)])


section \<open>A chat through the system\<close>

definition system_client :: "transport \<Rightarrow> 'w api_app \<Rightarrow> BackendConfig \<Rightarrow> ('w agent_state) fastapi_client" where
  "system_client tr app cfg = \<lparr>fc_config = cfg, fc_open = (\<lambda>_ _. api_client tr app)\<rparr>"

text \<open>The command the API reads from the UI's request.\<close>

definition ui_command :: "string \<Rightarrow> mode option \<Rightarrow> ChatCommand" where
  "ui_command msg m =
     \<lparr>message_text = msg, requested_mode = map_option mode_text m,
      cmd_metadata = Some \<lparr>meta_session_id = None, meta_client = Some ''chainlit-webui''\<rparr>\<rparr>"

lemma chat_body:
  assumes "msg \<noteq> []"
  shows "ChatRequest_of (JObj (build_chat_payload msg (map_option mode_text m))) = Inr (ui_command msg m)"
    and "StreamChatRequest_of (JObj (build_chat_payload msg (map_option mode_text m) @ [(''stream'', JBool True)]))
      = Inr (ui_command msg m)"
  using assms
  by (cases m; simp add: ChatRequest_of_def StreamChatRequest_of_def chat_command_of_def build_chat_payload_def
      kwargs_def only_keys_def field_def as_text1_def as_opt_mode_def as_mode_def as_opt_metadata_def
      as_opt_str_def as_true_def ui_command_def)+

lemma chat_payload_plain:
  "plain_json (JObj (build_chat_payload msg m))"
  "plain_json (JObj (build_chat_payload msg m @ [(''stream'', JBool True)]))"
  by (cases m; simp add: build_chat_payload_def)+

lemma route_of_paths:
  "route_of ''POST'' ''/api/chat'' = Some ChatCall"
  "route_of ''POST'' ''/api/chat/stream'' = Some StreamCall"
  "route_of ''POST'' ''/api/auth/signup'' = Some SignupCall"
  "route_of ''POST'' ''/api/internal/auth/login'' = Some LoginCall"
  "route_of ''GET'' ''/health'' = Some HealthCall"
  by code_simp+

lemma guarded_run:
  assumes "json_transport tr" "plain_json j" "require_api_key app key = Inr ()"
  shows "guarded app key (tr_request tr j) route s = route j s"
  using json_transport.request_text[OF assms(1,2)] assms(3)
  by (simp add: guarded_def read_body_def)

text \<open>C5. A streamed answer reaches the client: over a transport that keeps JSON values, for a client that
  holds the API's key, the events of the stream call are exactly the events the agent's generator
  produced, in order, each once, and the agent is left in the state of the finished generator.\<close>

theorem streamed_answer_reaches_client:
  assumes tr: "json_transport tr"
    and key: "bc_api_key cfg \<noteq> []" "require_api_key app (Some (bc_api_key cfg)) = Inr ()"
    and agent: "aa_agent app = Inr env"
    and msg: "msg \<noteq> []"
    and plan: "chat_stream env (ui_command msg m) s = (Inr plan, s1)"
    and run: "run_plan env (ui_command msg m) plan s1 = ((events, Exhausted), s2)"
    and floats: "\<forall>r. list_all safe_char (env_float_repr env r)"
    and good: "\<forall>e\<in>set events. printable (env_float_repr env) (JObj e)"
  shows "chat_stream_call (system_client tr app cfg) msg (map_option mode_text m) s = ((events, Finished), s2)"
proof -
  let ?body = "JObj (build_chat_payload msg (map_option mode_text m) @ [(''stream'', JBool True)])"
  have "chat_stream_route app (tr_request tr ?body) ?body s
      = (Inr (run_plan env (ui_command msg m) plan, env_float_repr env), s1)"
    using agent msg plan
    by (simp add: chat_stream_route_def get_agent_service_def validated_def chat_body(2)[OF msg] bindA_def)
  then have "api_answer app ''POST'' ''/api/chat/stream'' (Some (bc_api_key cfg)) (tr_request tr ?body) s
      = (StreamAnswer (map (sse_data (env_float_repr env)) events) Exhausted, s2)"
    using run by (simp add: api_answer_def route_of_paths serve_def stream_answer_def
        guarded_run[OF tr chat_payload_plain(2) key(2)])
  then show ?thesis
    using key(1) stream_reads_back[OF floats good]
    by (simp add: chat_stream_call_def auth_headers_def system_client_def client_of_def api_client_def
        or_call_exn_def line_reply_def check_stream_def is_success_def)
qed


section \<open>Errors through the system\<close>

text \<open>Every error body has a code, a message and details.\<close>

definition error_body :: "string \<Rightarrow> string \<Rightarrow> json \<Rightarrow> json" where
  "error_body code message details =
     JObj [(''error'', JStr code), (''message'', JStr message), (''details'', details)]"

lemma error_response_simps [simp]:
  "resp_status (error_response n c m d h) = n"
  "resp_body (error_response n c m d h) = error_body c m (case d of None \<Rightarrow> JNull | Some x \<Rightarrow> JObj x)"
  by (simp_all add: error_response_def error_body_def)

lemma plain_error_body [simp]: "plain_json (error_body c m JNull)"
  by (simp add: error_body_def)

text \<open>What the client makes of an error response.\<close>

definition client_error :: "int \<Rightarrow> string \<Rightarrow> string \<Rightarrow> exn" where
  "client_error status code message =
     (if status = 401
      then backend_http_error BackendAuthenticationError ''The Web UI could not authenticate with the backend.''
             status code
      else backend_http_error BackendHTTPError (message @ '' ('' @ code @ '')'') status code)"

lemma read_error_body:
  assumes "json_transport tr" "plain_json (error_body code message details)" "\<not> is_success status"
  shows "json_response [] \<lparr>wr_status = status, wr_body = tr_response tr (error_body code message details)\<rparr>
    = Inl (client_error status code message)"
  using json_transport.response_text[OF assms(1,2)] assms(3)
  by (simp add: json_response_def raise_for_error_def format_backend_error_def error_body_def jget_def
      client_error_def)

lemma system_post:
  assumes tr: "json_transport tr" and key: "bc_api_key cfg \<noteq> []"
    and answer: "api_answer app ''POST'' path (Some (bc_api_key cfg)) (tr_request tr (JObj payload)) s = (JsonAnswer r, s')"
  shows "post_call (system_client tr app cfg) t path payload s = (Inr (web_reply_of tr r), s')"
  using key answer
  by (simp add: post_call_def auth_headers_def system_client_def client_of_def api_client_def or_call_exn_def
      whole_reply_def)

text \<open>The response to an exception of the API.\<close>

lemma api_error_response:
  assumes "isinstance e APIError"
  shows "resp_status (exception_response fr e) = http_status_of (exn_cls e)"
    and "resp_body (exception_response fr e) = error_body (http_code_of (exn_cls e)) (exn_text e) JNull"
  using assms by (simp_all add: exception_response_def api_error_handler_def)

lemma http_status_failure: "isinstance e APIError \<Longrightarrow> \<not> is_success (http_status_of (exn_cls e))"
  by (simp add: http_status_of_def api_status_def is_success_def split: exn_class.split)

text \<open>C14. Failures reach the client: when the agent fails a chat with an exception of the API, the client
  raises a backend error with that exception's status and error code, and its message; and a client
  without the API's key gets an authentication error before anything is done.\<close>

theorem failures_reach_client:
  assumes tr: "json_transport tr"
    and key: "bc_api_key cfg \<noteq> []"
    and agent: "aa_agent app = Inr env"
    and msg: "msg \<noteq> []"
  shows "(require_api_key app (Some (bc_api_key cfg)) = Inr () \<longrightarrow>
           chat_full env (ui_command msg m) s = (Inl e, s') \<longrightarrow> isinstance e APIError \<longrightarrow>
           chat_full_call (system_client tr app cfg) msg (map_option mode_text m) s
             = (Inl (client_error (http_status_of (exn_cls e)) (http_code_of (exn_cls e)) (exn_text e)), s'))
    \<and> (require_api_key app (Some (bc_api_key cfg)) = Inl authentication_error \<longrightarrow>
           chat_full_call (system_client tr app cfg) msg (map_option mode_text m) s
             = (Inl (client_error 401 ''authentication_failed'' ''A valid API key is required.''), s))"
proof (intro conjI impI)
  let ?body = "JObj (build_chat_payload msg (map_option mode_text m))"
  have call: "chat_full_call (system_client tr app cfg) msg (map_option mode_text m) s
      = (Inl (client_error (http_status_of (exn_cls x)) (http_code_of (exn_cls x)) (exn_text x)), t)"
    if api: "isinstance x APIError" and g: "guarded app (Some (bc_api_key cfg)) (tr_request tr ?body)
        (chat_full_route app (tr_request tr ?body)) s = (Inl x, t)" for x t
  proof -
    have "api_answer app ''POST'' ''/api/chat'' (Some (bc_api_key cfg)) (tr_request tr ?body) s
        = (JsonAnswer (exception_response (aa_float_repr app) x), t)"
      using g by (simp add: api_answer_def route_of_paths serve_def json_answer_def)
    from system_post[OF tr key this] show ?thesis
      using read_error_body[OF tr _ http_status_failure[OF api]]
      by (simp add: chat_full_call_def bindA_def web_reply_of_def api_error_response[OF api])
  qed
  show "chat_full_call (system_client tr app cfg) msg (map_option mode_text m) s
      = (Inl (client_error (http_status_of (exn_cls e)) (http_code_of (exn_cls e)) (exn_text e)), s')"
    if "require_api_key app (Some (bc_api_key cfg)) = Inr ()" "chat_full env (ui_command msg m) s = (Inl e, s')"
      "isinstance e APIError"
    using that agent
    by (intro call) (simp_all add: guarded_run[OF tr chat_payload_plain(1)] chat_full_route_def
        get_agent_service_def validated_def chat_body(1)[OF msg] bindA_def)
  have "isinstance authentication_error APIError" by (simp add: authentication_error_def)
  moreover have "json_loads (tr_request tr ?body) = Some ?body" "tr_request tr ?body \<noteq> []"
    using json_transport.request_text[OF tr chat_payload_plain(1)] by auto
  ultimately show "chat_full_call (system_client tr app cfg) msg (map_option mode_text m) s
      = (Inl (client_error 401 ''authentication_failed'' ''A valid API key is required.''), s)"
    if "require_api_key app (Some (bc_api_key cfg)) = Inl authentication_error"
    using call[of authentication_error s] that
    by (simp add: guarded_def read_body_def bindA_def authentication_error_def http_status_of_def http_code_of_def)
qed

section \<open>The key\<close>

lemma validate_passes:
  "validate_api_key provided config = Inr () \<longleftrightarrow>
     \<not> ac_enabled config \<or> (\<exists>k. provided = Some k \<and> ac_api_key config = Some k \<and> k \<noteq> [] \<and> ascii k)"
  by (auto simp: validate_api_key_def Let_def bind_res_Inr compare_digest_def split: option.splits if_splits)

lemma validate_fails:
  "validate_api_key provided config = Inl e \<Longrightarrow>
     e = authentication_error \<or> e = auth_configuration_error \<or> e = mk_exn TypeError []"
  by (auto simp: validate_api_key_def Let_def bind_res_Inl compare_digest_def split: option.splits if_splits)

lemma refusal_status:
  "resp_status (exception_response fr (validation_error errs)) \<in> {400, 422}"
  "resp_status (exception_response fr authentication_error) = 401"
  "resp_status (exception_response fr auth_configuration_error) = 500"
  "resp_status (exception_response fr (mk_exn TypeError [])) = 500"
  by (simp_all add: exception_response_def validation_error_def isinstance_def validation_exception_handler_def
      validation_status_code_def authentication_error_def auth_configuration_error_def api_error_handler_def
      http_status_of_def unexpected_exception_handler_def mk_exn_def)

lemma guarded_refusal:
  assumes "require_api_key app key = Inl e"
  shows "\<exists>x. guarded app key text route s = (Inl x, s)
    \<and> resp_status (exception_response fr x) \<in> {400, 401, 422, 500}"
proof (cases "read_body app text")
  case (Inl x)
  then have "x = validation_error (aa_body_errors app text)"
    by (auto simp: read_body_def split: if_splits option.splits)
  then show ?thesis using Inl refusal_status(1) by (fastforce simp: guarded_def)
next
  case (Inr j)
  then show ?thesis
    using assms validate_fails[of key "auth_config (aa_env app)" e] refusal_status(2-4)
    by (auto simp: guarded_def require_api_key_def)
qed

text \<open>C11. The key guards the API.  A key passes exactly when checking is switched off or it is the
  configured one, not empty and ASCII; and without a passing key every route but the two public ones
  answers with an error status and leaves the state of the service as it was.\<close>

theorem key_guards_api:
  "(require_api_key app key = Inr ()
      \<longleftrightarrow> \<not> parse_bool (getenv (aa_env app) ''AUTH_ENABLED'' ''true'') True
        \<or> (\<exists>k. key = Some k \<and> aa_env app ''FASTAPI_API_KEY'' = Some k \<and> k \<noteq> [] \<and> ascii k))
   \<and> (require_api_key app key \<noteq> Inr () \<longrightarrow> call \<noteq> HealthCall \<longrightarrow> call \<noteq> RootCall \<longrightarrow>
       (\<exists>r. serve app call key text s = (JsonAnswer r, s) \<and> resp_status r \<in> {400, 401, 422, 500}))"
proof (intro conjI impI)
  show "require_api_key app key = Inr ()
      \<longleftrightarrow> \<not> parse_bool (getenv (aa_env app) ''AUTH_ENABLED'' ''true'') True
        \<or> (\<exists>k. key = Some k \<and> aa_env app ''FASTAPI_API_KEY'' = Some k \<and> k \<noteq> [] \<and> ascii k)"
    by (simp add: require_api_key_def validate_passes auth_config_def)
  assume "require_api_key app key \<noteq> Inr ()" and public: "call \<noteq> HealthCall" "call \<noteq> RootCall"
  then obtain e where e: "require_api_key app key = Inl e" by (cases "require_api_key app key") auto
  have json: "\<exists>r. json_answer app (guarded app key body route) s = (JsonAnswer r, s)
      \<and> resp_status r \<in> {400, 401, 422, 500}" for body and route :: "json \<Rightarrow> ('a agent_state, json) act"
    using guarded_refusal[OF e, of body route s "aa_float_repr app"] by (auto simp: json_answer_def)
  show "\<exists>r. serve app call key text s = (JsonAnswer r, s) \<and> resp_status r \<in> {400, 401, 422, 500}"
  proof (cases call)
    case StreamCall
    then show ?thesis
      using guarded_refusal[OF e, of "text" "chat_stream_route app text" s "aa_float_repr app"]
      by (auto simp: serve_def stream_answer_def)
  qed (use public json in \<open>simp_all add: serve_def\<close>)
qed


section \<open>Signing up\<close>

text \<open>The API's reply to a sign-up request whose body is valid.\<close>

lemma signup_body:
  assumes "u \<noteq> []" "p \<noteq> []"
  shows "UserSignupRequest_of (JObj (signup_payload u p c d l))
    = Inr \<lparr>cmd_username = u, cmd_password = p, cmd_confirm_password = c, cmd_display_name = d,
        cmd_preferred_language = l\<rparr>"
  using assms
  by (cases c; cases d; cases l; simp add: UserSignupRequest_of_def signup_payload_def kwargs_def only_keys_def
      field_def as_text1_def as_opt_str_def jstr_def)

lemma signup_payload_plain: "plain_json (JObj (signup_payload u p c d l))"
  by (cases c; cases d; cases l; simp add: signup_payload_def jstr_def)

definition signup_run ::
  "'w api_app \<Rightarrow> AppSettings \<Rightarrow> 'w user_repo \<Rightarrow> UserSignupCommand \<Rightarrow> ('w agent_state, UserProfile) act" where
  "signup_run app st repo cmd =
     on_world (User_Accounts.signup_user (aa_crypto app) (aa_settings app) (aa_salt app) repo cmd
       (auth_require_strong_password st) (auth_min_password_length st) (signup_default_role st)
       (signup_require_admin_approval st))"

lemma api_signup:
  assumes tr: "json_transport tr" and key: "require_api_key app key = Inr ()"
    and st: "aa_settings app = Inr st" "signup_enabled st" and repo: "aa_users app = Inr repo"
    and form: "u \<noteq> []" "p \<noteq> []"
    and cmd: "cmd = \<lparr>cmd_username = u, cmd_password = p, cmd_confirm_password = c, cmd_display_name = d,
        cmd_preferred_language = l\<rparr>"
  shows "api_answer app ''POST'' ''/api/auth/signup'' key (tr_request tr (JObj (signup_payload u p c d l))) s
    = (case signup_run app st repo cmd s of
         (Inr x, s') \<Rightarrow> (JsonAnswer \<lparr>resp_status = 200,
            resp_body = user_signup_response_from_profile (aa_iso_micros app) x (signup_message st),
            resp_headers = []\<rparr>, s')
       | (Inl e, s') \<Rightarrow> (JsonAnswer (exception_response (aa_float_repr app) (signup_failure e)), s'))"
  using st repo
  by (simp add: api_answer_def route_of_paths serve_def json_answer_def
      guarded_run[OF tr signup_payload_plain key] user_signup_def validated_def signup_body[OF form] cmd
      signup_run_def bindA_def catchA_def split: prod.split sum.split)

lemma signup_failure_response:
  "isinstance e UsernameAlreadyExistsError \<Longrightarrow>
     resp_status (exception_response fr (signup_failure e)) = 409
     \<and> resp_body (exception_response fr (signup_failure e))
         = error_body ''username_unavailable'' ''That username is unavailable.'' JNull"
  "isinstance e ValueError \<Longrightarrow> \<not> isinstance e UsernameAlreadyExistsError \<Longrightarrow>
     resp_status (exception_response fr (signup_failure e)) = 400
     \<and> resp_body (exception_response fr (signup_failure e)) = error_body ''invalid_signup'' (exn_text e) JNull"
  "\<not> isinstance e ValueError \<Longrightarrow> \<not> isinstance e UsernameAlreadyExistsError \<Longrightarrow> \<not> isinstance e APIError \<Longrightarrow>
     exn_extra e = NoExtra \<Longrightarrow>
     resp_status (exception_response fr (signup_failure e)) = 500
     \<and> resp_body (exception_response fr (signup_failure e))
         = error_body ''internal_error'' ''An unexpected internal error occurred.'' JNull"
  by (auto simp: signup_failure_def exception_response_def http_exception_def http_exception_handler_def
      isinstance_def jget_def py_str_def unexpected_exception_handler_def)

text \<open>The layers of the UI around that reply.\<close>

lemma client_signup_reply:
  assumes "post_call cl ''The FastAPI backend timed out while creating the account.'' ''/api/auth/signup''
      (signup_payload u p c d l) s = (Inr rep, s')"
  shows "Webui_Client.signup_user fr cl u p c d l s
    = (case json_response [] rep of
         Inl e \<Rightarrow> (Inl (signup_error e), s') | Inr x \<Rightarrow> (signup_result fr x, s'))"
  using assms by (simp add: Webui_Client.signup_user_def bindA_def catchA_def split: sum.split)

lemma page_signup_reply:
  assumes "ui_signup_enabled uis" "json_loads request_body = Some (JObj d)"
  shows "auth_signup fr (Inr uis) cl request_body s
    = (case Webui_Client.signup_user fr cl (strip (form_text fr d ''username'')) (form_text fr d ''password'')
              (opt_str fr d ''confirm_password'') (opt_str fr d ''display_name'')
              (opt_str fr d ''preferred_language'') s of
         (Inr r, s') \<Rightarrow> (Inr (signup_success r), s')
       | (Inl e, s') \<Rightarrow> (signup_error_response e, s'))"
  using assms by (simp add: auth_signup_def bindA_def catchA_def split: prod.split sum.split)

lemma signup_result_reply:
  "signup_result fr [(''success'', JBool True), (''message'', JStr m), (''user_id'', JInt i),
     (''username'', JStr u), (''created_at'', JStr t)]
   = Inr \<lparr>bsr_success = True, bsr_message = m, bsr_user_id = Some i, bsr_username = Some u,
       bsr_created_at = Some t\<rparr>"
  by (simp add: signup_result_def str_item_def item_def py_str_def jget_def py_int_of_def opt_str_def)

lemma signup_error_page:
  "signup_error_response (signup_error (client_error 409 ''username_unavailable'' m))
     = Inr (signup_refusal 409 ''That username is unavailable.'' ''username_unavailable'')"
  "signup_error_response (signup_error (client_error 400 ''invalid_signup'' m))
     = Inr (signup_refusal 400 (m @ '' (invalid_signup)'') ''invalid_signup'')"
  "signup_error_response (signup_error (client_error 500 ''internal_error'' m))
     = Inr (signup_refusal 502 ''Account sign-up is unavailable right now. Please try again shortly.''
         ''signup_unavailable'')"
  by (simp_all add: client_error_def signup_error_def isinstance_def backend_http_error_def error_status_def
      error_code_def signup_error_response_def)

text \<open>What the page answers, by the outcome of the sign-up.\<close>

definition page_answer :: "(int \<Rightarrow> string) \<Rightarrow> AppSettings \<Rightarrow> UserProfile res \<Rightarrow> ui_response" where
  "page_answer fmt st r =
     (case r of
        Inr u \<Rightarrow> (201, [(''success'', JBool True), (''message'', JStr (signup_message st)),
          (''username'', JStr (username u)), (''user_id'', JInt (user_id u)),
          (''created_at'', JStr (fmt (created_at u)))])
      | Inl e \<Rightarrow>
          if isinstance e UsernameAlreadyExistsError
          then signup_refusal 409 ''That username is unavailable.'' ''username_unavailable''
          else if isinstance e ValueError
          then signup_refusal 400 (exn_text e @ '' (invalid_signup)'') ''invalid_signup''
          else signup_refusal 502 ''Account sign-up is unavailable right now. Please try again shortly.''
                 ''signup_unavailable'')"

text \<open>C10. The sign-up page tells what happened.  Through the UI's endpoint, its client, the API and the
  account service, a sign-up with a name and a password answers 201 with the new account, 409 exactly when
  the name is taken, 400 with the account service's own message when the input is refused, and 502 for
  every other failure; the state is the one the account service leaves.\<close>

theorem signup_outcomes_agree:
  assumes tr: "json_transport tr"
    and key: "bc_api_key cfg \<noteq> []" "require_api_key app (Some (bc_api_key cfg)) = Inr ()"
    and st: "aa_settings app = Inr st" "signup_enabled st" and repo: "aa_users app = Inr repo"
    and ui: "ui_signup_enabled uis" and body: "json_loads request_body = Some (JObj d)"
    and form: "strip (form_text fr d ''username'') \<noteq> []" "form_text fr d ''password'' \<noteq> []"
    and cmd: "cmd = \<lparr>cmd_username = strip (form_text fr d ''username''),
        cmd_password = form_text fr d ''password'', cmd_confirm_password = opt_str fr d ''confirm_password'',
        cmd_display_name = opt_str fr d ''display_name'',
        cmd_preferred_language = opt_str fr d ''preferred_language''\<rparr>"
    and run: "signup_run app st repo cmd s = (r, s')"
    and plain_error: "\<And>e. r = Inl e \<Longrightarrow> \<not> isinstance e APIError \<and> (isinstance e ValueError \<or> exn_extra e = NoExtra)"
  shows "auth_signup fr (Inr uis) (system_client tr app cfg) request_body s
    = (Inr (page_answer (aa_iso_micros app) st r), s')"
proof -
  note answer = api_signup[OF tr key(2) st repo form cmd, of s, unfolded run]
  have sub: "isinstance e UsernameAlreadyExistsError \<Longrightarrow> isinstance e ValueError" for e
    by (cases "exn_cls e") (simp_all add: isinstance_def)
  show ?thesis
  proof (cases r)
    case (Inr u)
    let ?j = "user_signup_response_from_profile (aa_iso_micros app) u (signup_message st)"
    have "plain_json ?j" by (simp add: user_signup_response_from_profile_def)
    then have "json_response [] (web_reply_of tr \<lparr>resp_status = 200, resp_body = ?j, resp_headers = []\<rparr>)
        = Inr [(''success'', JBool True), (''message'', JStr (signup_message st)), (''user_id'', JInt (user_id u)),
            (''username'', JStr (username u)), (''created_at'', JStr (aa_iso_micros app (created_at u)))]"
      using json_transport.response_text[OF tr]
      by (simp add: web_reply_of_def json_response_def raise_for_error_def is_success_def
          user_signup_response_from_profile_def)
    moreover have "post_call (system_client tr app cfg) ''The FastAPI backend timed out while creating the account.''
        ''/api/auth/signup'' (signup_payload (cmd_username cmd) (cmd_password cmd) (cmd_confirm_password cmd)
          (cmd_display_name cmd) (cmd_preferred_language cmd)) s
        = (Inr (web_reply_of tr \<lparr>resp_status = 200, resp_body = ?j, resp_headers = []\<rparr>), s')"
      using answer Inr by (intro system_post[OF tr key(1)]) (simp add: cmd)
    ultimately show ?thesis
      using client_signup_reply[of "system_client tr app cfg" _ _ _ _ _ s _ s' fr]
      by (simp add: page_signup_reply[OF ui body] signup_result_reply signup_success_def page_answer_def Inr
          jstr_def jint_def cmd)
  next
    case (Inl e)
    let ?r = "exception_response (aa_float_repr app) (signup_failure e)"
    obtain n code message where n: "resp_status ?r = n" "resp_body ?r = error_body code message JNull"
      and cases: "n = 409 \<and> code = ''username_unavailable'' \<and> isinstance e UsernameAlreadyExistsError
        \<or> n = 400 \<and> code = ''invalid_signup'' \<and> message = exn_text e \<and> isinstance e ValueError
            \<and> \<not> isinstance e UsernameAlreadyExistsError
        \<or> n = 500 \<and> code = ''internal_error'' \<and> \<not> isinstance e ValueError
            \<and> \<not> isinstance e UsernameAlreadyExistsError"
      using signup_failure_response[of e "aa_float_repr app"] plain_error[OF Inl] sub[of e] by metis
    have "\<not> is_success n" using cases by (auto simp: is_success_def)
    then have "json_response [] (web_reply_of tr ?r) = Inl (client_error n code message)"
      using read_error_body[OF tr, of code message JNull n] by (simp add: web_reply_of_def n)
    moreover have "post_call (system_client tr app cfg) ''The FastAPI backend timed out while creating the account.''
        ''/api/auth/signup'' (signup_payload (cmd_username cmd) (cmd_password cmd) (cmd_confirm_password cmd)
          (cmd_display_name cmd) (cmd_preferred_language cmd)) s = (Inr (web_reply_of tr ?r), s')"
      using answer Inl by (intro system_post[OF tr key(1)]) (simp add: cmd)
    ultimately have "auth_signup fr (Inr uis) (system_client tr app cfg) request_body s
        = (signup_error_response (signup_error (client_error n code message)), s')"
      using client_signup_reply[of "system_client tr app cfg" _ _ _ _ _ s _ s' fr]
      by (simp add: page_signup_reply[OF ui body] cmd)
    then show ?thesis using cases by (auto simp: signup_error_page page_answer_def Inl)
  qed
qed

section \<open>A system\<close>

text \<open>The pieces put together at a concrete deployment: one key, the default settings, and a given agent
  and user table.\<close>

definition sample_app :: "'w agent_env res \<Rightarrow> 'w user_repo res \<Rightarrow> 'w api_app" where
  "sample_app agent users =
     \<lparr>aa_env = [''FASTAPI_API_KEY'' \<mapsto> ''key''], aa_settings = Inr default_settings, aa_agent = agent,
      aa_queue = Inl (value_error []), aa_users = users, aa_crypto = plain_crypto, aa_salt = [],
      aa_float_repr = (\<lambda>_. []), aa_iso = (\<lambda>_. []), aa_iso_micros = (\<lambda>_. ''now''), aa_body_errors = (\<lambda>_. [])\<rparr>"

definition sample_backend :: "string \<Rightarrow> BackendConfig" where
  "sample_backend key = \<lparr>bc_base_url = ''http://api'', bc_timeout_seconds = Fin 60, bc_streaming_enabled = True, bc_api_key = key\<rparr>"

abbreviation sample_transport :: transport where
  "sample_transport \<equiv> python_json (\<lambda>_. [])"

lemma sample_key:
  "require_api_key (sample_app agent users) (Some (bc_api_key (sample_backend ''key''))) = Inr ()"
  "require_api_key (sample_app agent users) (Some (bc_api_key (sample_backend ''wrong'')))
     = Inl authentication_error"
  by code_simp+

definition failing_env :: "unit agent_env" where
  "failing_env = sample_env\<lparr>env_gateway :=
     sample_gateway\<lparr>gw_ask := (\<lambda>_ _ _ _ w. (Inl (mk_exn RuntimeError []), w))\<rparr>\<rparr>"

theorem streamed_answer_reaches_client_witness:
  "\<exists>plan s1 events s2. chat_stream sample_env (ui_command ''Hello'' (Some Translation)) (new_agent ())
       = (Inr plan, s1)
     \<and> run_plan sample_env (ui_command ''Hello'' (Some Translation)) plan s1 = ((events, Exhausted), s2)
     \<and> length events = 4
     \<and> chat_stream_call (system_client sample_transport (sample_app (Inr sample_env) (Inl (value_error [])))
         (sample_backend ''key'')) ''Hello'' (map_option mode_text (Some Translation)) (new_agent ())
       = ((events, Finished), s2)"
proof -
  let ?cmd = "ui_command ''Hello'' (Some Translation)"
  have "\<not> isl (fst (chat_stream sample_env ?cmd (new_agent ())))" by code_simp
  then obtain plan s1 where plan: "chat_stream sample_env ?cmd (new_agent ()) = (Inr plan, s1)"
    by (cases "chat_stream sample_env ?cmd (new_agent ())") (metis fst_conv isl_def sum.exhaust)
  have "(case chat_stream sample_env ?cmd (new_agent ()) of (Inr plan, s1) \<Rightarrow>
      (case run_plan sample_env ?cmd plan s1 of ((events, e), s2) \<Rightarrow> e = Exhausted \<and> length events = 4
        \<and> list_all (\<lambda>x. printable (env_float_repr sample_env) (JObj x)) events))"
    by code_simp
  then obtain events s2 where run: "run_plan sample_env ?cmd plan s1 = ((events, Exhausted), s2)"
    and len: "length events = 4" and good: "\<forall>x\<in>set events. printable (env_float_repr sample_env) (JObj x)"
    using plan by (auto simp: list_all_iff split: prod.splits)
  have "\<forall>r. list_all safe_char (env_float_repr sample_env r)" by (simp add: sample_env_def)
  from streamed_answer_reaches_client[OF python_json.json_transport_axioms _ sample_key(1) _ _ plan run this good]
  have "chat_stream_call (system_client sample_transport (sample_app (Inr sample_env) (Inl (value_error [])))
      (sample_backend ''key'')) ''Hello'' (map_option mode_text (Some Translation)) (new_agent ())
    = ((events, Finished), s2)"
    by (simp add: sample_app_def sample_backend_def)
  with plan run len show ?thesis by blast
qed

theorem failures_reach_client_witness:
  "\<exists>e s'. chat_full failing_env (ui_command ''Hello'' (Some Translation)) (new_agent ()) = (Inl e, s')
     \<and> chat_full_call (system_client sample_transport (sample_app (Inr failing_env) (Inl (value_error [])))
         (sample_backend ''key'')) ''Hello'' (map_option mode_text (Some Translation)) (new_agent ())
       = (Inl (client_error (http_status_of (exn_cls e)) (http_code_of (exn_cls e)) (exn_text e)), s')
     \<and> chat_full_call (system_client sample_transport (sample_app (Inr failing_env) (Inl (value_error [])))
         (sample_backend ''wrong'')) ''Hello'' (map_option mode_text (Some Translation)) (new_agent ())
       = (Inl (client_error 401 ''authentication_failed'' ''A valid API key is required.''), new_agent ())"
proof -
  let ?cmd = "ui_command ''Hello'' (Some Translation)"
  have "isl (fst (chat_full failing_env ?cmd (new_agent ())))" by code_simp
  then obtain e s' where e: "chat_full failing_env ?cmd (new_agent ()) = (Inl e, s')"
    by (cases "chat_full failing_env ?cmd (new_agent ())") (metis fst_conv isl_def)
  then have api: "isinstance e APIError"
    using chat_full_Inl by blast
  have agent: "aa_agent (sample_app (Inr failing_env) (Inl (value_error []))) = Inr failing_env"
    by (simp add: sample_app_def)
  have "bc_api_key (sample_backend ''key'') \<noteq> []" "bc_api_key (sample_backend ''wrong'') \<noteq> []"
    by (simp_all add: sample_backend_def)
  from failures_reach_client[OF python_json.json_transport_axioms this(1) agent, of "''Hello''" "Some Translation"
      "new_agent ()" e s']
    failures_reach_client[OF python_json.json_transport_axioms this(2) agent, of "''Hello''" "Some Translation"
      "new_agent ()" e s']
  show ?thesis using e api sample_key by blast
qed

theorem key_guards_api_witness:
  "\<exists>r. serve (sample_app (Inr sample_env) (Inl (value_error []))) ChatCall (Some ''wrong'') ''{}'' (new_agent ())
     = (JsonAnswer r, new_agent ()) \<and> resp_status r \<in> {400, 401, 422, 500}"
proof -
  have "require_api_key (sample_app (Inr sample_env) (Inl (value_error []))) (Some ''wrong'') \<noteq> Inr ()"
    by (simp add: sample_key(2)[simplified sample_backend_def, simplified])
  then show ?thesis using key_guards_api by blast
qed

definition sample_form :: string where
  "sample_form = dumps (\<lambda>_. []) (JObj
     [(''username'', JStr '' ana ''), (''password'', JStr ''correct Horse 42!'')])"

theorem signup_outcomes_agree_witness:
  "\<exists>uis r s'. webui_settings (\<lambda>_. []) (\<lambda>_. None) = Inr uis
     \<and> signup_run (sample_app (Inl (value_error [])) (Inr table_repo)) default_settings table_repo
         \<lparr>cmd_username = ''ana'', cmd_password = ''correct Horse 42!'', cmd_confirm_password = None,
          cmd_display_name = None, cmd_preferred_language = None\<rparr> (new_agent empty_table) = (Inr r, s')
     \<and> auth_signup (\<lambda>_. []) (Inr uis)
         (system_client sample_transport (sample_app (Inl (value_error [])) (Inr table_repo)) (sample_backend ''key''))
         sample_form (new_agent empty_table) = (Inr (page_answer (\<lambda>_. ''now'') default_settings (Inr r)), s')"
proof -
  let ?app = "sample_app (Inl (value_error [])) (Inr table_repo)"
  let ?d = "[(''username'', JStr '' ana ''), (''password'', JStr ''correct Horse 42!'')]"
  let ?cmd = "\<lparr>cmd_username = ''ana'', cmd_password = ''correct Horse 42!'', cmd_confirm_password = None,
          cmd_display_name = None, cmd_preferred_language = None\<rparr>"
  let ?run = "signup_run ?app default_settings table_repo ?cmd (new_agent empty_table)"
  obtain uis where uis: "webui_settings (\<lambda>_. []) (\<lambda>_. None) = Inr uis" and enabled: "ui_signup_enabled uis"
  proof -
    have "case webui_settings (\<lambda>_. []) (\<lambda>_. None) of Inl _ \<Rightarrow> False | Inr u \<Rightarrow> ui_signup_enabled u"
      by code_simp
    then show ?thesis using that by (auto split: sum.splits)
  qed
  have "\<not> isl (fst ?run)" by code_simp
  then obtain r s' where run: "?run = (Inr r, s')"
    by (cases ?run) (metis fst_conv isl_def sum.exhaust)
  have body: "json_loads sample_form = Some (JObj ?d)"
    unfolding sample_form_def by (rule json_loads_dumps) simp
  have names: "strip (form_text (\<lambda>_. []) ?d ''username'') = ''ana''"
    "form_text (\<lambda>_. []) ?d ''password'' = ''correct Horse 42!''"
    "opt_str (\<lambda>_. []) ?d ''confirm_password'' = None" "opt_str (\<lambda>_. []) ?d ''display_name'' = None"
    "opt_str (\<lambda>_. []) ?d ''preferred_language'' = None"
    by code_simp+
  have app: "aa_settings ?app = Inr default_settings" "aa_users ?app = Inr table_repo"
    "aa_iso_micros ?app = (\<lambda>_. ''now'')"
    by (simp_all add: sample_app_def)
  have "signup_enabled default_settings" "bc_api_key (sample_backend ''key'') \<noteq> []"
    by (simp_all add: default_settings_def sample_backend_def)
  then have "auth_signup (\<lambda>_. []) (Inr uis) (system_client sample_transport ?app (sample_backend ''key''))
      sample_form (new_agent empty_table) = (Inr (page_answer (\<lambda>_. ''now'') default_settings (Inr r)), s')"
    using signup_outcomes_agree[OF python_json.json_transport_axioms _ sample_key(1) app(1) _ app(2) enabled body
        _ _ _ run] names app(3)
    by simp
  with uis run show ?thesis by blast
qed

end
