(* ===== verification/Api_Docs.thy ===== *)
theory Api_Docs
  imports Web_System
begin

text \<open>
  What the API documents of its routes (the decorators of \<^verbatim>\<open>app/interfaces/api/routes.py\<close>): the path and the
  error responses of each, and how the answers of the routes compare with them.
\<close>

section \<open>The documented routes\<close>

record route_doc =
  doc_verb :: string
  doc_path :: "string list"
  doc_responses :: "(int \<times> string) list"

text \<open>A segment in braces stands for any text.\<close>

definition login_doc :: route_doc where
  "login_doc = \<lparr>doc_verb = ''POST'', doc_path = [''internal'', ''auth'', ''login''], doc_responses =
     [(401, ''Missing or invalid API key.''), (403, ''Invalid username/password credentials.'')]\<rparr>"

definition signup_doc :: route_doc where
  "signup_doc = \<lparr>doc_verb = ''POST'', doc_path = [''auth'', ''signup''], doc_responses =
     [(400, ''Sign-up validation failed.''), (401, ''Missing or invalid API key.''),
      (404, ''Sign-up is disabled.''), (409, ''Username is unavailable.'')]\<rparr>"

definition chat_doc :: route_doc where
  "chat_doc = \<lparr>doc_verb = ''POST'', doc_path = [''chat''], doc_responses =
     [(400, ''Invalid client input.''), (401, ''Missing or invalid API key.''), (429, ''Queue is saturated.''),
      (422, ''Request schema validation failed.''),
      (500, ''LLM, authentication configuration, or internal service failure.'')]\<rparr>"

definition stream_doc :: route_doc where
  "stream_doc = \<lparr>doc_verb = ''POST'', doc_path = [''chat'', ''stream''], doc_responses =
     [(401, ''Missing or invalid API key.''), (429, ''Queue is saturated.''),
      (422, ''Request schema validation failed.''),
      (500, ''LLM, authentication configuration, or internal service failure.'')]\<rparr>"

definition job_doc :: route_doc where
  "job_doc = \<lparr>doc_verb = ''GET'', doc_path = [''llm'', ''jobs'', ''{job_id}''], doc_responses =
     [(401, ''Missing or invalid API key.''), (404, ''Job was not found.'')]\<rparr>"

definition cancel_doc :: route_doc where
  "cancel_doc = \<lparr>doc_verb = ''POST'', doc_path = [''llm'', ''jobs'', ''{job_id}'', ''cancel''], doc_responses =
     [(401, ''Missing or invalid API key.''), (404, ''Job was not found.'')]\<rparr>"

definition queue_doc :: route_doc where
  "queue_doc = \<lparr>doc_verb = ''GET'', doc_path = [''queue'', ''status''], doc_responses =
     [(401, ''Missing or invalid API key.''), (500, ''Queue status check failed.'')]\<rparr>"

definition documented :: "route_doc \<Rightarrow> int set" where
  "documented d = insert 200 (fst ` set (doc_responses d))"

text \<open>The address of a documented route with its parameter, below the router's prefix.\<close>

definition address :: "string \<Rightarrow> route_doc \<Rightarrow> string" where
  "address jid d = concat (map (\<lambda>p. CHR ''/'' # (if p = ''{job_id}'' then jid else p)) (''api'' # doc_path d))"

lemma documented_routes:
  "map (\<lambda>d. route_of (doc_verb d) (address ''7'' d))
     [login_doc, signup_doc, chat_doc, stream_doc, job_doc, cancel_doc, queue_doc]
   = map Some [LoginCall, SignupCall, ChatCall, StreamCall, JobStatusCall ''7'', CancelCall ''7'', QueueStatusCall]"
  by code_simp

section \<open>The statuses of the answers\<close>

definition answer_status :: "http_answer \<Rightarrow> int" where
  "answer_status a = (case a of JsonAnswer r \<Rightarrow> resp_status r | StreamAnswer _ _ \<Rightarrow> 200)"

lemma api_error_status:
  "isinstance e APIError \<Longrightarrow> resp_status (exception_response fr e) \<in> {400, 401, 429, 500, 504}"
  by (simp add: exception_response_def api_error_handler_def error_response_def http_status_of_def api_status_def
      split: exn_class.split)

lemma guarded_status:
  assumes "guarded app key body route s = (Inl e, s')"
    and "\<And>j x. route j s = (Inl x, s') \<Longrightarrow> resp_status (exception_response fr x) \<in> S"
  shows "resp_status (exception_response fr e) \<in> S \<union> {400, 401, 422, 500}"
proof (cases "require_api_key app key")
  case (Inl x)
  then show ?thesis using guarded_refusal[OF Inl, of body route s fr] assms(1) by auto
next
  case (Inr u)
  then consider "e = validation_error (aa_body_errors app body)" | j where "route j s = (Inl e, s')"
    using assms(1) by (auto simp: guarded_def bindA_Inl liftA_def read_body_def split: if_splits option.splits)
  then show ?thesis
  proof cases
    case 1
    then show ?thesis using refusal_status(1)[of fr "aa_body_errors app body"] by auto
  next
    case 2
    then show ?thesis using assms(2) by blast
  qed
qed

lemma validated_error:
  "validated app body r = Inl e \<Longrightarrow> resp_status (exception_response fr e) \<in> {400, 422}"
  using refusal_status(1)[of fr "aa_body_errors app body"] by (auto simp: validated_def split: sum.splits)

lemma no_agent_error:
  "get_agent_service app = Inl e \<Longrightarrow> resp_status (exception_response fr e) = 500"
  by (auto simp: get_agent_service_def api_error_def exception_response_def isinstance_def api_error_handler_def
      error_response_def http_status_of_def api_status_def split: sum.splits)

lemma chat_response_error:
  "chat_response_from_result r = Inl e \<Longrightarrow> resp_status (exception_response fr e) = 500"
  by (auto simp: chat_response_from_result_def bind_res_Inl ModeResponsePayload_of_def invalid_def mk_exn_def
      exception_response_def isinstance_def unexpected_exception_handler_def error_response_def
      split: option.splits sum.splits)

lemma chat_route_error:
  assumes "chat_full_route app body j s = (Inl e, s')"
  shows "resp_status (exception_response fr e) \<in> {400, 401, 422, 429, 500, 504}"
proof -
  from assms consider "get_agent_service app = Inl e" | "validated app body (ChatRequest_of j) = Inl e"
    | env cmd where "chat_full env cmd s = (Inl e, s')" | r where "chat_response_from_result r = Inl e"
    by (auto simp: chat_full_route_def bindA_Inl liftA_def)
  then show ?thesis
  proof cases
    case 3
    then show ?thesis using api_error_status[of e fr] chat_full_Inl[OF 3] by auto
  qed (use validated_error[of app body _ e fr] no_agent_error[of app e fr] chat_response_error[of _ e fr] in auto)
qed

lemma stream_route_error:
  assumes "chat_stream_route app body j s = (Inl e, s')"
  shows "resp_status (exception_response fr e) \<in> {400, 401, 422, 429, 500, 504}"
proof -
  from assms consider "get_agent_service app = Inl e" | "validated app body (StreamChatRequest_of j) = Inl e"
    | env cmd where "chat_stream env cmd s = (Inl e, s')"
    by (auto simp: chat_stream_route_def bindA_Inl liftA_def)
  then show ?thesis
  proof cases
    case 3
    then show ?thesis using api_error_status[of e fr] chat_stream_error[OF 3] by auto
  qed (use validated_error[of app body _ e fr] no_agent_error[of app e fr] in auto)
qed

lemma job_route_error:
  assumes "guarded app key [] (\<lambda>_. llm_job_status app jid) s = (Inl e, s')"
  shows "resp_status (exception_response fr e) \<in> {401, 404, 500}"
proof (cases "require_api_key app key")
  case (Inl x)
  then have "e = x" using assms by (simp add: guarded_def read_body_def)
  then show ?thesis
    using Inl validate_fails[of key "auth_config (aa_env app)" x] refusal_status(2-4)[of fr]
    by (auto simp: require_api_key_def)
next
  case (Inr u)
  then have "e = job_not_found"
    using assms by (auto simp: guarded_def read_body_def llm_job_status_def bindA_Inl catchA_Inl)
  then show ?thesis
    by (simp add: job_not_found_def http_exception_def exception_response_def isinstance_def
        http_exception_handler_def error_response_def)
qed

section \<open>Properties\<close>

text \<open>C15. The answers are the documented ones, but for three cases.  Whatever is sent, in whatever state: a
  chat is answered with 200, a documented status, or 504 (a request that timed out); the start of a stream
  with those or 400 (an unknown mode); and the status of a job with 200, a documented status, or 500 (no key
  is configured, or the key sent is not ASCII).\<close>

theorem answers_are_documented:
  "answer_status (fst (serve app ChatCall key body s)) \<in> documented chat_doc \<union> {504}
   \<and> answer_status (fst (serve app StreamCall key body s)) \<in> documented stream_doc \<union> {400, 504}
   \<and> answer_status (fst (serve app (JobStatusCall jid) key body s)) \<in> documented job_doc \<union> {500}"
proof (intro conjI)
  note [simp] = serve_def json_answer_def stream_answer_def answer_status_def documented_def chat_doc_def
    stream_doc_def job_doc_def
  have chat: "resp_status (exception_response (aa_float_repr app) e) \<in> {400, 401, 422, 429, 500, 504}"
    if "guarded app key body (chat_full_route app body) s = (Inl e, s')" for e s'
    using guarded_status[OF that, of _ "{400, 401, 422, 429, 500, 504}"] chat_route_error[of app body _ s] by blast
  have stream: "resp_status (exception_response (aa_float_repr app) e) \<in> {400, 401, 422, 429, 500, 504}"
    if "guarded app key body (chat_stream_route app body) s = (Inl e, s')" for e s'
    using guarded_status[OF that, of _ "{400, 401, 422, 429, 500, 504}"] stream_route_error[of app body _ s] by blast
  show "answer_status (fst (serve app ChatCall key body s)) \<in> documented chat_doc \<union> {504}"
    using chat by (auto split: prod.splits sum.splits)
  show "answer_status (fst (serve app StreamCall key body s)) \<in> documented stream_doc \<union> {400, 504}"
    using stream by (auto split: prod.splits sum.splits)
  show "answer_status (fst (serve app (JobStatusCall jid) key body s)) \<in> documented job_doc \<union> {500}"
    using job_route_error by (fastforce split: prod.splits sum.splits)
qed

text \<open>The first two exceptions do occur.\<close>

definition timing_out_env :: "unit agent_env" where
  "timing_out_env = sample_env\<lparr>env_gateway :=
     sample_gateway\<lparr>gw_ask := (\<lambda>_ _ _ _ w. (Inl (api_error QueueWaitTimeoutError None None), w))\<rparr>\<rparr>"

lemma undocumented_timeout:
  "answer_status (fst (serve (sample_app (Inr timing_out_env) (Inl (value_error []))) ChatCall (Some ''key'')
     (dumps (\<lambda>_. []) (JObj [(''message'', JStr ''Hello''), (''mode'', JStr ''translation'')])) (new_agent ()))) = 504
   \<and> 504 \<notin> documented chat_doc"
  by code_simp

end
