(* ===== verification/Api_Models.thy ===== *)
theory Api_Models
  imports Api_Docs
begin

text \<open>
  The response models of the API (\<^verbatim>\<open>app/interfaces/api/models.py\<close>): the fields of each model with their
  types, and that every body the routes answer with is a value of the model its route documents.
\<close>

section \<open>Types of fields\<close>

definition text_value :: "json \<Rightarrow> bool" where "text_value j \<longleftrightarrow> as_str j \<noteq> None"
definition int_value :: "json \<Rightarrow> bool" where "int_value j \<longleftrightarrow> (case j of JInt _ \<Rightarrow> True | _ \<Rightarrow> False)"
definition bool_value :: "json \<Rightarrow> bool" where "bool_value j \<longleftrightarrow> (case j of JBool _ \<Rightarrow> True | _ \<Rightarrow> False)"
definition float_value :: "json \<Rightarrow> bool" where "float_value j \<longleftrightarrow> (case j of JFloat _ \<Rightarrow> True | _ \<Rightarrow> False)"
definition dict_value :: "json \<Rightarrow> bool" where "dict_value j \<longleftrightarrow> (case j of JObj _ \<Rightarrow> True | _ \<Rightarrow> False)"
definition mode_value :: "json \<Rightarrow> bool" where "mode_value j \<longleftrightarrow> as_mode j \<noteq> None"

definition literal_value :: "string list \<Rightarrow> json \<Rightarrow> bool" where
  "literal_value options j \<longleftrightarrow> as_literal options j \<noteq> None"

definition nullable :: "(json \<Rightarrow> bool) \<Rightarrow> json \<Rightarrow> bool" where
  "nullable p j \<longleftrightarrow> j = JNull \<or> p j"

text \<open>\<^verbatim>\<open>dict[str, str]\<close>.\<close>

definition text_dict :: "json \<Rightarrow> bool" where
  "text_dict j \<longleftrightarrow> (case j of JObj d \<Rightarrow> list_all (text_value \<circ> snd) d | _ \<Rightarrow> False)"

definition list_value :: "(json \<Rightarrow> bool) \<Rightarrow> json \<Rightarrow> bool" where
  "list_value p j \<longleftrightarrow> (case j of JList xs \<Rightarrow> list_all p xs | _ \<Rightarrow> False)"

text \<open>A dump of a model has all its fields, in their order, and no other.\<close>

type_synonym model = "(string \<times> (json \<Rightarrow> bool)) list"

definition dumps_of :: "model \<Rightarrow> (string \<times> json) list \<Rightarrow> bool" where
  "dumps_of fs d \<longleftrightarrow> list_all2 (\<lambda>(n, ok) (k, v). k = n \<and> ok v) fs d"

definition fits :: "model \<Rightarrow> json \<Rightarrow> bool" where
  "fits fs j \<longleftrightarrow> (case j of JObj d \<Rightarrow> dumps_of fs d | _ \<Rightarrow> False)"

named_theorems value_simps

lemma basic_values [value_simps]:
  "text_value (JStr s)" "int_value (JInt i)" "bool_value (JBool b)" "float_value (JFloat f)" "dict_value (JObj d)"
  "mode_value (JStr (mode_text m))" "nullable p (jstr x) \<longleftrightarrow> x = None \<or> p (JStr (the x))"
  "literal_value options (JStr s) \<longleftrightarrow> s \<in> set options" "nullable p JNull"
  "fits fs (JObj d) \<longleftrightarrow> dumps_of fs d"
  by (auto simp: text_value_def as_str_def int_value_def bool_value_def float_value_def dict_value_def
      mode_value_def as_mode_def nullable_def jstr_def literal_value_def as_literal_def fits_def
      split: option.split)

lemma null_values [value_simps]:
  "nullable text_value (JStr s)" "nullable text_value (jstr x)" "nullable int_value (JInt i)"
  "nullable int_value (jint n)" "nullable float_value (jfloat r)" "nullable p (JObj d) \<longleftrightarrow> p (JObj d)"
  by (auto simp: nullable_def text_value_def as_str_def jstr_def int_value_def jint_def float_value_def
      jfloat_def split: option.split)

lemma dumps_of_steps [value_simps]:
  "dumps_of [] []" "dumps_of ((n, ok) # fs) ((k, v) # d) \<longleftrightarrow> k = n \<and> ok v \<and> dumps_of fs d"
  by (simp_all add: dumps_of_def)

section \<open>The models\<close>

definition IntentResult_model :: model where
  "IntentResult_model =
     [(''mode'', mode_value), (''confidence'', literal_value [''low'', ''medium'', ''high'']),
      (''should_switch_mode'', bool_value), (''reason'', text_value), (''clarification_question'', text_value)]"

definition TranslationResponse_model :: model where
  "TranslationResponse_model =
     [(''response'', text_value), (''mode'', literal_value [''translation'']), (''source_language'', text_value),
      (''target_language'', text_value), (''translated_text'', text_value)]"

definition DefinitionResponse_model :: model where
  "DefinitionResponse_model =
     [(''response'', text_value), (''mode'', literal_value [''definition'']), (''term'', text_value),
      (''language'', text_value), (''part_of_speech'', text_value), (''pronunciation'', text_value),
      (''meaning'', text_value), (''examples'', list_value text_value), (''synonyms'', list_value text_value),
      (''antonyms'', list_value text_value), (''etymology'', text_value)]"

definition LearningResponse_model :: model where
  "LearningResponse_model =
     [(''response'', text_value), (''mode'', literal_value [''learning'']), (''target_language'', text_value),
      (''native_language'', text_value), (''level'', text_value), (''topic'', text_value),
      (''teaching_point'', text_value), (''examples'', list_value text_value),
      (''corrections'', list_value text_value), (''new_vocabulary'', list_value dict_value),
      (''exercises'', list_value text_value), (''next_suggested_step'', text_value)]"

definition ResponseMetadata_model :: model where
  "ResponseMetadata_model = [(''session_id'', nullable text_value)]"

definition mode_payload :: "json \<Rightarrow> bool" where
  "mode_payload j \<longleftrightarrow>
     fits TranslationResponse_model j \<or> fits DefinitionResponse_model j \<or> fits LearningResponse_model j"

definition ChatResponse_model :: model where
  "ChatResponse_model =
     [(''mode'', mode_value), (''response'', text_value), (''intent'', nullable (fits IntentResult_model)),
      (''data'', nullable mode_payload), (''metadata'', nullable (fits ResponseMetadata_model))]"

definition AuthenticatedUserResponse_model :: model where
  "AuthenticatedUserResponse_model =
     [(''user_id'', int_value), (''username'', text_value), (''display_name'', nullable text_value),
      (''role'', text_value), (''is_admin'', bool_value), (''preferred_language'', nullable text_value),
      (''ui_theme'', nullable text_value)]"

definition UserSignupResponse_model :: model where
  "UserSignupResponse_model =
     [(''success'', bool_value), (''message'', text_value), (''user_id'', nullable int_value),
      (''username'', nullable text_value), (''created_at'', nullable text_value)]"

definition ErrorResponse_model :: model where
  "ErrorResponse_model =
     [(''error'', text_value), (''message'', text_value), (''details'', nullable dict_value)]"

definition LLMJobStatusResponse_model :: model where
  "LLMJobStatusResponse_model =
     [(''job_id'', text_value), (''call_type'', text_value), (''mode'', nullable text_value),
      (''created_at'', nullable text_value), (''started_at'', nullable text_value),
      (''completed_at'', nullable text_value), (''status'', text_value), (''cancel_requested'', bool_value),
      (''queue_position'', nullable int_value), (''elapsed_seconds'', nullable float_value),
      (''retry_count'', int_value), (''last_error'', nullable text_value)]"

definition QueueStatusSnapshot_model :: model where
  "QueueStatusSnapshot_model =
     [(''redis_connected'', bool_value), (''queue_depth'', int_value), (''active_job_count'', int_value),
      (''failed_job_count'', int_value), (''worker_count'', int_value),
      (''worker_heartbeat_age_seconds'', nullable float_value),
      (''average_wait_time_seconds'', nullable float_value),
      (''estimated_wait_time_seconds'', nullable float_value)]"

definition QueueStatusResponse_model :: model where
  "QueueStatusResponse_model = [(''queue'', fits QueueStatusSnapshot_model)]"

section \<open>What the routes build\<close>

lemma error_response_fits: "fits ErrorResponse_model (resp_body (error_response st c m d h))"
  by (cases d) (simp_all add: error_response_def ErrorResponse_model_def value_simps nullable_def)

lemma error_fits: "fits ErrorResponse_model (resp_body (exception_response fr e))"
  by (simp del: error_response_simps
      add: error_response_fits exception_response_def api_error_handler_def http_exception_handler_def
        validation_exception_handler_def unexpected_exception_handler_def split: exn_extra.split json.split)

lemma intent_fits: "intent_ok i \<Longrightarrow> dumps_of IntentResult_model (dump_intent i)"
  by (auto simp: IntentResult_model_def dump_intent_def value_simps intent_ok_def)

lemma user_fits: "fits AuthenticatedUserResponse_model (authenticated_user_response_from_profile u)"
  by (simp add: AuthenticatedUserResponse_model_def authenticated_user_response_from_profile_def value_simps)

lemma signup_fits: "fits UserSignupResponse_model (user_signup_response_from_profile fmt u msg)"
  by (simp add: UserSignupResponse_model_def user_signup_response_from_profile_def value_simps)

lemma job_fits: "fits LLMJobStatusResponse_model (from_job fmt j)"
  by (simp add: LLMJobStatusResponse_model_def from_job_def value_simps)

lemma queue_fits: "fits QueueStatusResponse_model (queue_status_response q)"
  by (simp add: QueueStatusResponse_model_def queue_status_response_def QueueStatusSnapshot_model_def value_simps)

subsection \<open>The payloads of the modes\<close>

lemma str_field_fits: "str_field dflt m k = Inr kv \<longleftrightarrow> (\<exists>s. field as_str dflt m k = Inr s \<and> kv = (k, JStr s))"
  by (auto simp: str_field_def bind_res_Inr)

lemma list_field_fits: "list_field m k = Inr kv \<Longrightarrow> fst kv = k \<and> list_value text_value (snd kv)"
  by (auto simp: list_field_def bind_res_Inr list_value_def list_all_iff text_value_def as_str_def)

lemma dict_list_field_fits: "dict_list_field m k = Inr kv \<Longrightarrow> fst kv = k \<and> list_value dict_value (snd kv)"
  by (auto simp: dict_list_field_def bind_res_Inr list_value_def list_all_iff dict_value_def field_def
      as_dict_list_def split: option.splits json.splits if_splits)

lemma spec_text: "str_field dflt m k = Inr kv \<Longrightarrow> fst kv = k \<and> text_value (snd kv)"
  by (auto simp: str_field_fits value_simps)

text \<open>Fields that are read one by one give a dump.\<close>

lemma read_fields:
  "list_all2 (\<lambda>(n, ok) x. \<forall>kv. x = Inr kv \<longrightarrow> fst kv = n \<and> ok (snd kv)) fs xs \<Longrightarrow> map_res id xs = Inr d
    \<Longrightarrow> dumps_of fs d"
  by (auto simp: map_res_Inr dumps_of_def list_all2_conv_all_nth split_beta) (metis prod.collapse)+

lemma reply_fits:
  assumes "mode_reply md specs j = Inr r"
    and "\<And>m. list_all2 (\<lambda>(n, ok) x. \<forall>kv. x = Inr kv \<longrightarrow> fst kv = n \<and> ok (snd kv)) fs (specs m)"
  shows "dumps_of ((''response'', text_value) # (''mode'', literal_value [md]) # fs) (response_data r)"
proof -
  obtain m reply rest where "map_res id (specs m) = Inr rest"
      "response_data r = (''response'', JStr reply) # (''mode'', JStr md) # rest"
    using assms(1) by (auto simp: mode_reply_def bind_res_Inr)
  then show ?thesis using read_fields[OF assms(2)] by (simp add: value_simps)
qed

lemma mode_replies_fit:
  "TranslationResponse_of j = Inr r \<Longrightarrow> dumps_of TranslationResponse_model (response_data r)"
  "DefinitionResponse_of j = Inr r \<Longrightarrow> dumps_of DefinitionResponse_model (response_data r)"
  "LearningResponse_of j = Inr r \<Longrightarrow> dumps_of LearningResponse_model (response_data r)"
  unfolding TranslationResponse_of_def DefinitionResponse_of_def LearningResponse_of_def
    TranslationResponse_model_def DefinitionResponse_model_def LearningResponse_model_def
  by (erule reply_fits, auto dest!: spec_text list_field_fits dict_list_field_fits)+

lemma payload_fits: "ModeResponsePayload_of j = Inr d \<Longrightarrow> mode_payload (JObj d)"
  using mode_replies_fit
  by (auto simp: ModeResponsePayload_of_def mode_payload_def value_simps split: sum.splits)

lemma resolve_intent_ok: "resolve_intent env cmd history s = (Inr i, s') \<Longrightarrow> intent_ok i"
  by (auto simp: resolve_intent_def bindA_Inr liftA_def dest: IntentResult_of_ok split: option.splits)

lemma answer_full_intent: "answer_full cmd h history i st s = (Inr r, s') \<Longrightarrow> result_intent r = Some i"
  by (auto simp: answer_full_def bindA_Inr to_chat_result_def)

text \<open>The intent of an answer is one that passed its model's validation.\<close>

lemma chat_full_intent:
  assumes "chat_full env cmd s = (Inr r, s')"
  shows "\<exists>i. result_intent r = Some i \<and> intent_ok i"
proof -
  obtain history i st s1 where st: "settle_mode env cmd s = (Inr (history, i, st), s1)"
    and "result_intent r = Some i"
    using assms
    by (auto simp: chat_full_def or_service_error_Inr chat_full_body_def bindA_Inr text_result_def
        dest: answer_full_intent split: if_splits option.splits)
  then show ?thesis using settle_mode_Inr(4)[OF st] resolve_intent_ok by blast
qed

lemma chat_fits:
  assumes "chat_response_from_result r = Inr j" "result_intent r = Some i" "intent_ok i"
  shows "fits ChatResponse_model j"
  using assms
  by (auto simp: chat_response_from_result_def bind_res_Inr ChatResponse_model_def ResponseMetadata_model_def
      value_simps intent_fits payload_fits split: option.splits)

section \<open>Properties\<close>

text \<open>The model of the decorator, by route; the two public routes answer with texts, and a stream
  has no JSON answer but an error.\<close>

definition response_model :: "api_call \<Rightarrow> json \<Rightarrow> bool" where
  "response_model call = (case call of
     HealthCall \<Rightarrow> text_dict | RootCall \<Rightarrow> text_dict
   | LoginCall \<Rightarrow> fits AuthenticatedUserResponse_model | SignupCall \<Rightarrow> fits UserSignupResponse_model
   | ChatCall \<Rightarrow> fits ChatResponse_model | StreamCall \<Rightarrow> (\<lambda>_. False)
   | JobStatusCall _ \<Rightarrow> fits LLMJobStatusResponse_model | CancelCall _ \<Rightarrow> fits LLMJobStatusResponse_model
   | QueueStatusCall \<Rightarrow> fits QueueStatusResponse_model)"

definition fitting :: "api_call \<Rightarrow> http_answer \<Rightarrow> bool" where
  "fitting call a \<longleftrightarrow> (case a of
     JsonAnswer r \<Rightarrow> resp_status r = 200 \<and> response_model call (resp_body r) \<or> fits ErrorResponse_model (resp_body r)
   | StreamAnswer _ _ \<Rightarrow> call = StreamCall)"

lemma json_answer_fits:
  assumes "\<And>j s'. m s = (Inr j, s') \<Longrightarrow> response_model call j"
  shows "fitting call (fst (json_answer app m s))"
  using assms error_fits by (auto simp: fitting_def json_answer_def split: prod.split sum.split)

lemma guarded_fits:
  assumes "\<And>b j s'. route b s = (Inr j, s') \<Longrightarrow> response_model call j"
  shows "fitting call (fst (json_answer app (guarded app key body route) s))"
  using assms by (intro json_answer_fits) (auto simp: guarded_def bindA_Inr liftA_def)

lemma stream_answer_fits: "fitting StreamCall (fst (stream_answer app m s))"
  using error_fits by (auto simp: fitting_def stream_answer_def split: prod.split sum.split)

text \<open>C16. Every answer is a value of the model its route documents.  Whatever is sent to whatever route, the
  body of the answer has the fields of the route's response model, all of them, in order and of their types,
  with status 200, or those of \<^verbatim>\<open>ErrorResponse\<close>; only the stream route answers with a stream.\<close>

theorem answers_fit_models: "fitting call (fst (serve app call key body s))"
proof (cases call)
  case ChatCall
  have "fits ChatResponse_model j" if "chat_full_route app body b s = (Inr j, s')" for b j s'
    using that chat_fits chat_full_intent by (fastforce simp: chat_full_route_def bindA_Inr liftA_def)
  then show ?thesis
    using ChatCall by (auto simp: serve_def response_model_def intro!: guarded_fits)
next
  case HealthCall
  then show ?thesis
    by (auto simp: serve_def response_model_def health_body_def text_dict_def value_simps intro!: json_answer_fits)
next
  case RootCall
  then show ?thesis
    by (auto simp: serve_def response_model_def root_body_def text_dict_def value_simps intro!: json_answer_fits)
qed (auto simp: serve_def response_model_def value_simps internal_user_login_def user_signup_def
    llm_job_status_def cancel_llm_job_def queue_status_def bindA_Inr stream_answer_fits user_fits signup_fits
    job_fits queue_fits intro!: guarded_fits split: option.splits if_splits)

end
