(* ===== verification/Schema_Migrations.thy ===== *)
theory Schema_Migrations
  imports Lang_Prelude
begin

text \<open>
  The database schema (\<^verbatim>\<open>alembic/versions\<close>): the three migrations as lists of operations, what such an
  operation does to a schema, and the table the object-relational mapper expects
  (\<^verbatim>\<open>app/infrastructure/database/models.py\<close>).  The database itself is a parameter: \<open>ddl_engine\<close> states
  what executing an operation does to the schema it holds.
\<close>

section \<open>Schemas\<close>

datatype sql_type =
    SqlInteger | SqlString nat | SqlText | SqlBoolean | SqlFloat | SqlDateTime | SqlJson | SqlJsonb

text \<open>A server default is a literal text, a truth value, or SQL text taken as it is.\<close>

datatype server_default = Literal string | SqlTrue | SqlFalse | Sql string

record column =
  col_name :: string
  col_type :: sql_type
  col_primary :: bool
  col_auto :: bool
  col_nullable :: bool
  col_default :: "server_default option"

datatype on_delete = Cascade | SetNull

record foreign_key =
  fk_column :: string
  fk_table :: string
  fk_target :: string
  fk_on_delete :: on_delete

record table_def =
  tab_columns :: "column list"
  tab_foreign_keys :: "foreign_key list"

record index_def =
  ix_table :: string
  ix_columns :: "string list"
  ix_unique :: bool

record schema =
  sch_tables :: "(string \<times> table_def) list"
  sch_indexes :: "(string \<times> index_def) list"

definition empty_schema :: schema where
  "empty_schema = \<lparr>sch_tables = [], sch_indexes = []\<rparr>"

section \<open>Operations\<close>

text \<open>A change of a column's type: the type it has and the one it gets, the default it has and the one it gets
  when the default changes with it, and the expression that converts the stored values.\<close>

record alteration =
  alt_from :: sql_type
  alt_to :: sql_type
  alt_nullable :: bool
  alt_default :: "(server_default \<times> server_default) option"
  alt_using :: string

datatype ddl_op =
    CreateTable string table_def
  | DropTable string
  | CreateIndex string index_def
  | DropIndex string string
  | AlterColumn string string alteration

definition column_names :: "table_def \<Rightarrow> string list" where
  "column_names t = map col_name (tab_columns t)"

definition is_key :: "table_def \<Rightarrow> string \<Rightarrow> bool" where
  "is_key t c \<longleftrightarrow> list_ex (\<lambda>x. col_name x = c \<and> col_primary x) (tab_columns t)"

text \<open>The tables a table refers to.\<close>

definition refers_to :: "table_def \<Rightarrow> string list" where
  "refers_to t = map fk_table (tab_foreign_keys t)"

definition lookup_table :: "schema \<Rightarrow> string \<Rightarrow> table_def option" where
  "lookup_table s n = map_of (sch_tables s) n"

text \<open>A foreign key needs its own column and the primary key of an existing table, or of the new one.\<close>

definition key_ok :: "schema \<Rightarrow> string \<Rightarrow> table_def \<Rightarrow> foreign_key \<Rightarrow> bool" where
  "key_ok s n t k \<longleftrightarrow> fk_column k \<in> set (column_names t) \<and>
     (if fk_table k = n then is_key t (fk_target k)
      else case lookup_table s (fk_table k) of None \<Rightarrow> False | Some u \<Rightarrow> is_key u (fk_target k))"

text \<open>The change of the one column, in every entry of its name.\<close>

definition alter_in :: "string \<Rightarrow> (column \<Rightarrow> column) \<Rightarrow> table_def \<Rightarrow> table_def" where
  "alter_in c f t = t\<lparr>tab_columns := map (\<lambda>x. if col_name x = c then f x else x) (tab_columns t)\<rparr>"

definition altered :: "alteration \<Rightarrow> column \<Rightarrow> column" where
  "altered a x = x\<lparr>col_type := alt_to a,
     col_default := (case alt_default a of None \<Rightarrow> col_default x | Some (_, d) \<Rightarrow> Some d)\<rparr>"

definition castable :: "sql_type \<Rightarrow> sql_type \<Rightarrow> bool" where
  "castable a b \<longleftrightarrow> a = b \<or> a = SqlJson \<and> b = SqlJsonb \<or> a = SqlJsonb \<and> b = SqlJson"

text \<open>What PostgreSQL documents of each statement: when it is accepted, and the schema afterwards.  A table
  goes with its indexes, and not while another table refers to it.\<close>

fun apply_op :: "ddl_op \<Rightarrow> schema \<Rightarrow> schema option" where
  "apply_op (CreateTable n t) s =
     (if lookup_table s n = None \<and> map_of (sch_indexes s) n = None \<and> distinct (column_names t) \<and> list_all (key_ok s n t) (tab_foreign_keys t)
      then Some (s\<lparr>sch_tables := sch_tables s @ [(n, t)]\<rparr>) else None)"
| "apply_op (DropTable n) s =
     (if lookup_table s n \<noteq> None
         \<and> list_all (\<lambda>(m, u). m \<noteq> n \<longrightarrow> n \<notin> set (refers_to u)) (sch_tables s)
      then Some \<lparr>sch_tables = filter (\<lambda>x. fst x \<noteq> n) (sch_tables s),
             sch_indexes = filter (\<lambda>x. ix_table (snd x) \<noteq> n) (sch_indexes s)\<rparr> else None)"
| "apply_op (CreateIndex i d) s =
     (case lookup_table s (ix_table d) of
        None \<Rightarrow> None
      | Some t \<Rightarrow>
          if map_of (sch_indexes s) i = None \<and> lookup_table s i = None \<and> set (ix_columns d) \<subseteq> set (column_names t)
          then Some (s\<lparr>sch_indexes := sch_indexes s @ [(i, d)]\<rparr>) else None)"
| "apply_op (DropIndex i n) s =
     (if map_of (sch_indexes s) i \<noteq> None
      then Some (s\<lparr>sch_indexes := filter (\<lambda>x. fst x \<noteq> i) (sch_indexes s)\<rparr>) else None)"
| "apply_op (AlterColumn n c a) s =
     (case lookup_table s n of
        None \<Rightarrow> None
      | Some t \<Rightarrow>
          if c \<in> set (column_names t)
             \<and> list_all (\<lambda>x. col_name x = c \<longrightarrow> castable (col_type x) (alt_to a)) (tab_columns t)
          then Some (s\<lparr>sch_tables := map (\<lambda>(m, u). (m, if m = n then alter_in c (altered a) u else u)) (sch_tables s)\<rparr>)
          else None)"

fun apply_ops :: "ddl_op list \<Rightarrow> schema \<Rightarrow> schema option" where
  "apply_ops [] s = Some s"
| "apply_ops (op # ops) s = (case apply_op op s of None \<Rightarrow> None | Some s' \<Rightarrow> apply_ops ops s')"

lemma apply_ops_append:
  "apply_ops (xs @ ys) s = (case apply_ops xs s of None \<Rightarrow> None | Some s' \<Rightarrow> apply_ops ys s')"
  by (induction xs arbitrary: s) (auto split: option.split)

text \<open>A database: an operation that the schema allows succeeds and changes the schema accordingly.  The
  operations of a migration are executed in turn.\<close>

fun exec_all :: "(ddl_op \<Rightarrow> ('w, unit) act) \<Rightarrow> ddl_op list \<Rightarrow> ('w, unit) act" where
  "exec_all exec [] = retA ()"
| "exec_all exec (op # ops) = bindA (exec op) (\<lambda>_. exec_all exec ops)"

locale ddl_engine =
  fixes exec :: "ddl_op \<Rightarrow> ('w, unit) act" and holds :: "'w \<Rightarrow> schema"
  assumes accepted: "apply_op op (holds w) = Some s \<Longrightarrow> \<exists>w'. exec op w = (Inr (), w') \<and> holds w' = s"
begin

lemma run_all:
  "apply_ops ops (holds w) = Some s \<Longrightarrow> \<exists>w'. exec_all exec ops w = (Inr (), w') \<and> holds w' = s"
proof (induction ops arbitrary: w)
  case (Cons op ops)
  then obtain s1 where "apply_op op (holds w) = Some s1" "apply_ops ops s1 = Some s"
    by (auto split: option.splits)
  then show ?case using accepted Cons.IH by (fastforce simp: bindA_run)
qed simp

end

text \<open>A database that holds nothing but its schema, and refuses every other operation.\<close>

definition schema_only :: "ddl_op \<Rightarrow> (schema, unit) act" where
  "schema_only op s =
     (case apply_op op s of None \<Rightarrow> (Inl (mk_exn (ForeignError ''ProgrammingError'') []), s) | Some s' \<Rightarrow> (Inr (), s'))"

interpretation schema_only: ddl_engine schema_only id
  by unfold_locales (auto simp: schema_only_def)

section \<open>Sound schemas\<close>

definition sound :: "schema \<Rightarrow> bool" where
  "sound s \<longleftrightarrow> distinct (map fst (sch_tables s)) \<and> distinct (map fst (sch_indexes s))
     \<and> (\<forall>(i, d)\<in>set (sch_indexes s). ix_table d \<in> fst ` set (sch_tables s))
     \<and> (\<forall>(n, t)\<in>set (sch_tables s). distinct (column_names t) \<and> set (refers_to t) \<subseteq> fst ` set (sch_tables s))"

lemma lookup_None: "lookup_table s n = None \<longleftrightarrow> n \<notin> fst ` set (sch_tables s)"
  by (simp add: lookup_table_def map_of_eq_None_iff)

lemma lookup_Some: "sound s \<Longrightarrow> lookup_table s n = Some t \<longleftrightarrow> (n, t) \<in> set (sch_tables s)"
  by (simp add: sound_def lookup_table_def)

lemma column_names_alter [simp]:
  "(\<And>x. col_name (f x) = col_name x) \<Longrightarrow> column_names (alter_in c f t) = column_names t"
  by (simp add: alter_in_def column_names_def comp_def if_distrib cong: if_cong)

lemma refers_to_alter [simp]: "refers_to (alter_in c f t) = refers_to t"
  by (simp add: alter_in_def refers_to_def)

lemma col_name_altered [simp]: "col_name (altered a x) = col_name x"
  by (simp add: altered_def)

lemma key_refers:
  assumes "list_all (key_ok s n t) (tab_foreign_keys t)"
  shows "set (refers_to t) \<subseteq> insert n (fst ` set (sch_tables s))"
proof
  fix m assume "m \<in> set (refers_to t)"
  then obtain k where k: "key_ok s n t k" "m = fk_table k"
    using assms by (auto simp: refers_to_def list_all_iff)
  then have "m = n \<or> lookup_table s m \<noteq> None" by (auto simp: key_ok_def split: if_splits option.splits)
  then show "m \<in> insert n (fst ` set (sch_tables s))" by (simp add: lookup_None)
qed

text \<open>The four parts of a sound schema.\<close>

lemma soundI:
  assumes "distinct (map fst (sch_tables s))" "distinct (map fst (sch_indexes s))"
    and "\<And>i d. (i, d) \<in> set (sch_indexes s) \<Longrightarrow> ix_table d \<in> fst ` set (sch_tables s)"
    and "\<And>n t. (n, t) \<in> set (sch_tables s) \<Longrightarrow>
      distinct (column_names t) \<and> set (refers_to t) \<subseteq> fst ` set (sch_tables s)"
  shows "sound s"
  unfolding sound_def using assms by fast

lemma soundD:
  assumes "sound s"
  shows "distinct (map fst (sch_tables s))" "distinct (map fst (sch_indexes s))"
    and "(i, d) \<in> set (sch_indexes s) \<Longrightarrow> ix_table d \<in> fst ` set (sch_tables s)"
    and "(n, t) \<in> set (sch_tables s) \<Longrightarrow> distinct (column_names t)"
    and "(n, t) \<in> set (sch_tables s) \<Longrightarrow> set (refers_to t) \<subseteq> fst ` set (sch_tables s)"
  using assms by (auto simp: sound_def)

lemma sound_step:
  assumes "sound s" "apply_op op s = Some s'"
  shows "sound s'"
proof (cases op)
  case (CreateTable n t)
  with assms have new: "n \<notin> fst ` set (sch_tables s)" "distinct (column_names t)"
      "set (refers_to t) \<subseteq> insert n (fst ` set (sch_tables s))"
    and s': "sch_tables s' = sch_tables s @ [(n, t)]" "sch_indexes s' = sch_indexes s"
    by (auto simp: lookup_None dest: key_refers split: if_splits)
  show ?thesis
  proof (rule soundI)
    show "distinct (map fst (sch_tables s'))" "distinct (map fst (sch_indexes s'))"
      using new(1) soundD(1,2)[OF assms(1)] by (simp_all add: s')
    show "ix_table d \<in> fst ` set (sch_tables s')" if "(i, d) \<in> set (sch_indexes s')" for i d
      using soundD(3)[OF assms(1)] that by (auto simp: s')
    show "distinct (column_names u) \<and> set (refers_to u) \<subseteq> fst ` set (sch_tables s')"
      if "(m, u) \<in> set (sch_tables s')" for m u
      using soundD(4,5)[OF assms(1), of m u] that new(2,3) by (auto simp: s')
  qed
next
  case (DropTable n)
  with assms have free: "\<And>m u. (m, u) \<in> set (sch_tables s) \<Longrightarrow> m \<noteq> n \<Longrightarrow> n \<notin> set (refers_to u)"
    and s': "sch_tables s' = filter (\<lambda>x. fst x \<noteq> n) (sch_tables s)"
      "sch_indexes s' = filter (\<lambda>x. ix_table (snd x) \<noteq> n) (sch_indexes s)"
    by (auto simp: list_all_iff split: if_splits)
  have k: "fst ` set (sch_tables s') = fst ` set (sch_tables s) - {n}" by (auto simp: s')
  show ?thesis
  proof (rule soundI)
    show "distinct (map fst (sch_tables s'))" "distinct (map fst (sch_indexes s'))"
      using soundD(1,2)[OF assms(1)] by (simp_all add: s' distinct_map_filter)
    show "ix_table d \<in> fst ` set (sch_tables s')" if "(i, d) \<in> set (sch_indexes s')" for i d
      unfolding k using soundD(3)[OF assms(1), of i d] that by (auto simp: s')
    show "distinct (column_names u) \<and> set (refers_to u) \<subseteq> fst ` set (sch_tables s')"
      if "(m, u) \<in> set (sch_tables s')" for m u
      unfolding k using soundD(4,5)[OF assms(1), of m u] free[of m u] that by (auto simp: s')
  qed
next
  case (CreateIndex i d)
  with assms have new: "i \<notin> fst ` set (sch_indexes s)" "ix_table d \<in> fst ` set (sch_tables s)"
    and s': "sch_tables s' = sch_tables s" "sch_indexes s' = sch_indexes s @ [(i, d)]"
    by (auto simp: map_of_eq_None_iff lookup_table_def dest: map_of_SomeD split: if_splits option.splits)
      (force dest: map_of_SomeD)
  show ?thesis
    by (rule soundI) (use new soundD[OF assms(1)] in \<open>auto simp: s'\<close>)
next
  case (DropIndex i n)
  with assms have s': "sch_tables s' = sch_tables s" "sch_indexes s' = filter (\<lambda>x. fst x \<noteq> i) (sch_indexes s)"
    by (auto split: if_splits)
  show ?thesis
    by (rule soundI) (use soundD[OF assms(1)] in \<open>auto simp: s' distinct_map_filter\<close>)
next
  case (AlterColumn n c a)
  have f: "map fst (map (\<lambda>(m, u). (m, if m = n then g u else u)) xs) = map fst xs" for g and xs :: "(string \<times> table_def) list"
    by (induction xs) auto
  have k: "fst ` set (map (\<lambda>(m, u). (m, if m = n then g u else u)) xs) = fst ` set xs"
    for g and xs :: "(string \<times> table_def) list"
    by (metis f set_map)
  from AlterColumn assms have s': "sch_tables s' = map (\<lambda>(m, u). (m, if m = n then alter_in c (altered a) u else u)) (sch_tables s)"
      "sch_indexes s' = sch_indexes s"
    by (auto split: if_splits option.splits)
  show ?thesis
  proof (rule soundI)
    show "distinct (map fst (sch_tables s'))" "distinct (map fst (sch_indexes s'))"
      using soundD(1,2)[OF assms(1)] by (simp_all only: s' f)
    show "ix_table d \<in> fst ` set (sch_tables s')" if "(i, d) \<in> set (sch_indexes s')" for i d
      unfolding s' k using soundD(3)[OF assms(1)] that by (simp add: s')
    show "distinct (column_names v) \<and> set (refers_to v) \<subseteq> fst ` set (sch_tables s')"
      if v: "(m, v) \<in> set (sch_tables s')" for m v
    proof -
      obtain u where "(m, u) \<in> set (sch_tables s)" "v = (if m = n then alter_in c (altered a) u else u)"
        using v by (auto simp: s')
      then show ?thesis
        unfolding s'(1) k using soundD(4,5)[OF assms(1), of m u] by simp
    qed
  qed
qed

lemma sound_steps: "sound s \<Longrightarrow> apply_ops ops s = Some s' \<Longrightarrow> sound s'"
  by (induction ops arbitrary: s) (auto split: option.splits dest: sound_step)

section \<open>Taking operations back\<close>

fun undoes :: "ddl_op \<Rightarrow> ddl_op \<Rightarrow> bool" where
  "undoes (CreateTable n t) (DropTable m) = (n = m)"
| "undoes (CreateIndex i d) (DropIndex j m) = (i = j \<and> m = ix_table d)"
| "undoes (AlterColumn n c a) (AlterColumn m e b) =
     (n = m \<and> c = e \<and> alt_from b = alt_to a \<and> alt_to b = alt_from a \<and> alt_nullable b = alt_nullable a
      \<and> alt_default b = map_option prod.swap (alt_default a))"
| "undoes _ _ = False"

text \<open>What an operation says of the column it changes is true.\<close>

fun describes :: "ddl_op \<Rightarrow> schema \<Rightarrow> bool" where
  "describes (AlterColumn n c a) s =
     (case lookup_table s n of
        None \<Rightarrow> False
      | Some t \<Rightarrow> list_all (\<lambda>x. col_name x = c \<longrightarrow> col_type x = alt_from a \<and> col_nullable x = alt_nullable a
          \<and> (case alt_default a of None \<Rightarrow> True | Some (d, _) \<Rightarrow> col_default x = Some d)) (tab_columns t))"
| "describes _ s = True"

text \<open>Operations that run from a schema, each describing what it finds.\<close>

fun applies :: "ddl_op list \<Rightarrow> schema \<Rightarrow> bool" where
  "applies [] s = True"
| "applies (op # ops) s = (describes op s \<and> (case apply_op op s of None \<Rightarrow> False | Some s' \<Rightarrow> applies ops s'))"

lemma applies_run: "applies ops s \<Longrightarrow> \<exists>s'. apply_ops ops s = Some s'"
  by (induction ops arbitrary: s) (auto split: option.splits)

lemma alter_back:
  assumes "list_all (\<lambda>x. col_name x = c \<longrightarrow> col_type x = alt_from a
      \<and> (case alt_default a of None \<Rightarrow> True | Some (d, _) \<Rightarrow> col_default x = Some d)) (tab_columns t)"
    and "alt_to b = alt_from a" "alt_default b = map_option prod.swap (alt_default a)"
  shows "alter_in c (altered b) (alter_in c (altered a) t) = t"
proof -
  have "(if col_name y = c then altered b y else y) = x"
    if "x \<in> set (tab_columns t)" "y = (if col_name x = c then altered a x else x)" for x y
    using that assms by (auto simp: list_all_iff altered_def split: option.splits)
  then have "map ((\<lambda>x. if col_name x = c then altered b x else x) \<circ> (\<lambda>x. if col_name x = c then altered a x else x))
      (tab_columns t) = tab_columns t"
    by (intro map_idI) auto
  then show ?thesis by (simp add: alter_in_def)
qed

lemma undo_step:
  assumes s: "sound s" and up: "apply_op up s = Some s'" "describes up s" and down: "undoes up down"
  shows "apply_op down s' = Some s"
proof (cases up)
  case (CreateTable n t)
  then have down': "down = DropTable n" using down by (cases down) auto
  from CreateTable up have n: "n \<notin> fst ` set (sch_tables s)" and s': "s' = s\<lparr>sch_tables := sch_tables s @ [(n, t)]\<rparr>"
    by (auto simp: lookup_None split: if_splits)
  have "lookup_table s' n \<noteq> None" by (simp add: lookup_None s')
  moreover have "n \<notin> set (refers_to u)" if "(m, u) \<in> set (sch_tables s)" for m u
    using soundD(5)[OF s that] n by auto
  moreover have "filter (\<lambda>x. fst x \<noteq> n) (sch_tables s) = sch_tables s" using n by (auto simp: filter_id_conv)
  moreover have "filter (\<lambda>x. ix_table (snd x) \<noteq> n) (sch_indexes s) = sch_indexes s"
    using n soundD(3)[OF s] by (fastforce simp: filter_id_conv)
  ultimately show ?thesis by (auto simp: down' s' list_all_iff)
next
  case (DropTable n)
  then show ?thesis using down by simp
next
  case (CreateIndex i d)
  then have down': "down = DropIndex i (ix_table d)" using down by (cases down) auto
  from CreateIndex up have i: "i \<notin> fst ` set (sch_indexes s)"
    and s': "s' = s\<lparr>sch_indexes := sch_indexes s @ [(i, d)]\<rparr>"
    by (auto simp: map_of_eq_None_iff split: if_splits option.splits)
  have "filter (\<lambda>x. fst x \<noteq> i) (sch_indexes s) = sch_indexes s" using i by (auto simp: filter_id_conv)
  moreover have "map_of (sch_indexes s') i \<noteq> None" by (simp add: map_of_eq_None_iff s')
  ultimately show ?thesis by (simp add: down' s' del: not_None_eq)
next
  case (DropIndex i n)
  then show ?thesis using down by simp
next
  case (AlterColumn n c a)
  then obtain b where b: "down = AlterColumn n c b" "alt_to b = alt_from a"
      "alt_default b = map_option prod.swap (alt_default a)" using down by (cases down) auto
  obtain t where t: "lookup_table s n = Some t" "c \<in> set (column_names t)"
      "list_all (\<lambda>x. col_name x = c \<longrightarrow> castable (col_type x) (alt_to a)) (tab_columns t)"
    and s': "s' = s\<lparr>sch_tables := map (\<lambda>(m, u). (m, if m = n then alter_in c (altered a) u else u)) (sch_tables s)\<rparr>"
    using up(1) AlterColumn by (auto split: option.splits if_splits)
  note d = up(2)[unfolded AlterColumn describes.simps t(1) option.case]
  have undone: "alter_in c (altered b) (alter_in c (altered a) t) = t"
    using d by (intro alter_back b) (auto simp: list_all_iff split: option.splits)
  have eq: "u = t" if "(n, u) \<in> set (sch_tables s)" for u
    using that t(1) lookup_Some[OF s] by (metis option.inject)
  have "map ((\<lambda>(m, u). (m, if m = n then alter_in c (altered b) u else u)) \<circ>
        (\<lambda>(m, u). (m, if m = n then alter_in c (altered a) u else u))) (sch_tables s) = sch_tables s"
    using undone eq by (intro map_idI) auto
  moreover have "lookup_table s' n = Some (alter_in c (altered a) t)"
  proof -
    have "map_of (map (\<lambda>(m, u). (m, if m = n then g u else u)) xs) n = map_option g (map_of xs n)"
      for g and xs :: "(string \<times> table_def) list"
      by (induction xs) auto
    then show ?thesis using t(1) by (simp add: s' lookup_table_def)
  qed
  moreover have "castable (col_type x) (alt_to b)"
    if x: "x \<in> set (tab_columns (alter_in c (altered a) t))" "col_name x = c" for x
  proof -
    obtain y where y: "y \<in> set (tab_columns t)" "x = (if col_name y = c then altered a y else y)"
      using x(1) by (auto simp: alter_in_def)
    have "col_name y = c" using y(2) x(2) by (cases "col_name y = c") simp_all
    then have "col_type x = alt_to a" "castable (alt_from a) (alt_to a)"
      using y d t(3) by (auto simp: list_all_iff altered_def)
    then show ?thesis by (auto simp: castable_def b(2))
  qed
  moreover have "c \<in> set (column_names (alter_in c (altered a) t))" using t(2) by simp
  ultimately show ?thesis by (simp add: b(1) s' list_all_iff)
qed

lemma undo_all:
  "list_all2 undoes ups downs \<Longrightarrow> sound s \<Longrightarrow> applies ups s \<Longrightarrow> apply_ops ups s = Some s' \<Longrightarrow>
     apply_ops (rev downs) s' = Some s"
proof (induction ups downs arbitrary: s rule: list_all2_induct)
  case (Cons up ups down downs)
  obtain s1 where s1: "apply_op up s = Some s1" "apply_ops ups s1 = Some s'" "applies ups s1"
    using Cons.prems by (auto split: option.splits)
  have "apply_ops (rev downs) s' = Some s1" using Cons.IH[OF sound_step[OF Cons.prems(1) s1(1)] s1(3,2)] .
  moreover have "apply_op down s1 = Some s"
    using undo_step[OF Cons.prems(1) s1(1) _ Cons.hyps(1)] Cons.prems(2) by simp
  ultimately show ?case by (simp add: apply_ops_append)
qed simp

section \<open>The migrations\<close>

record migration =
  revision :: string
  down_revision :: "string option"
  upgrade :: "ddl_op list"
  downgrade :: "ddl_op list"

text \<open>The kinds of columns the scripts declare.\<close>

definition key_column :: "string \<Rightarrow> sql_type \<Rightarrow> bool \<Rightarrow> column" where
  "key_column n ty auto = \<lparr>col_name = n, col_type = ty, col_primary = True, col_auto = auto, col_nullable = False,
     col_default = None\<rparr>"

definition required :: "string \<Rightarrow> sql_type \<Rightarrow> column" where
  "required n ty = \<lparr>col_name = n, col_type = ty, col_primary = False, col_auto = False, col_nullable = False,
     col_default = None\<rparr>"

definition optional :: "string \<Rightarrow> sql_type \<Rightarrow> column" where
  "optional n ty = (required n ty)\<lparr>col_nullable := True\<rparr>"

definition defaulted :: "string \<Rightarrow> sql_type \<Rightarrow> server_default \<Rightarrow> column" where
  "defaulted n ty d = (required n ty)\<lparr>col_default := Some d\<rparr>"

definition quoted :: "string \<Rightarrow> string" where
  "quoted t = [CHR 0x27] @ t @ [CHR 0x27]"

definition json_column :: "string \<Rightarrow> string \<Rightarrow> column" where
  "json_column n t = defaulted n SqlJson (Sql (quoted t))"

definition timestamp_column :: "string \<Rightarrow> column" where
  "timestamp_column n = defaulted n SqlDateTime (Sql ''CURRENT_TIMESTAMP'')"

subsection \<open>Users\<close>

definition users_table :: table_def where
  "users_table = \<lparr>tab_columns =
     [key_column ''id'' SqlInteger True, required ''username'' (SqlString 255),
      optional ''display_name'' (SqlString 255), required ''password_hash'' (SqlString 1024),
      defaulted ''role'' (SqlString 50) (Literal ''user''), defaulted ''is_active'' SqlBoolean SqlTrue,
      defaulted ''is_admin'' SqlBoolean SqlFalse, required ''created_at'' SqlDateTime,
      required ''updated_at'' SqlDateTime, optional ''last_login_at'' SqlDateTime,
      optional ''preferred_language'' (SqlString 32), optional ''ui_theme'' (SqlString 32),
      json_column ''profile_metadata'' ''{}''], tab_foreign_keys = []\<rparr>"

definition create_users :: migration where
  "create_users =
     \<lparr>revision = ''20260528_0001'', down_revision = None,
      upgrade =
        [CreateTable ''users'' users_table,
         CreateIndex ''ix_users_username'' \<lparr>ix_table = ''users'', ix_columns = [''username''], ix_unique = True\<rparr>],
      downgrade = [DropIndex ''ix_users_username'' ''users'', DropTable ''users'']\<rparr>"

subsection \<open>The history of the web UI\<close>

definition chainlit_user_table :: table_def where
  "chainlit_user_table = \<lparr>tab_columns =
     [key_column ''id'' (SqlString 36) False, required ''identifier'' (SqlString 255),
      json_column ''metadata'' ''{}'', timestamp_column ''createdAt'', timestamp_column ''updatedAt''],
     tab_foreign_keys = []\<rparr>"

definition chainlit_thread_table :: table_def where
  "chainlit_thread_table = \<lparr>tab_columns =
     [key_column ''id'' (SqlString 255) False, optional ''name'' (SqlString 255), optional ''userId'' (SqlString 36),
      json_column ''metadata'' ''{}'', json_column ''tags'' ''[]'', timestamp_column ''createdAt'',
      timestamp_column ''updatedAt'', optional ''deletedAt'' SqlDateTime],
     tab_foreign_keys =
       [\<lparr>fk_column = ''userId'', fk_table = ''User'', fk_target = ''id'', fk_on_delete = SetNull\<rparr>]\<rparr>"

definition chainlit_step_table :: table_def where
  "chainlit_step_table = \<lparr>tab_columns =
     [key_column ''id'' (SqlString 255) False, optional ''threadId'' (SqlString 255),
      optional ''parentId'' (SqlString 255), optional ''name'' (SqlString 255), required ''type'' (SqlString 64),
      optional ''input'' SqlText, optional ''output'' SqlText, json_column ''metadata'' ''{}'',
      optional ''showInput'' (SqlString 32), defaulted ''isError'' SqlBoolean SqlFalse,
      timestamp_column ''createdAt'', optional ''startTime'' SqlDateTime, optional ''endTime'' SqlDateTime],
     tab_foreign_keys =
       [\<lparr>fk_column = ''threadId'', fk_table = ''Thread'', fk_target = ''id'', fk_on_delete = Cascade\<rparr>,
        \<lparr>fk_column = ''parentId'', fk_table = ''Step'', fk_target = ''id'', fk_on_delete = SetNull\<rparr>]\<rparr>"

definition chainlit_element_table :: table_def where
  "chainlit_element_table = \<lparr>tab_columns =
     [key_column ''id'' (SqlString 255) False, optional ''threadId'' (SqlString 255),
      optional ''stepId'' (SqlString 255), optional ''chainlitKey'' (SqlString 255), optional ''url'' SqlText,
      optional ''objectKey'' SqlText, required ''name'' (SqlString 255), required ''display'' (SqlString 32),
      optional ''mime'' (SqlString 255), optional ''size'' (SqlString 32), optional ''language'' (SqlString 32),
      optional ''page'' SqlInteger, optional ''autoPlay'' SqlBoolean, optional ''playerConfig'' SqlJson,
      json_column ''metadata'' ''{}'', json_column ''props'' ''{}''],
     tab_foreign_keys =
       [\<lparr>fk_column = ''threadId'', fk_table = ''Thread'', fk_target = ''id'', fk_on_delete = Cascade\<rparr>,
        \<lparr>fk_column = ''stepId'', fk_table = ''Step'', fk_target = ''id'', fk_on_delete = Cascade\<rparr>]\<rparr>"

definition chainlit_feedback_table :: table_def where
  "chainlit_feedback_table = \<lparr>tab_columns =
     [key_column ''id'' (SqlString 255) False, required ''stepId'' (SqlString 255), required ''value'' SqlFloat,
      optional ''comment'' SqlText],
     tab_foreign_keys =
       [\<lparr>fk_column = ''stepId'', fk_table = ''Step'', fk_target = ''id'', fk_on_delete = Cascade\<rparr>]\<rparr>"

definition plain_index :: "string \<Rightarrow> string \<Rightarrow> index_def" where
  "plain_index t c = \<lparr>ix_table = t, ix_columns = [c], ix_unique = False\<rparr>"

definition chainlit_upgrade :: "ddl_op list" where
  "chainlit_upgrade =
     [CreateTable ''User'' chainlit_user_table,
      CreateIndex ''ix_chainlit_user_identifier''
        \<lparr>ix_table = ''User'', ix_columns = [''identifier''], ix_unique = True\<rparr>,
      CreateTable ''Thread'' chainlit_thread_table,
      CreateIndex ''ix_chainlit_thread_user_id'' (plain_index ''Thread'' ''userId''),
      CreateIndex ''ix_chainlit_thread_updated_at'' (plain_index ''Thread'' ''updatedAt''),
      CreateTable ''Step'' chainlit_step_table,
      CreateIndex ''ix_chainlit_step_thread_id'' (plain_index ''Step'' ''threadId''),
      CreateIndex ''ix_chainlit_step_parent_id'' (plain_index ''Step'' ''parentId''),
      CreateTable ''Element'' chainlit_element_table,
      CreateIndex ''ix_chainlit_element_thread_id'' (plain_index ''Element'' ''threadId''),
      CreateIndex ''ix_chainlit_element_step_id'' (plain_index ''Element'' ''stepId''),
      CreateTable ''Feedback'' chainlit_feedback_table,
      CreateIndex ''ix_chainlit_feedback_step_id'' (plain_index ''Feedback'' ''stepId'')]"

definition chainlit_downgrade :: "ddl_op list" where
  "chainlit_downgrade =
     [DropIndex ''ix_chainlit_feedback_step_id'' ''Feedback'', DropTable ''Feedback'',
      DropIndex ''ix_chainlit_element_step_id'' ''Element'', DropIndex ''ix_chainlit_element_thread_id'' ''Element'',
      DropTable ''Element'',
      DropIndex ''ix_chainlit_step_parent_id'' ''Step'', DropIndex ''ix_chainlit_step_thread_id'' ''Step'',
      DropTable ''Step'',
      DropIndex ''ix_chainlit_thread_updated_at'' ''Thread'', DropIndex ''ix_chainlit_thread_user_id'' ''Thread'',
      DropTable ''Thread'',
      DropIndex ''ix_chainlit_user_identifier'' ''User'', DropTable ''User'']"

definition create_chainlit_tables :: migration where
  "create_chainlit_tables =
     \<lparr>revision = ''20260528_0002'', down_revision = Some ''20260528_0001'',
      upgrade = chainlit_upgrade, downgrade = chainlit_downgrade\<rparr>"

subsection \<open>From JSON to JSONB\<close>

definition cast_text :: "string \<Rightarrow> string \<Rightarrow> string" where
  "cast_text c ty = [CHR 0x22] @ c @ [CHR 0x22] @ ''::'' @ ty"

text \<open>A column that gets the binary type; \<open>d\<close> is the JSON text of its default, if it has one.\<close>

definition to_jsonb :: "string \<Rightarrow> string \<Rightarrow> string option \<Rightarrow> ddl_op" where
  "to_jsonb t c d = AlterColumn t c
     \<lparr>alt_from = SqlJson, alt_to = SqlJsonb, alt_nullable = (d = None),
      alt_default = map_option (\<lambda>x. (Sql (quoted x), Sql (quoted x @ ''::jsonb''))) d,
      alt_using = cast_text c ''jsonb''\<rparr>"

definition to_json :: "string \<Rightarrow> string \<Rightarrow> string option \<Rightarrow> ddl_op" where
  "to_json t c d = AlterColumn t c
     \<lparr>alt_from = SqlJsonb, alt_to = SqlJson, alt_nullable = (d = None),
      alt_default = map_option (\<lambda>x. (Sql (quoted x @ ''::jsonb''), Sql (quoted x))) d,
      alt_using = cast_text c ''json''\<rparr>"

definition jsonb_upgrade :: "ddl_op list" where
  "jsonb_upgrade =
     [to_jsonb ''User'' ''metadata'' (Some ''{}''), to_jsonb ''Thread'' ''metadata'' (Some ''{}''),
      to_jsonb ''Thread'' ''tags'' (Some ''[]''), to_jsonb ''Step'' ''metadata'' (Some ''{}''),
      to_jsonb ''Element'' ''playerConfig'' None, to_jsonb ''Element'' ''metadata'' (Some ''{}''),
      to_jsonb ''Element'' ''props'' (Some ''{}'')]"

definition jsonb_downgrade :: "ddl_op list" where
  "jsonb_downgrade =
     [to_json ''Element'' ''props'' (Some ''{}''), to_json ''Element'' ''metadata'' (Some ''{}''),
      to_json ''Element'' ''playerConfig'' None, to_json ''Step'' ''metadata'' (Some ''{}''),
      to_json ''Thread'' ''tags'' (Some ''[]''), to_json ''Thread'' ''metadata'' (Some ''{}''),
      to_json ''User'' ''metadata'' (Some ''{}'')]"

definition convert_json_to_jsonb :: migration where
  "convert_json_to_jsonb =
     \<lparr>revision = ''20260528_0003'', down_revision = Some ''20260528_0002'',
      upgrade = jsonb_upgrade, downgrade = jsonb_downgrade\<rparr>"

definition migrations :: "migration list" where
  "migrations = [create_users, create_chainlit_tables, convert_json_to_jsonb]"

section \<open>The table of the mapper\<close>

text \<open>The columns and the index \<^verbatim>\<open>UserModel\<close> declares; its defaults are the program's own.\<close>

definition UserModel_columns :: "column list" where
  "UserModel_columns =
     [key_column ''id'' SqlInteger True, required ''username'' (SqlString 255),
      optional ''display_name'' (SqlString 255), required ''password_hash'' (SqlString 1024),
      required ''role'' (SqlString 50), required ''is_active'' SqlBoolean, required ''is_admin'' SqlBoolean,
      required ''created_at'' SqlDateTime, required ''updated_at'' SqlDateTime,
      optional ''last_login_at'' SqlDateTime, optional ''preferred_language'' (SqlString 32),
      optional ''ui_theme'' (SqlString 32), required ''profile_metadata'' SqlJson]"

definition UserModel_index :: "string \<times> index_def" where
  "UserModel_index =
     (''ix_users_username'', \<lparr>ix_table = ''users'', ix_columns = [''username''], ix_unique = True\<rparr>)"

section \<open>Properties\<close>

text \<open>Each script's downgrade takes back its upgrade step by step.\<close>

lemma downgrades_undo: "list_all (\<lambda>m. list_all2 undoes (upgrade m) (rev (downgrade m))) migrations"
  by code_simp

text \<open>C21. A downgrade takes the database back.  From any sound schema on which a migration's upgrade can
  run, and over any database that accepts what its schema allows, the upgrade succeeds and the downgrade
  after it succeeds too and leaves the schema exactly as it was before.\<close>

theorem downgrades_revert_upgrades:
  assumes "ddl_engine exec holds" and "m \<in> set migrations"
    and "sound (holds w)" "applies (upgrade m) (holds w)"
  shows "\<exists>w1 w2. exec_all exec (upgrade m) w = (Inr (), w1) \<and> sound (holds w1)
    \<and> exec_all exec (downgrade m) w1 = (Inr (), w2) \<and> holds w2 = holds w"
proof -
  obtain s where s: "apply_ops (upgrade m) (holds w) = Some s" using applies_run[OF assms(4)] by blast
  then obtain w1 where w1: "exec_all exec (upgrade m) w = (Inr (), w1)" "holds w1 = s"
    using ddl_engine.run_all[OF assms(1)] by blast
  have "list_all2 undoes (upgrade m) (rev (downgrade m))" using downgrades_undo assms(2) by (simp add: list_all_iff)
  from undo_all[OF this assms(3,4) s] have "apply_ops (downgrade m) (holds w1) = Some (holds w)" by (simp add: w1)
  then show ?thesis using ddl_engine.run_all[OF assms(1)] w1 sound_steps[OF assms(3) s] by blast
qed

theorem downgrades_revert_upgrades_witness:
  "\<exists>s1. exec_all schema_only (upgrade create_chainlit_tables) empty_schema = (Inr (), s1) \<and> sound s1
    \<and> exec_all schema_only (downgrade create_chainlit_tables) s1 = (Inr (), empty_schema)"
proof -
  have "create_chainlit_tables \<in> set migrations" "sound (id empty_schema)"
    by (simp_all add: migrations_def sound_def empty_schema_def)
  moreover have "applies (upgrade create_chainlit_tables) (id empty_schema)" by code_simp
  ultimately show ?thesis
    using downgrades_revert_upgrades[OF schema_only.ddl_engine_axioms] by (metis id_apply)
qed

text \<open>C37. The migrations build what the program maps.  The revisions form one chain; from an empty database
  all upgrades succeed in that order, and the table of users then has the columns, types, nullability, key
  and unique index of \<^verbatim>\<open>UserModel\<close>, in the same order.\<close>

theorem migrated_users_match_model:
  assumes "ddl_engine exec holds" and "holds w = empty_schema"
  shows "map down_revision migrations = None # map (Some \<circ> revision) (butlast migrations)
    \<and> (\<exists>w' t. exec_all exec (concat (map upgrade migrations)) w = (Inr (), w') \<and> sound (holds w')
        \<and> lookup_table (holds w') ''users'' = Some t
        \<and> map (\<lambda>c. c\<lparr>col_default := None\<rparr>) (tab_columns t) = UserModel_columns
        \<and> filter (\<lambda>x. ix_table (snd x) = ''users'') (sch_indexes (holds w')) = [UserModel_index])"
proof -
  have chain: "map down_revision migrations = None # map (Some \<circ> revision) (butlast migrations)" by code_simp
  have "case apply_ops (concat (map upgrade migrations)) empty_schema of None \<Rightarrow> False
    | Some s \<Rightarrow> (case lookup_table s ''users'' of None \<Rightarrow> False
      | Some t \<Rightarrow> map (\<lambda>c. c\<lparr>col_default := None\<rparr>) (tab_columns t) = UserModel_columns
          \<and> filter (\<lambda>x. ix_table (snd x) = ''users'') (sch_indexes s) = [UserModel_index])"
    by code_simp
  then obtain s t where s: "apply_ops (concat (map upgrade migrations)) empty_schema = Some s"
      "lookup_table s ''users'' = Some t"
      "map (\<lambda>c. c\<lparr>col_default := None\<rparr>) (tab_columns t) = UserModel_columns"
      "filter (\<lambda>x. ix_table (snd x) = ''users'') (sch_indexes s) = [UserModel_index]"
    by (auto split: option.splits)
  have "sound empty_schema" by (simp add: sound_def empty_schema_def)
  then have "sound s" by (rule sound_steps[OF _ s(1)])
  moreover obtain w' where "exec_all exec (concat (map upgrade migrations)) w = (Inr (), w')" "holds w' = s"
    using ddl_engine.run_all[OF assms(1), of _ w] s(1) assms(2) by metis
  ultimately show ?thesis using chain s by blast
qed

theorem migrated_users_match_model_witness:
  "\<exists>s t. exec_all schema_only (concat (map upgrade migrations)) empty_schema = (Inr (), s)
    \<and> lookup_table s ''users'' = Some t \<and> map col_name (tab_columns t) = map col_name UserModel_columns"
proof -
  obtain s t where "exec_all schema_only (concat (map upgrade migrations)) empty_schema = (Inr (), s)"
      "lookup_table (id s) ''users'' = Some t" "map (\<lambda>c. c\<lparr>col_default := None\<rparr>) (tab_columns t) = UserModel_columns"
    using migrated_users_match_model[OF schema_only.ddl_engine_axioms, of empty_schema] by auto
  moreover have "map col_name (map (\<lambda>c. c\<lparr>col_default := None\<rparr>) (tab_columns t)) = map col_name (tab_columns t)"
    by simp
  ultimately show ?thesis by (metis id_apply)
qed

end
