(* ===== verification/Process_Wiring.thy ===== *)
theory Process_Wiring
  imports Api_Layer Queued_Gateway User_Accounts
begin

text \<open>
  How the processes are put together: logging (\<^verbatim>\<open>app/core/logging.py\<close>), the database engine and its
  sessions (\<^verbatim>\<open>app/infrastructure/database\<close>), the dependencies of the API, each built once
  (\<^verbatim>\<open>app/interfaces/api/dependencies.py\<close>), the queue functions of the routes, and the start of a worker.
  Connections, engines and the worker loop are the libraries' and appear as parameters.
\<close>

section \<open>Values built once\<close>

text \<open>\<^verbatim>\<open>lru_cache(maxsize=1)\<close> on a function without arguments; an exception is not kept.\<close>

definition cached :: "('s \<Rightarrow> 'a option) \<Rightarrow> ('a \<Rightarrow> 's \<Rightarrow> 's) \<Rightarrow> ('s, 'a) act \<Rightarrow> ('s, 'a) act" where
  "cached look keep build s =
     (case look s of
        Some x \<Rightarrow> (Inr x, s)
      | None \<Rightarrow> bindA build (\<lambda>x. bindA (modifyA (keep x)) (\<lambda>_. retA x)) s)"

lemma cached_hit: "look s = Some x \<Longrightarrow> cached look keep build s = (Inr x, s)"
  by (simp add: cached_def)

lemma cached_Inr:
  assumes "\<And>x s. look (keep x s) = Some x" "cached look keep build s = (Inr x, s')"
  shows "look s' = Some x"
  using assms by (auto simp: cached_def bindA_Inr split: option.splits)

text \<open>The value stays: a later call gives the same one and builds nothing.\<close>

lemma cached_again:
  assumes "\<And>x s. look (keep x s) = Some x" "cached look keep build s = (Inr x, s')"
  shows "cached look keep build s' = (Inr x, s')"
  using cached_Inr[OF assms] by (rule cached_hit)

lemma cached_Inl:
  "cached look keep build s = (Inl e, s') \<longleftrightarrow> look s = None \<and> build s = (Inl e, s')"
  by (auto simp: cached_def bindA_def split: option.split prod.splits sum.splits)

section \<open>Logging\<close>

definition upper_char :: "char \<Rightarrow> char" where
  "upper_char c = (let n = of_char c :: nat in if 97 \<le> n \<and> n \<le> 122 then char_of (n - 32) else c)"

text \<open>\<^verbatim>\<open>str.upper\<close> on ASCII; no other letter turns into one of the names below.\<close>

definition upper :: "string \<Rightarrow> string" where
  "upper s = map upper_char s"

text \<open>The upper-case names of the module \<^verbatim>\<open>logging\<close>: the levels, and two
  values that are none, which \<^verbatim>\<open>setLevel\<close> refuses.\<close>

definition logging_attr :: "string \<Rightarrow> int res option" where
  "logging_attr n =
     map_of [(''CRITICAL'', Inr 50), (''FATAL'', Inr 50), (''ERROR'', Inr 40), (''WARNING'', Inr 30),
       (''WARN'', Inr 30), (''INFO'', Inr 20), (''DEBUG'', Inr 10), (''NOTSET'', Inr 0),
       (''BASIC_FORMAT'', Inl (mk_exn ValueError ''Unknown level'')),
       (''_STYLES'', Inl (mk_exn TypeError ''Level not an integer or a valid string''))] n"

definition log_level :: "env \<Rightarrow> string option \<Rightarrow> int res" where
  "log_level env lvl =
     (let name = upper (case lvl of
            Some l \<Rightarrow> if l = [] then getenv env ''LOG_LEVEL'' ''INFO'' else l
          | None \<Rightarrow> getenv env ''LOG_LEVEL'' ''INFO'')
      in case logging_attr name of None \<Rightarrow> Inr 20 | Some l \<Rightarrow> l)"

text \<open>The handlers of the root logger, and the levels of the root and of \<^verbatim>\<open>app\<close>.\<close>

record log_state =
  lg_handlers :: nat
  lg_root :: int
  lg_app :: int

definition configure_logging :: "env \<Rightarrow> string option \<Rightarrow> (log_state, unit) act" where
  "configure_logging env lvl =
     bindA (modifyA (\<lambda>s. if lg_handlers s = 0 then s\<lparr>lg_handlers := 1\<rparr> else s)) (\<lambda>_.
     bindA (liftA (log_level env lvl)) (\<lambda>l.
     modifyA (\<lambda>s. s\<lparr>lg_root := l, lg_app := l\<rparr>)))"

section \<open>The database\<close>

text \<open>A parsed address: its backend and its database.  Parsing is SQLAlchemy's.\<close>

record db_url =
  du_backend :: string
  du_database :: "string option"

record engine_args =
  ea_url :: db_url
  ea_echo :: bool
  ea_connect_args :: "(string \<times> json) list"
  ea_static_pool :: bool
  ea_pool_size :: "int option"

definition build_connect_args :: "db_url \<Rightarrow> (string \<times> json) list" where
  "build_connect_args u = (if du_backend u = ''sqlite'' then [(''check_same_thread'', JBool False)] else [])"

definition build_async_engine :: "(string \<Rightarrow> db_url res) \<Rightarrow> AppSettings \<Rightarrow> engine_args res" where
  "build_async_engine make_url s =
     bind_res (make_url (database_url s)) (\<lambda>u.
     let sqlite = (du_backend u = ''sqlite'') in
     Inr \<lparr>ea_url = u, ea_echo = database_echo s, ea_connect_args = build_connect_args u,
       ea_static_pool = (sqlite \<and> du_database u \<in> {None, Some [], Some '':memory:''}),
       ea_pool_size = (if sqlite then None else Some (database_pool_size s))\<rparr>)"

record session_factory =
  sf_engine :: engine_args
  sf_autoflush :: bool
  sf_expire_on_commit :: bool

record db_caches =
  dc_engine :: "engine_args option"
  dc_sessions :: "session_factory option"

definition get_async_engine :: "(string \<Rightarrow> db_url res) \<Rightarrow> AppSettings res \<Rightarrow> (db_caches, engine_args) act" where
  "get_async_engine make_url sttngs =
     cached dc_engine (\<lambda>x c. c\<lparr>dc_engine := Some x\<rparr>)
       (liftA (bind_res sttngs (build_async_engine make_url)))"

definition get_async_session_factory ::
  "(string \<Rightarrow> db_url res) \<Rightarrow> AppSettings res \<Rightarrow> (db_caches, session_factory) act" where
  "get_async_session_factory make_url sttngs =
     cached dc_sessions (\<lambda>x c. c\<lparr>dc_sessions := Some x\<rparr>)
       (bindA (get_async_engine make_url sttngs) (\<lambda>e.
        retA \<lparr>sf_engine = e, sf_autoflush = False, sf_expire_on_commit = False\<rparr>))"

text \<open>The factory's sessions and everybody else use one engine.\<close>

lemma sessions_share_engine:
  assumes "get_async_session_factory make_url sttngs c = (Inr f, c')" "dc_sessions c = None"
  shows "get_async_engine make_url sttngs c' = (Inr (sf_engine f), c')"
proof -
  obtain e c1 where e: "get_async_engine make_url sttngs c = (Inr e, c1)"
    and f: "sf_engine f = e" "c' = c1\<lparr>dc_sessions := Some f\<rparr>"
    using assms by (auto simp: get_async_session_factory_def cached_def bindA_Inr)
  have "dc_engine c1 = Some e" using e unfolding get_async_engine_def by (rule cached_Inr[rotated]) simp
  then show ?thesis using f by (simp add: get_async_engine_def cached_hit)
qed

text \<open>A session is opened on the factory; \<open>open_session\<close> is SQLAlchemy's.\<close>

definition create_async_session ::
  "(string \<Rightarrow> db_url res) \<Rightarrow> AppSettings res \<Rightarrow> (session_factory \<Rightarrow> 'n) \<Rightarrow> (db_caches, 'n) act" where
  "create_async_session make_url sttngs open_session =
     bindA (get_async_session_factory make_url sttngs) (\<lambda>f. retA (open_session f))"

text \<open>The repository of the API, over the sessions of the factory.\<close>

definition get_user_repository ::
  "(string \<Rightarrow> db_url res) \<Rightarrow> AppSettings res \<Rightarrow> (session_factory \<Rightarrow> 'n orm)
     \<Rightarrow> (db_caches \<times> 'n user_repo option, 'n user_repo) act" where
  "get_user_repository make_url sttngs orm_of =
     cached snd (\<lambda>x (c, _). (c, Some x))
       (bindA (zoomA fst (\<lambda>c (_, r). (c, r)) (get_async_session_factory make_url sttngs)) (\<lambda>f.
        retA (sqlalchemy_repository (orm_of f))))"

section \<open>Connections to Redis\<close>

text \<open>The two functions differ in the kind of connection; an empty address counts as none.\<close>

definition module_get_redis_connection :: "'w queue_module \<Rightarrow> string option \<Rightarrow> 'w backend res" where
  "module_get_redis_connection m url =
     bind_res (qm_settings m) (\<lambda>s.
     Inr (qm_connect m (case url of None \<Rightarrow> redis_url s | Some u \<Rightarrow> if u = [] then redis_url s else u)))"

definition close_async_redis_connection :: "('c \<Rightarrow> ('w, unit) act) \<Rightarrow> 'c option \<Rightarrow> ('w, unit) act" where
  "close_async_redis_connection aclose c = (case c of None \<Rightarrow> retA () | Some x \<Rightarrow> aclose x)"

section \<open>What the service hands on to its store\<close>

definition service_get_job_result :: "'w LLMQueueService \<Rightarrow> string \<Rightarrow> ('w, LLMCallJob) act" where
  "service_get_job_result v jid = js_get_job_result (qs_store v) jid"

definition service_stream_llm_events ::
  "'w LLMQueueService \<Rightarrow> nat \<Rightarrow> string \<Rightarrow> 'w \<Rightarrow> (payload list \<times> ending option) \<times> 'w" where
  "service_stream_llm_events v fuel jid =
     js_stream_llm_events (qs_store v) fuel jid (llm_stream_timeout_seconds (qs_settings v))"

definition service_is_cancel_requested :: "'w LLMQueueService \<Rightarrow> string \<Rightarrow> ('w, bool) act" where
  "service_is_cancel_requested v jid = js_is_cancel_requested (qs_store v) jid"

section \<open>The dependencies of the API\<close>

text \<open>An agent over its gateway, with a fresh memory and a fresh session.\<close>

record 'w api_agent =
  ag_service :: "'w LLMQueueService"
  ag_router :: "'w LLMQueueService"
  ag_memory :: ConversationMemory
  ag_session :: SessionState

record 'w dependencies =
  dep_settings :: "AppSettings option"
  dep_queue :: "'w queue_client option"
  dep_store :: "'w job_store option"
  dep_gateway :: "'w LLMQueueService option"
  dep_agent :: "'w api_agent option"

definition get_settings :: "'w queue_module \<Rightarrow> ('w dependencies, AppSettings) act" where
  "get_settings m = cached dep_settings (\<lambda>x d. d\<lparr>dep_settings := Some x\<rparr>) (liftA (qm_settings m))"

definition get_queue_client :: "'w queue_module \<Rightarrow> ('w dependencies, 'w queue_client) act" where
  "get_queue_client m =
     cached dep_queue (\<lambda>x d. d\<lparr>dep_queue := Some x\<rparr>)
       (bindA (get_settings m) (\<lambda>s. retA (rq_queue_client s (qm_connect m (redis_url s)))))"

definition get_job_store :: "'w queue_module \<Rightarrow> ('w dependencies, 'w job_store) act" where
  "get_job_store m =
     cached dep_store (\<lambda>x d. d\<lparr>dep_store := Some x\<rparr>)
       (bindA (get_settings m) (\<lambda>s.
        bindA (get_queue_client m) (\<lambda>q.
        retA (redis_job_store (qm_float m) s q (qm_connect m (redis_url s))))))"

text \<open>The gateway is the queue service behind it.\<close>

definition get_llm_gateway :: "'w queue_module \<Rightarrow> ('w dependencies, 'w LLMQueueService) act" where
  "get_llm_gateway m =
     cached dep_gateway (\<lambda>x d. d\<lparr>dep_gateway := Some x\<rparr>)
       (bindA (get_settings m) (\<lambda>s.
        bindA (get_queue_client m) (\<lambda>q.
        bindA (get_job_store m) (\<lambda>st.
        liftA (create_queue_service m (Some s) (Some q) (Some st))))))"

definition create_queue_agent_service :: "'w queue_module \<Rightarrow> ('w dependencies, 'w api_agent) act" where
  "create_queue_agent_service m =
     bindA (get_llm_gateway m) (\<lambda>v.
     bindA (get_llm_gateway m) (\<lambda>r.
     retA \<lparr>ag_service = v, ag_router = r, ag_memory = new_memory 5, ag_session = new_session\<rparr>))"

definition resolve_agent_service :: "'w queue_module \<Rightarrow> ('w dependencies, 'w api_agent) act" where
  "resolve_agent_service m =
     cached dep_agent (\<lambda>x d. d\<lparr>dep_agent := Some x\<rparr>)
       (catchA (create_queue_agent_service m)
          (\<lambda>e. raiseA (api_error LLMServiceError (Some (exn_text e)) None)))"

text \<open>The router and the agent use one service, and every request gets the same agent.\<close>

lemma one_agent:
  assumes "resolve_agent_service m d = (Inr a, d')"
  shows "resolve_agent_service m d' = (Inr a, d')"
    and "dep_agent d = None \<Longrightarrow> ag_router a = ag_service a \<and> dep_gateway d' = Some (ag_service a)
      \<and> ag_memory a = new_memory 5 \<and> ag_session a = new_session"
proof -
  show "resolve_agent_service m d' = (Inr a, d')"
    using assms unfolding resolve_agent_service_def by (intro cached_again) simp_all
  assume "dep_agent d = None"
  then obtain d1 where "create_queue_agent_service m d = (Inr a, d1)" "d' = d1\<lparr>dep_agent := Some a\<rparr>"
    using assms by (auto simp: resolve_agent_service_def cached_def bindA_Inr catchA_Inr)
  then obtain v r d0 where g: "get_llm_gateway m d = (Inr v, d0)" "get_llm_gateway m d0 = (Inr r, d1)"
    and a: "a = \<lparr>ag_service = v, ag_router = r, ag_memory = new_memory 5, ag_session = new_session\<rparr>"
    and d': "d' = d1\<lparr>dep_agent := Some a\<rparr>"
    by (auto simp: create_queue_agent_service_def bindA_Inr)
  have "dep_gateway d0 = Some v" using g(1) unfolding get_llm_gateway_def by (rule cached_Inr[rotated]) simp
  moreover from this have "get_llm_gateway m d0 = (Inr v, d0)" unfolding get_llm_gateway_def by (rule cached_hit)
  ultimately show "ag_router a = ag_service a \<and> dep_gateway d' = Some (ag_service a)
      \<and> ag_memory a = new_memory 5 \<and> ag_session a = new_session"
    using g(2) a d' by simp
qed

section \<open>The queue functions of the routes\<close>

definition or_dependency :: "'a option \<Rightarrow> ('s, 'a) act \<Rightarrow> ('s, 'a) act" where
  "or_dependency x m = (case x of Some v \<Rightarrow> retA v | None \<Rightarrow> m)"

definition routes_service ::
  "'w queue_module \<Rightarrow> AppSettings option \<Rightarrow> 'w queue_client option \<Rightarrow> 'w job_store option
     \<Rightarrow> ('w dependencies, 'w LLMQueueService) act" where
  "routes_service m stg queue store =
     bindA (or_dependency stg (get_settings m)) (\<lambda>s.
     bindA (or_dependency queue (get_queue_client m)) (\<lambda>q.
     bindA (or_dependency store (get_job_store m)) (\<lambda>st.
     retA (service_over s q st (qm_connect m (redis_url s))))))"

text \<open>The state of the process and of the world outside.\<close>

definition with_service ::
  "'w queue_module \<Rightarrow> AppSettings option \<Rightarrow> 'w queue_client option \<Rightarrow> 'w job_store option
     \<Rightarrow> ('w LLMQueueService \<Rightarrow> ('w, 'a) act) \<Rightarrow> ('w dependencies \<times> 'w, 'a) act" where
  "with_service m stg queue store f =
     bindA (zoomA fst (\<lambda>d (_, w). (d, w)) (routes_service m stg queue store)) (\<lambda>v.
     zoomA snd (\<lambda>w (d, _). (d, w)) (f v))"

definition routes_get_job_status where
  "routes_get_job_status m jid stg queue store =
     with_service m stg queue store (\<lambda>v. get_job_status v jid)"

definition routes_cancel_llm_call where
  "routes_cancel_llm_call m jid stg queue store =
     with_service m stg queue store (\<lambda>v. cancel_llm_call v jid)"

definition routes_get_queue_status where
  "routes_get_queue_status m stg queue store =
     with_service m stg queue store get_queue_status_sync"

text \<open>With the dependencies of the API, a route works on the very service the agent's gateway uses.\<close>

lemma routes_share_service:
  assumes "get_llm_gateway m d = (Inr v, d')" "dep_gateway d = None"
  shows "routes_service m None None None d' = (Inr v, d')"
proof -
  obtain s d1 q d2 st d3 where
    g: "get_settings m d = (Inr s, d1)" "get_queue_client m d1 = (Inr q, d2)" "get_job_store m d2 = (Inr st, d3)"
    and v: "create_queue_service m (Some s) (Some q) (Some st) = Inr v" "d' = d3\<lparr>dep_gateway := Some v\<rparr>"
    using assms by (auto simp: get_llm_gateway_def cached_def bindA_Inr liftA_def)
  have d1: "dep_settings d1 = Some s" using g(1) unfolding get_settings_def by (rule cached_Inr[rotated]) simp
  have q2: "get_queue_client m d1 = (Inr q, d2) \<Longrightarrow> dep_settings d2 = Some s \<and> dep_queue d2 = Some q"
    using d1 by (auto simp: get_queue_client_def get_settings_def cached_def bindA_Inr split: option.splits)
  then have d2: "dep_settings d2 = Some s" "dep_queue d2 = Some q" using g(2) by auto
  have d3: "dep_settings d3 = Some s" "dep_queue d3 = Some q" "dep_store d3 = Some st"
    using g(3) d2
    by (auto simp: get_job_store_def get_queue_client_def get_settings_def cached_def bindA_Inr split: option.splits)
  show ?thesis
    using d3 v
    by (simp add: routes_service_def or_dependency_def get_settings_def get_queue_client_def get_job_store_def
        cached_hit bindA_run create_queue_service_def Let_def)
qed

section \<open>A worker process\<close>

definition worker_class :: string where "worker_class = ''SimpleWorker''"

text \<open>\<^verbatim>\<open>worker.work()\<close> is RQ's loop over the queues it is made for.\<close>

definition worker_main ::
  "env \<Rightarrow> redis_config \<Rightarrow> (string \<Rightarrow> string list \<Rightarrow> (log_state, unit) act) \<Rightarrow> (log_state, unit) act" where
  "worker_main env c work =
     bindA (configure_logging env None) (\<lambda>_.
     bindA (liftA (create_worker c)) (\<lambda>queues. work worker_class queues))"

text \<open>\<^verbatim>\<open>close_stream_iterator\<close>: a stream that has a \<^verbatim>\<open>close\<close> is closed.\<close>

definition close_stream_iterator :: "('w, unit) act option \<Rightarrow> ('w, unit) act" where
  "close_stream_iterator close = (case close of None \<Rightarrow> retA () | Some m \<Rightarrow> m)"

end
